(* ===== verification/Prelude.thy ===== *)
theory Prelude
  imports
    Main
    "HOL-Library.Char_ord"
    "HOL-Library.List_Lexorder"
    "HOL-Library.Sublist"
    "HOL-Library.Word"
begin

text \<open>
  Shared vocabulary of the development: the collections of facts the component
  theories fill and use, the types every component names, and generic lemmas on
  lists and options.

  A Rust \<^verbatim>\<open>String\<close> is its sequence of UTF-8 bytes; one \<^typ>\<open>char\<close> of HOL is one byte,
  so \<^term>\<open>length\<close> is Rust's \<^verbatim>\<open>len()\<close> and the order on \<^typ>\<open>string\<close> from
  \<^verbatim>\<open>HOL-Library.List_Lexorder\<close> is the order of Rust's \<^verbatim>\<open>String\<close>. A \<^verbatim>\<open>Result\<close> is a sum with the
  error on the left, an \<^verbatim>\<open>Option\<close> is an \<^typ>\<open>'a option\<close>. Ports and other \<^verbatim>\<open>i32\<close> fields are
  values of \<^typ>\<open>int\<close>: the program only parses, compares and prints them, and the parsers
  below check the range.
\<close>

section \<open>Collections of facts\<close>

named_theorems rust_str \<open>laws of the modelled string operations of Rust's standard library\<close>
named_theorems exec \<open>definitions that evaluate a concrete run by rewriting\<close>
named_theorems btree \<open>laws of the modelled ordered map\<close>
named_theorems wf_intros \<open>operations preserve well-formedness of the desired state\<close>
named_theorems label_intros \<open>facts that establish that a name is an RFC 1123 label\<close>

section \<open>Shared types\<close>

type_synonym 'a labels = "(string \<times> 'a) list"
type_synonym port = int

section \<open>Generic lemmas\<close>

lemma map_of_SomeI: "distinct (map fst xs) \<Longrightarrow> (k, v) \<in> set xs \<Longrightarrow> map_of xs k = Some v"
  by simp

lemma takeWhile_append_stop:
  "\<forall>x\<in>set xs. P x \<Longrightarrow> \<not> P y \<Longrightarrow> takeWhile P (xs @ y # ys) = xs"
  by (induction xs) auto

lemma dropWhile_append_stop:
  "\<forall>x\<in>set xs. P x \<Longrightarrow> \<not> P y \<Longrightarrow> dropWhile P (xs @ y # ys) = y # ys"
  by (induction xs) auto

lemma takeWhile_all: "\<forall>x\<in>set xs. P x \<Longrightarrow> takeWhile P xs = xs"
  by (induction xs) auto

lemma dropWhile_all: "\<forall>x\<in>set xs. P x \<Longrightarrow> dropWhile P xs = []"
  by (induction xs) auto

lemma hd_dropWhile_not: "dropWhile P xs \<noteq> [] \<Longrightarrow> \<not> P (hd (dropWhile P xs))"
  by (rule hd_dropWhile)

lemma length_dropWhile_less: "xs \<noteq> [] \<Longrightarrow> P (hd xs) \<Longrightarrow> length (dropWhile P xs) < length xs"
  by (cases xs) (auto simp: le_imp_less_Suc length_dropWhile_le)

lemma set_dropWhile_subset: "set (dropWhile P xs) \<subseteq> set xs"
  by (auto dest: set_dropWhileD)

lemma last_rev_dropWhile:
  "rev (dropWhile P (rev xs)) \<noteq> [] \<Longrightarrow> \<not> P (last (rev (dropWhile P (rev xs))))"
  by (simp add: last_rev hd_dropWhile)

lemma map_filter_append: "List.map_filter f (xs @ ys) = List.map_filter f xs @ List.map_filter f ys"
  by (induction xs) (auto simp: map_filter_simps split: option.splits)

lemma find_Some_in: "find P xs = Some x \<Longrightarrow> x \<in> set xs \<and> P x"
  by (auto simp: find_Some_iff)

text \<open>
  A fold keeps an invariant that each of its steps keeps: the form in which every
  loop of the program that threads a mutable state is verified.
\<close>

lemma fold_invariant_in:
  assumes "P s" and "\<And>x s. x \<in> set xs \<Longrightarrow> P s \<Longrightarrow> P (f x s)"
  shows "P (fold f xs s)"
  using assms by (induction xs arbitrary: s) auto

lemma fold_last_occurrence:
  assumes "x \<in> set xs"
  obtains ys zs where "xs = ys @ x # zs" and "x \<notin> set zs"
  using assms by (meson split_list_last)

end
