(* ===== verification/Rust_Str.thy ===== *)
theory Rust_Str
  imports Prelude
begin

text \<open>
  The operations of Rust's \<^verbatim>\<open>str\<close>, \<^verbatim>\<open>char\<close> and integer parsing that the program uses, on
  strings of UTF-8 bytes, and the laws the components need of them. All of them are
  executable. The patterns the program searches for are ASCII, so searching the bytes is
  searching the characters; the Unicode white space that \<^verbatim>\<open>trim\<close> and \<^verbatim>\<open>is_whitespace\<close> know
  is spelled out as its byte sequences.
\<close>

section \<open>ASCII classes and case\<close>

definition byte :: "char \<Rightarrow> nat" where
  "byte c = of_char c"

definition is_upper :: "char \<Rightarrow> bool" where
  "is_upper c \<longleftrightarrow> 65 \<le> byte c \<and> byte c \<le> 90"

definition is_lower :: "char \<Rightarrow> bool" where
  "is_lower c \<longleftrightarrow> 97 \<le> byte c \<and> byte c \<le> 122"

definition is_digit :: "char \<Rightarrow> bool" where
  "is_digit c \<longleftrightarrow> 48 \<le> byte c \<and> byte c \<le> 57"

definition is_ascii_alphabetic :: "char \<Rightarrow> bool" where
  "is_ascii_alphabetic c \<longleftrightarrow> is_upper c \<or> is_lower c"

definition is_ascii_alphanumeric :: "char \<Rightarrow> bool" where
  "is_ascii_alphanumeric c \<longleftrightarrow> is_ascii_alphabetic c \<or> is_digit c"

text \<open>Bit 5 tells the two cases of an ASCII letter apart.\<close>

fun set_bit5 :: "bool \<Rightarrow> char \<Rightarrow> char" where
  "set_bit5 v (Char b0 b1 b2 b3 b4 b5 b6 b7) = Char b0 b1 b2 b3 b4 v b6 b7"

definition char_to_lower :: "char \<Rightarrow> char" where
  "char_to_lower c = (if is_upper c then set_bit5 True c else c)"

definition char_to_upper :: "char \<Rightarrow> char" where
  "char_to_upper c = (if is_lower c then set_bit5 False c else c)"

definition to_ascii_lowercase :: "string \<Rightarrow> string" where
  "to_ascii_lowercase s = map char_to_lower s"

definition to_ascii_uppercase :: "string \<Rightarrow> string" where
  "to_ascii_uppercase s = map char_to_upper s"

definition eq_ignore_ascii_case :: "string \<Rightarrow> string \<Rightarrow> bool" where
  "eq_ignore_ascii_case a b \<longleftrightarrow> to_ascii_lowercase a = to_ascii_lowercase b"

section \<open>Searching and splitting\<close>

fun strip_prefix :: "string \<Rightarrow> string \<Rightarrow> string option" where
  "strip_prefix [] s = Some s"
| "strip_prefix (p # ps) [] = None"
| "strip_prefix (p # ps) (c # s) = (if p = c then strip_prefix ps s else None)"

definition starts_with :: "string \<Rightarrow> string \<Rightarrow> bool" where
  "starts_with p s \<longleftrightarrow> strip_prefix p s \<noteq> None"

fun split_once :: "char \<Rightarrow> string \<Rightarrow> (string \<times> string) option" where
  "split_once d [] = None"
| "split_once d (c # s) =
     (if c = d then Some ([], s)
      else case split_once d s of None \<Rightarrow> None | Some (a, b) \<Rightarrow> Some (c # a, b))"

fun split_once_str :: "string \<Rightarrow> string \<Rightarrow> (string \<times> string) option" where
  "split_once_str p [] = (if p = [] then Some ([], []) else None)"
| "split_once_str p (c # s) =
     (case strip_prefix p (c # s) of
        Some r \<Rightarrow> Some ([], r)
      | None \<Rightarrow>
          (case split_once_str p s of None \<Rightarrow> None | Some (a, b) \<Rightarrow> Some (c # a, b)))"

definition rsplit_once :: "char \<Rightarrow> string \<Rightarrow> (string \<times> string) option" where
  "rsplit_once d s =
     (case split_once d (rev s) of None \<Rightarrow> None | Some (a, b) \<Rightarrow> Some (rev b, rev a))"

text \<open>\<^verbatim>\<open>s.split(d)\<close>: the pieces between the separators, at least one.\<close>

fun split_on :: "char \<Rightarrow> string \<Rightarrow> string list" where
  "split_on d [] = [[]]"
| "split_on d (c # s) =
     (if c = d then [] # split_on d s
      else case split_on d s of [] \<Rightarrow> [[c]] | p # ps \<Rightarrow> (c # p) # ps)"

fun join :: "string \<Rightarrow> string list \<Rightarrow> string" where
  "join d [] = []"
| "join d [x] = x"
| "join d (x # y # ys) = x @ d @ join d (y # ys)"

text \<open>\<^verbatim>\<open>s.replace(p, r)\<close> for a non-empty pattern: left to right, without overlap.\<close>

function replace_all :: "string \<Rightarrow> string \<Rightarrow> string \<Rightarrow> string" where
  "replace_all p r [] = []"
| "replace_all p r (c # s) =
     (case strip_prefix p (c # s) of
        Some rest \<Rightarrow> if p = [] then c # s else r @ replace_all p r rest
      | None \<Rightarrow> c # replace_all p r s)"
  by pat_completeness auto

lemma strip_prefix_length:
  "strip_prefix p s = Some r \<Longrightarrow> length s = length p + length r"
  by (induction p s rule: strip_prefix.induct) (auto split: if_splits)

termination replace_all
  by (relation "measure (\<lambda>(p, r, s). length s)")
     (auto dest!: strip_prefix_length simp: neq_Nil_conv split: if_splits)

section \<open>Trimming\<close>

definition trim_start_matches :: "char \<Rightarrow> string \<Rightarrow> string" where
  "trim_start_matches c s = dropWhile (\<lambda>x. x = c) s"

definition trim_end_matches :: "char \<Rightarrow> string \<Rightarrow> string" where
  "trim_end_matches c s = rev (dropWhile (\<lambda>x. x = c) (rev s))"

definition trim_matches :: "char \<Rightarrow> string \<Rightarrow> string" where
  "trim_matches c s = trim_end_matches c (trim_start_matches c s)"

text \<open>
  The characters of Unicode's \<^verbatim>\<open>White_Space\<close> property, as UTF-8: U+0009 to U+000D, U+0020,
  U+0085, U+00A0, U+1680, U+2000 to U+200A, U+2028, U+2029, U+202F, U+205F, U+3000.
\<close>

definition ws_seqs :: "string list" where
  "ws_seqs =
     [[CHR 0x20], [CHR 0x09], [CHR 0x0A], [CHR 0x0B], [CHR 0x0C], [CHR 0x0D],
      [CHR 0xC2, CHR 0x85], [CHR 0xC2, CHR 0xA0], [CHR 0xE1, CHR 0x9A, CHR 0x80],
      [CHR 0xE2, CHR 0x80, CHR 0x80], [CHR 0xE2, CHR 0x80, CHR 0x81],
      [CHR 0xE2, CHR 0x80, CHR 0x82], [CHR 0xE2, CHR 0x80, CHR 0x83],
      [CHR 0xE2, CHR 0x80, CHR 0x84], [CHR 0xE2, CHR 0x80, CHR 0x85],
      [CHR 0xE2, CHR 0x80, CHR 0x86], [CHR 0xE2, CHR 0x80, CHR 0x87],
      [CHR 0xE2, CHR 0x80, CHR 0x88], [CHR 0xE2, CHR 0x80, CHR 0x89],
      [CHR 0xE2, CHR 0x80, CHR 0x8A], [CHR 0xE2, CHR 0x80, CHR 0xA8],
      [CHR 0xE2, CHR 0x80, CHR 0xA9], [CHR 0xE2, CHR 0x80, CHR 0xAF],
      [CHR 0xE2, CHR 0x81, CHR 0x9F], [CHR 0xE3, CHR 0x80, CHR 0x80]]"

text \<open>The length of the leading token among some sequences, 0 when there is none.\<close>

definition tok_len :: "string list \<Rightarrow> string \<Rightarrow> nat" where
  "tok_len seqs s = (case find (\<lambda>w. starts_with w s) seqs of None \<Rightarrow> 0 | Some w \<Rightarrow> length w)"

function skip_tok :: "(string \<Rightarrow> nat) \<Rightarrow> string \<Rightarrow> string" where
  "skip_tok tok s = (if s = [] \<or> tok s = 0 then s else skip_tok tok (drop (tok s) s))"
  by pat_completeness auto
termination
  by (relation "measure (\<lambda>(tok, s). length s)") auto

declare skip_tok.simps [simp del]

definition ws_len :: "string \<Rightarrow> nat" where
  "ws_len s = tok_len ws_seqs s"

definition trim_start :: "string \<Rightarrow> string" where
  "trim_start s = skip_tok ws_len s"

definition trim_end :: "string \<Rightarrow> string" where
  "trim_end s = rev (skip_tok (tok_len (map rev ws_seqs)) (rev s))"

definition trim :: "string \<Rightarrow> string" where
  "trim s = trim_end (trim_start s)"

section \<open>Characters of a byte string\<close>

definition is_continuation :: "char \<Rightarrow> bool" where
  "is_continuation c \<longleftrightarrow> 128 \<le> byte c \<and> byte c < 192"

definition char_count :: "string \<Rightarrow> nat" where
  "char_count s = length (filter (\<lambda>c. \<not> is_continuation c) s)"

text \<open>The bytes of the first character.\<close>

fun first_char :: "string \<Rightarrow> string" where
  "first_char [] = []"
| "first_char (c # s) = c # takeWhile is_continuation s"

text \<open>\<^verbatim>\<open>s.is_char_boundary(i)\<close>.\<close>

definition is_char_boundary :: "string \<Rightarrow> nat \<Rightarrow> bool" where
  "is_char_boundary s i \<longleftrightarrow>
     i = 0 \<or> i = length s \<or> (i < length s \<and> \<not> is_continuation (s ! i))"

section \<open>Integers as text\<close>

definition digit_char :: "nat \<Rightarrow> char" where
  "digit_char n = ''0123456789abcdef'' ! n"

function show_radix :: "nat \<Rightarrow> nat \<Rightarrow> string" where
  "show_radix b n =
     (if b < 2 \<or> n < b then [digit_char n] else show_radix b (n div b) @ [digit_char (n mod b)])"
  by pat_completeness auto
termination
  by (relation "measure (\<lambda>(b, n). n)") auto

declare show_radix.simps [simp del]

definition show_nat :: "nat \<Rightarrow> string" where
  "show_nat n = show_radix 10 n"

definition show_hex :: "nat \<Rightarrow> string" where
  "show_hex n = show_radix 16 n"

definition show_int :: "int \<Rightarrow> string" where
  "show_int i = (if i < 0 then CHR ''-'' # show_nat (nat (- i)) else show_nat (nat i))"

fun parse_digits :: "nat \<Rightarrow> string \<Rightarrow> nat option" where
  "parse_digits acc [] = Some acc"
| "parse_digits acc (c # s) =
     (if is_digit c then parse_digits (10 * acc + (byte c - 48)) s else None)"

text \<open>
  \<^verbatim>\<open>str::parse\<close> for an unsigned type whose largest value is \<open>m\<close>: an optional \<^verbatim>\<open>+\<close>, then at least
  one decimal digit, and no overflow.
\<close>

definition parse_unsigned :: "nat \<Rightarrow> string \<Rightarrow> nat option" where
  "parse_unsigned m s =
     (let ds = (case s of [] \<Rightarrow> [] | c # r \<Rightarrow> if c = CHR ''+'' then r else s)
      in if ds = [] then None
         else case parse_digits 0 ds of None \<Rightarrow> None | Some n \<Rightarrow> if n \<le> m then Some n else None)"

definition parse_u16 :: "string \<Rightarrow> nat option" where
  "parse_u16 = parse_unsigned (2 ^ 16 - 1)"

definition parse_u64 :: "string \<Rightarrow> nat option" where
  "parse_u64 = parse_unsigned (2 ^ 64 - 1)"

definition parse_i32 :: "string \<Rightarrow> int option" where
  "parse_i32 s =
     (case s of
        [] \<Rightarrow> None
      | c # r \<Rightarrow>
          if c = CHR ''-'' then
            (if r = [] then None
             else case parse_digits 0 r of
                    None \<Rightarrow> None | Some n \<Rightarrow> if n \<le> 2 ^ 31 then Some (- int n) else None)
          else map_option int (parse_unsigned (2 ^ 31 - 1) s))"

declare byte_def [exec] is_upper_def [exec] is_lower_def [exec] is_digit_def [exec]
  is_ascii_alphabetic_def [exec] is_ascii_alphanumeric_def [exec]
  char_to_lower_def [exec] char_to_upper_def [exec] to_ascii_lowercase_def [exec]
  to_ascii_uppercase_def [exec] eq_ignore_ascii_case_def [exec]
  starts_with_def [exec] rsplit_once_def [exec]
  trim_start_matches_def [exec] trim_end_matches_def [exec] trim_matches_def [exec]
  ws_seqs_def [exec] tok_len_def [exec] ws_len_def [exec] skip_tok.simps [exec]
  trim_start_def [exec] trim_end_def [exec] trim_def [exec]
  is_continuation_def [exec] char_count_def [exec] is_char_boundary_def [exec]
  digit_char_def [exec] show_radix.simps [exec] show_nat_def [exec] show_hex_def [exec]
  show_int_def [exec] parse_unsigned_def [exec] parse_u16_def [exec] parse_u64_def [exec]
  parse_i32_def [exec]

section \<open>Laws of searching and splitting\<close>

lemma strip_prefix_Some_iff [rust_str]: "strip_prefix p s = Some r \<longleftrightarrow> s = p @ r"
  by (induction p s rule: strip_prefix.induct) auto

lemma strip_prefix_append [simp]: "strip_prefix p (p @ r) = Some r"
  by (simp add: strip_prefix_Some_iff)

lemma starts_with_iff [rust_str]: "starts_with p s \<longleftrightarrow> (\<exists>r. s = p @ r)"
  by (auto simp: starts_with_def not_None_eq strip_prefix_Some_iff)

lemma split_once_None_iff [rust_str]: "split_once d s = None \<longleftrightarrow> d \<notin> set s"
  by (induction s) (auto split: option.splits prod.splits)

lemma split_once_Some_iff [rust_str]:
  "split_once d s = Some (a, b) \<longleftrightarrow> s = a @ d # b \<and> d \<notin> set a"
proof (induction s arbitrary: a)
  case Nil
  show ?case by simp
next
  case (Cons c s)
  show ?case
  proof (cases "c = d")
    case True
    then show ?thesis by (cases a) auto
  next
    case False
    then have "split_once d (c # s) = Some (a, b) \<longleftrightarrow>
        (\<exists>a'. a = c # a' \<and> split_once d s = Some (a', b))"
      by (auto split: option.splits)
    with False Cons.IH show ?thesis by (cases a) auto
  qed
qed

lemma rsplit_once_Some_iff [rust_str]:
  "rsplit_once d s = Some (a, b) \<longleftrightarrow> s = a @ d # b \<and> d \<notin> set b"
proof -
  have "split_once d (rev s) = Some (rev b, rev a) \<longleftrightarrow> s = a @ d # b \<and> d \<notin> set b"
    by (subst split_once_Some_iff) (metis (no_types) append.assoc append_Cons append_Nil
        rev.simps(2) rev_append rev_rev_ident set_rev)
  then show ?thesis
    by (auto simp: rsplit_once_def split: option.splits)
qed

lemma rsplit_once_None_iff [rust_str]: "rsplit_once d s = None \<longleftrightarrow> d \<notin> set s"
  using split_once_None_iff [of d "rev s"] by (auto simp: rsplit_once_def split: option.splits)

lemma split_on_not_Nil [simp]: "split_on d s \<noteq> []"
  by (cases s) (auto split: list.splits)

lemma join_split_on [rust_str]: "join [d] (split_on d s) = s"
proof (induction s)
  case Nil
  show ?case by simp
next
  case (Cons c s)
  obtain p ps where ps: "split_on d s = p # ps"
    by (cases "split_on d s") auto
  with Cons show ?case by (cases ps) auto
qed

lemma split_on_pieces [rust_str]: "\<forall>p\<in>set (split_on d s). d \<notin> set p"
  by (induction s) (auto split: list.splits)

lemma split_on_no_sep: "d \<notin> set s \<Longrightarrow> split_on d s = [s]"
  by (induction s) auto

lemma split_on_Cons_sep [simp]: "split_on d (d # s) = [] # split_on d s"
  by simp

lemma split_on_append_sep: "d \<notin> set a \<Longrightarrow> split_on d (a @ d # s) = a # split_on d s"
  by (induction a) auto

lemma split_on_join:
  "ps \<noteq> [] \<Longrightarrow> \<forall>p\<in>set ps. d \<notin> set p \<Longrightarrow> split_on d (join [d] ps) = ps"
proof (induction "[d]" ps rule: join.induct)
  case (3 x y ys)
  then show ?case by (simp add: split_on_append_sep)
qed (auto simp: split_on_no_sep)

section \<open>Laws of trimming\<close>

lemma trim_matches_hd: "trim_matches c s \<noteq> [] \<Longrightarrow> hd (trim_matches c s) \<noteq> c"
proof -
  let ?t = "trim_start_matches c s"
  assume ne: "trim_matches c s \<noteq> []"
  obtain r where split: "?t = trim_matches c s @ r"
    using takeWhile_dropWhile_id [of "\<lambda>x. x = c" "rev ?t"]
    by (metis trim_matches_def trim_end_matches_def rev_append rev_rev_ident)
  with ne have "hd ?t = hd (trim_matches c s)" by simp
  moreover from ne split have "?t \<noteq> []" by auto
  then have "hd ?t \<noteq> c"
    unfolding trim_start_matches_def using hd_dropWhile by fast
  ultimately show ?thesis by simp
qed

lemma trim_matches_last: "trim_matches c s \<noteq> [] \<Longrightarrow> last (trim_matches c s) \<noteq> c"
  unfolding trim_matches_def trim_end_matches_def
  using last_rev_dropWhile [of "\<lambda>x. x = c"] by fast

lemma set_trim_matches: "set (trim_matches c s) \<subseteq> set s"
  by (auto simp: trim_matches_def trim_end_matches_def trim_start_matches_def
      dest!: set_dropWhileD)

lemma trim_matches_id:
  assumes "s = [] \<or> hd s \<noteq> c \<and> last s \<noteq> c"
  shows "trim_matches c s = s"
proof (cases "s = []")
  case False
  then have "dropWhile (\<lambda>x. x = c) s = s" using assms by (cases s) auto
  moreover have "dropWhile (\<lambda>x. x = c) (rev s) = rev s"
    using assms False by (cases "rev s") (auto simp: hd_rev)
  ultimately show ?thesis
    by (simp add: trim_matches_def trim_end_matches_def trim_start_matches_def)
qed (simp add: trim_matches_def trim_end_matches_def trim_start_matches_def)

text \<open>A byte that starts no white-space sequence stops \<^const>\<open>skip_tok\<close>.\<close>

lemma tok_len_0:
  assumes "\<forall>w\<in>set seqs. w \<noteq> [] \<and> hd w \<noteq> c"
  shows "tok_len seqs (c # s) = 0"
proof -
  have "find (\<lambda>w. starts_with w (c # s)) seqs = None"
    using assms by (auto simp: find_None_iff starts_with_iff Cons_eq_append_conv)
  then show ?thesis by (simp add: tok_len_def)
qed

definition ws_start :: "char \<Rightarrow> bool" where
  "ws_start c \<longleftrightarrow> c \<in> hd ` set ws_seqs"

declare ws_start_def [exec]

lemma ws_len_0: "\<not> ws_start c \<Longrightarrow> ws_len (c # s) = 0"
  unfolding ws_len_def by (rule tok_len_0) (auto simp: ws_start_def ws_seqs_def)

lemma ws_len_Nil [simp]: "ws_len [] = 0"
  by (simp add: ws_len_def tok_len_def ws_seqs_def starts_with_def)

lemma ws_len_space [simp]: "ws_len (CHR '' '' # s) = 1"
  by (simp add: ws_len_def tok_len_def ws_seqs_def starts_with_def)

lemma skip_tok_Nil [simp]: "skip_tok tok [] = []"
  by (simp add: skip_tok.simps)

lemma skip_tok_stop: "tok s = 0 \<Longrightarrow> skip_tok tok s = s"
  by (simp add: skip_tok.simps)

lemma skip_tok_step: "s \<noteq> [] \<Longrightarrow> tok s \<noteq> 0 \<Longrightarrow> skip_tok tok s = skip_tok tok (drop (tok s) s)"
  by (subst skip_tok.simps) simp

lemma skip_tok_suffix: "suffix (skip_tok tok s) s"
proof (induction tok s rule: skip_tok.induct)
  case (1 tok s)
  show ?case
  proof (cases "s = [] \<or> tok s = 0")
    case True
    then show ?thesis by (auto simp: skip_tok_stop)
  next
    case False
    with 1 have "suffix (skip_tok tok s) (drop (tok s) s)" by (simp add: skip_tok_step)
    then show ?thesis using suffix_drop suffix_order.trans by blast
  qed
qed

lemma skip_tok_length: "length (skip_tok tok s) \<le> length s"
  using skip_tok_suffix by (rule suffix_length_le)

lemma skip_tok_done: "skip_tok tok s \<noteq> [] \<Longrightarrow> tok (skip_tok tok s) = 0"
proof (induction tok s rule: skip_tok.induct)
  case (1 tok s)
  show ?case
  proof (cases "s = [] \<or> tok s = 0")
    case True
    with 1 show ?thesis by (cases "s = []") (simp_all add: skip_tok_stop)
  next
    case False
    with 1 show ?thesis by (simp add: skip_tok_step)
  qed
qed

section \<open>Laws of case conversion\<close>

lemma byte_bits:
  obtains low hi b where "low \<le> 31" and "64 dvd hi" and "byte c = low + hi + (if b then 32 else 0)"
    and "\<And>v. byte (set_bit5 v c) = low + hi + (if v then 32 else (0::nat))"
proof (cases c)
  case (Char b0 b1 b2 b3 b4 b5 b6 b7)
  let ?low = "of_bool b0 + (2 * of_bool b1 + (4 * of_bool b2 + (8 * of_bool b3 + 16 * of_bool b4))) :: nat"
  let ?hi = "64 * (of_bool b6 + 2 * of_bool b7) :: nat"
  have "?low \<le> 31" by (auto simp: of_bool_def)
  moreover have "64 dvd ?hi" by simp
  moreover have "byte (Char b0 b1 b2 b3 b4 v b6 b7) = ?low + ?hi + (if v then 32 else 0)" for v
    by (simp add: byte_def of_bool_def)
  ultimately show ?thesis using Char that [of ?low ?hi b5] by simp
qed

lemma set_bit5_byte:
  assumes "is_upper c" shows "byte (set_bit5 True c) = byte c + 32"
proof -
  obtain low hi b where *: "low \<le> 31" "64 dvd hi" "byte c = low + hi + (if b then 32 else 0)"
    and set: "\<And>v. byte (set_bit5 v c) = low + hi + (if v then 32 else (0::nat))"
    using byte_bits by metis
  from * assms have "\<not> b" unfolding is_upper_def by presburger
  with * show ?thesis by (simp add: set)
qed

lemma set_bit5_byte':
  assumes "is_lower c" shows "byte (set_bit5 False c) + 32 = byte c"
proof -
  obtain low hi b where *: "low \<le> 31" "64 dvd hi" "byte c = low + hi + (if b then 32 else 0)"
    and set: "\<And>v. byte (set_bit5 v c) = low + hi + (if v then 32 else (0::nat))"
    using byte_bits by metis
  from * assms have "b" unfolding is_lower_def by presburger
  with * show ?thesis by (simp add: set)
qed

lemma set_bit5_set_bit5 [simp]: "set_bit5 v (set_bit5 w c) = set_bit5 v c"
  by (cases c) simp

lemma byte_inject [simp]: "byte c = byte d \<longleftrightarrow> c = d"
  by (simp add: byte_def)

lemma is_lower_to_lower: "is_upper c \<Longrightarrow> is_lower (char_to_lower c)"
  by (simp add: char_to_lower_def is_lower_def set_bit5_byte) (simp add: is_upper_def)

lemma is_upper_to_upper: "is_lower c \<Longrightarrow> is_upper (char_to_upper c)"
  using set_bit5_byte' [of c] by (simp add: char_to_upper_def is_upper_def is_lower_def)

lemma lower_not_upper: "is_lower c \<Longrightarrow> \<not> is_upper c"
  by (simp add: is_lower_def is_upper_def)

lemma char_to_lower_idem [simp]: "char_to_lower (char_to_lower c) = char_to_lower c"
  by (metis char_to_lower_def is_lower_to_lower lower_not_upper)

lemma char_to_upper_idem [simp]: "char_to_upper (char_to_upper c) = char_to_upper c"
  by (metis char_to_upper_def is_upper_to_upper lower_not_upper)

lemma char_to_upper_lower [simp]: "char_to_upper (char_to_lower c) = char_to_upper c"
proof (cases "is_upper c")
  case True
  then have "is_lower (set_bit5 True c)" by (metis char_to_lower_def is_lower_to_lower)
  with True have "byte (set_bit5 False c) = byte c"
    using set_bit5_byte' [of "set_bit5 True c"] set_bit5_byte [of c] by simp
  with True show ?thesis
    using \<open>is_lower (set_bit5 True c)\<close> lower_not_upper
    by (auto simp: char_to_upper_def char_to_lower_def)
qed (simp add: char_to_lower_def)

lemma to_ascii_lowercase_idem [simp]:
  "to_ascii_lowercase (to_ascii_lowercase s) = to_ascii_lowercase s"
  by (simp add: to_ascii_lowercase_def)

lemma eq_ignore_ascii_case_refl [simp]: "eq_ignore_ascii_case a a"
  by (simp add: eq_ignore_ascii_case_def)

section \<open>Laws of printed integers\<close>

lemma show_radix_not_Nil [simp]: "show_radix b n \<noteq> []"
  by (subst show_radix.simps) simp

lemma show_radix_length: "2 \<le> b \<Longrightarrow> n < b ^ k \<Longrightarrow> 0 < k \<Longrightarrow> length (show_radix b n) \<le> k"
proof (induction k arbitrary: n)
  case (Suc k)
  show ?case
  proof (cases "n < b")
    case True
    then show ?thesis by (subst show_radix.simps) simp
  next
    case False
    with Suc.prems have "0 < k" by (cases k) auto
    moreover have "n div b < b ^ k"
      using Suc.prems by (simp add: less_mult_imp_div_less mult.commute)
    ultimately have "length (show_radix b (n div b)) \<le> k" using Suc by simp
    with False Suc.prems show ?thesis by (subst show_radix.simps) simp
  qed
qed simp

text \<open>\<^verbatim>\<open>char::to_digit\<close>.\<close>

definition to_digit :: "nat \<Rightarrow> char \<Rightarrow> nat option" where
  "to_digit radix c =
     (let d = (if is_digit c then Some (byte c - 48)
               else if is_lower c then Some (byte c - 87)
               else if is_upper c then Some (byte c - 55)
               else None)
      in case d of None \<Rightarrow> None | Some n \<Rightarrow> if n < radix then Some n else None)"

declare to_digit_def [exec]

definition digits_value :: "nat \<Rightarrow> string \<Rightarrow> nat" where
  "digits_value radix ds = foldl (\<lambda>acc c. radix * acc + the (to_digit radix c)) 0 ds"

declare digits_value_def [exec]

lemma less_16_in: "(d::nat) < 16 \<Longrightarrow> d \<in> {15, 14, 13, 12, 11, 10, 9, 8, 7, 6, 5, 4, 3, 2, 1, 0}"
  by simp presburger

lemma to_digit_digit_char: "n < radix \<Longrightarrow> radix \<le> 16 \<Longrightarrow> to_digit radix (digit_char n) = Some n"
  by (frule less_le_trans, assumption, drule less_16_in) (elim insertE; simp add: exec)

lemma show_radix_digits:
  "2 \<le> radix \<Longrightarrow> radix \<le> 16 \<Longrightarrow> \<forall>c\<in>set (show_radix radix n). to_digit radix c \<noteq> None"
proof (induction radix n rule: show_radix.induct)
  case (1 b n)
  then show ?case by (subst show_radix.simps) (auto simp: to_digit_digit_char)
qed

lemma digits_value_append:
  "digits_value b (ds @ [c]) = b * digits_value b ds + the (to_digit b c)"
  by (simp add: digits_value_def)

lemma digits_value_show [rust_str]:
  "2 \<le> b \<Longrightarrow> b \<le> 16 \<Longrightarrow> digits_value b (show_radix b n) = n"
proof (induction b n rule: show_radix.induct)
  case (1 b n)
  show ?case
  proof (cases "n < b")
    case True
    then show ?thesis
      using 1 by (subst show_radix.simps) (simp add: digits_value_def to_digit_digit_char)
  next
    case False
    with 1 show ?thesis
      by (subst show_radix.simps) (simp add: digits_value_append to_digit_digit_char)
  qed
qed

lemma show_radix_hd:
  "2 \<le> b \<Longrightarrow> b \<le> 16 \<Longrightarrow> 0 < n \<Longrightarrow> hd (show_radix b n) \<noteq> CHR ''0''"
proof (induction b n rule: show_radix.induct)
  case (1 b n)
  show ?case
  proof (cases "n < b")
    case True
    have "digit_char n \<noteq> CHR ''0''"
      using True 1 to_digit_digit_char [of n b] by (auto simp: exec)
    with True show ?thesis by (subst show_radix.simps) simp
  next
    case False
    with 1 have "0 < n div b" by (simp add: div_greater_zero_iff)
    with False 1 show ?thesis by (subst show_radix.simps) (simp add: hd_append)
  qed
qed

lemma show_radix_single: "n < b \<Longrightarrow> show_radix b n = [digit_char n]"
  by (simp add: show_radix.simps)

lemma to_digit_10: "to_digit 10 c = (if is_digit c then Some (byte c - 48) else None)"
  by (auto simp: to_digit_def is_digit_def is_lower_def is_upper_def split: if_splits)

lemma parse_digits_value:
  "\<forall>c\<in>set ds. is_digit c \<Longrightarrow>
     parse_digits acc ds = Some (foldl (\<lambda>acc c. 10 * acc + the (to_digit 10 c)) acc ds)"
  by (induction ds arbitrary: acc) (auto simp: to_digit_10)

lemma show_nat_digits: "\<forall>c\<in>set (show_nat n). is_digit c"
  using show_radix_digits [of 10 n] by (auto simp: show_nat_def to_digit_10 split: if_splits)

lemma parse_digits_show: "parse_digits 0 (show_nat n) = Some n"
  using show_nat_digits [of n] digits_value_show [of 10 n]
  by (simp add: parse_digits_value digits_value_def show_nat_def)

lemma show_nat_not_Nil [simp]: "show_nat n \<noteq> []"
  by (simp add: show_nat_def)

lemma parse_unsigned_show [rust_str]: "n \<le> m \<Longrightarrow> parse_unsigned m (show_nat n) = Some n"
proof -
  assume "n \<le> m"
  moreover obtain c r where cr: "show_nat n = c # r" by (cases "show_nat n") auto
  moreover have "is_digit c" using show_nat_digits [of n] cr by simp
  then have "c \<noteq> CHR ''+''" by (auto simp: is_digit_def byte_def)
  ultimately show ?thesis
    using parse_digits_show [of n] by (simp add: parse_unsigned_def)
qed

lemma parse_unsigned_bound: "parse_unsigned m s = Some n \<Longrightarrow> n \<le> m"
  by (auto simp: parse_unsigned_def Let_def split: if_splits option.splits list.splits)

lemma parse_u16_bound: "parse_u16 s = Some n \<Longrightarrow> n < 65536"
  unfolding parse_u16_def by (drule parse_unsigned_bound) simp

lemma parse_u16_show: "n < 65536 \<Longrightarrow> parse_u16 (show_nat n) = Some n"
  unfolding parse_u16_def by (rule parse_unsigned_show) simp

section \<open>Trimming and splitting at a string\<close>

lemma tok_len_0_rev:
  assumes "\<forall>w\<in>set seqs. w \<noteq> [] \<and> last w \<noteq> c"
  shows "tok_len (map rev seqs) (c # s) = 0"
  by (rule tok_len_0) (use assms in \<open>auto simp: hd_rev\<close>)

lemma trim_id:
  assumes "s \<noteq> []" and "\<not> ws_start (hd s)" and "is_digit (last s)"
  shows "trim s = s"
proof -
  have "trim_start s = s"
    using assms(1,2) by (cases s) (simp_all add: trim_start_def skip_tok_stop ws_len_0)
  moreover obtain c r where r: "rev s = c # r" "c = last s"
    using assms(1) by (cases "rev s") (auto simp: hd_rev [symmetric])
  have "\<forall>w\<in>set ws_seqs. w \<noteq> [] \<and> \<not> is_digit (last w)"
    by (simp add: ws_seqs_def is_digit_def byte_def)
  with assms(3) r(2) have "\<forall>w\<in>set ws_seqs. w \<noteq> [] \<and> last w \<noteq> c" by metis
  then have "tok_len (map rev ws_seqs) (rev s) = 0" unfolding r(1) by (rule tok_len_0_rev)
  then have "trim_end s = s" by (simp add: trim_end_def skip_tok_stop)
  ultimately show ?thesis by (simp add: trim_def)
qed

lemma split_once_str_SomeD: "split_once_str p s = Some (a, b) \<Longrightarrow> s = a @ p @ b"
proof (induction p s arbitrary: a rule: split_once_str.induct)
  case (2 p c s)
  then show ?case by (auto simp: strip_prefix_Some_iff split: option.splits prod.splits)
qed (auto split: if_splits)

lemma split_once_str_None: "x \<in> set p \<Longrightarrow> x \<notin> set s \<Longrightarrow> split_once_str p s = None"
  by (cases "split_once_str p s") (auto dest: split_once_str_SomeD)

lemma split_once_str_append:
  "p \<noteq> [] \<Longrightarrow> hd p \<notin> set a \<Longrightarrow> split_once_str p (a @ p @ b) = Some (a, b)"
proof (induction a)
  case Nil
  then obtain q p' where p: "p = q # p'" by (cases p) auto
  have "split_once_str p (q # (p' @ b)) = Some ([], b)"
    using strip_prefix_append [of p b] by (simp only: split_once_str.simps p append_Cons option.case)
  then show ?case by (simp add: p)
next
  case (Cons x a)
  then obtain q p' where p: "p = q # p'" "q \<noteq> x" by (cases p) auto
  with Cons show ?case by simp
qed

end
