(* ===== verification/BTree.thy ===== *)
theory BTree
  imports Prelude
begin

text \<open>
  Rust's \<^verbatim>\<open>BTreeMap\<close> and \<^verbatim>\<open>BTreeSet\<close> as association lists sorted by key. Iterating over the
  map is walking the list, so the order in which the program's loops see their entries,
  and with it which of two clashing entries wins, is the one of the code. The interface
  the components rely on is the locale \<open>ordered_map\<close>; the model's own operations
  interpret it below.
\<close>

section \<open>The operations\<close>

fun bt_insert :: "'k::linorder \<Rightarrow> 'v \<Rightarrow> ('k \<times> 'v) list \<Rightarrow> ('k \<times> 'v) list" where
  "bt_insert k v [] = [(k, v)]"
| "bt_insert k v ((k', v') # m) =
     (if k < k' then (k, v) # (k', v') # m
      else if k = k' then (k, v) # m
      else (k', v') # bt_insert k v m)"

definition bt_get :: "('k \<times> 'v) list \<Rightarrow> 'k \<Rightarrow> 'v option" where
  "bt_get m k = map_of m k"

definition bt_keys :: "('k \<times> 'v) list \<Rightarrow> 'k list" where
  "bt_keys m = map fst m"

definition bt_values :: "('k \<times> 'v) list \<Rightarrow> 'v list" where
  "bt_values m = map snd m"

definition bt_contains :: "('k \<times> 'v) list \<Rightarrow> 'k \<Rightarrow> bool" where
  "bt_contains m k \<longleftrightarrow> bt_get m k \<noteq> None"

text \<open>\<^verbatim>\<open>entry(k).or_insert(v)\<close>.\<close>

definition bt_or_insert :: "'k::linorder \<Rightarrow> 'v \<Rightarrow> ('k \<times> 'v) list \<Rightarrow> ('k \<times> 'v) list" where
  "bt_or_insert k v m = (if bt_contains m k then m else bt_insert k v m)"

definition bt_wf :: "('k::linorder \<times> 'v) list \<Rightarrow> bool" where
  "bt_wf m \<longleftrightarrow> sorted_wrt (<) (map fst m)"

text \<open>Sets are maps to the unit value.\<close>

definition bs_insert :: "'k::linorder \<Rightarrow> ('k \<times> unit) list \<Rightarrow> ('k \<times> unit) list" where
  "bs_insert k s = bt_insert k () s"

declare bt_get_def [exec] bt_keys_def [exec] bt_values_def [exec] bt_contains_def [exec]
  bt_or_insert_def [exec] bs_insert_def [exec]

section \<open>The interface\<close>

locale ordered_map =
  fixes empty :: "'m"
    and insert :: "'k::linorder \<Rightarrow> 'v \<Rightarrow> 'm \<Rightarrow> 'm"
    and get :: "'m \<Rightarrow> 'k \<Rightarrow> 'v option"
    and keys :: "'m \<Rightarrow> 'k list"
    and wf :: "'m \<Rightarrow> bool"
  assumes wf_empty: "wf empty"
    and wf_insert: "wf m \<Longrightarrow> wf (insert k v m)"
    and get_empty: "get empty = Map.empty"
    and get_insert: "wf m \<Longrightarrow> get (insert k v m) = (get m)(k \<mapsto> v)"
    and keys_dom: "wf m \<Longrightarrow> set (keys m) = dom (get m)"
    and keys_sorted: "wf m \<Longrightarrow> sorted_wrt (<) (keys m)"
begin

lemma keys_distinct: "wf m \<Longrightarrow> distinct (keys m)"
  using keys_sorted strict_sorted_iff by blast

lemma keys_unique: "wf m \<Longrightarrow> wf m' \<Longrightarrow> dom (get m) = dom (get m') \<Longrightarrow> keys m = keys m'"
  by (metis keys_dom keys_sorted sorted_distinct_set_unique strict_sorted_iff)

lemma wf_insert_all: "wf m \<Longrightarrow> wf (fold (\<lambda>(k, v). insert k v) kvs m)"
  by (induction kvs arbitrary: m) (auto simp: wf_insert)

lemma get_insert_all:
  "wf m \<Longrightarrow> get (fold (\<lambda>(k, v). insert k v) kvs m) = get m ++ map_of (rev kvs)"
proof (induction kvs arbitrary: m)
  case Nil
  then show ?case by simp
next
  case (Cons kv kvs)
  obtain k v where kv: "kv = (k, v)" by fastforce
  have "get (fold (\<lambda>(k, v). insert k v) kvs (insert k v m)) = get (insert k v m) ++ map_of (rev kvs)"
    by (rule Cons.IH) (rule wf_insert [OF Cons.prems])
  then show ?case
    using get_insert [OF Cons.prems] by (simp add: kv fun_eq_iff map_add_def split: option.splits)
qed

lemma dom_insert_all:
  "wf m \<Longrightarrow> dom (get (fold (\<lambda>(k, v). insert k v) kvs m)) = dom (get m) \<union> fst ` set kvs"
  by (simp add: get_insert_all dom_map_of_conv_image_fst Un_commute)

lemma keys_insert_all:
  "wf m \<Longrightarrow> set (keys (fold (\<lambda>(k, v). insert k v) kvs m)) = set (keys m) \<union> fst ` set kvs"
  by (simp add: keys_dom wf_insert_all dom_insert_all)

end

section \<open>The model provides it\<close>

lemma set_bt_insert_keys: "fst ` set (bt_insert k v m) = insert k (fst ` set m)"
  by (induction k v m rule: bt_insert.induct) auto

lemma bt_wf_Nil [simp, intro]: "bt_wf []"
  by (simp add: bt_wf_def)

lemma bt_wf_Cons: "bt_wf ((k, v) # m) \<longleftrightarrow> (\<forall>k'\<in>fst ` set m. k < k') \<and> bt_wf m"
  by (simp add: bt_wf_def)

lemma bt_wf_insert [intro]: "bt_wf m \<Longrightarrow> bt_wf (bt_insert k v m)"
  by (induction k v m rule: bt_insert.induct) (auto simp: bt_wf_Cons set_bt_insert_keys)

lemma bt_get_eq: "bt_get m = map_of m"
  by (simp add: fun_eq_iff bt_get_def)

lemma bt_get_insert: "bt_wf m \<Longrightarrow> bt_get (bt_insert k v m) = (bt_get m)(k \<mapsto> v)"
proof (induction k v m rule: bt_insert.induct)
  case (2 k v k' v' m)
  then show ?case
    by (auto simp: bt_get_def bt_wf_Cons fun_eq_iff map_of_eq_None_iff)
qed (simp add: bt_get_eq)

interpretation bt: ordered_map "[]" bt_insert bt_get bt_keys bt_wf
proof unfold_locales
  fix m :: "('a \<times> 'b) list" and k v
  show "bt_wf []" ..
  show "bt_get [] = Map.empty" by (simp add: bt_get_def fun_eq_iff)
  assume wf: "bt_wf m"
  from wf show "bt_wf (bt_insert k v m)" ..
  from wf show "bt_get (bt_insert k v m) = (bt_get m)(k \<mapsto> v)" by (rule bt_get_insert)
  show "set (bt_keys m) = dom (bt_get m)"
    by (simp add: bt_keys_def bt_get_eq dom_map_of_conv_image_fst)
  from wf show "sorted_wrt (<) (bt_keys m)" by (simp add: bt_wf_def bt_keys_def)
qed

lemmas bt_laws = bt.wf_insert bt.get_insert bt.keys_dom bt.keys_distinct bt.wf_insert_all
  bt.get_insert_all bt.keys_insert_all

section \<open>Further facts\<close>

lemma set_bt_insert_subset: "set (bt_insert k v m) \<subseteq> insert (k, v) (set m)"
  by (induction k v m rule: bt_insert.induct) auto

lemma in_bt_insertD: "x \<in> set (bt_insert k v m) \<Longrightarrow> x = (k, v) \<or> x \<in> set m"
  using set_bt_insert_subset by fast

lemma bt_insert_in: "(k, v) \<in> set (bt_insert k v m)"
  by (induction k v m rule: bt_insert.induct) auto

lemma bt_insert_other: "x \<in> set m \<Longrightarrow> fst x \<noteq> k \<Longrightarrow> x \<in> set (bt_insert k v m)"
  by (induction k v m rule: bt_insert.induct) auto

lemma bt_get_iff: "bt_wf m \<Longrightarrow> bt_get m k = Some v \<longleftrightarrow> (k, v) \<in> set m"
  by (auto simp: bt_get_def bt_wf_def strict_sorted_iff distinct_map_filter dest: map_of_SomeD)

lemma bt_get_SomeD: "bt_get m k = Some v \<Longrightarrow> (k, v) \<in> set m"
  by (simp add: bt_get_def map_of_SomeD)

lemma bt_contains_iff: "bt_contains m k \<longleftrightarrow> k \<in> set (bt_keys m)"
  by (auto simp: bt_contains_def bt_get_def bt_keys_def map_of_eq_None_iff)

lemma bt_keys_insert: "set (bt_keys (bt_insert k v m)) = insert k (set (bt_keys m))"
  by (simp add: bt_keys_def set_bt_insert_keys)

lemma bt_insert_not_Nil [simp]: "bt_insert k v m \<noteq> []"
  by (induction k v m rule: bt_insert.induct) auto

lemma bt_get_insert_same: "bt_get (bt_insert k v m) k = Some v"
  by (induction k v m rule: bt_insert.induct) (auto simp: bt_get_def)

lemma bt_get_insert_other: "k' \<noteq> k \<Longrightarrow> bt_get (bt_insert k v m) k' = bt_get m k'"
  by (induction k v m rule: bt_insert.induct) (auto simp: bt_get_def)

lemma bt_wf_or_insert [intro]: "bt_wf m \<Longrightarrow> bt_wf (bt_or_insert k v m)"
  by (auto simp: bt_or_insert_def)

text \<open>A fold of \<^const>\<open>bt_or_insert\<close> keeps the first value of every key.\<close>

lemma bt_get_or_insert_all:
  "bt_wf m \<Longrightarrow> bt_get (fold (\<lambda>(k, v). bt_or_insert k v) kvs m) = map_of kvs ++ bt_get m"
proof (induction kvs arbitrary: m)
  case Nil
  then show ?case by simp
next
  case (Cons kv kvs)
  obtain k v where kv: "kv = (k, v)" by fastforce
  have "bt_get (bt_or_insert k v m) = [k \<mapsto> v] ++ bt_get m"
    using Cons.prems
    by (auto simp: bt_or_insert_def bt_contains_def bt_get_insert fun_eq_iff map_add_def
        split: option.splits)
  moreover have "bt_wf (bt_or_insert k v m)" using Cons.prems ..
  ultimately show ?case
    using Cons.IH [of "bt_or_insert k v m"]
    by (auto simp: kv fun_eq_iff map_add_def split: option.splits)
qed

text \<open>From here on a map is reasoned about by its laws; \<open>exec\<close> still evaluates it.\<close>

declare bt_insert.simps [simp del]
declare bt_insert.simps [exec]

section \<open>Mapping the values\<close>

lemma bt_get_map_values: "bt_get (map (apsnd f) m) k = map_option f (bt_get m k)"
  by (induction m) (auto simp: bt_get_def)

end
