(* ===== verification/Platform.thy ===== *)
theory Platform
  imports Rust_Str BTree
begin

text \<open>
  What the program takes from outside the repository, as a parameter of every definition
  that uses it: the hash function of the standard library's \<^verbatim>\<open>DefaultHasher\<close>, whose
  algorithm its documentation leaves unspecified, the URL parser of the \<^verbatim>\<open>url\<close> crate and
  the duration parser of the \<^verbatim>\<open>humantime\<close> crate. A property that needs more of them than
  their type says so in a hypothesis.
\<close>

text \<open>A \<^verbatim>\<open>Duration\<close>, in nanoseconds.\<close>

type_synonym duration = nat

definition from_secs :: "nat \<Rightarrow> duration" where
  "from_secs s = s * 1000000000"

declare from_secs_def [exec]

text \<open>What the program reads of a parsed \<^verbatim>\<open>url::Url\<close>.\<close>

record url =
  url_as_str :: string
  url_scheme :: string
  url_host_str :: "string option"
  url_port_or_known_default :: "nat option"

record platform =
  default_hasher :: "string \<Rightarrow> 64 word"
  url_parse :: "string \<Rightarrow> url option"
  parse_duration :: "string \<Rightarrow> duration option"

section \<open>Fallible computations\<close>

text \<open>The \<^verbatim>\<open>?\<close> operator: the first error ends the computation.\<close>

fun try_then :: "'e + 'a \<Rightarrow> ('a \<Rightarrow> 'e + 'b) \<Rightarrow> 'e + 'b" where
  "try_then (Inl e) f = Inl e"
| "try_then (Inr x) f = f x"

fun map_err :: "('e \<Rightarrow> 'f) \<Rightarrow> 'e + 'a \<Rightarrow> 'f + 'a" where
  "map_err f (Inl e) = Inl (f e)"
| "map_err f (Inr x) = Inr x"

definition ok_or :: "'e \<Rightarrow> 'a option \<Rightarrow> 'e + 'a" where
  "ok_or e x = (case x of None \<Rightarrow> Inl e | Some v \<Rightarrow> Inr v)"

declare ok_or_def [exec]

lemma try_then_Inr_iff: "try_then r f = Inr y \<longleftrightarrow> (\<exists>x. r = Inr x \<and> f x = Inr y)"
  by (cases r) auto

lemma try_then_Inl_iff: "try_then r f = Inl e \<longleftrightarrow> r = Inl e \<or> (\<exists>x. r = Inr x \<and> f x = Inl e)"
  by (cases r) auto

lemma ok_or_Inr_iff: "ok_or e x = Inr v \<longleftrightarrow> x = Some v"
  by (auto simp: ok_or_def split: option.splits)

end
