(* ===== verification/Config.thy ===== *)
theory Config
  imports Platform
begin

text \<open>
  \<^verbatim>\<open>src/config.rs\<close>: the controller's configuration and its construction from the process
  environment, which is a function from names to values here. The struct literal of
  \<open>from_env\<close> evaluates its fields in order, so the first invalid variable in that order is
  the error reported.
\<close>

section \<open>Types\<close>

datatype backend_kind = ServiceKind | EnvoyBackendKind

record ext_authz_config =
  eac_service :: string
  eac_namespace :: "string option"
  eac_port :: port
  eac_path :: "string option"
  eac_headers_to_ext_auth :: "string list"
  eac_headers_to_backend :: "string list"

record config =
  cfg_pangolin_endpoint :: url
  cfg_auth_header :: "string option"
  cfg_fetch_timeout :: duration
  cfg_poll_interval :: duration
  cfg_max_backoff :: duration
  cfg_max_response_body_bytes :: nat
  cfg_tls_skip_verify :: bool
  cfg_ca_file :: "string option"
  cfg_namespace :: string
  cfg_parent_gateway :: string
  cfg_parent_gateway_namespace :: "string option"
  cfg_listener_set_name :: string
  cfg_http_port :: port
  cfg_https_port :: port
  cfg_enable_https_listeners :: bool
  cfg_enable_tcp_routes :: bool
  cfg_enable_udp_routes :: bool
  cfg_backend_kind :: backend_kind
  cfg_ext_authz :: "ext_authz_config option"
  cfg_allow_unauthenticated_routes :: bool
  cfg_tls_secret_template :: "string option"
  cfg_tls_secret_namespace :: "string option"
  cfg_field_manager :: string
  cfg_managed_label_key :: string
  cfg_managed_label_value :: string
  cfg_instance_label_key :: string
  cfg_instance_label_value :: string
  cfg_managed_annotation_key :: string
  cfg_managed_annotation_value :: string
  cfg_httproute_annotations :: "(string \<times> string) list"
  cfg_listenerset_annotations :: "(string \<times> string) list"
  cfg_read_only :: bool
  cfg_log_traefik_config :: bool
  cfg_health_listen :: "string option"

datatype config_error =
    MissingEnv string
  | InvalidEndpoint string
  | TlsSkipVerifyNotAcknowledged
  | InsecureHttpNotAllowed
  | InvalidBoolean string string
  | InvalidDuration string string
  | InvalidU64 string string
  | InvalidI32 string string
  | InvalidBackendKind string
  | NotKeyValue string string
  | EmptyAnnotationKey string string

type_synonym env = "string \<Rightarrow> string option"

section \<open>Reading variables\<close>

definition required_env :: "env \<Rightarrow> string \<Rightarrow> config_error + string" where
  "required_env env key = ok_or (MissingEnv key) (env key)"

definition optional_env :: "env \<Rightarrow> string \<Rightarrow> string option" where
  "optional_env env key =
     (case env key of None \<Rightarrow> None | Some v \<Rightarrow> if v = [] then None else Some v)"

definition or_default :: "string \<Rightarrow> string option \<Rightarrow> string" where
  "or_default d x = (case x of None \<Rightarrow> d | Some v \<Rightarrow> v)"

definition bool_env :: "env \<Rightarrow> string \<Rightarrow> bool \<Rightarrow> config_error + bool" where
  "bool_env env key dflt =
     (case optional_env env key of
        None \<Rightarrow> Inr dflt
      | Some v \<Rightarrow>
          (let l = to_ascii_lowercase v
           in if l \<in> set [''1'', ''true'', ''yes'', ''on''] then Inr True
              else if l \<in> set [''0'', ''false'', ''no'', ''off''] then Inr False
              else Inl (InvalidBoolean key l)))"

definition duration_env :: "platform \<Rightarrow> env \<Rightarrow> string \<Rightarrow> duration \<Rightarrow> config_error + duration" where
  "duration_env pf env key dflt =
     (case optional_env env key of
        None \<Rightarrow> Inr dflt
      | Some v \<Rightarrow> ok_or (InvalidDuration key v) (parse_duration pf v))"

definition u64_env :: "env \<Rightarrow> string \<Rightarrow> nat \<Rightarrow> config_error + nat" where
  "u64_env env key dflt =
     (case optional_env env key of
        None \<Rightarrow> Inr dflt
      | Some v \<Rightarrow> ok_or (InvalidU64 key v) (parse_u64 v))"

definition i32_env :: "env \<Rightarrow> string \<Rightarrow> int \<Rightarrow> config_error + int" where
  "i32_env env key dflt =
     (case optional_env env key of
        None \<Rightarrow> Inr dflt
      | Some v \<Rightarrow> ok_or (InvalidI32 key v) (parse_i32 v))"

definition csv_env :: "env \<Rightarrow> string \<Rightarrow> string list \<Rightarrow> string list" where
  "csv_env env key dflt =
     (case optional_env env key of
        None \<Rightarrow> dflt
      | Some raw \<Rightarrow> filter (\<lambda>s. s \<noteq> []) (map trim (split_on CHR '','' raw)))"

fun parse_kv_entries ::
  "string \<Rightarrow> string list \<Rightarrow> (string \<times> string) list \<Rightarrow> config_error + (string \<times> string) list" where
  "parse_kv_entries key [] out = Inr out"
| "parse_kv_entries key (raw # es) out =
     (let entry = trim raw in
      if entry = [] then parse_kv_entries key es out
      else
        case split_once CHR ''='' entry of
          None \<Rightarrow> Inl (NotKeyValue key entry)
        | Some (k0, v0) \<Rightarrow>
            let k = trim k0; v = trim v0 in
            if k = [] then Inl (EmptyAnnotationKey key entry)
            else parse_kv_entries key es (bt_insert k v out))"

definition parse_kv_env :: "env \<Rightarrow> string \<Rightarrow> config_error + (string \<times> string) list" where
  "parse_kv_env env key =
     (case optional_env env key of
        None \<Rightarrow> Inr []
      | Some raw \<Rightarrow> parse_kv_entries key (split_on CHR '','' raw) [])"

definition backend_kind_parse :: "string \<Rightarrow> config_error + backend_kind" where
  "backend_kind_parse s =
     (let l = to_ascii_lowercase (trim s)
      in if l \<in> set [''service'', ''service-endpointslice'', ''''] then Inr ServiceKind
         else if l \<in> set [''envoy-backend'', ''envoybackend'', ''backend''] then Inr EnvoyBackendKind
         else Inl (InvalidBackendKind l))"

section \<open>The configuration\<close>

definition ext_authz_env :: "env \<Rightarrow> config_error + ext_authz_config option" where
  "ext_authz_env env =
     (case optional_env env ''CONFIG_EXT_AUTHZ_SERVICE'' of
        None \<Rightarrow> Inr None
      | Some service \<Rightarrow>
          try_then (i32_env env ''CONFIG_EXT_AUTHZ_PORT'' 80) (\<lambda>port.
            Inr (Some
              \<lparr>eac_service = service,
               eac_namespace = optional_env env ''CONFIG_EXT_AUTHZ_NAMESPACE'',
               eac_port = port,
               eac_path = optional_env env ''CONFIG_EXT_AUTHZ_PATH'',
               eac_headers_to_ext_auth =
                 csv_env env ''CONFIG_EXT_AUTHZ_HEADERS_TO_EXT_AUTH'' [''cookie'', ''authorization''],
               eac_headers_to_backend =
                 csv_env env ''CONFIG_EXT_AUTHZ_HEADERS_TO_BACKEND'' []\<rparr>)))"

definition health_env :: "env \<Rightarrow> string option" where
  "health_env env =
     (case optional_env env ''CONFIG_HEALTH_LISTEN'' of
        None \<Rightarrow> Some ''0.0.0.0:8081''
      | Some v \<Rightarrow> if v \<in> set [''off'', ''disabled'', ''none''] then None else Some v)"

text \<open>The checks on the endpoint that come before the struct literal.\<close>

definition endpoint_env :: "platform \<Rightarrow> env \<Rightarrow> config_error + (url \<times> bool)" where
  "endpoint_env pf env =
     try_then (required_env env ''CONFIG_ENDPOINT'') (\<lambda>raw.
     try_then (ok_or (InvalidEndpoint raw) (url_parse pf raw)) (\<lambda>endpoint.
     try_then (bool_env env ''CONFIG_TLS_SKIP_VERIFY'' False) (\<lambda>skip.
     try_then (if skip then
                 try_then (bool_env env ''I_UNDERSTAND_CONFIG_TLS_SKIP_VERIFY_IS_INSECURE'' False)
                   (\<lambda>ack. if ack then Inr () else Inl TlsSkipVerifyNotAcknowledged)
               else Inr ()) (\<lambda>_.
     try_then (if url_scheme endpoint = ''http'' then
                 try_then (bool_env env ''CONFIG_ALLOW_INSECURE_HTTP'' False)
                   (\<lambda>allow. if allow then Inr () else Inl InsecureHttpNotAllowed)
               else Inr ()) (\<lambda>_.
     Inr (endpoint, skip))))))"

definition from_env :: "platform \<Rightarrow> env \<Rightarrow> config_error + config" where
  "from_env pf env =
     try_then (endpoint_env pf env) (\<lambda>(endpoint, skip).
     try_then (duration_env pf env ''CONFIG_FETCH_TIMEOUT'' (from_secs 30)) (\<lambda>fetch_timeout.
     try_then (duration_env pf env ''CONFIG_POLL_INTERVAL'' (from_secs 30)) (\<lambda>poll_interval.
     try_then (duration_env pf env ''CONFIG_MAX_BACKOFF'' (from_secs 300)) (\<lambda>max_backoff.
     try_then (u64_env env ''CONFIG_MAX_RESPONSE_BODY_BYTES'' (16 * 1024 * 1024)) (\<lambda>max_body.
     try_then (required_env env ''CONFIG_PARENT_GATEWAY'') (\<lambda>parent_gateway.
     try_then (i32_env env ''CONFIG_HTTP_PORT'' 80) (\<lambda>http_port.
     try_then (i32_env env ''CONFIG_HTTPS_PORT'' 443) (\<lambda>https_port.
     try_then (bool_env env ''CONFIG_ENABLE_HTTPS_LISTENERS'' True) (\<lambda>enable_https.
     try_then (bool_env env ''CONFIG_ENABLE_TCP_ROUTES'' False) (\<lambda>enable_tcp.
     try_then (bool_env env ''CONFIG_ENABLE_UDP_ROUTES'' False) (\<lambda>enable_udp.
     try_then (case optional_env env ''CONFIG_BACKEND_KIND'' of
                 Some raw \<Rightarrow> backend_kind_parse raw | None \<Rightarrow> Inr EnvoyBackendKind) (\<lambda>kind.
     try_then (ext_authz_env env) (\<lambda>ext_authz.
     try_then (bool_env env ''CONFIG_ALLOW_UNAUTHENTICATED_ROUTES'' False) (\<lambda>allow_unauth.
     try_then (parse_kv_env env ''CONFIG_HTTPROUTE_ANNOTATIONS'') (\<lambda>route_annos.
     try_then (parse_kv_env env ''CONFIG_LISTENERSET_ANNOTATIONS'') (\<lambda>set_annos.
     try_then (bool_env env ''CONFIG_READ_ONLY'' False) (\<lambda>read_only.
     try_then (bool_env env ''CONFIG_LOG_TRAEFIK_CONFIG'' False) (\<lambda>log_config.
     Inr
       \<lparr>cfg_pangolin_endpoint = endpoint,
        cfg_auth_header = optional_env env ''CONFIG_AUTH_HEADER'',
        cfg_fetch_timeout = fetch_timeout,
        cfg_poll_interval = poll_interval,
        cfg_max_backoff = max_backoff,
        cfg_max_response_body_bytes = max_body,
        cfg_tls_skip_verify = skip,
        cfg_ca_file = optional_env env ''CONFIG_CA_FILE'',
        cfg_namespace = or_default ''default'' (optional_env env ''CONFIG_NAMESPACE''),
        cfg_parent_gateway = parent_gateway,
        cfg_parent_gateway_namespace = optional_env env ''CONFIG_PARENT_GATEWAY_NAMESPACE'',
        cfg_listener_set_name = or_default ''pangolin'' (optional_env env ''CONFIG_LISTENERSET_NAME''),
        cfg_http_port = http_port,
        cfg_https_port = https_port,
        cfg_enable_https_listeners = enable_https,
        cfg_enable_tcp_routes = enable_tcp,
        cfg_enable_udp_routes = enable_udp,
        cfg_backend_kind = kind,
        cfg_ext_authz = ext_authz,
        cfg_allow_unauthenticated_routes = allow_unauth,
        cfg_tls_secret_template = optional_env env ''CONFIG_TLS_SECRET_TEMPLATE'',
        cfg_tls_secret_namespace = optional_env env ''CONFIG_TLS_SECRET_NAMESPACE'',
        cfg_field_manager =
          or_default ''pangolin-gateway-controller'' (optional_env env ''CONFIG_FIELD_MANAGER''),
        cfg_managed_label_key =
          or_default ''app.kubernetes.io/managed-by'' (optional_env env ''CONFIG_MANAGED_LABEL_KEY''),
        cfg_managed_label_value =
          or_default ''pangolin-gateway-controller'' (optional_env env ''CONFIG_MANAGED_LABEL_VALUE''),
        cfg_instance_label_key =
          or_default ''pangolin.envisia.de/instance'' (optional_env env ''CONFIG_INSTANCE_LABEL_KEY''),
        cfg_instance_label_value =
          or_default ''default'' (optional_env env ''CONFIG_INSTANCE_LABEL_VALUE''),
        cfg_managed_annotation_key =
          or_default ''pangolin.envisia.de/source'' (optional_env env ''CONFIG_MANAGED_ANNOTATION_KEY''),
        cfg_managed_annotation_value =
          or_default ''pangolin-gateway-controller'' (optional_env env ''CONFIG_MANAGED_ANNOTATION_VALUE''),
        cfg_httproute_annotations = route_annos,
        cfg_listenerset_annotations = set_annos,
        cfg_read_only = read_only,
        cfg_log_traefik_config = log_config,
        cfg_health_listen = health_env env\<rparr>))))))))))))))))))"

definition managed_selector :: "config \<Rightarrow> string" where
  "managed_selector cfg =
     cfg_managed_label_key cfg @ ''='' @ cfg_managed_label_value cfg @ '','' @
     cfg_instance_label_key cfg @ ''='' @ cfg_instance_label_value cfg"

declare required_env_def [exec] optional_env_def [exec] or_default_def [exec] bool_env_def [exec]
  duration_env_def [exec] u64_env_def [exec] i32_env_def [exec] csv_env_def [exec]
  parse_kv_env_def [exec] backend_kind_parse_def [exec] ext_authz_env_def [exec]
  health_env_def [exec] endpoint_env_def [exec] from_env_def [exec] managed_selector_def [exec]

section \<open>What a configuration was read from\<close>

lemma optional_env_None: "env key = None \<Longrightarrow> optional_env env key = None"
  by (simp add: optional_env_def)

lemma from_env_fields:
  assumes "from_env pf env = Inr cfg"
  shows "endpoint_env pf env = Inr (cfg_pangolin_endpoint cfg, cfg_tls_skip_verify cfg)"
    and "required_env env ''CONFIG_PARENT_GATEWAY'' = Inr (cfg_parent_gateway cfg)"
    and "ext_authz_env env = Inr (cfg_ext_authz cfg)"
    and "bool_env env ''CONFIG_ALLOW_UNAUTHENTICATED_ROUTES'' False = Inr (cfg_allow_unauthenticated_routes cfg)"
    and "bool_env env ''CONFIG_READ_ONLY'' False = Inr (cfg_read_only cfg)"
  using assms by (auto simp: from_env_def try_then_Inr_iff)

lemma unprotected_by_default:
  assumes "from_env pf env = Inr cfg"
  shows "env ''CONFIG_EXT_AUTHZ_SERVICE'' = None \<Longrightarrow> cfg_ext_authz cfg = None"
    and "env ''CONFIG_ALLOW_UNAUTHENTICATED_ROUTES'' = None \<Longrightarrow> \<not> cfg_allow_unauthenticated_routes cfg"
  using from_env_fields(3,4) [OF assms] by (auto simp: ext_authz_env_def bool_env_def optional_env_None)

section \<open>Properties\<close>

text \<open>C35: The two insecure settings are never in effect without their acknowledgement.\<close>

theorem insecure_needs_acknowledgement:
  assumes "from_env pf env = Inr cfg"
  shows "(\<not> cfg_tls_skip_verify cfg \<or> bool_env env ''I_UNDERSTAND_CONFIG_TLS_SKIP_VERIFY_IS_INSECURE'' False = Inr True) \<and>
    (url_scheme (cfg_pangolin_endpoint cfg) \<noteq> ''http'' \<or> bool_env env ''CONFIG_ALLOW_INSECURE_HTTP'' False = Inr True) \<and>
    (\<exists>raw. env ''CONFIG_ENDPOINT'' = Some raw \<and> url_parse pf raw = Some (cfg_pangolin_endpoint cfg)) \<and>
    env ''CONFIG_PARENT_GATEWAY'' = Some (cfg_parent_gateway cfg)"
proof -
  have endpoint: "(\<not> skip \<or> bool_env env ''I_UNDERSTAND_CONFIG_TLS_SKIP_VERIFY_IS_INSECURE'' False = Inr True) \<and>
    (url_scheme e \<noteq> ''http'' \<or> bool_env env ''CONFIG_ALLOW_INSECURE_HTTP'' False = Inr True) \<and>
    (\<exists>raw. env ''CONFIG_ENDPOINT'' = Some raw \<and> url_parse pf raw = Some e)"
    if "endpoint_env pf env = Inr (e, skip)" for e skip
    using that
    by (auto simp: endpoint_env_def try_then_Inr_iff ok_or_Inr_iff required_env_def split: if_splits)
  then show ?thesis
    using from_env_fields(1,2) [OF assms] by (simp add: required_env_def ok_or_Inr_iff)
qed

definition sample_env :: env where
  "sample_env = map_of [(''CONFIG_ENDPOINT'', ''http://p''), (''CONFIG_ALLOW_INSECURE_HTTP'', ''yes''),
     (''CONFIG_PARENT_GATEWAY'', ''gw'')]"

definition any_url_pf :: platform where
  "any_url_pf = \<lparr>default_hasher = \<lambda>_. 0,
     url_parse = \<lambda>s. Some \<lparr>url_as_str = s, url_scheme = ''http'', url_host_str = None, url_port_or_known_default = None\<rparr>,
     parse_duration = \<lambda>_. None\<rparr>"

lemma sample_from_env: "\<exists>cfg. from_env any_url_pf sample_env = Inr cfg"
proof -
  have yes: "to_ascii_lowercase ''yes'' = ''yes''" by code_simp
  show ?thesis
    by (simp add: from_env_def endpoint_env_def required_env_def bool_env_def duration_env_def u64_env_def
        i32_env_def ext_authz_env_def parse_kv_env_def optional_env_def sample_env_def any_url_pf_def ok_or_def
        Let_def yes)
qed

theorem insecure_needs_acknowledgement_witness:
  "\<exists>cfg. from_env any_url_pf sample_env = Inr cfg \<and>
    (\<not> cfg_tls_skip_verify cfg \<or>
      bool_env sample_env ''I_UNDERSTAND_CONFIG_TLS_SKIP_VERIFY_IS_INSECURE'' False = Inr True) \<and>
    (url_scheme (cfg_pangolin_endpoint cfg) \<noteq> ''http'' \<or>
      bool_env sample_env ''CONFIG_ALLOW_INSECURE_HTTP'' False = Inr True) \<and>
    (\<exists>raw. sample_env ''CONFIG_ENDPOINT'' = Some raw \<and> url_parse any_url_pf raw = Some (cfg_pangolin_endpoint cfg)) \<and>
    sample_env ''CONFIG_PARENT_GATEWAY'' = Some (cfg_parent_gateway cfg)"
proof -
  obtain cfg where "from_env any_url_pf sample_env = Inr cfg" using sample_from_env by blast
  from insecure_needs_acknowledgement [OF this] this show ?thesis by blast
qed

text \<open>Annotations written as \<^verbatim>\<open>k=v, k=v\<close>, of visible ASCII text.\<close>

definition visible :: "char \<Rightarrow> bool" where
  "visible c \<longleftrightarrow> 33 \<le> byte c \<and> byte c \<le> 126"

definition annotation_ok :: "string \<times> string \<Rightarrow> bool" where
  "annotation_ok kv \<longleftrightarrow>
     fst kv \<noteq> [] \<and> list_all visible (fst kv) \<and> list_all visible (snd kv) \<and>
     CHR ''='' \<notin> set (fst kv) \<and> CHR '','' \<notin> set (fst kv) \<and> CHR '','' \<notin> set (snd kv)"

definition show_kv :: "string \<times> string \<Rightarrow> string" where
  "show_kv kv = fst kv @ ''='' @ snd kv"

lemma trim_visible:
  assumes "list_all visible s" shows "trim s = s"
proof (cases "s = []")
  case True
  then show ?thesis by (simp add: trim_def trim_start_def trim_end_def)
next
  case False
  have ws: "\<forall>w\<in>set ws_seqs. w \<noteq> [] \<and> \<not> visible (hd w) \<and> \<not> visible (last w)"
    by (simp add: ws_seqs_def visible_def byte_def)
  have "visible (hd s)" "visible (last s)" using assms False by (simp_all add: list_all_iff)
  then have "\<not> ws_start (hd s)" "\<forall>w\<in>set ws_seqs. w \<noteq> [] \<and> last w \<noteq> last s"
    using ws by (auto simp: ws_start_def)
  moreover obtain c r where r: "rev s = c # r" "c = last s"
    using False by (cases "rev s") (auto simp: hd_rev [symmetric])
  ultimately have "trim_start s = s" "tok_len (map rev ws_seqs) (rev s) = 0"
    using False tok_len_0_rev [of ws_seqs "last s" r]
    by (cases s; simp add: trim_start_def skip_tok_stop ws_len_0)+
  then show ?thesis by (simp add: trim_def trim_end_def skip_tok_stop)
qed

lemma parse_kv_shown:
  assumes "list_all annotation_ok kvs"
  shows "parse_kv_entries key (map show_kv kvs) m = Inr (fold (\<lambda>(k, v). bt_insert k v) kvs m)"
  using assms
proof (induction kvs arbitrary: m)
  case (Cons kv kvs)
  obtain k v where kv: "kv = (k, v)" by fastforce
  have ok: "annotation_ok (k, v)" using Cons.prems kv by simp
  then have "visible CHR ''=''" "list_all visible (show_kv (k, v))"
    by (simp_all add: annotation_ok_def show_kv_def visible_def byte_def)
  then have "trim (show_kv (k, v)) = show_kv (k, v)" "trim k = k" "trim v = v"
    using ok by (simp_all add: trim_visible annotation_ok_def)
  moreover have "split_once CHR ''='' (show_kv (k, v)) = Some (k, v)"
    using ok by (simp add: split_once_Some_iff show_kv_def annotation_ok_def)
  moreover have "show_kv (k, v) \<noteq> []" by (simp add: show_kv_def)
  ultimately show ?case using Cons ok by (simp add: kv annotation_ok_def)
qed simp

text \<open>Annotations are read back as they were written; of equal keys the last one counts.\<close>

lemma annotations_roundtrip:
  assumes "list_all annotation_ok kvs" and "kvs \<noteq> []" and "env key = Some (join '','' (map show_kv kvs))"
  shows "\<exists>m. parse_kv_env env key = Inr m \<and> bt_wf m \<and> bt_get m = map_of (rev kvs)"
proof -
  let ?m = "fold (\<lambda>(k, v). bt_insert k v) kvs []"
  have "\<forall>p\<in>set (map show_kv kvs). CHR '','' \<notin> set p"
    using assms(1) by (auto simp: list_all_iff annotation_ok_def show_kv_def)
  then have "split_on CHR '','' (join '','' (map show_kv kvs)) = map show_kv kvs"
    using assms(2) by (intro split_on_join) simp_all
  moreover have "join '','' (map show_kv kvs) \<noteq> []"
    using assms(1,2) by (cases kvs rule: remdups_adj.cases) (auto simp: show_kv_def)
  ultimately have "parse_kv_env env key = Inr ?m"
    using assms(1,3) by (simp add: parse_kv_env_def optional_env_def parse_kv_shown)
  moreover have "bt_get ([] :: (string \<times> string) list) = Map.empty" by (simp add: bt_get_eq)
  then have "bt_wf ?m" "bt_get ?m = map_of (rev kvs)"
    using bt.wf_insert_all [of "[]" kvs] bt.get_insert_all [of "[]" kvs] by simp_all
  ultimately show ?thesis by blast
qed

lemma annotations_roundtrip_example:
  "\<exists>m. parse_kv_env [''A'' \<mapsto> ''a=x=y,b=,a=z''] ''A'' = Inr m \<and> bt_wf m \<and>
    bt_get m = map_of (rev [(''a'', ''x=y''), (''b'', ''''), (''a'', ''z'')])"
proof (rule annotations_roundtrip)
  show "list_all annotation_ok [(''a'', ''x=y''), (''b'', ''''), (''a'', ''z'')]" by code_simp
  show "[''A'' \<mapsto> ''a=x=y,b=,a=z''] ''A'' =
      Some (join '','' (map show_kv [(''a'', ''x=y''), (''b'', ''''), (''a'', ''z'')]))" by (simp add: show_kv_def)
qed simp

end
