(* ===== verification/Naming.thy ===== *)
theory Naming
  imports Platform
begin

text \<open>
  \<^verbatim>\<open>src/transform/naming.rs\<close>: names of Kubernetes objects. \<open>dns_label\<close> maps any string to an
  RFC 1123 label; \<open>is_dns_label\<close> is that contract, stated on its own. The properties show
  that every output meets it whatever the hash function returns, and which inputs are
  left unchanged.
\<close>

section \<open>The code\<close>

definition MAX_DNS_LABEL :: nat where
  "MAX_DNS_LABEL = 63"

text \<open>The characters of a UTF-8 string, each as its bytes.\<close>

function utf8_chars :: "string \<Rightarrow> string list" where
  "utf8_chars [] = []"
| "utf8_chars (c # s) = (c # takeWhile is_continuation s) # utf8_chars (dropWhile is_continuation s)"
  by pat_completeness auto
termination
  by (relation "measure length") (auto simp: le_imp_less_Suc length_dropWhile_le)

fun dns_char :: "string \<Rightarrow> char" where
  "dns_char [c] =
     (if is_upper c then char_to_lower c
      else if is_lower c \<or> is_digit c \<or> c = CHR ''-'' then c
      else CHR ''-'')"
| "dns_char _ = CHR ''-''"

fun collapse_from :: "bool \<Rightarrow> string \<Rightarrow> string" where
  "collapse_from prev_dash [] = []"
| "collapse_from prev_dash (c # s) =
     (if c = CHR ''-'' then
        (if prev_dash then collapse_from True s else CHR ''-'' # collapse_from True s)
      else c # collapse_from False s)"

definition collapse_dashes :: "string \<Rightarrow> string" where
  "collapse_dashes s = collapse_from False s"

definition dns_label :: "platform \<Rightarrow> string \<Rightarrow> string" where
  "dns_label pf input =
     (let cleaned = map dns_char (utf8_chars input);
          collapsed = collapse_dashes cleaned;
          trimmed = trim_matches CHR ''-'' collapsed;
          base = (if trimmed = [] then ''pangolin'' else trimmed)
      in if length base \<le> MAX_DNS_LABEL then base
         else
           let suffix = CHR ''-'' # show_hex (unat (and (default_hasher pf input) 0xffffffff));
               head_len = MAX_DNS_LABEL - length suffix;
               head = trim_end_matches CHR ''-'' (take head_len base)
           in head @ suffix)"

definition prefixed_label :: "platform \<Rightarrow> string \<Rightarrow> string \<Rightarrow> string" where
  "prefixed_label pf pre name = dns_label pf (pre @ ''-'' @ name)"

declare MAX_DNS_LABEL_def [exec] collapse_dashes_def [exec] dns_label_def [exec]
  prefixed_label_def [exec]

section \<open>The contract\<close>

definition label_char :: "char \<Rightarrow> bool" where
  "label_char c \<longleftrightarrow> is_lower c \<or> is_digit c \<or> c = CHR ''-''"

definition is_dns_label :: "string \<Rightarrow> bool" where
  "is_dns_label s \<longleftrightarrow>
     s \<noteq> [] \<and> length s \<le> 63 \<and> list_all label_char s \<and> hd s \<noteq> CHR ''-'' \<and> last s \<noteq> CHR ''-''"

fun no_double_dash :: "string \<Rightarrow> bool" where
  "no_double_dash (a # b # s) \<longleftrightarrow>
     \<not> (a = CHR ''-'' \<and> b = CHR ''-'') \<and> no_double_dash (b # s)"
| "no_double_dash _ \<longleftrightarrow> True"

text \<open>The labels that \<^const>\<open>dns_label\<close> leaves alone: those without two dashes in a row.\<close>

definition canonical_label :: "string \<Rightarrow> bool" where
  "canonical_label s \<longleftrightarrow> is_dns_label s \<and> no_double_dash s"

declare label_char_def [exec] is_dns_label_def [exec] canonical_label_def [exec]

section \<open>Lemmas\<close>

lemma label_char_dns_char: "label_char (dns_char cs)"
  by (cases cs rule: dns_char.cases) (auto simp: label_char_def is_lower_to_lower)

lemma set_collapse_from: "set (collapse_from b s) \<subseteq> set s"
  by (induction b s rule: collapse_from.induct) auto

lemma collapse_from_True_hd: "collapse_from True s \<noteq> [] \<Longrightarrow> hd (collapse_from True s) \<noteq> CHR ''-''"
  by (induction s) auto

lemma no_double_Cons:
  "no_double_dash (c # s) \<longleftrightarrow> no_double_dash s \<and> (c = CHR ''-'' \<longrightarrow> s = [] \<or> hd s \<noteq> CHR ''-'')"
  by (cases s) auto

lemma no_double_collapse: "no_double_dash (collapse_from b s)"
  by (induction b s rule: collapse_from.induct)
     (auto simp: no_double_Cons dest: collapse_from_True_hd)

lemma collapse_id:
  "no_double_dash s \<Longrightarrow> \<not> b \<or> s = [] \<or> hd s \<noteq> CHR ''-'' \<Longrightarrow> collapse_from b s = s"
  by (induction b s rule: collapse_from.induct) (auto simp: no_double_Cons)

lemma no_double_append_dash:
  "no_double_dash (a @ CHR ''-'' # b) \<longleftrightarrow>
     no_double_dash a \<and> no_double_dash (CHR ''-'' # b) \<and> (a = [] \<or> last a \<noteq> CHR ''-'')"
  by (induction a rule: no_double_dash.induct) (auto simp: no_double_Cons)

lemma no_double_appendD1: "no_double_dash (a @ b) \<Longrightarrow> no_double_dash a"
  by (induction a rule: no_double_dash.induct) (auto simp: no_double_Cons)

lemma no_double_no_dash: "CHR ''-'' \<notin> set s \<Longrightarrow> no_double_dash (CHR ''-'' # s)"
proof (induction s)
  case (Cons c s)
  then show ?case by (auto simp: no_double_Cons)
qed simp

lemma utf8_chars_ascii: "\<forall>c\<in>set s. \<not> is_continuation c \<Longrightarrow> utf8_chars s = map (\<lambda>c. [c]) s"
proof (induction s)
  case (Cons c s)
  have "dropWhile is_continuation s = s" and "takeWhile is_continuation s = []"
    using Cons.prems by (cases s; simp)+
  with Cons show ?case by simp
qed simp

lemma label_char_ascii: "label_char c \<Longrightarrow> \<not> is_continuation c"
  by (auto simp: label_char_def is_continuation_def is_lower_def is_digit_def byte_def)

lemma dns_char_label: "label_char c \<Longrightarrow> dns_char [c] = c"
  by (auto simp: label_char_def lower_not_upper) (auto simp: is_upper_def is_digit_def byte_def)

lemma clean_label:
  assumes "list_all label_char s" shows "map dns_char (utf8_chars s) = s"
proof -
  have "map dns_char (utf8_chars s) = map (\<lambda>c. dns_char [c]) s"
    using assms by (simp add: utf8_chars_ascii label_char_ascii list_all_iff)
  also have "\<dots> = map (\<lambda>c. c) s"
    using assms by (intro map_cong refl) (simp add: dns_char_label list_all_iff del: dns_char.simps)
  finally show ?thesis by simp
qed

text \<open>Hexadecimal suffixes.\<close>

lemma digit_char_label: "n < 16 \<Longrightarrow> label_char (digit_char n) \<and> digit_char n \<noteq> CHR ''-''"
proof -
  assume "n < 16"
  then have "digit_char n \<in> set ''0123456789abcdef''"
    unfolding digit_char_def by (intro nth_mem) simp
  moreover have "\<forall>c\<in>set ''0123456789abcdef''. label_char c \<and> c \<noteq> CHR ''-''"
    by (simp add: exec)
  ultimately show ?thesis by blast
qed

lemma show_hex_chars: "\<forall>c\<in>set (show_radix 16 n). label_char c \<and> c \<noteq> CHR ''-''"
proof (induction "16::nat" n rule: show_radix.induct)
  case (1 n)
  then show ?case
    by (subst show_radix.simps) (auto simp: digit_char_label)
qed

lemma and_mask32_less: "unat (and (w :: 64 word) 0xffffffff) < 16 ^ 8"
proof -
  have "and w 0xffffffff \<le> (0xffffffff :: 64 word)" by (rule word_and_le1)
  then show ?thesis by (simp add: word_le_nat_alt)
qed

lemma trim_end_matches_prefix: "\<exists>r. s = trim_end_matches c s @ r"
  using takeWhile_dropWhile_id [of "\<lambda>x. x = c" "rev s"]
  by (metis trim_end_matches_def rev_append rev_rev_ident)

lemma trim_end_matches_last: "trim_end_matches c s \<noteq> [] \<Longrightarrow> last (trim_end_matches c s) \<noteq> c"
  unfolding trim_end_matches_def using last_rev_dropWhile [of "\<lambda>x. x = c" s] by blast

lemma trim_end_matches_hd:
  assumes "s \<noteq> []" and "hd s \<noteq> c"
  shows "trim_end_matches c s \<noteq> [] \<and> hd (trim_end_matches c s) = hd s"
proof -
  have "dropWhile (\<lambda>x. x = c) (rev s) \<noteq> []"
    using assms by (auto simp: dropWhile_eq_Nil_conv intro!: bexI [of _ "hd s"])
  then have ne: "trim_end_matches c s \<noteq> []" by (simp add: trim_end_matches_def)
  with trim_end_matches_prefix [of s c] show ?thesis by (metis hd_append2)
qed


lemma dns_trimmed:
  defines "t s \<equiv> trim_matches CHR ''-'' (collapse_dashes (map dns_char (utf8_chars s)))"
  shows "list_all label_char (t s)" and "no_double_dash (t s)"
    and "t s \<noteq> [] \<Longrightarrow> hd (t s) \<noteq> CHR ''-''" and "t s \<noteq> [] \<Longrightarrow> last (t s) \<noteq> CHR ''-''"
proof -
  let ?u = "collapse_dashes (map dns_char (utf8_chars s))"
  have "set (t s) \<subseteq> set ?u" unfolding t_def by (rule set_trim_matches)
  also have "set ?u \<subseteq> set (map dns_char (utf8_chars s))"
    unfolding collapse_dashes_def by (rule set_collapse_from)
  finally show "list_all label_char (t s)" by (auto simp: list_all_iff label_char_dns_char)
  obtain a where a: "?u = a @ trim_start_matches CHR ''-'' ?u"
    unfolding trim_start_matches_def by (metis takeWhile_dropWhile_id)
  obtain b where b: "trim_start_matches CHR ''-'' ?u = t s @ b"
    using trim_end_matches_prefix unfolding t_def trim_matches_def by blast
  have "no_double_dash ?u" by (simp add: collapse_dashes_def no_double_collapse)
  then have "no_double_dash (a @ t s @ b)" using a b by simp
  moreover have "no_double_dash (xs @ ys) \<Longrightarrow> no_double_dash ys" for xs ys
    by (induction xs) (auto simp: no_double_Cons)
  ultimately show "no_double_dash (t s)" by (blast dest: no_double_appendD1)
  show "t s \<noteq> [] \<Longrightarrow> hd (t s) \<noteq> CHR ''-''" unfolding t_def by (rule trim_matches_hd)
  show "t s \<noteq> [] \<Longrightarrow> last (t s) \<noteq> CHR ''-''" unfolding t_def by (rule trim_matches_last)
qed

lemma dns_suffix:
  fixes w :: "64 word"
  defines "h \<equiv> show_hex (unat (and w 0xffffffff))"
  shows "length (CHR ''-'' # h) \<le> 9" and "list_all label_char h" and "CHR ''-'' \<notin> set h" and "h \<noteq> []"
proof -
  have "length h \<le> 8"
    unfolding h_def show_hex_def by (rule show_radix_length [OF _ and_mask32_less]) simp_all
  then show "length (CHR ''-'' # h) \<le> 9" by simp
  show "list_all label_char h" and "CHR ''-'' \<notin> set h" and "h \<noteq> []"
    using show_hex_chars by (auto simp: h_def show_hex_def list_all_iff)
qed

lemma canonical_pangolin: "canonical_label ''pangolin''"
  by (simp add: exec)

text \<open>A long name: a cut prefix of a clean label, then the hash.\<close>

lemma canonical_cut:
  assumes b: "list_all label_char b" "no_double_dash b" "b \<noteq> []" "hd b \<noteq> CHR ''-''"
    and n: "0 < n" and len: "n + length (CHR ''-'' # h) \<le> 63"
    and h: "list_all label_char h" "CHR ''-'' \<notin> set h" "h \<noteq> []"
  shows "canonical_label (trim_end_matches CHR ''-'' (take n b) @ CHR ''-'' # h)"
proof -
  let ?t = "trim_end_matches CHR ''-'' (take n b)"
  have take: "take n b \<noteq> []" "hd (take n b) = hd b" using b n by (auto simp: hd_take)
  then have t: "?t \<noteq> []" "hd ?t = hd b" using trim_end_matches_hd [of "take n b"] b by auto
  have last: "last ?t \<noteq> CHR ''-''" using t(1) by (rule trim_end_matches_last)
  obtain r where r: "take n b = ?t @ r" using trim_end_matches_prefix by blast
  then have pre: "b = ?t @ r @ drop n b" by (metis append.assoc append_take_drop_id)
  then have "no_double_dash ?t" using b(2) by (metis no_double_appendD1)
  then have "no_double_dash (?t @ CHR ''-'' # h)"
    using h last by (simp add: no_double_append_dash no_double_no_dash)
  moreover have "length ?t \<le> n" using r by (metis length_append le_add1 length_take min.bounded_iff)
  moreover have "list_all label_char ?t" using b(1) pre by (metis list_all_append)
  moreover have "label_char CHR ''-''" by (simp add: label_char_def)
  moreover have "last h \<noteq> CHR ''-''" using h by (metis last_in_set)
  ultimately show ?thesis
    using t b len h by (simp add: canonical_label_def is_dns_label_def)
qed

lemma dns_label_canonical [label_intros]: "canonical_label (dns_label pf s)"
proof -
  let ?t = "trim_matches CHR ''-'' (collapse_dashes (map dns_char (utf8_chars s)))"
  let ?b = "if ?t = [] then ''pangolin'' else ?t"
  let ?h = "show_hex (unat (and (default_hasher pf s) 0xffffffff))"
  note t = dns_trimmed [of s]
  have b: "list_all label_char ?b" "no_double_dash ?b" "?b \<noteq> []" "hd ?b \<noteq> CHR ''-''"
    "last ?b \<noteq> CHR ''-''"
    using t canonical_pangolin by (auto simp: canonical_label_def is_dns_label_def)
  show ?thesis
  proof (cases "length ?b \<le> 63")
    case True
    then have "dns_label pf s = ?b"
      by (simp only: dns_label_def Let_def MAX_DNS_LABEL_def if_True)
    with b True show ?thesis by (simp only: canonical_label_def is_dns_label_def simp_thms)
  next
    case False
    note h = dns_suffix [of "default_hasher pf s"]
    have "dns_label pf s = trim_end_matches CHR ''-'' (take (63 - length (CHR ''-'' # ?h)) ?b)
        @ CHR ''-'' # ?h"
      using False by (simp only: dns_label_def Let_def MAX_DNS_LABEL_def if_False)
    moreover have "canonical_label \<dots>"
      by (rule canonical_cut [OF b(1-4) _ _ h(2-4)]) (use h(1) in linarith)+
    ultimately show ?thesis by simp
  qed
qed

lemma dns_label_label [label_intros]: "is_dns_label (dns_label pf s)"
  using dns_label_canonical by (simp add: canonical_label_def)

lemma prefixed_label_canonical [label_intros]: "canonical_label (prefixed_label pf p n)"
  unfolding prefixed_label_def by (rule dns_label_canonical)

lemma prefixed_label_label [label_intros]: "is_dns_label (prefixed_label pf p n)"
  unfolding prefixed_label_def by (rule dns_label_label)

lemma dns_label_id: "canonical_label s \<Longrightarrow> dns_label pf s = s"
  by (auto simp: canonical_label_def is_dns_label_def dns_label_def Let_def clean_label
      collapse_dashes_def collapse_id trim_matches_id MAX_DNS_LABEL_def)

lemma canonical_prefixed:
  assumes "canonical_label p" and "canonical_label n" and "length p + length n \<le> 62"
  shows "canonical_label (p @ ''-'' @ n)"
  using assms
  by (auto simp: canonical_label_def is_dns_label_def no_double_append_dash no_double_Cons
      label_char_def [of "CHR ''-''"])

lemma prefixed_label_id:
  assumes "canonical_label p" and "canonical_label n" and "length p + length n \<le> 62"
  shows "prefixed_label pf p n = p @ ''-'' @ n"
  unfolding prefixed_label_def using canonical_prefixed [OF assms] by (rule dns_label_id)

section \<open>Properties\<close>

text \<open>C23: Any string becomes a legal RFC 1123 label without double dashes, and a label that is
  already of that form is left alone; so applying the function twice changes nothing.\<close>

theorem dns_label_safe: "canonical_label (dns_label pf s) \<and> dns_label pf (dns_label pf s) = dns_label pf s"
  using dns_label_canonical by (simp add: dns_label_id)

text \<open>Prefixing keeps short names apart.\<close>

lemma prefixed_label_injective:
  assumes "canonical_label p" and "canonical_label a" and "canonical_label b"
    and "length p + length a \<le> 62" and "length p + length b \<le> 62"
  shows "prefixed_label pf p a = prefixed_label pf p b \<longleftrightarrow> a = b"
  using assms by (auto simp: prefixed_label_id)

end
