(* ===== verification/Kube_Types.thy ===== *)
theory Kube_Types
  imports Naming
begin

text \<open>
  The Kubernetes objects the controller writes. The Envoy Gateway kinds are
  \<^verbatim>\<open>src/envoy_gateway.rs\<close>; of the \<^verbatim>\<open>k8s-openapi\<close> and \<^verbatim>\<open>gateway-api\<close> types the records keep the
  fields the program sets (the others are left at their default by the code). \<open>desired\<close> is
  \<^verbatim>\<open>Desired\<close> of \<^verbatim>\<open>src/transform/mod.rs\<close>.
\<close>

section \<open>Metadata\<close>

record object_meta =
  om_name :: "string option"
  om_namespace :: "string option"
  om_labels :: "(string \<times> string) list option"
  om_annotations :: "(string \<times> string) list option"

section \<open>Core kinds\<close>

record service_port =
  sport_name :: "string option"
  sport_port :: port
  sport_target_port :: "port option"
  sport_protocol :: "string option"

record service_spec =
  sspec_cluster_ip :: "string option"
  sspec_type :: "string option"
  sspec_ports :: "service_port list option"

record k8s_service =
  svc_metadata :: object_meta
  svc_spec :: "service_spec option"

record endpoint =
  ep_addresses :: "string list"

record endpoint_port =
  eport_name :: "string option"
  eport_port :: "port option"
  eport_protocol :: "string option"

record endpoint_slice =
  es_metadata :: object_meta
  es_address_type :: string
  es_endpoints :: "endpoint list"
  es_ports :: "endpoint_port list option"

section \<open>Envoy Gateway kinds (\<^verbatim>\<open>src/envoy_gateway.rs\<close>)\<close>

record backend_tls_settings =
  bts_well_known_ca_certificates :: "string option"
  bts_insecure_skip_verify :: "bool option"
  bts_sni :: "string option"

record backend_ip =
  bip_address :: string
  bip_port :: port

record backend_fqdn =
  bfqdn_hostname :: string
  bfqdn_port :: port

record backend_endpoint =
  be_ip :: "backend_ip option"
  be_fqdn :: "backend_fqdn option"

record backend_spec =
  bspec_endpoints :: "backend_endpoint list"
  bspec_tls :: "backend_tls_settings option"

record envoy_backend =
  eb_metadata :: object_meta
  eb_spec :: backend_spec

record policy_target_ref =
  ptr_group :: string
  ptr_kind :: string
  ptr_name :: string

record ext_auth_backend_ref =
  eab_name :: string
  eab_namespace :: "string option"
  eab_port :: "port option"

record http_ext_auth_service =
  heas_backend_refs :: "ext_auth_backend_ref list"
  heas_path :: "string option"
  heas_headers_to_backend :: "string list option"

record ext_auth =
  ea_http :: "http_ext_auth_service option"
  ea_headers_to_ext_auth :: "string list option"
  ea_fail_open :: "bool option"

record security_policy_spec =
  sps_target_refs :: "policy_target_ref list"
  sps_ext_auth :: "ext_auth option"

record security_policy =
  sp_metadata :: object_meta
  sp_spec :: security_policy_spec

section \<open>Gateway API kinds\<close>

record btp_target_ref =
  btr_group :: string
  btr_kind :: string
  btr_name :: string

record btp_validation =
  btv_hostname :: string
  btv_well_known_ca_certificates :: "string option"

record backend_tls_policy =
  btp_metadata :: object_meta
  btp_target_refs :: "btp_target_ref list"
  btp_validation :: btp_validation

datatype filter_type = RequestRedirect | RequestHeaderModifier | ResponseHeaderModifier | UrlRewrite

datatype redirect_scheme = Http | Https

record request_redirect =
  rr_scheme :: "redirect_scheme option"
  rr_port :: "port option"

record header_set =
  hs_name :: string
  hs_value :: string

record header_modifier =
  hm_set :: "header_set list option"

datatype rewrite_path_type = ReplaceFullPath | ReplacePrefixMatch

record rewrite_path =
  rp_type :: rewrite_path_type
  rp_replace_full_path :: "string option"
  rp_replace_prefix_match :: "string option"

record url_rewrite =
  ur_hostname :: "string option"
  ur_path :: "rewrite_path option"

record http_filter =
  f_type :: filter_type
  f_request_redirect :: "request_redirect option"
  f_request_header_modifier :: "header_modifier option"
  f_response_header_modifier :: "header_modifier option"
  f_url_rewrite :: "url_rewrite option"

datatype path_match_type = MatchExact | MatchPathPrefix | MatchRegularExpression

record http_path_match =
  hpm_type :: "path_match_type option"
  hpm_value :: "string option"

record http_match =
  hmatch_path :: "http_path_match option"

record parent_ref =
  pref_group :: "string option"
  pref_kind :: "string option"
  pref_name :: string
  pref_namespace :: "string option"
  pref_section_name :: "string option"

record backend_ref =
  bref_group :: "string option"
  bref_kind :: "string option"
  bref_name :: string
  bref_namespace :: "string option"
  bref_port :: "port option"
  bref_weight :: "int option"

record http_rule =
  hr_matches :: "http_match list option"
  hr_filters :: "http_filter list option"
  hr_backend_refs :: "backend_ref list option"

record http_route =
  hroute_metadata :: object_meta
  hroute_parent_refs :: "parent_ref list option"
  hroute_hostnames :: "string list option"
  hroute_rules :: "http_rule list option"

text \<open>\<^verbatim>\<open>TCPRoute\<close> and \<^verbatim>\<open>UDPRoute\<close> have the same fields.\<close>

record l4_route =
  l4route_metadata :: object_meta
  l4route_parent_refs :: "parent_ref list option"
  l4route_rules :: "backend_ref list list"

datatype tls_mode = Terminate | Passthrough

record certificate_ref =
  cref_group :: "string option"
  cref_kind :: "string option"
  cref_name :: string
  cref_namespace :: "string option"

record listener_tls =
  ltls_mode :: "tls_mode option"
  ltls_certificate_refs :: "certificate_ref list option"

record listener =
  lis_name :: string
  lis_hostname :: "string option"
  lis_port :: port
  lis_protocol :: string
  lis_tls :: "listener_tls option"

record listener_set =
  lset_metadata :: object_meta
  lset_parent_ref :: parent_ref
  lset_listeners :: "listener list"

section \<open>The desired state\<close>

record desired =
  d_http_routes :: "(string \<times> http_route) list"
  d_listener_sets :: "(string \<times> listener_set) list"
  d_services :: "(string \<times> k8s_service) list"
  d_endpoint_slices :: "(string \<times> endpoint_slice) list"
  d_envoy_backends :: "(string \<times> envoy_backend) list"
  d_tcp_routes :: "(string \<times> l4_route) list"
  d_udp_routes :: "(string \<times> l4_route) list"
  d_security_policies :: "(string \<times> security_policy) list"
  d_backend_tls_policies :: "(string \<times> backend_tls_policy) list"

definition empty_desired :: desired where
  "empty_desired = \<lparr>d_http_routes = [], d_listener_sets = [], d_services = [],
     d_endpoint_slices = [], d_envoy_backends = [], d_tcp_routes = [], d_udp_routes = [],
     d_security_policies = [], d_backend_tls_policies = []\<rparr>"

declare empty_desired_def [exec]

section \<open>Kinds and names\<close>

text \<open>
  The nine kinds, in the order in which \<open>reconcile_once\<close> applies them: what a later kind
  refers to comes earlier. The order is made the \<^verbatim>\<open>linorder\<close> of the type, so that
  "applied in dependency order" is \<^const>\<open>sorted\<close>.
\<close>

datatype obj_kind =
    KService | KEndpointSlice | KBackend | KBackendTLSPolicy | KListenerSet
  | KHTTPRoute | KTCPRoute | KUDPRoute | KSecurityPolicy

fun apply_rank :: "obj_kind \<Rightarrow> nat" where
  "apply_rank KService = 0"
| "apply_rank KEndpointSlice = 1"
| "apply_rank KBackend = 2"
| "apply_rank KBackendTLSPolicy = 3"
| "apply_rank KListenerSet = 4"
| "apply_rank KHTTPRoute = 5"
| "apply_rank KTCPRoute = 6"
| "apply_rank KUDPRoute = 7"
| "apply_rank KSecurityPolicy = 8"

lemma apply_rank_inject [simp]: "apply_rank k = apply_rank l \<longleftrightarrow> k = l"
  by (cases k; cases l) auto

instantiation obj_kind :: linorder
begin

definition less_eq_obj_kind :: "obj_kind \<Rightarrow> obj_kind \<Rightarrow> bool" where
  "k \<le> l \<longleftrightarrow> apply_rank k \<le> apply_rank l"

definition less_obj_kind :: "obj_kind \<Rightarrow> obj_kind \<Rightarrow> bool" where
  "k < l \<longleftrightarrow> apply_rank k < apply_rank l"

instance
  by standard (auto simp: less_eq_obj_kind_def less_obj_kind_def)

end

text \<open>The names the desired state holds of a kind: the keys of that kind's map.\<close>

fun d_keys :: "desired \<Rightarrow> obj_kind \<Rightarrow> string list" where
  "d_keys d KService = bt_keys (d_services d)"
| "d_keys d KEndpointSlice = bt_keys (d_endpoint_slices d)"
| "d_keys d KBackend = bt_keys (d_envoy_backends d)"
| "d_keys d KBackendTLSPolicy = bt_keys (d_backend_tls_policies d)"
| "d_keys d KListenerSet = bt_keys (d_listener_sets d)"
| "d_keys d KHTTPRoute = bt_keys (d_http_routes d)"
| "d_keys d KTCPRoute = bt_keys (d_tcp_routes d)"
| "d_keys d KUDPRoute = bt_keys (d_udp_routes d)"
| "d_keys d KSecurityPolicy = bt_keys (d_security_policies d)"

definition d_names :: "desired \<Rightarrow> (obj_kind \<times> string) set" where
  "d_names d = {(k, n). n \<in> set (d_keys d k)}"

lemma in_d_names [simp]: "(k, n) \<in> d_names d \<longleftrightarrow> n \<in> set (d_keys d k)"
  by (simp add: d_names_def)

lemma d_names_mono: "(\<And>k. set (d_keys d k) \<subseteq> set (d_keys d' k)) \<Longrightarrow> d_names d \<subseteq> d_names d'"
  by (auto simp: d_names_def)

end
