(* ===== verification/Apply.thy ===== *)
theory Apply
  imports Config Kube_Types
begin

text \<open>
  The metadata part of \<^verbatim>\<open>src/apply.rs\<close>, the well-formedness of the desired state and the
  contract of the transform's loops. Every object the transform emits is stored under its
  own name, which is an RFC 1123 label, lives in the controller's namespace and carries
  the owner labels by which the garbage collector finds it again (\<open>wf_desired\<close>). The
  locale \<open>desired_builder\<close> is the contract of one loop body: it keeps well-formedness and
  only adds objects; each loop of the transform interprets it where it is defined.
\<close>

section \<open>The code\<close>

definition owner_labels :: "config \<Rightarrow> string \<Rightarrow> (string \<times> string) list" where
  "owner_labels cfg name =
     bt_insert (cfg_instance_label_key cfg) (cfg_instance_label_value cfg)
       (bt_insert (cfg_managed_label_key cfg) (cfg_managed_label_value cfg) [])"

definition managed_metadata_with ::
  "config \<Rightarrow> string \<Rightarrow> (string \<times> string) list \<Rightarrow> (string \<times> string) list \<Rightarrow> object_meta" where
  "managed_metadata_with cfg name labels extra_annotations =
     (let annotations =
        fold (\<lambda>(k, v). bt_insert k v) extra_annotations
          (bt_insert (cfg_managed_annotation_key cfg) (cfg_managed_annotation_value cfg) [])
      in \<lparr>om_name = Some name, om_namespace = Some (cfg_namespace cfg),
          om_labels = Some labels, om_annotations = Some annotations\<rparr>)"

definition managed_metadata :: "config \<Rightarrow> string \<Rightarrow> (string \<times> string) list \<Rightarrow> object_meta" where
  "managed_metadata cfg name labels = managed_metadata_with cfg name labels []"

declare owner_labels_def [exec] managed_metadata_with_def [exec] managed_metadata_def [exec]

section \<open>Ownership\<close>

text \<open>
  The label selector of \<^const>\<open>managed_selector\<close>, \<^verbatim>\<open>k1=v1,k2=v2\<close>, matches the objects that
  carry both labels.
\<close>

definition selected :: "config \<Rightarrow> (string \<times> string) list \<Rightarrow> bool" where
  "selected cfg ls \<longleftrightarrow>
     bt_get ls (cfg_managed_label_key cfg) = Some (cfg_managed_label_value cfg) \<and>
     bt_get ls (cfg_instance_label_key cfg) = Some (cfg_instance_label_value cfg)"

definition service_name_label :: string where
  "service_name_label = ''kubernetes.io/service-name''"

definition owned_labels :: "config \<Rightarrow> (string \<times> string) list \<Rightarrow> bool" where
  "owned_labels cfg ls \<longleftrightarrow>
     ls = owner_labels cfg [] \<or> (\<exists>s. ls = bt_insert service_name_label s (owner_labels cfg []))"

definition meta_ok :: "config \<Rightarrow> string \<Rightarrow> object_meta \<Rightarrow> bool" where
  "meta_ok cfg n m \<longleftrightarrow>
     is_dns_label n \<and> om_name m = Some n \<and> om_namespace m = Some (cfg_namespace cfg) \<and>
     (\<exists>ls. om_labels m = Some ls \<and> owned_labels cfg ls)"

definition entries_ok :: "config \<Rightarrow> ('a \<Rightarrow> object_meta) \<Rightarrow> (string \<times> 'a) list \<Rightarrow> bool" where
  "entries_ok cfg meta m \<longleftrightarrow> bt_wf m \<and> (\<forall>(n, x) \<in> set m. meta_ok cfg n (meta x))"

definition wf_desired :: "config \<Rightarrow> desired \<Rightarrow> bool" where
  "wf_desired cfg d \<longleftrightarrow>
     entries_ok cfg hroute_metadata (d_http_routes d) \<and>
     entries_ok cfg lset_metadata (d_listener_sets d) \<and>
     entries_ok cfg svc_metadata (d_services d) \<and>
     entries_ok cfg es_metadata (d_endpoint_slices d) \<and>
     entries_ok cfg eb_metadata (d_envoy_backends d) \<and>
     entries_ok cfg l4route_metadata (d_tcp_routes d) \<and>
     entries_ok cfg l4route_metadata (d_udp_routes d) \<and>
     entries_ok cfg sp_metadata (d_security_policies d) \<and>
     entries_ok cfg btp_metadata (d_backend_tls_policies d)"

lemma owner_labels_name: "owner_labels cfg n = owner_labels cfg []"
  by (simp add: owner_labels_def)

lemma bt_wf_owner_labels [simp]: "bt_wf (owner_labels cfg n)"
  by (simp add: owner_labels_def bt_wf_insert)

lemma owned_owner_labels [wf_intros]: "owned_labels cfg (owner_labels cfg n)"
  by (simp add: owned_labels_def owner_labels_def)

lemma owned_slice_labels [wf_intros]:
  "owned_labels cfg (bt_insert service_name_label s (owner_labels cfg n))"
  by (auto simp: owned_labels_def owner_labels_def)

text \<open>
  The owner labels are found again by the selector when its two keys differ (and the
  EndpointSlice's own label is neither of them).
\<close>

lemma owned_selected:
  assumes "owned_labels cfg ls" and "cfg_managed_label_key cfg \<noteq> cfg_instance_label_key cfg"
    and "service_name_label \<notin> {cfg_managed_label_key cfg, cfg_instance_label_key cfg}"
  shows "selected cfg ls"
  using assms
  by (auto simp: owned_labels_def selected_def owner_labels_def bt_get_insert_same
      bt_get_insert_other)

text \<open>With equal keys the two values exclude each other, and the selector finds nothing.\<close>

lemma equal_keys_select_nothing:
  assumes "cfg_managed_label_key cfg = cfg_instance_label_key cfg"
    and "cfg_managed_label_value cfg \<noteq> cfg_instance_label_value cfg"
  shows "\<not> selected cfg ls"
  using assms by (simp add: selected_def)

lemma meta_ok_with [wf_intros]:
  "is_dns_label n \<Longrightarrow> owned_labels cfg ls \<Longrightarrow> meta_ok cfg n (managed_metadata_with cfg n ls extra)"
  by (simp add: meta_ok_def managed_metadata_with_def)

lemma meta_ok_managed [wf_intros]:
  "is_dns_label n \<Longrightarrow> owned_labels cfg ls \<Longrightarrow> meta_ok cfg n (managed_metadata cfg n ls)"
  by (simp add: managed_metadata_def meta_ok_with)

lemma entries_ok_Nil [simp]: "entries_ok cfg meta []"
  by (simp add: entries_ok_def)

lemma entries_ok_insert [wf_intros]:
  "entries_ok cfg meta m \<Longrightarrow> meta_ok cfg n (meta x) \<Longrightarrow> entries_ok cfg meta (bt_insert n x m)"
  by (auto simp: entries_ok_def dest: in_bt_insertD)

lemma entries_okD: "entries_ok cfg meta m \<Longrightarrow> bt_get m n = Some x \<Longrightarrow> meta_ok cfg n (meta x)"
  by (auto simp: entries_ok_def dest: bt_get_SomeD)

lemma wf_empty_desired [simp]: "wf_desired cfg empty_desired"
  by (simp add: wf_desired_def empty_desired_def)

section \<open>The contract of the transform's loops\<close>

locale desired_builder =
  fixes cfg :: config
    and step :: "'a \<Rightarrow> 's \<Rightarrow> 's"
    and view :: "'s \<Rightarrow> desired"
  assumes keeps: "wf_desired cfg (view s) \<Longrightarrow> wf_desired cfg (view (step x s))"
    and grows: "d_names (view s) \<subseteq> d_names (view (step x s))"
begin

lemma fold_keeps: "wf_desired cfg (view s) \<Longrightarrow> wf_desired cfg (view (fold step xs s))"
  by (induction xs arbitrary: s) (auto intro: keeps)

lemma fold_grows: "d_names (view s) \<subseteq> d_names (view (fold step xs s))"
proof (induction xs arbitrary: s)
  case (Cons x xs)
  show ?case using grows [of s x] Cons [of "step x s"] by simp
qed simp

lemma fold_emits:
  assumes "x \<in> set xs" and "\<And>s. kn \<in> d_names (view (step x s))"
  shows "kn \<in> d_names (view (fold step xs s))"
proof -
  from assms(1) obtain ys zs where xs: "xs = ys @ x # zs" by (meson split_list)
  show ?thesis
    using assms(2) [of "fold step ys s"] fold_grows [of "step x (fold step ys s)" zs]
    by (auto simp: xs)
qed

end

end
