(* ===== verification/Ip_Addr.thy ===== *)
theory Ip_Addr
  imports Rust_Str "HOL-Library.Monad_Syntax"
begin

text \<open>
  \<^verbatim>\<open>std::net::IpAddr\<close>: the textual parser and the printer that the backend
  classification relies on to tell an address from a host name. The parser is the
  recursive descent of the standard library: a reader takes the rest of the input and
  gives a value and what is left, or nothing and then nothing is consumed.
\<close>

datatype ip_addr = V4 "8 word" "8 word" "8 word" "8 word" | V6 "16 word list"

section \<open>Parsing\<close>

fun read_given_char :: "char \<Rightarrow> string \<Rightarrow> string option" where
  "read_given_char c [] = None"
| "read_given_char c (x # s) = (if x = c then Some s else None)"

text \<open>At most \<open>max_digits\<close> digits; \<open>bound\<close> is the largest value of the target type.\<close>

definition read_number :: "nat \<Rightarrow> nat \<Rightarrow> bool \<Rightarrow> nat \<Rightarrow> string \<Rightarrow> (nat \<times> string) option" where
  "read_number radix max_digits allow_zero_prefix bound s =
     (let ds = takeWhile (\<lambda>c. to_digit radix c \<noteq> None) s;
          v = digits_value radix ds
      in if length ds > max_digits \<or> ds = [] then None
         else if \<not> allow_zero_prefix \<and> hd ds = CHR ''0'' \<and> length ds > 1 then None
         else if v \<le> bound then Some (v, drop (length ds) s) else None)"

text \<open>\<^verbatim>\<open>read_separator\<close>: the separator comes before every item but the first.\<close>

definition read_separator ::
  "char \<Rightarrow> nat \<Rightarrow> (string \<Rightarrow> ('a \<times> string) option) \<Rightarrow> string \<Rightarrow> ('a \<times> string) option" where
  "read_separator sep index inner s =
     (if index > 0 then do { s' \<leftarrow> read_given_char sep s; inner s' } else inner s)"

definition read_octet :: "nat \<Rightarrow> string \<Rightarrow> (8 word \<times> string) option" where
  "read_octet index s = do {
     (n, r) \<leftarrow> read_separator CHR ''.'' index (read_number 10 3 False 255) s;
     Some (of_nat n, r) }"

definition read_ipv4_addr ::
  "string \<Rightarrow> ((8 word \<times> 8 word \<times> 8 word \<times> 8 word) \<times> string) option" where
  "read_ipv4_addr s = do {
     (a, s1) \<leftarrow> read_octet 0 s;
     (b, s2) \<leftarrow> read_octet 1 s1;
     (c, s3) \<leftarrow> read_octet 2 s2;
     (d, s4) \<leftarrow> read_octet 3 s3;
     Some ((a, b, c, d), s4) }"

definition from_be_bytes :: "8 word \<Rightarrow> 8 word \<Rightarrow> 16 word" where
  "from_be_bytes a b = of_nat (256 * unat a + unat b)"

text \<open>
  \<open>read_groups i k\<close> reads up to \<open>k\<close> groups, the first of them being number \<open>i\<close>; the flag tells
  whether it ended with an embedded IPv4 address, which needs two free groups.
\<close>

fun read_groups :: "nat \<Rightarrow> nat \<Rightarrow> string \<Rightarrow> 16 word list \<times> bool \<times> string" where
  "read_groups i k s =
     (if k = 0 then ([], False, s)
      else
        case (if k > 1 then read_separator CHR '':'' i read_ipv4_addr s else None) of
          Some ((a, b, c, d), r) \<Rightarrow> ([from_be_bytes a b, from_be_bytes c d], True, r)
        | None \<Rightarrow>
            (case read_separator CHR '':'' i (read_number 16 4 True 65535) s of
               Some (g, r) \<Rightarrow>
                 (let (gs, v4, r') = read_groups (i + 1) (k - 1) r in (of_nat g # gs, v4, r'))
             | None \<Rightarrow> ([], False, s)))"

declare read_groups.simps [simp del]

definition read_ipv6_addr :: "string \<Rightarrow> (16 word list \<times> string) option" where
  "read_ipv6_addr s =
     (let (head, head_ipv4, s1) = read_groups 0 8 s
      in if length head = 8 then Some (head, s1)
         else if head_ipv4 then None
         else do {
           s2 \<leftarrow> read_given_char CHR '':'' s1;
           s3 \<leftarrow> read_given_char CHR '':'' s2;
           let (tail, _, s4) = read_groups 0 (8 - (length head + 1)) s3;
           Some (head @ replicate (8 - length head - length tail) 0 @ tail, s4) })"

definition parse_ip_addr :: "string \<Rightarrow> ip_addr option" where
  "parse_ip_addr s =
     (case read_ipv4_addr s of
        Some ((a, b, c, d), r) \<Rightarrow> if r = [] then Some (V4 a b c d) else None
      | None \<Rightarrow>
          (case read_ipv6_addr s of
             Some (gs, r) \<Rightarrow> if r = [] then Some (V6 gs) else None
           | None \<Rightarrow> None))"

section \<open>Printing\<close>

definition show_ipv4 :: "8 word \<Rightarrow> 8 word \<Rightarrow> 8 word \<Rightarrow> 8 word \<Rightarrow> string" where
  "show_ipv4 a b c d =
     show_nat (unat a) @ ''.'' @ show_nat (unat b) @ ''.'' @ show_nat (unat c) @ ''.'' @
     show_nat (unat d)"

text \<open>The first longest run of zero groups, as its start and length.\<close>

fun longest_zeroes :: "nat \<Rightarrow> 16 word list \<Rightarrow> nat \<times> nat \<Rightarrow> nat \<times> nat \<Rightarrow> nat \<times> nat" where
  "longest_zeroes i [] current longest = longest"
| "longest_zeroes i (g # gs) current longest =
     (if g = 0 then
        (let cur = (if snd current = 0 then (i, 1) else (fst current, snd current + 1))
         in longest_zeroes (Suc i) gs cur (if snd cur > snd longest then cur else longest))
      else longest_zeroes (Suc i) gs (0, 0) longest)"

definition show_groups :: "16 word list \<Rightarrow> string" where
  "show_groups gs = join '':'' (map (\<lambda>g. show_hex (unat g)) gs)"

definition high_byte :: "16 word \<Rightarrow> 8 word" where
  "high_byte g = of_nat (unat g div 256)"

definition low_byte :: "16 word \<Rightarrow> 8 word" where
  "low_byte g = of_nat (unat g mod 256)"

definition show_ipv6 :: "16 word list \<Rightarrow> string" where
  "show_ipv6 gs =
     (if length gs = 8 \<and> take 6 gs = [0, 0, 0, 0, 0, 0xffff] then
        ''::ffff:'' @ show_ipv4 (high_byte (gs ! 6)) (low_byte (gs ! 6))
          (high_byte (gs ! 7)) (low_byte (gs ! 7))
      else
        let (start, len) = longest_zeroes 0 gs (0, 0) (0, 0)
        in if len > 1 then show_groups (take start gs) @ ''::'' @ show_groups (drop (start + len) gs)
           else show_groups gs)"

fun show_ip_addr :: "ip_addr \<Rightarrow> string" where
  "show_ip_addr (V4 a b c d) = show_ipv4 a b c d"
| "show_ip_addr (V6 gs) = show_ipv6 gs"

declare read_number_def [exec] read_separator_def [exec] read_octet_def [exec]
  read_ipv4_addr_def [exec] read_groups.simps [exec] from_be_bytes_def [exec] read_ipv6_addr_def [exec]
  parse_ip_addr_def [exec] show_ipv4_def [exec] show_groups_def [exec] high_byte_def [exec]
  low_byte_def [exec] show_ipv6_def [exec]

section \<open>Every IPv4 address is read back\<close>

lemma read_number_show:
  assumes "n \<le> 255" and "r = [] \<or> to_digit 10 (hd r) = None"
  shows "read_number 10 3 False 255 (show_nat n @ r) = Some (n, r)"
proof -
  let ?d = "show_radix 10 n"
  have "takeWhile (\<lambda>c. to_digit 10 c \<noteq> None) (?d @ r) = ?d"
    using show_radix_digits [of 10 n] assms(2) by (cases r) (auto simp: takeWhile_append2)
  moreover have "length ?d \<le> 3" using show_radix_length [of 10 n 3] assms(1) by simp
  moreover have "hd ?d = CHR ''0'' \<Longrightarrow> length ?d \<le> 1"
    using show_radix_hd [of 10 n] by (cases "n = 0") (auto simp: show_radix_single)
  ultimately show ?thesis
    using assms(1) by (auto simp: read_number_def show_nat_def digits_value_show Let_def)
qed

lemma unat_octet: "unat (a :: 8 word) \<le> 255"
  using unsigned_less [of a, where 'a = nat] by simp

lemma read_octet_show:
  assumes "r = [] \<or> to_digit 10 (hd r) = None"
  shows "read_octet 0 (show_nat (unat a) @ r) = Some (a, r)"
    and "0 < i \<Longrightarrow> read_octet i (CHR ''.'' # show_nat (unat a) @ r) = Some (a, r)"
  using read_number_show [OF unat_octet assms, of a]
  by (simp_all add: read_octet_def read_separator_def)

lemma to_digit_dot: "to_digit 10 CHR ''.'' = None"
  by (simp add: exec)

lemma read_ipv4_show: "read_ipv4_addr (show_ipv4 a b c d) = Some ((a, b, c, d), [])"
  using read_octet_show(2) [of "[]" 3 d]
  by (simp add: read_ipv4_addr_def show_ipv4_def read_octet_show to_digit_dot)

lemma parse_show_ipv4_aux: "parse_ip_addr (show_ip_addr (V4 a b c d)) = Some (V4 a b c d)"
  by (simp add: parse_ip_addr_def read_ipv4_show)

section \<open>A name with another letter is no address\<close>

definition ip_char :: "char \<Rightarrow> bool" where
  "ip_char c \<longleftrightarrow> to_digit 16 c \<noteq> None \<or> c = CHR ''.'' \<or> c = CHR '':''"

text \<open>A reader takes such characters only.\<close>

definition consumes :: "string \<Rightarrow> string \<Rightarrow> bool" where
  "consumes s r \<longleftrightarrow> (\<exists>p. s = p @ r \<and> list_all ip_char p)"

lemma consumes_refl [simp]: "consumes s s"
  by (simp add: consumes_def)

lemma consumes_trans: "consumes s t \<Longrightarrow> consumes t r \<Longrightarrow> consumes s r"
  unfolding consumes_def by (metis append.assoc list_all_append)

lemma consumes_Nil: "consumes s [] \<Longrightarrow> list_all ip_char s"
  by (simp add: consumes_def)

lemma read_given_char_consumes:
  "read_given_char c s = Some r \<Longrightarrow> c = CHR ''.'' \<or> c = CHR '':'' \<Longrightarrow> consumes s r"
  by (cases s) (auto simp: consumes_def ip_char_def split: if_splits intro: exI [where x = "[c]"])

lemma to_digit_mono: "to_digit 10 c = Some d \<Longrightarrow> \<exists>e. to_digit 16 c = Some e"
  by (auto simp: to_digit_def split: if_splits)

lemma read_number_consumes:
  assumes "read_number radix k z b s = Some (v, r)" and "radix = 10 \<or> radix = 16"
  shows "consumes s r"
proof -
  let ?ds = "takeWhile (\<lambda>c. to_digit radix c \<noteq> None) s"
  have "r = drop (length ?ds) s" using assms(1) by (auto simp: read_number_def Let_def split: if_splits)
  then have "s = ?ds @ r" by (metis takeWhile_dropWhile_id dropWhile_eq_drop)
  moreover have "list_all ip_char ?ds"
    using assms(2) by (auto simp: list_all_iff ip_char_def dest!: set_takeWhileD to_digit_mono)
  ultimately show ?thesis unfolding consumes_def by blast
qed

lemma read_separator_consumes:
  assumes "read_separator sep i inner s = Some (v, r)" and "sep = CHR ''.'' \<or> sep = CHR '':''"
    and "\<And>s. inner s = Some (v, r) \<Longrightarrow> consumes s r"
  shows "consumes s r"
  using assms(1,3) consumes_trans [OF read_given_char_consumes [OF _ assms(2)]]
  by (auto simp: read_separator_def bind_eq_Some_conv split: if_splits)

lemma read_octet_consumes: "read_octet i s = Some (v, r) \<Longrightarrow> consumes s r"
  by (auto simp: read_octet_def bind_eq_Some_conv dest!: read_separator_consumes intro: read_number_consumes)

lemma read_ipv4_consumes: "read_ipv4_addr s = Some (v, r) \<Longrightarrow> consumes s r"
  unfolding read_ipv4_addr_def by (auto simp: bind_eq_Some_conv dest!: read_octet_consumes intro: consumes_trans)

lemma read_groups_consumes: "read_groups i k s = (gs, v4, r) \<Longrightarrow> consumes s r"
proof (induction i k s arbitrary: gs v4 r rule: read_groups.induct)
  case (1 i k s)
  show ?case
  proof (cases "if k > 1 then read_separator CHR '':'' i read_ipv4_addr s else None")
    case None
    show ?thesis
    proof (cases "read_separator CHR '':'' i (read_number 16 4 True 65535) s")
      case (Some gr)
      obtain g r1 where gr: "gr = (g, r1)" by fastforce
      with Some have "consumes s r1" by (auto dest!: read_separator_consumes intro: read_number_consumes)
      moreover have "consumes r1 r" if "k \<noteq> 0"
        using 1 that None Some gr by (auto simp: read_groups.simps [of i k s] split: prod.splits)
      ultimately show ?thesis
        using 1(2) by (cases "k = 0") (auto simp: read_groups.simps [of i 0 s] intro: consumes_trans)
    qed (use 1(2) None in \<open>auto simp: read_groups.simps [of i k s] split: if_splits\<close>)
  next
    case (Some a)
    then show ?thesis
      using 1(2)
      by (auto simp: read_groups.simps [of i k s] split: if_splits prod.splits
          dest!: read_separator_consumes intro: read_ipv4_consumes)
  qed
qed

lemma read_ipv6_consumes:
  assumes "read_ipv6_addr s = Some (v, r)"
  shows "consumes s r"
proof -
  obtain front front_v4 s1 where front: "read_groups 0 8 s = (front, front_v4, s1)"
    by (metis prod_cases3)
  note s1 = read_groups_consumes [OF front]
  show ?thesis
  proof (cases "length front = 8")
    case False
    with assms front obtain s2 s3 where colons: "read_given_char CHR '':'' s1 = Some s2" "read_given_char CHR '':'' s2 = Some s3"
      and rest: "r = snd (snd (read_groups 0 (8 - (length front + 1)) s3))"
      by (auto simp: read_ipv6_addr_def Let_def bind_eq_Some_conv case_prod_beta split: if_splits)
    then have "consumes s3 r" by (metis read_groups_consumes prod.collapse)
    then show ?thesis using colons s1 by (metis consumes_trans read_given_char_consumes)
  qed (use assms front s1 in \<open>simp add: read_ipv6_addr_def\<close>)
qed

lemma address_chars: "parse_ip_addr s = Some a \<Longrightarrow> list_all ip_char s"
  by (auto simp: parse_ip_addr_def split: option.splits prod.splits if_splits
      intro: consumes_Nil dest!: read_ipv4_consumes read_ipv6_consumes)

lemma name_no_address: "list_ex (\<lambda>c. \<not> ip_char c) s \<Longrightarrow> parse_ip_addr s = None"
  using address_chars [of s] by (cases "parse_ip_addr s") (auto simp: list_all_iff list_ex_iff)

end
