(* ===== verification/Pangolin_Types.thy ===== *)
theory Pangolin_Types
  imports Platform
begin

text \<open>
  \<^verbatim>\<open>src/pangolin/types.rs\<close>: the part of Traefik's dynamic configuration that Pangolin
  emits, and \<^verbatim>\<open>serde_json\<close> values. A JSON object is a map sorted by key, as
  \<^verbatim>\<open>serde_json::Map\<close> is without its \<^verbatim>\<open>preserve_order\<close> feature (the crate is locked without it),
  so "the first key" of a middleware is the least one. \<open>Pangolin_Wire\<close> decodes a document into
  these types.
\<close>

section \<open>JSON values\<close>

datatype json =
    JNull
  | JBool bool
  | JNumber string
  | JString string
  | JArray "json list"
  | JObject "(string \<times> json) list"

fun json_as_object :: "json \<Rightarrow> (string \<times> json) list option" where
  "json_as_object (JObject m) = Some m"
| "json_as_object _ = None"

fun json_as_array :: "json \<Rightarrow> json list option" where
  "json_as_array (JArray xs) = Some xs"
| "json_as_array _ = None"

fun json_as_str :: "json \<Rightarrow> string option" where
  "json_as_str (JString s) = Some s"
| "json_as_str _ = None"

fun json_as_bool :: "json \<Rightarrow> bool option" where
  "json_as_bool (JBool b) = Some b"
| "json_as_bool _ = None"

text \<open>\<^verbatim>\<open>Value::get\<close> with a string: the entry of an object, nothing for any other value.\<close>

definition json_get :: "json \<Rightarrow> string \<Rightarrow> json option" where
  "json_get v k = (case json_as_object v of None \<Rightarrow> None | Some m \<Rightarrow> bt_get m k)"

declare json_get_def [exec]

section \<open>The dynamic configuration\<close>

record l4_router =
  l4r_rule :: "string option"
  l4r_service :: string
  l4r_entry_points :: "string list"
  l4r_tls :: "json option"

record l4_server =
  l4s_address :: string

record l4_load_balancer =
  l4lb_servers :: "l4_server list"

record l4_service =
  l4svc_load_balancer :: "l4_load_balancer option"
  l4svc_weighted :: "json option"

record l4_config =
  l4c_routers :: "(string \<times> l4_router) list"
  l4c_services :: "(string \<times> l4_service) list"

record tls_domain =
  tlsd_main :: "string option"
  tlsd_sans :: "string list"

record router_tls =
  rtls_cert_resolver :: "string option"
  rtls_domains :: "tls_domain list"

record router =
  r_rule :: string
  r_service :: string
  r_middlewares :: "string list"
  r_entry_points :: "string list"
  r_priority :: "int option"
  r_tls :: "router_tls option"

record load_balancer_server =
  lbs_url :: string

record load_balancer =
  lb_servers :: "load_balancer_server list"
  lb_sticky :: "json option"
  lb_servers_transport :: "string option"
  lb_pass_host_header :: "bool option"

record pang_service =
  psvc_load_balancer :: "load_balancer option"
  psvc_weighted :: "json option"
  psvc_mirroring :: "json option"

datatype middleware = Middleware json

fun mw_as_object :: "middleware \<Rightarrow> (string \<times> json) list option" where
  "mw_as_object (Middleware v) = json_as_object v"

record http_config =
  hc_routers :: "(string \<times> router) list"
  hc_services :: "(string \<times> pang_service) list"
  hc_middlewares :: "(string \<times> middleware) list"
  hc_servers_transports :: "(string \<times> json) list"

record traefik_dynamic_config =
  tdc_http :: http_config
  tdc_tcp :: "l4_config option"
  tdc_udp :: "l4_config option"

end
