(* ===== verification/Backend.thy ===== *)
theory Backend
  imports Apply Ip_Addr Pangolin_Types
begin

text \<open>
  \<^verbatim>\<open>src/transform/backend.rs\<close>: from Pangolin's services to backend references. A service's
  servers are reduced to host, port and TLS flag, classified (IP literals, cluster DNS,
  other host name) and emitted as Service and EndpointSlice, as an Envoy \<^verbatim>\<open>Backend\<close>, or as a
  direct reference. A mutable \<^verbatim>\<open>Desired\<close> is threaded through as a value. Log output is not
  modelled.
\<close>

section \<open>Servers\<close>

record resolved_backend =
  rb_group :: string
  rb_kind :: string
  rb_name :: string
  rb_namespace :: "string option"
  rb_port :: port

type_synonym backend_index = "(string \<times> resolved_backend) list"

definition PORT_NAME :: string where
  "PORT_NAME = ''default''"

record host_port =
  hp_host :: string
  hp_port :: port
  hp_tls :: bool

datatype classification =
    CEmpty
  | CIps "ip_addr list" port bool
  | CFqdn string port bool
  | CClusterDns string string port bool

text \<open>\<^verbatim>\<open>L4Protocol\<close> of \<^verbatim>\<open>src/transform/l4.rs\<close>, which the L4 half of this file takes as an argument.\<close>

datatype l4_protocol = Tcp | Udp

fun k8s_protocol :: "l4_protocol \<Rightarrow> string" where
  "k8s_protocol Tcp = ''TCP''"
| "k8s_protocol Udp = ''UDP''"

fun infix_of :: "l4_protocol \<Rightarrow> string" where
  "infix_of Tcp = ''tcp''"
| "infix_of Udp = ''udp''"

definition transport_skips_verify :: "string option \<Rightarrow> (string \<times> json) list \<Rightarrow> bool" where
  "transport_skips_verify transport transports =
     (case transport of
        None \<Rightarrow> False
      | Some name \<Rightarrow>
          (case bt_get transports name of
             None \<Rightarrow> False
           | Some t \<Rightarrow>
               (case json_get t ''insecureSkipVerify'' of
                  None \<Rightarrow> False
                | Some v \<Rightarrow> json_as_bool v = Some True)))"

definition parse_url_server :: "platform \<Rightarrow> load_balancer_server \<Rightarrow> host_port option" where
  "parse_url_server pf s =
     (case url_parse pf (lbs_url s) of
        None \<Rightarrow> None
      | Some url \<Rightarrow>
          (case url_host_str url of
             None \<Rightarrow> None
           | Some h \<Rightarrow>
               (let host = trim_end_matches CHR '']'' (trim_start_matches CHR ''['' h)
                in case url_port_or_known_default url of
                     None \<Rightarrow> None
                   | Some p \<Rightarrow>
                       Some \<lparr>hp_host = host, hp_port = int p, hp_tls = (url_scheme url = ''https'')\<rparr>)))"

definition parse_url_servers :: "platform \<Rightarrow> load_balancer_server list \<Rightarrow> host_port list" where
  "parse_url_servers pf servers = List.map_filter (parse_url_server pf) servers"

definition parse_l4_address :: "string \<Rightarrow> host_port option" where
  "parse_l4_address address =
     (let trimmed = trim address;
          without_scheme =
            (case split_once_str ''://'' trimmed of Some (_, rest) \<Rightarrow> rest | None \<Rightarrow> trimmed);
          host_and_port =
            (case strip_prefix ''['' without_scheme of
               Some rest \<Rightarrow>
                 (case split_once CHR '']'' rest of
                    None \<Rightarrow> None
                  | Some (host, after) \<Rightarrow> Some (host, strip_prefix '':'' after))
             | None \<Rightarrow>
                 (case rsplit_once CHR '':'' without_scheme of
                    Some (h, p) \<Rightarrow> Some (h, Some p)
                  | None \<Rightarrow> Some (without_scheme, None)))
      in case host_and_port of
           None \<Rightarrow> None
         | Some (host, None) \<Rightarrow> None
         | Some (host, Some port_str) \<Rightarrow>
             (case parse_u16 port_str of
                None \<Rightarrow> None
              | Some port \<Rightarrow>
                  if host = [] then None
                  else Some \<lparr>hp_host = host, hp_port = int port, hp_tls = False\<rparr>))"

section \<open>Classification\<close>

definition parse_cluster_dns :: "string \<Rightarrow> (string \<times> string) option" where
  "parse_cluster_dns host =
     (let normalized = to_ascii_lowercase (trim_end_matches CHR ''.'' host);
          parts = split_on CHR ''.'' normalized
      in if length parts < 3 \<or> parts ! 2 \<noteq> ''svc'' then None else Some (parts ! 0, parts ! 1))"

text \<open>The local variables of the loop of \<^verbatim>\<open>classify_entries\<close>.\<close>

record classify_state =
  cs_ips :: "ip_addr list"
  cs_ip_port :: "port option"
  cs_ip_tls :: "bool option"
  cs_cluster :: "(string \<times> string \<times> port \<times> bool) option"
  cs_fqdn :: "(string \<times> port \<times> bool) option"

definition classify_init :: classify_state where
  "classify_init = \<lparr>cs_ips = [], cs_ip_port = None, cs_ip_tls = None, cs_cluster = None, cs_fqdn = None\<rparr>"

text \<open>\<^verbatim>\<open>opt.is_some_and(|x| x != y)\<close> and \<^verbatim>\<open>opt.get_or_insert(y)\<close>.\<close>

definition differs :: "'a option \<Rightarrow> 'a \<Rightarrow> bool" where
  "differs x y = (case x of None \<Rightarrow> False | Some v \<Rightarrow> v \<noteq> y)"

definition get_or :: "'a option \<Rightarrow> 'a \<Rightarrow> 'a" where
  "get_or x y = (case x of None \<Rightarrow> y | Some v \<Rightarrow> v)"

definition classify_step :: "backend_kind \<Rightarrow> host_port \<Rightarrow> classify_state \<Rightarrow> classify_state" where
  "classify_step kind hp st =
     (let host = hp_host hp; port = hp_port hp; tls = hp_tls hp
      in case parse_ip_addr host of
           Some ip \<Rightarrow>
             (if differs (cs_ip_port st) port then st
              else if differs (cs_ip_tls st) tls then st
              else st\<lparr>cs_ip_port := Some (get_or (cs_ip_port st) port),
                      cs_ip_tls := Some (get_or (cs_ip_tls st) tls),
                      cs_ips := cs_ips st @ [ip]\<rparr>)
         | None \<Rightarrow>
             (case parse_cluster_dns host of
                Some (svc, ns) \<Rightarrow>
                  (if cs_cluster st \<noteq> None then st
                   else st\<lparr>cs_cluster := Some (svc, ns, port, tls)\<rparr>)
              | None \<Rightarrow>
                  (case kind of
                     EnvoyBackendKind \<Rightarrow>
                       (if cs_fqdn st \<noteq> None then st
                        else st\<lparr>cs_fqdn := Some (host, port, tls)\<rparr>)
                   | ServiceKind \<Rightarrow> st)))"

definition classify_entries :: "host_port list \<Rightarrow> backend_kind \<Rightarrow> classification" where
  "classify_entries entries kind =
     (let st = fold (classify_step kind) entries classify_init
      in if cs_ips st \<noteq> [] then CIps (cs_ips st) (get_or (cs_ip_port st) 80) (get_or (cs_ip_tls st) False)
         else case cs_cluster st of
                Some (svc, ns, port, tls) \<Rightarrow> CClusterDns svc ns port tls
              | None \<Rightarrow>
                  (case cs_fqdn st of
                     Some (hostname, port, tls) \<Rightarrow> CFqdn hostname port tls
                   | None \<Rightarrow> CEmpty))"

declare PORT_NAME_def [exec] transport_skips_verify_def [exec] parse_url_server_def [exec]
  parse_url_servers_def [exec] parse_l4_address_def [exec] parse_cluster_dns_def [exec]
  classify_init_def [exec] differs_def [exec] get_or_def [exec] classify_step_def [exec]
  classify_entries_def [exec]

section \<open>Emitting objects\<close>

definition name_prefix :: "string \<Rightarrow> string \<Rightarrow> string" where
  "name_prefix base ifx = (if ifx = [] then base else base @ ''-'' @ ifx)"

definition backend_tls :: "bool \<Rightarrow> string option \<Rightarrow> backend_tls_settings" where
  "backend_tls skip_verify sni =
     (if skip_verify then
        \<lparr>bts_well_known_ca_certificates = None, bts_insecure_skip_verify = Some True, bts_sni = None\<rparr>
      else
        \<lparr>bts_well_known_ca_certificates = Some ''System'', bts_insecure_skip_verify = None,
         bts_sni = sni\<rparr>)"

definition emit_backend_tls_policy ::
  "platform \<Rightarrow> config \<Rightarrow> string \<Rightarrow> string \<Rightarrow> string \<Rightarrow> string \<Rightarrow> desired \<Rightarrow> desired" where
  "emit_backend_tls_policy pf cfg pang_name ifx target_service hostname d =
     (let name = prefixed_label pf (name_prefix ''btp'' ifx) pang_name;
          labels = owner_labels cfg name;
          policy =
            \<lparr>btp_metadata = managed_metadata cfg name labels,
             btp_target_refs = [\<lparr>btr_group = [], btr_kind = ''Service'', btr_name = target_service\<rparr>],
             btp_validation =
               \<lparr>btv_hostname = hostname, btv_well_known_ca_certificates = Some ''System''\<rparr>\<rparr>
      in d\<lparr>d_backend_tls_policies := bt_insert name policy (d_backend_tls_policies d)\<rparr>)"

definition emit_envoy_backend ::
  "platform \<Rightarrow> config \<Rightarrow> string \<Rightarrow> backend_endpoint list \<Rightarrow> port \<Rightarrow> string \<Rightarrow>
     backend_tls_settings option \<Rightarrow> desired \<Rightarrow> resolved_backend \<times> desired" where
  "emit_envoy_backend pf cfg pang_name endpoints port ifx tls d =
     (let name = prefixed_label pf (name_prefix ''be'' ifx) pang_name;
          labels = owner_labels cfg name;
          backend =
            \<lparr>eb_metadata = managed_metadata cfg name labels,
             eb_spec = \<lparr>bspec_endpoints = endpoints, bspec_tls = tls\<rparr>\<rparr>
      in (\<lparr>rb_group = ''gateway.envoyproxy.io'', rb_kind = ''Backend'', rb_name = name,
           rb_namespace = None, rb_port = port\<rparr>,
          d\<lparr>d_envoy_backends := bt_insert name backend (d_envoy_backends d)\<rparr>))"

definition emit_synthesized_service ::
  "platform \<Rightarrow> config \<Rightarrow> string \<Rightarrow> ip_addr list \<Rightarrow> port \<Rightarrow> string \<Rightarrow> string \<Rightarrow> desired \<Rightarrow>
     resolved_backend \<times> desired" where
  "emit_synthesized_service pf cfg pang_name ips port ifx protocol d =
     (let svc_name = prefixed_label pf (name_prefix ''svc'' ifx) pang_name;
          slice_name = prefixed_label pf (name_prefix ''eps'' ifx) pang_name;
          labels = owner_labels cfg svc_name;
          service =
            \<lparr>svc_metadata = managed_metadata cfg svc_name labels,
             svc_spec = Some
               \<lparr>sspec_cluster_ip = Some ''None'', sspec_type = Some ''ClusterIP'',
                sspec_ports = Some
                  [\<lparr>sport_name = Some PORT_NAME, sport_port = port,
                    sport_target_port = Some port, sport_protocol = Some protocol\<rparr>]\<rparr>\<rparr>;
          slice_labels = bt_insert service_name_label svc_name labels;
          endpoint_slice =
            \<lparr>es_metadata = managed_metadata cfg slice_name slice_labels,
             es_address_type = ''IPv4'',
             es_endpoints = map (\<lambda>ip. \<lparr>ep_addresses = [show_ip_addr ip]\<rparr>) ips,
             es_ports = Some
               [\<lparr>eport_name = Some PORT_NAME, eport_port = Some port, eport_protocol = Some protocol\<rparr>]\<rparr>
      in (\<lparr>rb_group = [], rb_kind = ''Service'', rb_name = svc_name, rb_namespace = None,
           rb_port = port\<rparr>,
          d\<lparr>d_services := bt_insert svc_name service (d_services d),
            d_endpoint_slices := bt_insert slice_name endpoint_slice (d_endpoint_slices d)\<rparr>))"

text \<open>
  \<open>tls\<close> is \<^term>\<open>None\<close> for plaintext and \<^term>\<open>Some skip_verify\<close> for TLS. The code
  indexes the first address, which exists: see \<open>classify_ips_not_Nil\<close>.
\<close>

definition emit_ip_backend ::
  "platform \<Rightarrow> config \<Rightarrow> string \<Rightarrow> ip_addr list \<Rightarrow> port \<Rightarrow> string \<Rightarrow> string \<Rightarrow> bool option \<Rightarrow> desired \<Rightarrow>
     resolved_backend \<times> desired" where
  "emit_ip_backend pf cfg pang_name ips port ifx protocol tls d =
     (case cfg_backend_kind cfg of
        ServiceKind \<Rightarrow>
          (let (resolved, d1) = emit_synthesized_service pf cfg pang_name ips port ifx protocol d
           in case tls of
                None \<Rightarrow> (resolved, d1)
              | Some skip_verify \<Rightarrow>
                  (resolved,
                   emit_backend_tls_policy pf cfg pang_name ifx (rb_name resolved)
                     (show_ip_addr (hd ips)) d1))
      | EnvoyBackendKind \<Rightarrow>
          (let endpoints =
                 map (\<lambda>ip. \<lparr>be_ip = Some \<lparr>bip_address = show_ip_addr ip, bip_port = port\<rparr>,
                             be_fqdn = None\<rparr>) ips;
               tls_settings = map_option (\<lambda>skip_verify. backend_tls skip_verify None) tls
           in emit_envoy_backend pf cfg pang_name endpoints port ifx tls_settings d))"

definition emit_fqdn_backend ::
  "platform \<Rightarrow> config \<Rightarrow> string \<Rightarrow> string \<Rightarrow> port \<Rightarrow> string \<Rightarrow> bool option \<Rightarrow> desired \<Rightarrow>
     resolved_backend \<times> desired" where
  "emit_fqdn_backend pf cfg pang_name hostname port ifx tls d =
     (let endpoints =
            [\<lparr>be_ip = None, be_fqdn = Some \<lparr>bfqdn_hostname = hostname, bfqdn_port = port\<rparr>\<rparr>];
          tls_settings = map_option (\<lambda>skip_verify. backend_tls skip_verify (Some hostname)) tls
      in emit_envoy_backend pf cfg pang_name endpoints port ifx tls_settings d)"

definition emit_cluster_dns_backend ::
  "platform \<Rightarrow> config \<Rightarrow> string \<Rightarrow> string \<Rightarrow> string \<Rightarrow> port \<Rightarrow> string \<Rightarrow> bool option \<Rightarrow> desired \<Rightarrow>
     resolved_backend \<times> desired" where
  "emit_cluster_dns_backend pf cfg pang_name service namespace port ifx tls d =
     (let direct = \<lparr>rb_group = [], rb_kind = ''Service'', rb_name = service,
                    rb_namespace = Some namespace, rb_port = port\<rparr>
      in case tls of
           None \<Rightarrow> (direct, d)
         | Some skip_verify \<Rightarrow>
             (let fqdn = service @ ''.'' @ namespace @ ''.svc.cluster.local''
              in case cfg_backend_kind cfg of
                   EnvoyBackendKind \<Rightarrow>
                     emit_fqdn_backend pf cfg pang_name fqdn port ifx (Some skip_verify) d
                 | ServiceKind \<Rightarrow>
                     (if namespace = cfg_namespace cfg then
                        (direct, emit_backend_tls_policy pf cfg pang_name ifx service fqdn d)
                      else (direct, d))))"

definition then_some :: "bool \<Rightarrow> 'a \<Rightarrow> 'a option" where
  "then_some b x = (if b then Some x else None)"

definition emit_backend ::
  "platform \<Rightarrow> config \<Rightarrow> string \<Rightarrow> classification \<Rightarrow> string \<Rightarrow> string \<Rightarrow> bool \<Rightarrow> desired \<Rightarrow>
     resolved_backend option \<times> desired" where
  "emit_backend pf cfg pang_name classification ifx protocol skip_verify d =
     (case classification of
        CEmpty \<Rightarrow> (None, d)
      | CIps entries port tls \<Rightarrow>
          apfst Some (emit_ip_backend pf cfg pang_name entries port ifx protocol
            (then_some tls skip_verify) d)
      | CFqdn hostname port tls \<Rightarrow>
          apfst Some (emit_fqdn_backend pf cfg pang_name hostname port ifx
            (then_some tls skip_verify) d)
      | CClusterDns service namespace port tls \<Rightarrow>
          apfst Some (emit_cluster_dns_backend pf cfg pang_name service namespace port ifx
            (then_some tls skip_verify) d))"

section \<open>The two loops\<close>

definition index_resolved ::
  "string \<Rightarrow> resolved_backend option \<times> desired \<Rightarrow> backend_index \<Rightarrow> backend_index \<times> desired" where
  "index_resolved pang_name r index =
     (case fst r of None \<Rightarrow> (index, snd r)
      | Some resolved \<Rightarrow> (bt_insert pang_name resolved index, snd r))"

definition backend_step ::
  "platform \<Rightarrow> config \<Rightarrow> (string \<times> json) list \<Rightarrow> string \<times> pang_service \<Rightarrow>
     backend_index \<times> desired \<Rightarrow> backend_index \<times> desired" where
  "backend_step pf cfg transports entry st =
     (let (pang_name, svc) = entry; (index, d) = st
      in case psvc_load_balancer svc of
           None \<Rightarrow> (index, d)
         | Some lb \<Rightarrow>
             (if lb_servers lb = [] then (index, d)
              else
                let skip_verify = transport_skips_verify (lb_servers_transport lb) transports;
                    entries = parse_url_servers pf (lb_servers lb);
                    classification = classify_entries entries (cfg_backend_kind cfg)
                in index_resolved pang_name
                     (emit_backend pf cfg pang_name classification [] ''TCP'' skip_verify d) index))"

definition build_backends ::
  "platform \<Rightarrow> config \<Rightarrow> (string \<times> pang_service) list \<Rightarrow> (string \<times> json) list \<Rightarrow> desired \<Rightarrow>
     backend_index \<times> desired" where
  "build_backends pf cfg services transports d = fold (backend_step pf cfg transports) services ([], d)"

definition l4_backend_step ::
  "platform \<Rightarrow> config \<Rightarrow> l4_protocol \<Rightarrow> string \<times> l4_service \<Rightarrow>
     backend_index \<times> desired \<Rightarrow> backend_index \<times> desired" where
  "l4_backend_step pf cfg proto entry st =
     (let (pang_name, svc) = entry; (index, d) = st
      in case l4svc_load_balancer svc of
           None \<Rightarrow> (index, d)
         | Some lb \<Rightarrow>
             (if l4lb_servers lb = [] then (index, d)
              else
                let entries = List.map_filter (\<lambda>s. parse_l4_address (l4s_address s)) (l4lb_servers lb);
                    classification = classify_entries entries (cfg_backend_kind cfg)
                in index_resolved pang_name
                     (emit_backend pf cfg pang_name classification (infix_of proto)
                        (k8s_protocol proto) False d) index))"

definition build_l4_backends ::
  "platform \<Rightarrow> config \<Rightarrow> (string \<times> l4_service) list \<Rightarrow> l4_protocol \<Rightarrow> desired \<Rightarrow>
     backend_index \<times> desired" where
  "build_l4_backends pf cfg services proto d = fold (l4_backend_step pf cfg proto) services ([], d)"

declare name_prefix_def [exec] backend_tls_def [exec] emit_backend_tls_policy_def [exec]
  emit_envoy_backend_def [exec] emit_synthesized_service_def [exec] emit_ip_backend_def [exec]
  emit_fqdn_backend_def [exec] emit_cluster_dns_backend_def [exec] then_some_def [exec]
  emit_backend_def [exec] index_resolved_def [exec] backend_step_def [exec]
  build_backends_def [exec] l4_backend_step_def [exec] build_l4_backends_def [exec]
  service_name_label_def [exec]

section \<open>Classification against its specification\<close>

text \<open>
  What the loop of \<open>classify_entries\<close> computes: the first IP literal fixes port and TLS and
  the literals that agree with it are kept; without a literal the first cluster DNS name;
  without one, in Envoy mode, the first other host name.
\<close>

definition is_ip_entry :: "host_port \<Rightarrow> bool" where
  "is_ip_entry hp \<longleftrightarrow> parse_ip_addr (hp_host hp) \<noteq> None"

definition agrees :: "host_port \<Rightarrow> host_port \<Rightarrow> bool" where
  "agrees hp0 hp \<longleftrightarrow> hp_port hp = hp_port hp0 \<and> hp_tls hp = hp_tls hp0"

definition spec_ips :: "host_port list \<Rightarrow> ip_addr list" where
  "spec_ips entries =
     (case filter is_ip_entry entries of
        [] \<Rightarrow> []
      | hp0 # hps \<Rightarrow> map (\<lambda>hp. the (parse_ip_addr (hp_host hp))) (filter (agrees hp0) (hp0 # hps)))"

definition is_cluster_entry :: "host_port \<Rightarrow> bool" where
  "is_cluster_entry hp \<longleftrightarrow> \<not> is_ip_entry hp \<and> parse_cluster_dns (hp_host hp) \<noteq> None"

definition is_fqdn_entry :: "host_port \<Rightarrow> bool" where
  "is_fqdn_entry hp \<longleftrightarrow> \<not> is_ip_entry hp \<and> parse_cluster_dns (hp_host hp) = None"

definition spec_classify :: "host_port list \<Rightarrow> backend_kind \<Rightarrow> classification" where
  "spec_classify entries kind =
     (case find is_ip_entry entries of
        Some hp0 \<Rightarrow> CIps (spec_ips entries) (hp_port hp0) (hp_tls hp0)
      | None \<Rightarrow>
          (case find is_cluster_entry entries of
             Some hp \<Rightarrow>
               (let (svc, ns) = the (parse_cluster_dns (hp_host hp))
                in CClusterDns svc ns (hp_port hp) (hp_tls hp))
           | None \<Rightarrow>
               (case find is_fqdn_entry entries of
                  Some hp \<Rightarrow>
                    (if kind = EnvoyBackendKind then CFqdn (hp_host hp) (hp_port hp) (hp_tls hp)
                     else CEmpty)
                | None \<Rightarrow> CEmpty)))"

lemma find_append: "find P (xs @ ys) = (case find P xs of Some x \<Rightarrow> Some x | None \<Rightarrow> find P ys)"
  by (induction xs) auto

lemma filter_find: "find P xs = (case filter P xs of [] \<Rightarrow> None | x # _ \<Rightarrow> Some x)"
  by (induction xs) auto

lemma find_filter_Nil: "find P xs = None \<longleftrightarrow> filter P xs = []"
  by (simp add: filter_find split: list.splits)

text \<open>The state of the loop after a prefix of the entries.\<close>

definition spec_state :: "host_port list \<Rightarrow> backend_kind \<Rightarrow> classify_state" where
  "spec_state entries kind =
     \<lparr>cs_ips = spec_ips entries,
      cs_ip_port = map_option hp_port (find is_ip_entry entries),
      cs_ip_tls = map_option hp_tls (find is_ip_entry entries),
      cs_cluster = map_option (\<lambda>hp. let (svc, ns) = the (parse_cluster_dns (hp_host hp))
                                   in (svc, ns, hp_port hp, hp_tls hp)) (find is_cluster_entry entries),
      cs_fqdn = (if kind = EnvoyBackendKind
                 then map_option (\<lambda>hp. (hp_host hp, hp_port hp, hp_tls hp)) (find is_fqdn_entry entries)
                 else None)\<rparr>"

lemma spec_ips_Nil_iff: "spec_ips es = [] \<longleftrightarrow> find is_ip_entry es = None"
  by (auto simp: spec_ips_def filter_find agrees_def split: list.splits)

lemma spec_ips_snoc:
  "spec_ips (es @ [hp]) =
     (if \<not> is_ip_entry hp then spec_ips es
      else case find is_ip_entry es of
             None \<Rightarrow> [the (parse_ip_addr (hp_host hp))]
           | Some hp0 \<Rightarrow> if agrees hp0 hp then spec_ips es @ [the (parse_ip_addr (hp_host hp))]
                        else spec_ips es)"
  by (auto simp: spec_ips_def filter_find agrees_def split: list.splits)

lemma classify_step_spec:
  "classify_step kind hp (spec_state es kind) = spec_state (es @ [hp]) kind"
proof (cases "parse_ip_addr (hp_host hp)")
  case (Some ip)
  then have "is_ip_entry hp" "\<not> is_cluster_entry hp" "\<not> is_fqdn_entry hp"
    by (simp_all add: is_ip_entry_def is_cluster_entry_def is_fqdn_entry_def)
  with Some show ?thesis
    by (cases "find is_ip_entry es")
       (auto simp: classify_step_def spec_state_def spec_ips_snoc spec_ips_Nil_iff find_append
         differs_def get_or_def agrees_def Let_def split: option.splits)
next
  case None
  then have ip: "\<not> is_ip_entry hp" by (simp add: is_ip_entry_def)
  show ?thesis
  proof (cases "parse_cluster_dns (hp_host hp)")
    case (Some sn)
    with ip have "is_cluster_entry hp" "\<not> is_fqdn_entry hp"
      by (simp_all add: is_cluster_entry_def is_fqdn_entry_def)
    with None Some ip show ?thesis
      by (cases sn; cases "find is_cluster_entry es")
         (auto simp: classify_step_def spec_state_def spec_ips_snoc find_append Let_def
           split: option.splits prod.splits)
  next
    case none: None
    with ip have "\<not> is_cluster_entry hp" "is_fqdn_entry hp"
      by (simp_all add: is_cluster_entry_def is_fqdn_entry_def)
    with None none ip show ?thesis
      by (cases kind; cases "find is_fqdn_entry es")
         (auto simp: classify_step_def spec_state_def spec_ips_snoc find_append Let_def
           split: option.splits)
  qed
qed

lemma classify_fold_spec: "fold (classify_step kind) es classify_init = spec_state es kind"
proof (induction es rule: rev_induct)
  case Nil
  show ?case by (simp add: classify_init_def spec_state_def spec_ips_def)
next
  case (snoc hp es)
  then show ?case by (simp add: classify_step_spec)
qed

lemma classify_spec_aux: "classify_entries es kind = spec_classify es kind"
  by (auto simp: classify_entries_def classify_fold_spec spec_classify_def spec_state_def
      spec_ips_Nil_iff get_or_def split: option.splits prod.splits)

lemma classify_ips_not_Nil: "classify_entries es kind = CIps ips p t \<Longrightarrow> ips \<noteq> []"
  by (auto simp: classify_spec_aux spec_classify_def spec_ips_Nil_iff split: option.splits if_splits prod.splits)

lemma classify_service_no_fqdn: "classify_entries es ServiceKind \<noteq> CFqdn h p t"
  by (auto simp: classify_spec_aux spec_classify_def split: option.splits prod.splits)

section \<open>Emission keeps the desired state well-formed\<close>

lemmas emit_defs = emit_backend_tls_policy_def emit_envoy_backend_def emit_synthesized_service_def
  emit_ip_backend_def emit_fqdn_backend_def emit_cluster_dns_backend_def

lemma wf_desired_updates:
  assumes "wf_desired cfg d"
  shows "meta_ok cfg n (svc_metadata s) \<Longrightarrow> wf_desired cfg (d\<lparr>d_services := bt_insert n s (d_services d)\<rparr>)"
    and "meta_ok cfg n (es_metadata e) \<Longrightarrow>
      wf_desired cfg (d\<lparr>d_endpoint_slices := bt_insert n e (d_endpoint_slices d)\<rparr>)"
    and "meta_ok cfg n (eb_metadata b) \<Longrightarrow>
      wf_desired cfg (d\<lparr>d_envoy_backends := bt_insert n b (d_envoy_backends d)\<rparr>)"
    and "meta_ok cfg n (btp_metadata p) \<Longrightarrow>
      wf_desired cfg (d\<lparr>d_backend_tls_policies := bt_insert n p (d_backend_tls_policies d)\<rparr>)"
    and "meta_ok cfg n (hroute_metadata r) \<Longrightarrow>
      wf_desired cfg (d\<lparr>d_http_routes := bt_insert n r (d_http_routes d)\<rparr>)"
    and "meta_ok cfg n (sp_metadata p') \<Longrightarrow>
      wf_desired cfg (d\<lparr>d_security_policies := bt_insert n p' (d_security_policies d)\<rparr>)"
    and "meta_ok cfg n (lset_metadata ls) \<Longrightarrow>
      wf_desired cfg (d\<lparr>d_listener_sets := bt_insert n ls (d_listener_sets d)\<rparr>)"
    and "meta_ok cfg n (l4route_metadata r') \<Longrightarrow>
      wf_desired cfg (d\<lparr>d_tcp_routes := bt_insert n r' (d_tcp_routes d)\<rparr>)"
    and "meta_ok cfg n (l4route_metadata r') \<Longrightarrow>
      wf_desired cfg (d\<lparr>d_udp_routes := bt_insert n r' (d_udp_routes d)\<rparr>)"
  using assms by (auto simp: wf_desired_def intro: wf_intros)

lemma wf_emit_tls_policy:
  "wf_desired cfg d \<Longrightarrow> wf_desired cfg (emit_backend_tls_policy pf cfg pn i t h d)"
  unfolding emit_backend_tls_policy_def Let_def
  by (erule wf_desired_updates) (auto intro: wf_intros label_intros)

lemma wf_emit_envoy:
  "wf_desired cfg d \<Longrightarrow> wf_desired cfg (snd (emit_envoy_backend pf cfg pn eps p i t d))"
  unfolding emit_envoy_backend_def Let_def snd_conv
  by (erule wf_desired_updates) (auto intro: wf_intros label_intros)

lemma wf_emit_service:
  "wf_desired cfg d \<Longrightarrow> wf_desired cfg (snd (emit_synthesized_service pf cfg pn ips p i pr d))"
  unfolding emit_synthesized_service_def Let_def snd_conv wf_desired_def
  by (auto intro!: wf_intros label_intros)

lemma wf_emit_ip:
  "wf_desired cfg d \<Longrightarrow> wf_desired cfg (snd (emit_ip_backend pf cfg pn ips p i pr t d))"
  by (simp add: emit_ip_backend_def Let_def split_beta wf_emit_tls_policy wf_emit_envoy wf_emit_service
      split: backend_kind.split option.split)

lemma wf_emit_cluster:
  "wf_desired cfg d \<Longrightarrow> wf_desired cfg (snd (emit_cluster_dns_backend pf cfg pn s ns p i t d))"
  by (simp add: emit_cluster_dns_backend_def emit_fqdn_backend_def Let_def wf_emit_tls_policy wf_emit_envoy
      split: backend_kind.split option.split)

lemma wf_emit_backend:
  "wf_desired cfg d \<Longrightarrow> wf_desired cfg (snd (emit_backend pf cfg pn c i pr sv d))"
  by (simp add: emit_backend_def wf_emit_ip wf_emit_cluster emit_fqdn_backend_def Let_def wf_emit_envoy
      split: classification.split)

lemma d_names_updates:
  "d_names d \<subseteq> d_names (d\<lparr>d_services := bt_insert n s (d_services d)\<rparr>)"
  "d_names d \<subseteq> d_names (d\<lparr>d_endpoint_slices := bt_insert n e (d_endpoint_slices d)\<rparr>)"
  "d_names d \<subseteq> d_names (d\<lparr>d_envoy_backends := bt_insert n b (d_envoy_backends d)\<rparr>)"
  "d_names d \<subseteq> d_names (d\<lparr>d_backend_tls_policies := bt_insert n p (d_backend_tls_policies d)\<rparr>)"
  "d_names d \<subseteq> d_names (d\<lparr>d_http_routes := bt_insert n r (d_http_routes d)\<rparr>)"
  "d_names d \<subseteq> d_names (d\<lparr>d_security_policies := bt_insert n p' (d_security_policies d)\<rparr>)"
  "d_names d \<subseteq> d_names (d\<lparr>d_listener_sets := bt_insert n ls (d_listener_sets d)\<rparr>)"
  "d_names d \<subseteq> d_names (d\<lparr>d_tcp_routes := bt_insert n r' (d_tcp_routes d)\<rparr>)"
  "d_names d \<subseteq> d_names (d\<lparr>d_udp_routes := bt_insert n r' (d_udp_routes d)\<rparr>)"
  by (rule d_names_mono; case_tac k; auto simp: bt_keys_insert)+

lemma grows_emit:
  "d_names d \<subseteq> d_names (emit_backend_tls_policy pf cfg pn i t h d)"
  "d_names d \<subseteq> d_names (snd (emit_envoy_backend pf cfg pn eps p i t' d))"
  "d_names d \<subseteq> d_names (snd (emit_synthesized_service pf cfg pn ips p i pr d))"
  by (simp_all add: emit_backend_tls_policy_def emit_envoy_backend_def emit_synthesized_service_def
      Let_def d_names_updates)
     (rule d_names_mono, case_tac k, auto simp: bt_keys_insert)

lemma grows_emit_ip: "d_names d \<subseteq> d_names (snd (emit_ip_backend pf cfg pn ips p i pr t d))"
  by (simp add: emit_ip_backend_def Let_def split_beta grows_emit order_trans [OF grows_emit(3) grows_emit(1)]
      split: backend_kind.split option.split)

lemma grows_emit_cluster:
  "d_names d \<subseteq> d_names (snd (emit_cluster_dns_backend pf cfg pn s ns p i t d))"
  by (simp add: emit_cluster_dns_backend_def emit_fqdn_backend_def Let_def grows_emit
      split: backend_kind.split option.split)

lemma grows_emit_backend: "d_names d \<subseteq> d_names (snd (emit_backend pf cfg pn c i pr sv d))"
  by (simp add: emit_backend_def grows_emit_ip grows_emit_cluster emit_fqdn_backend_def Let_def grows_emit
      split: classification.split)

lemma snd_index_resolved [simp]: "snd (index_resolved pn r index) = snd r"
  by (simp add: index_resolved_def split: option.splits)

lemma snd_backend_step:
  "snd (backend_step pf cfg ts e st) = snd st \<or>
   (\<exists>c sv. snd (backend_step pf cfg ts e st) = snd (emit_backend pf cfg (fst e) c [] ''TCP'' sv (snd st)))"
  by (auto simp: backend_step_def Let_def split_beta split: option.splits)

lemma snd_l4_backend_step:
  "snd (l4_backend_step pf cfg pr e st) = snd st \<or>
   (\<exists>c. snd (l4_backend_step pf cfg pr e st)
      = snd (emit_backend pf cfg (fst e) c (infix_of pr) (k8s_protocol pr) False (snd st)))"
  by (auto simp: l4_backend_step_def Let_def split_beta split: option.splits)

interpretation http_backends: desired_builder cfg "backend_step pf cfg ts" snd for cfg pf ts
proof unfold_locales
  fix s x
  show "wf_desired cfg (snd s) \<Longrightarrow> wf_desired cfg (snd (backend_step pf cfg ts x s))"
    by (metis snd_backend_step wf_emit_backend)
  show "d_names (snd s) \<subseteq> d_names (snd (backend_step pf cfg ts x s))"
    by (metis snd_backend_step grows_emit_backend order_refl)
qed

interpretation l4_backends: desired_builder cfg "l4_backend_step pf cfg pr" snd for cfg pf pr
proof unfold_locales
  fix s x
  show "wf_desired cfg (snd s) \<Longrightarrow> wf_desired cfg (snd (l4_backend_step pf cfg pr x s))"
    by (metis snd_l4_backend_step wf_emit_backend)
  show "d_names (snd s) \<subseteq> d_names (snd (l4_backend_step pf cfg pr x s))"
    by (metis snd_l4_backend_step grows_emit_backend order_refl)
qed

section \<open>The index refers to what is emitted\<close>

text \<open>
  A resolved backend names a Service or an Envoy Backend of the desired state, or, for a
  cluster DNS name, a Service of the namespace the name gives.
\<close>

definition ref_ok :: "desired \<Rightarrow> resolved_backend \<Rightarrow> bool" where
  "ref_ok d rb \<longleftrightarrow>
     (rb_group rb = [] \<and> rb_kind rb = ''Service'' \<and> rb_namespace rb = None \<and>
        (KService, rb_name rb) \<in> d_names d) \<or>
     (rb_group rb = ''gateway.envoyproxy.io'' \<and> rb_kind rb = ''Backend'' \<and> rb_namespace rb = None \<and>
        (KBackend, rb_name rb) \<in> d_names d) \<or>
     (rb_group rb = [] \<and> rb_kind rb = ''Service'' \<and> rb_namespace rb \<noteq> None)"

definition index_ok :: "backend_index \<Rightarrow> desired \<Rightarrow> bool" where
  "index_ok index d \<longleftrightarrow> (\<forall>e \<in> set index. ref_ok d (snd e))"

lemma ref_ok_mono: "ref_ok d rb \<Longrightarrow> d_names d \<subseteq> d_names d' \<Longrightarrow> ref_ok d' rb"
  unfolding ref_ok_def by blast

lemma index_ok_mono: "index_ok index d \<Longrightarrow> d_names d \<subseteq> d_names d' \<Longrightarrow> index_ok index d'"
  unfolding index_ok_def by (blast intro: ref_ok_mono)

lemma index_ok_Nil [simp]: "index_ok [] d"
  by (simp add: index_ok_def)

lemma index_okD: "index_ok index d \<Longrightarrow> bt_get index n = Some rb \<Longrightarrow> ref_ok d rb"
  using bt_get_SomeD by (fastforce simp: index_ok_def)

lemma index_ok_insert: "index_ok index d \<Longrightarrow> ref_ok d rb \<Longrightarrow> index_ok (bt_insert n rb index) d"
  by (auto simp: index_ok_def dest: in_bt_insertD)

lemma ref_ok_emit_envoy:
  "ref_ok (snd (emit_envoy_backend pf cfg pn eps p i t d)) (fst (emit_envoy_backend pf cfg pn eps p i t d))"
  by (simp add: emit_envoy_backend_def Let_def ref_ok_def bt_keys_insert)

lemma ref_ok_emit_service:
  "ref_ok (snd (emit_synthesized_service pf cfg pn ips p i pr d))
     (fst (emit_synthesized_service pf cfg pn ips p i pr d))"
  by (simp add: emit_synthesized_service_def Let_def ref_ok_def bt_keys_insert)

lemma ref_ok_emit_ip:
  "ref_ok (snd (emit_ip_backend pf cfg pn ips p i pr t d)) (fst (emit_ip_backend pf cfg pn ips p i pr t d))"
  by (simp add: emit_ip_backend_def Let_def split_beta ref_ok_emit_envoy ref_ok_emit_service
      ref_ok_mono [OF ref_ok_emit_service grows_emit(1)] split: backend_kind.split option.split)

lemma ref_ok_emit_cluster:
  "ref_ok (snd (emit_cluster_dns_backend pf cfg pn s ns p i t d))
     (fst (emit_cluster_dns_backend pf cfg pn s ns p i t d))"
  by (simp add: emit_cluster_dns_backend_def emit_fqdn_backend_def Let_def ref_ok_emit_envoy
      split: backend_kind.split option.split) (simp add: ref_ok_def)

lemma emit_backend_ref:
  "fst (emit_backend pf cfg pn c i pr sv d) = Some rb \<Longrightarrow> ref_ok (snd (emit_backend pf cfg pn c i pr sv d)) rb"
  using ref_ok_emit_ip ref_ok_emit_cluster ref_ok_emit_envoy
  by (cases c) (auto simp: emit_backend_def emit_fqdn_backend_def Let_def)

lemma index_ok_resolved:
  assumes "index_ok index d"
  shows "index_ok (fst (index_resolved pn (emit_backend pf cfg pn c i pr sv d) index))
     (snd (emit_backend pf cfg pn c i pr sv d))"
proof (cases "fst (emit_backend pf cfg pn c i pr sv d)")
  case None
  then show ?thesis
    using index_ok_mono [OF assms grows_emit_backend] by (simp add: index_resolved_def)
next
  case (Some rb)
  then show ?thesis
    using index_ok_insert [OF index_ok_mono [OF assms grows_emit_backend] emit_backend_ref [OF Some]]
    by (simp add: index_resolved_def)
qed

lemma index_ok_step:
  "index_ok (fst st) (snd st) \<Longrightarrow>
     index_ok (fst (backend_step pf cfg ts e st)) (snd (backend_step pf cfg ts e st))"
  by (auto simp: backend_step_def Let_def split_beta split: option.splits intro: index_ok_resolved)

lemma index_ok_l4_step:
  "index_ok (fst st) (snd st) \<Longrightarrow>
     index_ok (fst (l4_backend_step pf cfg pr e st)) (snd (l4_backend_step pf cfg pr e st))"
  by (auto simp: l4_backend_step_def Let_def split_beta split: option.splits intro: index_ok_resolved)

lemma build_backends_ok:
  assumes "build_backends pf cfg services ts d = (index, d')"
  shows "index_ok index d'" and "wf_desired cfg d \<Longrightarrow> wf_desired cfg d'" and "d_names d \<subseteq> d_names d'"
proof -
  have "index_ok (fst (build_backends pf cfg services ts d)) (snd (build_backends pf cfg services ts d))"
    unfolding build_backends_def
    by (rule fold_invariant_in [where P = "\<lambda>st. index_ok (fst st) (snd st)"])
       (simp_all add: index_ok_step)
  then show "index_ok index d'" using assms by simp
  show "wf_desired cfg d \<Longrightarrow> wf_desired cfg d'"
    using assms http_backends.fold_keeps [of cfg "([], d)" pf ts services] by (simp add: build_backends_def)
  show "d_names d \<subseteq> d_names d'"
    using assms http_backends.fold_grows [of "([], d)" pf cfg ts services] by (simp add: build_backends_def)
qed

lemma build_l4_backends_ok:
  assumes "build_l4_backends pf cfg services pr d = (index, d')"
  shows "index_ok index d'" and "wf_desired cfg d \<Longrightarrow> wf_desired cfg d'" and "d_names d \<subseteq> d_names d'"
proof -
  have "index_ok (fst (build_l4_backends pf cfg services pr d)) (snd (build_l4_backends pf cfg services pr d))"
    unfolding build_l4_backends_def
    by (rule fold_invariant_in [where P = "\<lambda>st. index_ok (fst st) (snd st)"])
       (simp_all add: index_ok_l4_step)
  then show "index_ok index d'" using assms by simp
  show "wf_desired cfg d \<Longrightarrow> wf_desired cfg d'"
    using assms l4_backends.fold_keeps [of cfg "([], d)" pf pr services] by (simp add: build_l4_backends_def)
  show "d_names d \<subseteq> d_names d'"
    using assms l4_backends.fold_grows [of "([], d)" pf cfg pr services] by (simp add: build_l4_backends_def)
qed

section \<open>What one service may add\<close>

text \<open>
  The abstract specification of the emission: \<open>emitted cfg skip d d'\<close> says that \<open>d'\<close> is \<open>d\<close>
  with objects added that the backend kind allows and that are well-formed. In Envoy mode
  these are Backends with at least one endpoint, each an address or a host name, whose
  certificate is checked unless \<open>skip\<close> holds of the Backend's name; in Service mode Services
  with an EndpointSlice labelled with the Service's name, and BackendTLSPolicies.
\<close>

definition endpoint_ok :: "backend_endpoint \<Rightarrow> bool" where
  "endpoint_ok ep \<longleftrightarrow> (be_ip ep = None) \<noteq> (be_fqdn ep = None)"

definition tls_verified :: "backend_tls_settings \<Rightarrow> bool" where
  "tls_verified t \<longleftrightarrow>
     bts_insecure_skip_verify t = None \<and> bts_well_known_ca_certificates t = Some ''System''"

definition backend_ok :: "bool \<Rightarrow> envoy_backend \<Rightarrow> bool" where
  "backend_ok skip b \<longleftrightarrow>
     bspec_endpoints (eb_spec b) \<noteq> [] \<and> list_all endpoint_ok (bspec_endpoints (eb_spec b)) \<and>
     (case bspec_tls (eb_spec b) of None \<Rightarrow> True | Some t \<Rightarrow> tls_verified t \<or> skip)"

definition slice_of :: "string \<Rightarrow> endpoint_slice \<Rightarrow> bool" where
  "slice_of n e \<longleftrightarrow>
     (\<exists>ls. om_labels (es_metadata e) = Some ls \<and> bt_get ls service_name_label = Some n) \<and>
     es_endpoints e \<noteq> []"

inductive emitted :: "config \<Rightarrow> (string \<Rightarrow> bool) \<Rightarrow> desired \<Rightarrow> desired \<Rightarrow> bool" for cfg skip where
  emitted_refl: "emitted cfg skip d d"
| emitted_trans: "emitted cfg skip d d' \<Longrightarrow> emitted cfg skip d' d'' \<Longrightarrow> emitted cfg skip d d''"
| emitted_backend:
    "cfg_backend_kind cfg = EnvoyBackendKind \<Longrightarrow> backend_ok (skip n) b \<Longrightarrow>
     emitted cfg skip d (d\<lparr>d_envoy_backends := bt_insert n b (d_envoy_backends d)\<rparr>)"
| emitted_service:
    "cfg_backend_kind cfg = ServiceKind \<Longrightarrow> slice_of n e \<Longrightarrow>
     emitted cfg skip d (d\<lparr>d_services := bt_insert n s (d_services d),
       d_endpoint_slices := bt_insert m e (d_endpoint_slices d)\<rparr>)"
| emitted_policy:
    "cfg_backend_kind cfg = ServiceKind \<Longrightarrow>
     emitted cfg skip d (d\<lparr>d_backend_tls_policies := bt_insert n p (d_backend_tls_policies d)\<rparr>)"

lemma emitted_mono: "emitted cfg skip d d' \<Longrightarrow> (\<And>n. skip n \<Longrightarrow> skip' n) \<Longrightarrow> emitted cfg skip' d d'"
proof (induction rule: emitted.induct)
  case (emitted_backend n b d)
  then show ?case by (auto intro!: emitted.emitted_backend simp: backend_ok_def split: option.splits)
qed (auto intro: emitted.intros)

lemma tls_verified_backend_tls: "tls_verified (backend_tls sv sni) \<longleftrightarrow> \<not> sv"
  by (simp add: tls_verified_def backend_tls_def)

lemma emitted_envoy:
  assumes "cfg_backend_kind cfg = EnvoyBackendKind" and "eps \<noteq> []" and "list_all endpoint_ok eps"
    and "case t of None \<Rightarrow> True | Some s \<Rightarrow> tls_verified s \<or> skip (prefixed_label pf (name_prefix ''be'' i) pn)"
  shows "emitted cfg skip d (snd (emit_envoy_backend pf cfg pn eps p i t d))"
  unfolding emit_envoy_backend_def Let_def snd_conv
  using assms by (intro emitted_backend) (simp_all add: backend_ok_def)

lemma emitted_synthesized:
  assumes "cfg_backend_kind cfg = ServiceKind" and "ips \<noteq> []"
  shows "emitted cfg skip d (snd (emit_synthesized_service pf cfg pn ips p i pr d))"
  unfolding emit_synthesized_service_def Let_def snd_conv
  using assms
  by (intro emitted_service)
     (simp_all add: slice_of_def managed_metadata_def managed_metadata_with_def bt_get_insert_same)

lemma emitted_tls_policy:
  "cfg_backend_kind cfg = ServiceKind \<Longrightarrow> emitted cfg skip d (emit_backend_tls_policy pf cfg pn i t h d)"
  unfolding emit_backend_tls_policy_def Let_def by (rule emitted_policy)

lemma emitted_emit_backend:
  assumes c: "c = classify_entries es (cfg_backend_kind cfg)"
    and skip: "sv \<Longrightarrow> skip (prefixed_label pf (name_prefix ''be'' i) pn)"
  shows "emitted cfg skip d (snd (emit_backend pf cfg pn c i pr sv d))"
proof (cases "cfg_backend_kind cfg")
  case ServiceKind
  with c have "c \<noteq> CFqdn h p t" and "c = CIps ips p t \<Longrightarrow> ips \<noteq> []" for h p t ips
    using classify_service_no_fqdn classify_ips_not_Nil by auto
  with ServiceKind show ?thesis
    by (simp add: emit_backend_def emit_ip_backend_def emit_cluster_dns_backend_def Let_def split_beta
        emitted_synthesized emitted_tls_policy emitted_trans [OF emitted_synthesized emitted_tls_policy]
        emitted_refl split: classification.split option.split)
next
  case EnvoyBackendKind
  with c have "c = CIps ips p t \<Longrightarrow> ips \<noteq> []" for ips p t using classify_ips_not_Nil by metis
  then show ?thesis
    using EnvoyBackendKind skip
    by (auto simp: emit_backend_def emit_ip_backend_def emit_fqdn_backend_def emit_cluster_dns_backend_def
        Let_def then_some_def list_all_iff endpoint_ok_def tls_verified_backend_tls
        split: classification.split option.split
        intro!: emitted_envoy emitted_refl)
qed

text \<open>A service asks for its certificates not to be checked.\<close>

definition requests_skip :: "(string \<times> json) list \<Rightarrow> pang_service \<Rightarrow> bool" where
  "requests_skip ts svc \<longleftrightarrow>
     (\<exists>lb. psvc_load_balancer svc = Some lb \<and> transport_skips_verify (lb_servers_transport lb) ts)"

definition skip_names ::
  "platform \<Rightarrow> (string \<times> json) list \<Rightarrow> (string \<times> pang_service) list \<Rightarrow> string \<Rightarrow> bool" where
  "skip_names pf ts services n \<longleftrightarrow>
     (\<exists>(pn, svc) \<in> set services. n = prefixed_label pf ''be'' pn \<and> requests_skip ts svc)"

lemma emitted_backend_step:
  assumes "e \<in> set services"
  shows "emitted cfg (skip_names pf ts services) (snd st) (snd (backend_step pf cfg ts e st))"
proof -
  obtain pn svc index d where e: "e = (pn, svc)" "st = (index, d)" by fastforce
  show ?thesis
  proof (cases "psvc_load_balancer svc")
    case None
    then show ?thesis by (simp add: e backend_step_def emitted_refl)
  next
    case (Some lb)
    have "transport_skips_verify (lb_servers_transport lb) ts \<Longrightarrow>
        skip_names pf ts services (prefixed_label pf (name_prefix ''be'' []) pn)"
      using assms Some by (auto simp: skip_names_def requests_skip_def e name_prefix_def)
    then show ?thesis
      by (auto simp: e backend_step_def Some Let_def emitted_refl intro: emitted_emit_backend)
  qed
qed

lemma emitted_l4_backend_step:
  "emitted cfg (\<lambda>_. False) (snd st) (snd (l4_backend_step pf cfg pr e st))"
  by (auto simp: l4_backend_step_def Let_def split_beta emitted_refl split: option.splits
      intro: emitted_emit_backend)

lemma emitted_fold:
  assumes "\<And>x s. x \<in> set xs \<Longrightarrow> emitted cfg skip (snd s) (snd (f x s))"
  shows "emitted cfg skip (snd s) (snd (fold f xs s))"
  by (rule fold_invariant_in [where P = "\<lambda>s'. emitted cfg skip (snd s) (snd s')"])
     (auto intro: emitted_refl emitted_trans assms)

lemma emitted_build_backends:
  "emitted cfg (skip_names pf ts services) d (snd (build_backends pf cfg services ts d))"
  unfolding build_backends_def
  using emitted_fold [where s = "([], d)", OF emitted_backend_step] by simp

lemma emitted_build_l4_backends:
  "emitted cfg (\<lambda>_. False) d (snd (build_l4_backends pf cfg services pr d))"
  unfolding build_l4_backends_def
  using emitted_fold [where s = "([], d)", OF emitted_l4_backend_step] by simp

section \<open>Consequences of the specification\<close>

definition slices_ok :: "desired \<Rightarrow> bool" where
  "slices_ok d \<longleftrightarrow> (\<forall>e \<in> snd ` set (d_endpoint_slices d). \<exists>n \<in> set (bt_keys (d_services d)). slice_of n e)"

definition backends_ok :: "(string \<Rightarrow> bool) \<Rightarrow> desired \<Rightarrow> bool" where
  "backends_ok skip d \<longleftrightarrow> (\<forall>x \<in> set (d_envoy_backends d). backend_ok (skip (fst x)) (snd x))"

lemma emitted_slices: "emitted cfg skip d d' \<Longrightarrow> slices_ok d \<Longrightarrow> slices_ok d'"
proof (induction rule: emitted.induct)
  case (emitted_service n e d m s)
  show ?case
    unfolding slices_ok_def
  proof
    fix e' assume "e' \<in> snd ` set (d_endpoint_slices (d\<lparr>d_services := bt_insert n s (d_services d),
      d_endpoint_slices := bt_insert m e (d_endpoint_slices d)\<rparr>))"
    then have "e' = e \<or> e' \<in> snd ` set (d_endpoint_slices d)" by (auto dest: in_bt_insertD)
    then show "\<exists>n'\<in>set (bt_keys (d_services (d\<lparr>d_services := bt_insert n s (d_services d),
      d_endpoint_slices := bt_insert m e (d_endpoint_slices d)\<rparr>))). slice_of n' e'"
      using emitted_service by (auto simp: slices_ok_def bt_keys_insert)
  qed
qed (simp_all add: slices_ok_def)

lemma emitted_backends: "emitted cfg skip d d' \<Longrightarrow> backends_ok skip d \<Longrightarrow> backends_ok skip d'"
proof (induction rule: emitted.induct)
  case (emitted_backend n b d)
  show ?case
    unfolding backends_ok_def
  proof
    fix x assume "x \<in> set (d_envoy_backends (d\<lparr>d_envoy_backends := bt_insert n b (d_envoy_backends d)\<rparr>))"
    then have "x = (n, b) \<or> x \<in> set (d_envoy_backends d)" by (auto dest!: in_bt_insertD)
    then show "backend_ok (skip (fst x)) (snd x)"
      using emitted_backend by (auto simp: backends_ok_def)
  qed
next
  case (emitted_trans d d' d'')
  then show ?case by blast
qed (simp_all add: backends_ok_def)

lemma emitted_service_mode:
  "emitted cfg skip d d' \<Longrightarrow> cfg_backend_kind cfg = ServiceKind \<Longrightarrow> d_envoy_backends d' = d_envoy_backends d"
  by (induction rule: emitted.induct) auto

lemma emitted_envoy_mode:
  "emitted cfg skip d d' \<Longrightarrow> cfg_backend_kind cfg = EnvoyBackendKind \<Longrightarrow>
     d_services d' = d_services d \<and> d_endpoint_slices d' = d_endpoint_slices d \<and>
     d_backend_tls_policies d' = d_backend_tls_policies d"
  by (induction rule: emitted.induct) auto

lemma emitted_frame:
  "emitted cfg skip d d' \<Longrightarrow>
     d_http_routes d' = d_http_routes d \<and> d_tcp_routes d' = d_tcp_routes d \<and>
     d_udp_routes d' = d_udp_routes d \<and> d_security_policies d' = d_security_policies d \<and>
     d_listener_sets d' = d_listener_sets d"
  by (induction rule: emitted.induct) auto

section \<open>Addresses\<close>

text \<open>A host name or IPv4 address, or an IPv6 address to be put in brackets.\<close>

definition host_char :: "char \<Rightarrow> bool" where
  "host_char c \<longleftrightarrow> label_char c \<or> c = CHR ''.''"

lemma host_char_start: "host_char c \<Longrightarrow> \<not> ws_start c"
  by (auto simp: host_char_def label_char_def is_lower_def is_digit_def byte_def ws_start_def ws_seqs_def)

lemma host_char_not:
  "list_all host_char h \<Longrightarrow> CHR '':'' \<notin> set h \<and> CHR ''['' \<notin> set h \<and> CHR ''/'' \<notin> set h"
  by (auto simp: list_all_iff host_char_def label_char_def is_lower_def is_digit_def byte_def)

lemma show_nat_not: "CHR '':'' \<notin> set (show_nat p) \<and> CHR ''/'' \<notin> set (show_nat p)"
  using show_nat_digits [of p] by (auto simp: is_digit_def byte_def)

lemma trim_host_port:
  assumes "s \<noteq> []" and "list_all host_char s"
  shows "trim (s @ r @ show_nat p) = s @ r @ show_nat p"
  using assms show_nat_digits [of p] host_char_start [of "hd s"]
  by (intro trim_id) (auto simp: list_all_iff)

lemma parse_l4_address_after_scheme:
  assumes "h \<noteq> []" and "list_all host_char h" and "p < 65536"
    and "trim s = s" and "(case split_once_str ''://'' s of Some (_, r) \<Rightarrow> r | None \<Rightarrow> s) = h @ '':'' @ show_nat p"
  shows "parse_l4_address s = Some \<lparr>hp_host = h, hp_port = int p, hp_tls = False\<rparr>"
proof -
  have "strip_prefix ''['' (h @ '':'' @ show_nat p) = None"
    using assms(1) host_char_not [OF assms(2)] by (cases h) auto
  moreover have "rsplit_once CHR '':'' (h @ '':'' @ show_nat p) = Some (h, show_nat p)"
    using show_nat_not by (simp add: rsplit_once_Some_iff)
  ultimately show ?thesis
    using assms by (simp add: parse_l4_address_def Let_def parse_u16_show)
qed

lemma parse_l4_address_plain:
  assumes "h \<noteq> []" and "list_all host_char h" and "p < 65536"
  shows "parse_l4_address (h @ '':'' @ show_nat p) = Some \<lparr>hp_host = h, hp_port = int p, hp_tls = False\<rparr>"
proof (rule parse_l4_address_after_scheme [OF assms])
  show "trim (h @ '':'' @ show_nat p) = h @ '':'' @ show_nat p" by (rule trim_host_port [OF assms(1,2)])
  have "split_once_str ''://'' (h @ '':'' @ show_nat p) = None"
    using host_char_not [OF assms(2)] show_nat_not
    by (intro split_once_str_None [of "CHR ''/''"]) auto
  then show "(case split_once_str ''://'' (h @ '':'' @ show_nat p) of Some (_, r) \<Rightarrow> r
      | None \<Rightarrow> h @ '':'' @ show_nat p) = h @ '':'' @ show_nat p" by simp
qed

lemma parse_l4_address_scheme:
  assumes "h \<noteq> []" and "list_all host_char h" and "p < 65536"
    and s: "s \<noteq> []" "list_all host_char s"
  shows "parse_l4_address (s @ ''://'' @ h @ '':'' @ show_nat p)
     = Some \<lparr>hp_host = h, hp_port = int p, hp_tls = False\<rparr>"
proof (rule parse_l4_address_after_scheme [OF assms(1-3)])
  show "trim (s @ ''://'' @ h @ '':'' @ show_nat p) = s @ ''://'' @ h @ '':'' @ show_nat p"
    using trim_host_port [OF s, of "''://'' @ h @ '':''"] by simp
  have "split_once_str ''://'' (s @ ''://'' @ h @ '':'' @ show_nat p) = Some (s, h @ '':'' @ show_nat p)"
    using host_char_not [OF s(2)] by (intro split_once_str_append) auto
  then show "(case split_once_str ''://'' (s @ ''://'' @ h @ '':'' @ show_nat p) of Some (_, r) \<Rightarrow> r
      | None \<Rightarrow> s @ ''://'' @ h @ '':'' @ show_nat p) = h @ '':'' @ show_nat p" by simp
qed

lemma parse_l4_address_sound:
  "parse_l4_address s = Some hp \<Longrightarrow> hp_host hp \<noteq> [] \<and> 0 \<le> hp_port hp \<and> hp_port hp < 65536 \<and> \<not> hp_tls hp"
  unfolding parse_l4_address_def Let_def
  by (auto split: option.splits prod.splits if_splits dest: parse_u16_bound)

section \<open>Properties\<close>

text \<open>C24: The loop over a service's servers computes the declarative classification.\<close>

theorem classify_is_spec: "classify_entries entries kind = spec_classify entries kind"
  by (rule classify_spec_aux)

text \<open>An address that is printed as host and port is read back, with or without a scheme.\<close>

lemma l4_address_roundtrip:
  assumes "h \<noteq> []" and "list_all host_char h" and "p < 65536" and "scheme \<noteq> []" and "list_all host_char scheme"
  shows "parse_l4_address (h @ '':'' @ show_nat p) = Some \<lparr>hp_host = h, hp_port = int p, hp_tls = False\<rparr> \<and>
    parse_l4_address (scheme @ ''://'' @ h @ '':'' @ show_nat p) =
      Some \<lparr>hp_host = h, hp_port = int p, hp_tls = False\<rparr>"
  using parse_l4_address_plain [OF assms(1-3)] parse_l4_address_scheme [OF assms] by blast

lemma l4_address_roundtrip_example:
  "parse_l4_address ''10.0.0.5:22'' = Some \<lparr>hp_host = ''10.0.0.5'', hp_port = 22, hp_tls = False\<rparr> \<and>
   parse_l4_address ''tcp://10.0.0.5:22'' = Some \<lparr>hp_host = ''10.0.0.5'', hp_port = 22, hp_tls = False\<rparr>"
proof -
  have "show_nat 22 = ''22''" "list_all host_char ''10.0.0.5''" "list_all host_char ''tcp''" by code_simp+
  with l4_address_roundtrip [of "''10.0.0.5''" 22 "''tcp''"] show ?thesis by simp
qed

end
