(* ===== verification/Ext_Authz.thy ===== *)
theory Ext_Authz
  imports Apply
begin

text \<open>
  \<^verbatim>\<open>src/transform/ext_authz.rs\<close>: the SecurityPolicy that puts a protected route behind the
  external authorization service. \<open>guards\<close> states what such a policy must say.
\<close>

definition non_empty :: "'a list \<Rightarrow> 'a list option" where
  "non_empty xs = (if xs = [] then None else Some xs)"

definition build_security_policy ::
  "platform \<Rightarrow> config \<Rightarrow> ext_authz_config \<Rightarrow> string \<Rightarrow> security_policy" where
  "build_security_policy pf cfg ea route_name =
     (let name = prefixed_label pf ''sp'' route_name;
          labels = owner_labels cfg name
      in \<lparr>sp_metadata = managed_metadata cfg name labels,
          sp_spec =
            \<lparr>sps_target_refs =
               [\<lparr>ptr_group = ''gateway.networking.k8s.io'', ptr_kind = ''HTTPRoute'',
                 ptr_name = route_name\<rparr>],
             sps_ext_auth = Some
               \<lparr>ea_http = Some
                  \<lparr>heas_backend_refs =
                     [\<lparr>eab_name = eac_service ea, eab_namespace = eac_namespace ea,
                       eab_port = Some (eac_port ea)\<rparr>],
                   heas_path = eac_path ea,
                   heas_headers_to_backend = non_empty (eac_headers_to_backend ea)\<rparr>,
                ea_headers_to_ext_auth = non_empty (eac_headers_to_ext_auth ea),
                ea_fail_open = Some False\<rparr>\<rparr>\<rparr>)"

declare non_empty_def [exec] build_security_policy_def [exec]

text \<open>
  The policy targets exactly the route, sends its requests to the configured service and
  denies them when the service is down.
\<close>

definition guards :: "ext_authz_config \<Rightarrow> string \<Rightarrow> security_policy \<Rightarrow> bool" where
  "guards ea route_name sp \<longleftrightarrow>
     sps_target_refs (sp_spec sp) =
       [\<lparr>ptr_group = ''gateway.networking.k8s.io'', ptr_kind = ''HTTPRoute'', ptr_name = route_name\<rparr>] \<and>
     (\<exists>ext http. sps_ext_auth (sp_spec sp) = Some ext \<and> ea_fail_open ext = Some False \<and>
        ea_http ext = Some http \<and>
        heas_backend_refs http =
          [\<lparr>eab_name = eac_service ea, eab_namespace = eac_namespace ea, eab_port = Some (eac_port ea)\<rparr>])"

lemma guards_build: "guards ea n (build_security_policy pf cfg ea n)"
  by (simp add: guards_def build_security_policy_def Let_def)

lemma sp_name_build:
  "om_name (sp_metadata (build_security_policy pf cfg ea n)) = Some (prefixed_label pf ''sp'' n)"
  by (simp add: build_security_policy_def Let_def managed_metadata_def managed_metadata_with_def)

lemma meta_ok_build [wf_intros]:
  "meta_ok cfg (prefixed_label pf ''sp'' n) (sp_metadata (build_security_policy pf cfg ea n))"
  by (auto simp: build_security_policy_def Let_def intro: wf_intros label_intros)

end
