(* ===== verification/Middleware.thy ===== *)
theory Middleware
  imports Kube_Types Pangolin_Types
begin

text \<open>
  \<^verbatim>\<open>src/transform/middleware.rs\<close>: Traefik middlewares as Gateway API filters, and the test for
  Pangolin's \<^verbatim>\<open>badger\<close> plugin. A middleware is a JSON object whose first key says its kind.
  The lemmas compare the loop of \<open>merge_filters\<close> with a specification by filters and
  projections, and show which filters can come out.
\<close>

section \<open>Badger\<close>

definition is_badger :: "middleware \<Rightarrow> bool" where
  "is_badger mw =
     (case mw_as_object mw of
        None \<Rightarrow> False
      | Some obj \<Rightarrow>
          (case bt_get obj ''plugin'' of
             None \<Rightarrow> False
           | Some p \<Rightarrow>
               (case json_as_object p of
                  None \<Rightarrow> False
                | Some plugin \<Rightarrow> bt_contains plugin ''badger'')))"

definition requires_badger_auth :: "string list \<Rightarrow> (string \<times> middleware) list \<Rightarrow> bool" where
  "requires_badger_auth middleware_names middlewares =
     list_ex (\<lambda>name. case bt_get middlewares name of
                       Some mw \<Rightarrow> is_badger mw
                     | None \<Rightarrow> name = ''badger'') middleware_names"

section \<open>Filters\<close>

text \<open>A filter with its other fields at their default.\<close>

definition redirect_filter :: "request_redirect \<Rightarrow> http_filter" where
  "redirect_filter r = \<lparr>f_type = RequestRedirect, f_request_redirect = Some r,
     f_request_header_modifier = None, f_response_header_modifier = None, f_url_rewrite = None\<rparr>"

definition request_filter :: "header_set list \<Rightarrow> http_filter" where
  "request_filter hs = \<lparr>f_type = RequestHeaderModifier, f_request_redirect = None,
     f_request_header_modifier = Some \<lparr>hm_set = Some hs\<rparr>, f_response_header_modifier = None,
     f_url_rewrite = None\<rparr>"

definition response_filter :: "header_set list \<Rightarrow> http_filter" where
  "response_filter hs = \<lparr>f_type = ResponseHeaderModifier, f_request_redirect = None,
     f_request_header_modifier = None, f_response_header_modifier = Some \<lparr>hm_set = Some hs\<rparr>,
     f_url_rewrite = None\<rparr>"

definition rewrite_filter :: "url_rewrite \<Rightarrow> http_filter" where
  "rewrite_filter u = \<lparr>f_type = UrlRewrite, f_request_redirect = None,
     f_request_header_modifier = None, f_response_header_modifier = None, f_url_rewrite = Some u\<rparr>"

definition default_rewrite :: url_rewrite where
  "default_rewrite = \<lparr>ur_hostname = None, ur_path = None\<rparr>"

section \<open>One middleware\<close>

definition opt_bind :: "'a option \<Rightarrow> ('a \<Rightarrow> 'b option) \<Rightarrow> 'b option" where
  "opt_bind x f = (case x of None \<Rightarrow> None | Some v \<Rightarrow> f v)"

definition translate_redirect_scheme :: "json \<Rightarrow> http_filter option" where
  "translate_redirect_scheme body =
     (case opt_bind (json_get body ''scheme'') json_as_str of
        None \<Rightarrow> None
      | Some scheme \<Rightarrow>
          (let port = opt_bind (opt_bind (json_get body ''port'') json_as_str) parse_i32
           in if scheme = ''http'' then
                Some (redirect_filter \<lparr>rr_scheme = Some Http, rr_port = port\<rparr>)
              else if scheme = ''https'' then
                Some (redirect_filter \<lparr>rr_scheme = Some Https, rr_port = port\<rparr>)
              else None))"

text \<open>The loop over \<^verbatim>\<open>customRequestHeaders\<close>: the filters and the header set built so far.\<close>

definition request_header_step ::
  "string \<times> json \<Rightarrow> http_filter list \<times> header_set list \<Rightarrow> http_filter list \<times> header_set list" where
  "request_header_step kv st =
     (let (k, v) = kv; (filters, req_set) = st
      in case json_as_str v of
           None \<Rightarrow> (filters, req_set)
         | Some val \<Rightarrow>
             (if eq_ignore_ascii_case k ''host'' then
                (filters @ [rewrite_filter \<lparr>ur_hostname = Some val, ur_path = None\<rparr>], req_set)
              else (filters, req_set @ [\<lparr>hs_name = k, hs_value = val\<rparr>])))"

definition response_header_step :: "string \<times> json \<Rightarrow> header_set list \<Rightarrow> header_set list" where
  "response_header_step kv resp_set =
     (let (k, v) = kv
      in case json_as_str v of
           None \<Rightarrow> resp_set
         | Some val \<Rightarrow> resp_set @ [\<lparr>hs_name = k, hs_value = val\<rparr>])"

definition translate_headers :: "json \<Rightarrow> http_filter list" where
  "translate_headers body =
     (let (filters, req_set) =
            (case opt_bind (json_get body ''customRequestHeaders'') json_as_object of
               None \<Rightarrow> ([], [])
             | Some m \<Rightarrow> fold request_header_step m ([], []));
          resp_set =
            (case opt_bind (json_get body ''customResponseHeaders'') json_as_object of
               None \<Rightarrow> []
             | Some m \<Rightarrow> fold response_header_step m [])
      in filters @ (if req_set \<noteq> [] then [request_filter req_set] else [])
           @ (if resp_set \<noteq> [] then [response_filter resp_set] else []))"

definition translate_add_prefix :: "json \<Rightarrow> http_filter option" where
  "translate_add_prefix body =
     (case opt_bind (json_get body ''prefix'') json_as_str of
        None \<Rightarrow> None
      | Some pre \<Rightarrow>
          Some (rewrite_filter
            \<lparr>ur_hostname = None,
             ur_path = Some \<lparr>rp_type = ReplacePrefixMatch, rp_replace_full_path = None,
                             rp_replace_prefix_match = Some pre\<rparr>\<rparr>))"

definition translate_replace_path :: "json \<Rightarrow> http_filter option" where
  "translate_replace_path body =
     (case opt_bind (json_get body ''path'') json_as_str of
        None \<Rightarrow> None
      | Some path \<Rightarrow>
          Some (rewrite_filter
            \<lparr>ur_hostname = None,
             ur_path = Some \<lparr>rp_type = ReplaceFullPath, rp_replace_full_path = Some path,
                             rp_replace_prefix_match = None\<rparr>\<rparr>))"

definition translate_strip_prefix :: "json \<Rightarrow> http_filter option" where
  "translate_strip_prefix body =
     (case opt_bind (json_get body ''prefixes'') json_as_array of
        None \<Rightarrow> None
      | Some [] \<Rightarrow> None
      | Some (_ # _) \<Rightarrow>
          Some (rewrite_filter
            \<lparr>ur_hostname = None,
             ur_path = Some \<lparr>rp_type = ReplacePrefixMatch, rp_replace_full_path = None,
                             rp_replace_prefix_match = Some []\<rparr>\<rparr>))"

definition single :: "'a option \<Rightarrow> 'a list" where
  "single x = (case x of None \<Rightarrow> [] | Some v \<Rightarrow> [v])"

definition translate :: "middleware \<Rightarrow> http_filter list" where
  "translate mw =
     (case mw_as_object mw of
        None \<Rightarrow> []
      | Some [] \<Rightarrow> []
      | Some ((kind, body) # _) \<Rightarrow>
          (if kind = ''redirectScheme'' then single (translate_redirect_scheme body)
           else if kind = ''headers'' then translate_headers body
           else if kind = ''addPrefix'' then single (translate_add_prefix body)
           else if kind = ''replacePath'' then single (translate_replace_path body)
           else if kind = ''replacePathRegex'' then []
           else if kind = ''stripPrefix'' then single (translate_strip_prefix body)
           else if kind = ''plugin'' \<and> is_badger mw then []
           else if kind = ''plugin'' then []
           else []))"

section \<open>Merging\<close>

record merge_state =
  ms_out :: "http_filter list"
  ms_rewrite :: "url_rewrite option"
  ms_req_set :: "header_set list"
  ms_resp_set :: "header_set list"

definition merge_init :: merge_state where
  "merge_init = \<lparr>ms_out = [], ms_rewrite = None, ms_req_set = [], ms_resp_set = []\<rparr>"

definition merge_rewrite :: "url_rewrite \<Rightarrow> url_rewrite option \<Rightarrow> url_rewrite" where
  "merge_rewrite incoming rewrite =
     (let merged = (case rewrite of None \<Rightarrow> default_rewrite | Some r \<Rightarrow> r);
          merged = (case ur_hostname incoming of
                      Some hostname \<Rightarrow> merged\<lparr>ur_hostname := Some hostname\<rparr> | None \<Rightarrow> merged)
      in case ur_path incoming of
           Some path \<Rightarrow> (if ur_path merged \<noteq> None then merged else merged\<lparr>ur_path := Some path\<rparr>)
         | None \<Rightarrow> merged)"

definition merge_step :: "http_filter \<Rightarrow> merge_state \<Rightarrow> merge_state" where
  "merge_step f st =
     (case f_type f of
        UrlRewrite \<Rightarrow>
          (case f_url_rewrite f of
             None \<Rightarrow> st
           | Some incoming \<Rightarrow> st\<lparr>ms_rewrite := Some (merge_rewrite incoming (ms_rewrite st))\<rparr>)
      | RequestHeaderModifier \<Rightarrow>
          (case opt_bind (f_request_header_modifier f) hm_set of
             None \<Rightarrow> st
           | Some hs \<Rightarrow> st\<lparr>ms_req_set := ms_req_set st @ hs\<rparr>)
      | ResponseHeaderModifier \<Rightarrow>
          (case opt_bind (f_response_header_modifier f) hm_set of
             None \<Rightarrow> st
           | Some hs \<Rightarrow> st\<lparr>ms_resp_set := ms_resp_set st @ hs\<rparr>)
      | RequestRedirect \<Rightarrow> st\<lparr>ms_out := ms_out st @ [f]\<rparr>)"

definition merge_finish :: "merge_state \<Rightarrow> http_filter list" where
  "merge_finish st =
     ms_out st
       @ (if ms_req_set st \<noteq> [] then [request_filter (ms_req_set st)] else [])
       @ (if ms_resp_set st \<noteq> [] then [response_filter (ms_resp_set st)] else [])
       @ (case ms_rewrite st of None \<Rightarrow> [] | Some rw \<Rightarrow> [rewrite_filter rw])"

definition merge_filters :: "http_filter list \<Rightarrow> http_filter list" where
  "merge_filters filters = merge_finish (fold merge_step filters merge_init)"

definition build_filters :: "string list \<Rightarrow> (string \<times> middleware) list \<Rightarrow> http_filter list" where
  "build_filters middleware_names middlewares =
     merge_filters
       (concat (map (\<lambda>name. case bt_get middlewares name of None \<Rightarrow> [] | Some mw \<Rightarrow> translate mw)
          middleware_names))"

declare is_badger_def [exec] requires_badger_auth_def [exec] redirect_filter_def [exec]
  request_filter_def [exec] response_filter_def [exec] rewrite_filter_def [exec]
  default_rewrite_def [exec] opt_bind_def [exec] translate_redirect_scheme_def [exec]
  request_header_step_def [exec] response_header_step_def [exec] translate_headers_def [exec]
  translate_add_prefix_def [exec] translate_replace_path_def [exec] translate_strip_prefix_def [exec]
  single_def [exec] translate_def [exec] merge_init_def [exec] merge_rewrite_def [exec]
  merge_step_def [exec] merge_finish_def [exec] merge_filters_def [exec] build_filters_def [exec]

section \<open>The specification of merging\<close>

definition req_headers :: "http_filter list \<Rightarrow> header_set list" where
  "req_headers fs =
     concat (map (\<lambda>f. if f_type f = RequestHeaderModifier
                      then (case opt_bind (f_request_header_modifier f) hm_set of None \<Rightarrow> [] | Some hs \<Rightarrow> hs)
                      else []) fs)"

definition resp_headers :: "http_filter list \<Rightarrow> header_set list" where
  "resp_headers fs =
     concat (map (\<lambda>f. if f_type f = ResponseHeaderModifier
                      then (case opt_bind (f_response_header_modifier f) hm_set of None \<Rightarrow> [] | Some hs \<Rightarrow> hs)
                      else []) fs)"

definition redirects :: "http_filter list \<Rightarrow> http_filter list" where
  "redirects fs = filter (\<lambda>f. f_type f = RequestRedirect) fs"

definition url_rewrites :: "http_filter list \<Rightarrow> url_rewrite list" where
  "url_rewrites fs = List.map_filter (\<lambda>f. if f_type f = UrlRewrite then f_url_rewrite f else None) fs"

definition first_some :: "'a option list \<Rightarrow> 'a option" where
  "first_some xs = (case find (\<lambda>x. x \<noteq> None) xs of None \<Rightarrow> None | Some x \<Rightarrow> x)"

text \<open>Several url_rewrites become one: the last host name and the first path.\<close>

definition spec_rewrite :: "url_rewrite list \<Rightarrow> url_rewrite option" where
  "spec_rewrite us =
     (if us = [] then None
      else Some \<lparr>ur_hostname = first_some (rev (map ur_hostname us)), ur_path = first_some (map ur_path us)\<rparr>)"

definition spec_merge :: "http_filter list \<Rightarrow> http_filter list" where
  "spec_merge fs =
     redirects fs
       @ (if req_headers fs = [] then [] else [request_filter (req_headers fs)])
       @ (if resp_headers fs = [] then [] else [response_filter (resp_headers fs)])
       @ map rewrite_filter (case spec_rewrite (url_rewrites fs) of None \<Rightarrow> [] | Some u \<Rightarrow> [u])"

lemmas projection_defs = req_headers_def resp_headers_def redirects_def url_rewrites_def
lemmas filter_defs = redirect_filter_def request_filter_def response_filter_def rewrite_filter_def

lemma first_some_Nil [simp]: "first_some [] = None"
  by (simp add: first_some_def)

lemma first_some_Cons: "first_some (x # xs) = (case x of None \<Rightarrow> first_some xs | Some y \<Rightarrow> Some y)"
  by (auto simp: first_some_def split: option.splits)

lemma first_some_append:
  "first_some (xs @ ys) = (case first_some xs of None \<Rightarrow> first_some ys | Some y \<Rightarrow> Some y)"
  by (induction xs) (auto simp: first_some_Cons split: option.splits)

lemma merge_rewrite_spec: "Some (merge_rewrite u (spec_rewrite us)) = spec_rewrite (us @ [u])"
  by (cases us rule: rev_cases)
     (auto simp: merge_rewrite_def spec_rewrite_def default_rewrite_def Let_def first_some_Cons
       first_some_append split: option.splits)

lemma projection_snoc:
  "req_headers (fs @ [f]) = req_headers fs @ req_headers [f]"
  "resp_headers (fs @ [f]) = resp_headers fs @ resp_headers [f]"
  "redirects (fs @ [f]) = redirects fs @ redirects [f]"
  "url_rewrites (fs @ [f]) = url_rewrites fs @ url_rewrites [f]"
  by (simp_all add: projection_defs map_filter_append)

lemma merge_fold_spec:
  "fold merge_step fs merge_init =
     \<lparr>ms_out = redirects fs, ms_rewrite = spec_rewrite (url_rewrites fs),
      ms_req_set = req_headers fs, ms_resp_set = resp_headers fs\<rparr>"
proof (induction fs rule: rev_induct)
  case Nil
  show ?case by (simp add: merge_init_def projection_defs spec_rewrite_def map_filter_simps)
next
  case (snoc f fs)
  then show ?case
    by (cases "f_type f")
       (auto simp: merge_step_def projection_snoc merge_rewrite_spec [symmetric]
         projection_defs [of "[f]"] map_filter_simps split: option.splits)
qed

lemma merge_spec_aux: "merge_filters fs = spec_merge fs"
  by (simp add: merge_filters_def merge_finish_def merge_fold_spec spec_merge_def split: option.split)

lemma projection_append:
  "req_headers (fs @ gs) = req_headers fs @ req_headers gs"
  "resp_headers (fs @ gs) = resp_headers fs @ resp_headers gs"
  "redirects (fs @ gs) = redirects fs @ redirects gs"
  "url_rewrites (fs @ gs) = url_rewrites fs @ url_rewrites gs"
  by (simp_all add: projection_defs map_filter_append)

lemma projection_redirects [simp]:
  "req_headers (redirects fs) = []" "resp_headers (redirects fs) = []"
  "redirects (redirects fs) = redirects fs" "url_rewrites (redirects fs) = []"
  by (induction fs) (auto simp: projection_defs map_filter_simps)

lemma projection_filters [simp]:
  "req_headers [request_filter hs] = hs" "req_headers [response_filter hs] = []"
  "resp_headers [request_filter hs] = []" "resp_headers [response_filter hs] = hs"
  "redirects [request_filter hs] = []" "redirects [response_filter hs] = []"
  "url_rewrites [request_filter hs] = []" "url_rewrites [response_filter hs] = []"
  "req_headers (map rewrite_filter us) = []" "resp_headers (map rewrite_filter us) = []"
  "redirects (map rewrite_filter us) = []" "url_rewrites (map rewrite_filter us) = us"
  by (induction us) (auto simp: projection_defs filter_defs opt_bind_def map_filter_simps)

lemma projection_Nil [simp]:
  "req_headers [] = []" "resp_headers [] = []" "redirects [] = []" "url_rewrites [] = []"
  by (simp_all add: projection_defs map_filter_simps)

lemma projection_merge:
  "req_headers (merge_filters fs) = req_headers fs" "resp_headers (merge_filters fs) = resp_headers fs"
  "redirects (merge_filters fs) = redirects fs"
  "spec_rewrite (url_rewrites (merge_filters fs)) = spec_rewrite (url_rewrites fs)"
  by (auto simp: merge_spec_aux spec_merge_def projection_append)
     (auto simp: spec_rewrite_def first_some_Cons split: option.splits)

lemma merge_idem_aux: "merge_filters (merge_filters fs) = merge_filters fs"
  using projection_merge [of fs] by (simp add: merge_spec_aux [of "merge_filters fs"] spec_merge_def)
     (simp add: merge_spec_aux spec_merge_def)

lemma merge_unique_aux:
  "t \<noteq> RequestRedirect \<Longrightarrow> length (filter (\<lambda>f. f_type f = t) (merge_filters fs)) \<le> 1"
  by (cases t) (auto simp: merge_spec_aux spec_merge_def redirects_def filter_defs filter_empty_conv
      split: option.splits)

section \<open>Which filters come out\<close>

definition filter_ok :: "http_filter \<Rightarrow> bool" where
  "filter_ok f \<longleftrightarrow>
     (f_request_redirect f \<noteq> None \<longleftrightarrow> f_type f = RequestRedirect) \<and>
     (f_request_header_modifier f \<noteq> None \<longleftrightarrow> f_type f = RequestHeaderModifier) \<and>
     (f_response_header_modifier f \<noteq> None \<longleftrightarrow> f_type f = ResponseHeaderModifier) \<and>
     (f_url_rewrite f \<noteq> None \<longleftrightarrow> f_type f = UrlRewrite)"

definition no_host :: "header_set list \<Rightarrow> bool" where
  "no_host hs \<longleftrightarrow> list_all (\<lambda>h. \<not> eq_ignore_ascii_case (hs_name h) ''host'') hs"

definition filters_ok :: "http_filter list \<Rightarrow> bool" where
  "filters_ok fs \<longleftrightarrow> list_all filter_ok fs \<and> no_host (req_headers fs)"

declare filter_ok_def [exec] no_host_def [exec]

lemma filter_ok_made [simp]:
  "filter_ok (redirect_filter r)" "filter_ok (request_filter hs)" "filter_ok (response_filter hs)"
  "filter_ok (rewrite_filter u)"
  by (simp_all add: filter_ok_def filter_defs)

lemma filters_ok_append: "filters_ok (fs @ gs) \<longleftrightarrow> filters_ok fs \<and> filters_ok gs"
  by (auto simp: filters_ok_def projection_append no_host_def)

lemma filters_ok_Nil [simp]: "filters_ok []"
  by (simp add: filters_ok_def no_host_def)

lemma filters_ok_made [simp]:
  "filters_ok [redirect_filter r]" "filters_ok [response_filter hs]" "filters_ok [rewrite_filter u]"
  "filters_ok [request_filter hs] \<longleftrightarrow> no_host hs"
  using projection_filters(9) [of "[u]"]
  by (simp_all add: filters_ok_def no_host_def) (simp add: req_headers_def filter_defs)

lemma request_header_step_ok:
  "filters_ok (fst st) \<and> no_host (snd st) \<Longrightarrow>
     filters_ok (fst (request_header_step kv st)) \<and> no_host (snd (request_header_step kv st))"
  by (auto simp: request_header_step_def Let_def split_beta filters_ok_append no_host_def split: option.splits)

lemma request_header_fold_ok:
  "filters_ok (fst (fold request_header_step m ([], []))) \<and> no_host (snd (fold request_header_step m ([], [])))"
  by (rule fold_invariant_in [where P = "\<lambda>st. filters_ok (fst st) \<and> no_host (snd st)"])
     (simp_all add: no_host_def request_header_step_ok [unfolded no_host_def])

lemma filters_ok_headers: "filters_ok (translate_headers body)"
  using request_header_fold_ok
  by (auto simp: translate_headers_def Let_def split_beta filters_ok_append no_host_def split: option.splits)

lemma filters_ok_single: "(\<And>f. x = Some f \<Longrightarrow> filters_ok [f]) \<Longrightarrow> filters_ok (single x)"
  by (auto simp: single_def split: option.splits)

lemma filters_ok_translate: "filters_ok (translate mw)"
proof -
  have "filters_ok (single (translate_redirect_scheme b))" "filters_ok (single (translate_add_prefix b))"
    "filters_ok (single (translate_replace_path b))" "filters_ok (single (translate_strip_prefix b))" for b
    by (rule filters_ok_single;
        auto simp: translate_redirect_scheme_def translate_add_prefix_def translate_replace_path_def
          translate_strip_prefix_def Let_def split: option.splits list.splits if_splits)+
  then show ?thesis
    by (simp add: translate_def filters_ok_headers split: option.split list.split prod.split)
qed

lemma filters_ok_concat: "(\<And>x. x \<in> set xs \<Longrightarrow> filters_ok (f x)) \<Longrightarrow> filters_ok (concat (map f xs))"
  by (induction xs) (auto simp: filters_ok_append)

lemma filters_ok_merge:
  assumes "filters_ok fs" shows "filters_ok (merge_filters fs)"
proof -
  have "no_host (req_headers (merge_filters fs))"
    using assms by (simp add: projection_merge filters_ok_def)
  moreover have "list_all filter_ok (merge_filters fs)"
    using assms by (auto simp: merge_spec_aux spec_merge_def redirects_def filters_ok_def list_all_iff
        split: option.splits)
  ultimately show ?thesis by (simp add: filters_ok_def)
qed

lemma filters_ok_build: "filters_ok (build_filters names mws)"
  unfolding build_filters_def
  by (intro filters_ok_merge filters_ok_concat) (simp add: filters_ok_translate split: option.split)

section \<open>Properties\<close>

text \<open>C25: The merged filters are the declarative normal form: the redirects in order, then one header
  modifier per direction with all headers in order, then one URL rewrite with the last host name
  and the first path. Merging again changes nothing.\<close>

theorem merge_normal_form:
  "merge_filters fs = spec_merge fs \<and> merge_filters (merge_filters fs) = merge_filters fs \<and>
   length (filter (\<lambda>f. f_type f = RequestHeaderModifier) (merge_filters fs)) \<le> 1 \<and>
   length (filter (\<lambda>f. f_type f = ResponseHeaderModifier) (merge_filters fs)) \<le> 1 \<and>
   length (filter (\<lambda>f. f_type f = UrlRewrite) (merge_filters fs)) \<le> 1"
  using merge_spec_aux merge_idem_aux merge_unique_aux by simp

text \<open>C36: Every filter of a route has exactly the payload of its type, and no request header modifier
  sets the Host header of the request, which the Gateway API forbids. (Response header modifiers are
  not restricted.)\<close>

theorem filters_well_formed:
  "list_all filter_ok (build_filters names mws) \<and> no_host (req_headers (build_filters names mws))"
  using filters_ok_build by (simp add: filters_ok_def)

end
