(* ===== verification/Rule.thy ===== *)
theory Rule
  imports Platform
begin

text \<open>
  \<^verbatim>\<open>src/transform/rule.rs\<close>: the parser of Traefik's router rules. The two passes of
  \<open>parse\<close> are \<open>scan_operators\<close> (is there an operator outside the backtick strings?) and
  \<open>walk\<close> (predicate by predicate); an index into the characters is here the rest of the
  string from that index. The main result is that parsing a printed conjunction of
  predicates is the fold of \<open>handle_predicate\<close> over it; the operator scan is proved against
  a declarative reading.
\<close>

section \<open>The code\<close>

datatype path_match_kind = Exact | Prefix | Regex

record path_match =
  pm_kind :: path_match_kind
  pm_value :: string

text \<open>
  The entries of \<^verbatim>\<open>unsupported_predicates\<close> are messages in the code; here they carry what
  the messages are made of: an unparseable character with its offset, a predicate without
  arguments, the name of a predicate the code does not translate.
\<close>

datatype unsupported =
    UnparseableToken nat string
  | MissingArguments string
  | OtherPredicate string

record parsed_rule =
  pr_hosts :: "string list"
  pr_path :: "path_match option"
  pr_host_regexp :: bool
  pr_unsupported :: "unsupported list"
  pr_disjunction :: bool
  pr_negation :: bool

definition default_rule :: parsed_rule where
  "default_rule = \<lparr>pr_hosts = [], pr_path = None, pr_host_regexp = False, pr_unsupported = [],
     pr_disjunction = False, pr_negation = False\<rparr>"

definition is_usable :: "parsed_rule \<Rightarrow> bool" where
  "is_usable r \<longleftrightarrow>
     \<not> pr_disjunction r \<and> \<not> pr_negation r \<and> \<not> pr_host_regexp r \<and>
     pr_unsupported r = [] \<and> pr_hosts r \<noteq> []"

text \<open>The first pass, on the bytes of the rule.\<close>

fun scan_operators :: "bool \<Rightarrow> string \<Rightarrow> parsed_rule \<Rightarrow> parsed_rule" where
  "scan_operators in_backtick [] out = out"
| "scan_operators in_backtick (c # s) out =
     (if c = CHR 0x60 then scan_operators (\<not> in_backtick) s out
      else if \<not> in_backtick then
        (if c = CHR ''|'' \<and> s \<noteq> [] \<and> hd s = CHR ''|'' then
           scan_operators in_backtick s (out\<lparr>pr_disjunction := True\<rparr>)
         else if c = CHR ''!'' then scan_operators in_backtick s (out\<lparr>pr_negation := True\<rparr>)
         else scan_operators in_backtick s out)
      else scan_operators in_backtick s out)"

definition normalize_path :: "string \<Rightarrow> string" where
  "normalize_path p = (if starts_with ''/'' p then p else CHR ''/'' # p)"

definition handle_predicate :: "parsed_rule \<Rightarrow> string \<Rightarrow> string list \<Rightarrow> parsed_rule" where
  "handle_predicate out ident args =
     (if ident = ''Host'' then out\<lparr>pr_hosts := pr_hosts out @ args\<rparr>
      else if ident = ''HostRegexp'' then out\<lparr>pr_host_regexp := True\<rparr>
      else if ident = ''PathPrefix'' then
        (case args of [] \<Rightarrow> out
         | first # _ \<Rightarrow>
             out\<lparr>pr_path := Some \<lparr>pm_kind = Prefix, pm_value = normalize_path first\<rparr>\<rparr>)
      else if ident = ''Path'' then
        (case args of [] \<Rightarrow> out
         | first # _ \<Rightarrow>
             out\<lparr>pr_path := Some \<lparr>pm_kind = Exact, pm_value = normalize_path first\<rparr>\<rparr>)
      else if ident = ''PathRegexp'' then
        (case args of [] \<Rightarrow> out
         | first # _ \<Rightarrow> out\<lparr>pr_path := Some \<lparr>pm_kind = Regex, pm_value = first\<rparr>\<rparr>)
      else out\<lparr>pr_unsupported := pr_unsupported out @ [OtherPredicate ident]\<rparr>)"

text \<open>Bytes to skip at the head of the rest: white space and a comma between arguments,
  white space and the connectors between predicates.\<close>

definition tok_or :: "char list \<Rightarrow> string \<Rightarrow> nat" where
  "tok_or cs s =
     (if ws_len s \<noteq> 0 then ws_len s
      else case s of [] \<Rightarrow> 0 | c # _ \<Rightarrow> if c \<in> set cs then 1 else 0)"

definition arg_sep :: "string \<Rightarrow> nat" where
  "arg_sep = tok_or '',''"

definition pred_sep :: "string \<Rightarrow> nat" where
  "pred_sep = tok_or ''&|''"

definition ident_char :: "char \<Rightarrow> bool" where
  "ident_char c \<longleftrightarrow> is_ascii_alphanumeric c \<or> c = CHR ''_''"

definition bare_char :: "char \<Rightarrow> bool" where
  "bare_char c \<longleftrightarrow> c \<noteq> CHR '','' \<and> c \<noteq> CHR '')''"

text \<open>The arguments up to the closing parenthesis, and the rest from there.\<close>

function read_args :: "string \<Rightarrow> string list \<times> string" where
  "read_args s =
     (case skip_tok arg_sep s of
        [] \<Rightarrow> ([], [])
      | c # cs \<Rightarrow>
          if c = CHR '')'' then ([], c # cs)
          else if c = CHR 0x60 then
            (let arg = takeWhile (\<lambda>x. x \<noteq> CHR 0x60) cs;
                 rest = drop 1 (dropWhile (\<lambda>x. x \<noteq> CHR 0x60) cs);
                 (args, final) = read_args rest
             in (arg # args, final))
          else
            (let arg = trim (takeWhile bare_char (c # cs));
                 (args, final) = read_args (dropWhile bare_char (c # cs))
             in (arg # args, final)))"
  by pat_completeness auto

lemma skip_tok_Cons_length: "skip_tok tok s = c # cs \<Longrightarrow> length cs < length s"
  using skip_tok_length [of tok s] by simp

lemma arg_sep_comma: "arg_sep (CHR '','' # s) \<noteq> 0"
  by (simp add: arg_sep_def tok_or_def)

lemma read_args_bare:
  assumes "skip_tok arg_sep s = c # cs" and "c \<noteq> CHR '')''"
  shows "length (dropWhile bare_char (c # cs)) < length s"
proof -
  have "arg_sep (c # cs) = 0" using skip_tok_done [of arg_sep s] assms(1) by simp
  then have "c \<noteq> CHR '',''" using arg_sep_comma [of cs] by fastforce
  with assms(2) have "length (dropWhile bare_char (c # cs)) < length (c # cs)"
    by (intro length_dropWhile_less) (auto simp: bare_char_def)
  with assms(1) skip_tok_length [of arg_sep s] show ?thesis by simp
qed

termination read_args
proof (relation "measure length", goal_cases)
  case (2 s c cs arg rest)
  have "length rest \<le> length cs"
    using 2 by (simp add: le_diff_conv le_SucI length_dropWhile_le)
  with 2 skip_tok_Cons_length [of arg_sep s c cs] show ?case by simp
next
  case (3 s c cs arg)
  then show ?case using read_args_bare by simp
qed simp

declare read_args.simps [simp del]

definition skip_close :: "string \<Rightarrow> string" where
  "skip_close s = (case s of [] \<Rightarrow> [] | c # r \<Rightarrow> if c = CHR '')'' then r else s)"

text \<open>The second pass. \<open>chars\<close> is the whole rule, from which the offset of an unparseable
  character is counted.\<close>

function walk :: "string \<Rightarrow> string \<Rightarrow> parsed_rule \<Rightarrow> parsed_rule" where
  "walk chars s out =
     (let here = skip_tok pred_sep s in
      if here = [] then out
      else if \<not> is_ascii_alphabetic (hd here) then
        out\<lparr>pr_unsupported := pr_unsupported out @
          [UnparseableToken (char_count chars - char_count here) (first_char here)]\<rparr>
      else
        let ident = takeWhile ident_char here;
            after = skip_tok ws_len (dropWhile ident_char here)
        in if after = [] \<or> hd after \<noteq> CHR ''('' then
             out\<lparr>pr_unsupported := pr_unsupported out @ [MissingArguments ident]\<rparr>
           else
             let (args, rest) = read_args (tl after)
             in walk chars (skip_close rest) (handle_predicate out ident args))"
  by pat_completeness auto

lemma read_args_length: "length (snd (read_args s)) \<le> length s"
proof (induction s rule: read_args.induct)
  case (1 s)
  show ?case
  proof (cases "skip_tok arg_sep s")
    case Nil
    then show ?thesis by (simp add: read_args.simps [of s])
  next
    case (Cons c cs)
    note len = skip_tok_length [of arg_sep s]
    let ?r = "drop 1 (dropWhile (\<lambda>x. x \<noteq> CHR 0x60) cs)"
    let ?b = "dropWhile bare_char (c # cs)"
    consider "c = CHR '')''" | "c = CHR 0x60" | "c \<noteq> CHR '')''" "c \<noteq> CHR 0x60" by blast
    then show ?thesis
    proof cases
      case 1
      then show ?thesis using Cons len by (simp add: read_args.simps [of s])
    next
      case 2
      then have "length (snd (read_args ?r)) \<le> length ?r"
        using "1.IH"(1) [OF Cons] by simp
      moreover have "length ?r \<le> length cs"
        by (simp add: le_diff_conv le_SucI length_dropWhile_le)
      moreover have "snd (read_args s) = snd (read_args ?r)"
        using 2 Cons by (simp add: read_args.simps [of s] Let_def case_prod_beta)
      ultimately show ?thesis using Cons len by simp
    next
      case 3
      then have "length (snd (read_args ?b)) \<le> length ?b"
        using "1.IH"(2) [OF Cons] by simp
      moreover have "length ?b < length s" using Cons 3 by (intro read_args_bare)
      moreover have "snd (read_args s) = snd (read_args ?b)"
        using 3 Cons by (simp add: read_args.simps [of s] Let_def case_prod_beta)
      ultimately show ?thesis by simp
    qed
  qed
qed

lemma skip_close_length: "length (skip_close s) \<le> length s"
  by (simp add: skip_close_def split: list.split)

termination walk
proof (relation "measure (\<lambda>(chars, s, out). length s)", goal_cases)
  case (2 chars s out here ident after x args rest)
  have "length (skip_close rest) \<le> length rest" by (rule skip_close_length)
  also have "length rest \<le> length (tl after)"
    using read_args_length [of "tl after"] 2(7,8) by (metis snd_conv)
  also have "length (tl after) < length after" using 2 by (cases after) auto
  also have "length after \<le> length (dropWhile ident_char here)"
    unfolding 2(5) by (rule skip_tok_length)
  also have "\<dots> \<le> length here" by (rule length_dropWhile_le)
  also have "\<dots> \<le> length s" unfolding 2(1) by (rule skip_tok_length)
  finally show ?case by simp
qed simp

declare walk.simps [simp del]

definition parse :: "string \<Rightarrow> parsed_rule" where
  "parse rule = walk rule rule (scan_operators False rule default_rule)"

declare default_rule_def [exec] is_usable_def [exec] normalize_path_def [exec]
  handle_predicate_def [exec] tok_or_def [exec] arg_sep_def [exec] pred_sep_def [exec]
  ident_char_def [exec] bare_char_def [exec] read_args.simps [exec] skip_close_def [exec]
  walk.simps [exec] parse_def [exec]

section \<open>Printing a conjunction of predicates\<close>

type_synonym predicate = "string \<times> string list"

definition show_arg :: "string \<Rightarrow> string" where
  "show_arg a = CHR 0x60 # a @ [CHR 0x60]"

definition show_pred :: "predicate \<Rightarrow> string" where
  "show_pred p = fst p @ ''('' @ join '', '' (map show_arg (snd p)) @ '')''"

definition show_rule :: "predicate list \<Rightarrow> string" where
  "show_rule ps = join '' && '' (map show_pred ps)"

definition wf_pred :: "predicate \<Rightarrow> bool" where
  "wf_pred p \<longleftrightarrow>
     fst p \<noteq> [] \<and> is_ascii_alphabetic (hd (fst p)) \<and> list_all ident_char (fst p) \<and>
     list_all (\<lambda>a. CHR 0x60 \<notin> set a) (snd p)"

declare show_arg_def [exec] show_pred_def [exec] show_rule_def [exec] wf_pred_def [exec]

section \<open>Parsing what was printed\<close>

lemma alphabetic_no_ws: "is_ascii_alphabetic c \<Longrightarrow> \<not> ws_start c"
  by (auto simp: is_ascii_alphabetic_def is_upper_def is_lower_def ws_start_def ws_seqs_def byte_def)

lemma ident_char_plain:
  "ident_char c \<Longrightarrow> c \<noteq> CHR 0x60 \<and> c \<noteq> CHR ''|'' \<and> c \<noteq> CHR ''!'' \<and> c \<noteq> CHR ''(''"
  by (auto simp: exec)

lemma ws_len_0_ascii:
  "c \<in> set [CHR ''('', CHR '')'', CHR ''&'', CHR ''|'', CHR '','', CHR 0x60] \<Longrightarrow> ws_len (c # s) = 0"
  by (rule ws_len_0) (auto simp: ws_start_def ws_seqs_def)

text \<open>The operator scan leaves no trace of the printed text.\<close>

lemma scan_in_backticks:
  "CHR 0x60 \<notin> set a \<Longrightarrow> scan_operators True (a @ CHR 0x60 # s) out = scan_operators False s out"
  by (induction a) auto

lemma scan_plain:
  "\<forall>c\<in>set a. c \<noteq> CHR 0x60 \<and> c \<noteq> CHR ''|'' \<and> c \<noteq> CHR ''!'' \<Longrightarrow>
     scan_operators False (a @ s) out = scan_operators False s out"
  by (induction a) auto

lemma scan_args:
  "list_all (\<lambda>a. CHR 0x60 \<notin> set a) args \<Longrightarrow>
     scan_operators False (join '', '' (map show_arg args) @ s) out = scan_operators False s out"
  by (induction args rule: induct_list012) (auto simp: show_arg_def scan_in_backticks)

lemma scan_pred: "wf_pred p \<Longrightarrow> scan_operators False (show_pred p @ s) out = scan_operators False s out"
  unfolding show_pred_def wf_pred_def
  by (simp add: scan_plain scan_args list_all_iff ident_char_plain)

lemma scan_rule: "list_all wf_pred ps \<Longrightarrow> scan_operators False (show_rule ps) out = out"
proof (induction ps rule: induct_list012)
  case (2 p)
  then show ?case using scan_pred [of p "[]"] by (simp add: show_rule_def)
next
  case (3 p q ps)
  then show ?case by (simp add: show_rule_def scan_pred)
qed (simp add: show_rule_def)

text \<open>The arguments.\<close>

lemma skip_arg_sep_stop:
  "c \<noteq> CHR '','' \<Longrightarrow> \<not> ws_start c \<Longrightarrow> skip_tok arg_sep (c # s) = c # s"
  by (rule skip_tok_stop) (simp add: arg_sep_def tok_or_def ws_len_0)

lemma skip_arg_sep_comma: "skip_tok arg_sep ('', '' @ s) = skip_tok arg_sep s"
  by (subst skip_tok_step; simp add: arg_sep_def tok_or_def ws_len_0_ascii)+

lemma not_ws_start_punct: "\<not> ws_start CHR 0x60" "\<not> ws_start CHR '')''"
  by (simp_all add: ws_start_def ws_seqs_def)

lemma read_args_close: "read_args ('')'' @ s) = ([], '')'' @ s)"
  by (simp add: read_args.simps [of "CHR '')'' # s"] skip_arg_sep_stop not_ws_start_punct)

lemma read_args_skip_comma: "read_args ('', '' @ s) = read_args s"
  by (simp only: read_args.simps [of "'', '' @ s"] read_args.simps [of s] skip_arg_sep_comma)

lemma read_args_arg:
  assumes "CHR 0x60 \<notin> set a"
  shows "read_args (show_arg a @ s) = (a # fst (read_args s), snd (read_args s))"
proof -
  have "takeWhile (\<lambda>x. x \<noteq> CHR 0x60) (a @ CHR 0x60 # s) = a"
    using assms by (intro takeWhile_append_stop) auto
  moreover have "dropWhile (\<lambda>x. x \<noteq> CHR 0x60) (a @ CHR 0x60 # s) = CHR 0x60 # s"
    using assms by (intro dropWhile_append_stop) auto
  ultimately show ?thesis
    by (simp add: show_arg_def read_args.simps [of "CHR 0x60 # a @ CHR 0x60 # s"]
        skip_arg_sep_stop not_ws_start_punct case_prod_beta)
qed

lemma read_args_show:
  "list_all (\<lambda>a. CHR 0x60 \<notin> set a) args \<Longrightarrow>
     read_args (join '', '' (map show_arg args) @ '')'' @ s) = (args, '')'' @ s)"
proof (induction args rule: induct_list012)
  case 1
  show ?case using read_args_close by simp
next
  case (2 a)
  then show ?case using read_args_close read_args_arg by simp
next
  case (3 a b args)
  let ?t = "join '', '' (map show_arg (b # args)) @ '')'' @ s"
  from 3 have a: "CHR 0x60 \<notin> set a" and IH: "read_args ?t = (b # args, '')'' @ s)" by simp_all
  have "read_args (join '', '' (map show_arg (a # b # args)) @ '')'' @ s)
      = read_args (show_arg a @ '', '' @ ?t)"
    by simp
  also have "\<dots> = (a # b # args, '')'' @ s)"
    by (simp only: read_args_arg [OF a] read_args_skip_comma IH fst_conv snd_conv)
  finally show ?case .
qed

text \<open>One predicate, then the whole conjunction.\<close>

lemma skip_pred_sep_alpha: "is_ascii_alphabetic c \<Longrightarrow> skip_tok pred_sep (c # s) = c # s"
  by (rule skip_tok_stop)
     (auto simp: pred_sep_def tok_or_def ws_len_0 alphabetic_no_ws is_ascii_alphabetic_def
        is_upper_def is_lower_def byte_def)

lemma skip_pred_sep_and: "skip_tok pred_sep ('' && '' @ s) = skip_tok pred_sep s"
  by (subst skip_tok_step; simp add: pred_sep_def tok_or_def ws_len_0_ascii)+

lemma walk_skip_and: "walk chars ('' && '' @ s) out = walk chars s out"
  by (simp only: walk.simps [of chars "'' && '' @ s"] walk.simps [of chars s] skip_pred_sep_and)

lemma walk_step:
  assumes n: "n \<noteq> []" "is_ascii_alphabetic (hd n)" "list_all ident_char n"
    and args: "read_args t = (args, rest)"
  shows "walk chars (n @ CHR ''('' # t) out = walk chars (skip_close rest) (handle_predicate out n args)"
proof -
  have paren: "\<not> ident_char CHR ''(''" by (simp add: exec)
  have skip: "skip_tok pred_sep (n @ CHR ''('' # t) = n @ CHR ''('' # t"
    using n by (cases n) (simp_all add: skip_pred_sep_alpha)
  have tk: "takeWhile ident_char (n @ CHR ''('' # t) = n"
    using n paren by (intro takeWhile_append_stop) (auto simp: list_all_iff)
  have dr: "dropWhile ident_char (n @ CHR ''('' # t) = CHR ''('' # t"
    using n paren by (intro dropWhile_append_stop) (auto simp: list_all_iff)
  have after: "skip_tok ws_len (CHR ''('' # t) = CHR ''('' # t"
    by (rule skip_tok_stop) (simp add: ws_len_0_ascii)
  have ne: "n @ CHR ''('' # t \<noteq> []" "is_ascii_alphabetic (hd (n @ CHR ''('' # t))"
    using n by simp_all
  show ?thesis
    by (subst walk.simps)
       (simp only: skip tk dr after args ne Let_def list.sel list.distinct simp_thms if_False
          if_True prod.case)
qed

lemma walk_pred:
  assumes wf: "wf_pred (n, args)"
  shows "walk chars (show_pred (n, args) @ s) out = walk chars s (handle_predicate out n args)"
proof -
  let ?t = "join '', '' (map show_arg args) @ '')'' @ s"
  have all: "show_pred (n, args) @ s = n @ CHR ''('' # ?t" by (simp add: show_pred_def)
  have "read_args ?t = (args, '')'' @ s)"
    using wf by (intro read_args_show) (simp add: wf_pred_def)
  with wf have "walk chars (n @ CHR ''('' # ?t) out
      = walk chars (skip_close ('')'' @ s)) (handle_predicate out n args)"
    by (intro walk_step) (simp_all add: wf_pred_def)
  then show ?thesis by (simp add: all skip_close_def)
qed

definition apply_preds :: "parsed_rule \<Rightarrow> predicate list \<Rightarrow> parsed_rule" where
  "apply_preds out ps = foldl (\<lambda>o1 (n, args). handle_predicate o1 n args) out ps"

lemma walk_Nil [simp]: "walk chars [] out = out"
  by (simp add: walk.simps [of chars "[]"])

lemma walk_show_rule:
  "list_all wf_pred ps \<Longrightarrow> walk chars (show_rule ps) out = apply_preds out ps"
proof (induction ps arbitrary: out rule: induct_list012)
  case 1
  show ?case by (simp add: show_rule_def apply_preds_def)
next
  case (2 p)
  then show ?case
    using walk_pred [of "fst p" "snd p" chars "[]" out]
    by (simp add: show_rule_def apply_preds_def case_prod_beta)
next
  case (3 p q ps)
  have "walk chars (show_rule (p # q # ps)) out
      = walk chars (show_pred p @ '' && '' @ show_rule (q # ps)) out"
    by (simp add: show_rule_def)
  also have "\<dots> = walk chars (show_rule (q # ps)) (handle_predicate out (fst p) (snd p))"
    using 3(3) walk_pred [of "fst p" "snd p"] by (simp only: walk_skip_and list.pred_inject prod.collapse)
  also have "\<dots> = apply_preds out (p # q # ps)"
    using 3 by (simp add: apply_preds_def case_prod_beta)
  finally show ?case .
qed

lemma parse_show_rule_aux:
  "list_all wf_pred ps \<Longrightarrow> parse (show_rule ps) = apply_preds default_rule ps"
  by (simp add: parse_def scan_rule walk_show_rule)

section \<open>Properties\<close>

text \<open>
  What a conjunction of predicates means, predicate by predicate: the host names are those of
  all \<open>Host\<close> predicates, the path is the one of the last path predicate.
\<close>

definition path_of_pred :: "predicate \<Rightarrow> path_match option" where
  "path_of_pred p =
     (case snd p of
        [] \<Rightarrow> None
      | a # _ \<Rightarrow>
          (if fst p = ''PathPrefix'' then Some \<lparr>pm_kind = Prefix, pm_value = normalize_path a\<rparr>
           else if fst p = ''Path'' then Some \<lparr>pm_kind = Exact, pm_value = normalize_path a\<rparr>
           else if fst p = ''PathRegexp'' then Some \<lparr>pm_kind = Regex, pm_value = a\<rparr>
           else None))"

definition last_some :: "'a option list \<Rightarrow> 'a option" where
  "last_some xs = foldl (\<lambda>acc x. case x of None \<Rightarrow> acc | Some _ \<Rightarrow> x) None xs"

definition known_idents :: "string list" where
  "known_idents = [''Host'', ''HostRegexp'', ''PathPrefix'', ''Path'', ''PathRegexp'']"

definition rule_of :: "predicate list \<Rightarrow> parsed_rule" where
  "rule_of ps =
     \<lparr>pr_hosts = concat (map snd (filter (\<lambda>p. fst p = ''Host'') ps)),
      pr_path = last_some (map path_of_pred ps),
      pr_host_regexp = list_ex (\<lambda>p. fst p = ''HostRegexp'') ps,
      pr_unsupported = map (OtherPredicate \<circ> fst) (filter (\<lambda>p. fst p \<notin> set known_idents) ps),
      pr_disjunction = False, pr_negation = False\<rparr>"

lemma handle_rule_of: "handle_predicate (rule_of ps) n args = rule_of (ps @ [(n, args)])"
  by (auto simp: handle_predicate_def rule_of_def path_of_pred_def last_some_def known_idents_def
      split: list.splits)

lemma apply_preds_rule_of: "apply_preds default_rule ps = rule_of ps"
proof (induction ps rule: rev_induct)
  case Nil
  show ?case by (simp add: apply_preds_def rule_of_def default_rule_def last_some_def)
next
  case (snoc p ps)
  then show ?case using handle_rule_of [of ps "fst p" "snd p"] by (simp add: apply_preds_def case_prod_beta)
qed

definition path_idents :: "string list" where
  "path_idents = [''PathPrefix'', ''Path'', ''PathRegexp'']"

declare path_idents_def [exec]

lemma last_some_append:
  "last_some (xs @ ys) = (case last_some ys of None \<Rightarrow> last_some xs | Some y \<Rightarrow> Some y)"
  by (induction ys rule: rev_induct) (auto simp: last_some_def split: option.splits)

lemma path_of_other: "fst p \<notin> set path_idents \<Longrightarrow> path_of_pred p = None"
  by (auto simp: path_of_pred_def path_idents_def split: list.split)

text \<open>One \<open>Host\<close> predicate, at most one path predicate, and that one with a single path.\<close>

definition unambiguous :: "predicate list \<Rightarrow> bool" where
  "unambiguous ps \<longleftrightarrow>
     list_all wf_pred ps \<and>
     length (filter (\<lambda>p. fst p = ''Host'') ps) \<le> 1 \<and>
     length (filter (\<lambda>p. fst p \<in> set path_idents) ps) \<le> 1 \<and>
     list_all (\<lambda>p. fst p \<in> set path_idents \<longrightarrow> length (snd p) = 1) ps"

declare unambiguous_def [exec]

lemma short_filter_cases:
  assumes "length (filter P xs) \<le> 1"
  obtains "filter P xs = []" | x where "filter P xs = [x]" "x \<in> set xs" "P x"
proof (cases "filter P xs")
  case (Cons x ys)
  then have "filter P xs = [x]" using assms by simp
  moreover have "x \<in> set xs \<and> P x" using Cons by (auto simp: filter_eq_Cons_iff)
  ultimately show ?thesis using that by blast
qed (use that in blast)

lemma last_some_filter:
  "(\<And>x. x \<in> set xs \<Longrightarrow> \<not> P x \<Longrightarrow> f x = None) \<Longrightarrow> last_some (map f xs) = last_some (map f (filter P xs))"
  by (induction xs rule: rev_induct) (auto simp: last_some_append last_some_def split: option.split)

lemma usable_idents:
  assumes "is_usable (rule_of ps)" and "p \<in> set ps"
  shows "fst p = ''Host'' \<or> fst p \<in> set path_idents"
  using assms
  by (auto simp: is_usable_def rule_of_def known_idents_def path_idents_def list_ex_iff filter_empty_conv)

lemma find_filter: "find P xs = (case filter P xs of [] \<Rightarrow> None | x # _ \<Rightarrow> Some x)"
  by (induction xs) auto

lemma rule_of_unambiguous:
  assumes "unambiguous ps"
  shows "pr_hosts (rule_of ps) = (case find (\<lambda>p. fst p = ''Host'') ps of None \<Rightarrow> [] | Some p \<Rightarrow> snd p)"
    and "pr_path (rule_of ps) = (case find (\<lambda>p. fst p \<in> set path_idents) ps of None \<Rightarrow> None | Some p \<Rightarrow> path_of_pred p)"
proof -
  have "length (filter (\<lambda>p. fst p = ''Host'') ps) \<le> 1" using assms by (simp add: unambiguous_def)
  then show "pr_hosts (rule_of ps) = (case find (\<lambda>p. fst p = ''Host'') ps of None \<Rightarrow> [] | Some p \<Rightarrow> snd p)"
    by (cases rule: short_filter_cases) (simp_all add: rule_of_def find_filter)
  have path: "pr_path (rule_of ps) = last_some (map path_of_pred (filter (\<lambda>p. fst p \<in> set path_idents) ps))"
    using last_some_filter [of ps "\<lambda>p. fst p \<in> set path_idents" path_of_pred]
    by (simp add: rule_of_def path_of_other)
  have "length (filter (\<lambda>p. fst p \<in> set path_idents) ps) \<le> 1" using assms by (simp add: unambiguous_def)
  then show "pr_path (rule_of ps) = (case find (\<lambda>p. fst p \<in> set path_idents) ps of None \<Rightarrow> None | Some p \<Rightarrow> path_of_pred p)"
    by (cases rule: short_filter_cases) (simp_all add: path find_filter last_some_def split: option.split)
qed

text \<open>C21: Parsing the printed form of a conjunction with at most one \<open>Host\<close> predicate and at most one path
  predicate, of a single path (\<open>unambiguous\<close>): the host names are those of the \<open>Host\<close> predicate, the path
  matcher is that of the path predicate, every predicate of another kind is surfaced in order, and
  the rule counts as usable exactly if there is a host name and nothing but \<open>Host\<close> and path
  predicates. (Of other conjunctions the parser keeps the host names of all \<open>Host\<close> predicates and the
  last path only, \<open>apply_preds_rule_of\<close>, which is not what they mean: \<open>second_path_widens\<close> of \<open>Matching\<close>.)\<close>

theorem parse_show_rule:
  assumes "unambiguous ps"
  shows "parse (show_rule ps) =
      \<lparr>pr_hosts = (case find (\<lambda>p. fst p = ''Host'') ps of None \<Rightarrow> [] | Some p \<Rightarrow> snd p),
       pr_path = (case find (\<lambda>p. fst p \<in> set path_idents) ps of None \<Rightarrow> None | Some p \<Rightarrow> path_of_pred p),
       pr_host_regexp = list_ex (\<lambda>p. fst p = ''HostRegexp'') ps,
       pr_unsupported = map (OtherPredicate \<circ> fst) (filter (\<lambda>p. fst p \<notin> set known_idents) ps),
       pr_disjunction = False, pr_negation = False\<rparr> \<and>
    (is_usable (parse (show_rule ps)) \<longleftrightarrow>
       (\<exists>p \<in> set ps. fst p = ''Host'' \<and> snd p \<noteq> []) \<and>
       list_all (\<lambda>p. fst p = ''Host'' \<or> fst p \<in> set path_idents) ps)"
proof -
  have parse: "parse (show_rule ps) = rule_of ps"
    using assms by (simp add: unambiguous_def parse_show_rule_aux apply_preds_rule_of)
  have usable: "is_usable (rule_of ps) \<longleftrightarrow> (\<exists>p \<in> set ps. fst p = ''Host'' \<and> snd p \<noteq> []) \<and>
      list_all (\<lambda>p. fst p = ''Host'' \<or> fst p \<in> set path_idents) ps"
    by (auto simp: is_usable_def rule_of_def known_idents_def path_idents_def list_ex_iff list_all_iff filter_empty_conv) force
  show ?thesis
    using rule_of_unambiguous [OF assms] unfolding parse usable by (simp add: rule_of_def)
qed

theorem parse_show_rule_witness:
  "parse ''Host(`a.b`, `c`) && PathPrefix(`x`)'' =
     \<lparr>pr_hosts = [''a.b'', ''c''], pr_path = Some \<lparr>pm_kind = Prefix, pm_value = ''/x''\<rparr>, pr_host_regexp = False,
      pr_unsupported = [], pr_disjunction = False, pr_negation = False\<rparr>"
proof -
  let ?ps = "[(''Host'', [''a.b'', ''c'']), (''PathPrefix'', [''x''])]"
  have "unambiguous ?ps" "show_rule ?ps = ''Host(`a.b`, `c`) && PathPrefix(`x`)''" by code_simp+
  moreover have "path_of_pred (''PathPrefix'', [''x'']) = Some \<lparr>pm_kind = Prefix, pm_value = ''/x''\<rparr>" by code_simp
  ultimately show ?thesis
    using parse_show_rule [of ?ps] by (simp add: path_idents_def known_idents_def)
qed

text \<open>Positions outside the backtick strings have an even number of backticks before them.\<close>

definition outside :: "string \<Rightarrow> nat \<Rightarrow> bool" where
  "outside s i \<longleftrightarrow> even (count_list (take i s) CHR 0x60)"

lemma handle_operators [simp]:
  "pr_disjunction (handle_predicate out n args) = pr_disjunction out"
  "pr_negation (handle_predicate out n args) = pr_negation out"
  by (simp_all add: handle_predicate_def split: list.split)

lemma walk_operators:
  "pr_disjunction (walk chars s out) = pr_disjunction out \<and> pr_negation (walk chars s out) = pr_negation out"
proof (induction chars s out rule: walk.induct)
  case (1 chars s out)
  show ?case
    using 1 by (subst (1 2) walk.simps) (auto simp: Let_def split: prod.splits)
qed

definition char_at :: "string \<Rightarrow> nat \<Rightarrow> char \<Rightarrow> bool" where
  "char_at s i c \<longleftrightarrow> i < length s \<and> s ! i = c"

lemma ex_nat_split: "(\<exists>i. P i) \<longleftrightarrow> P 0 \<or> (\<exists>i. P (Suc i))"
  by (metis nat.exhaust)

lemma char_at_Cons [simp]:
  "char_at (c # s) 0 x \<longleftrightarrow> c = x" "char_at (c # s) (Suc i) x \<longleftrightarrow> char_at s i x" "\<not> char_at [] i x"
  by (simp_all add: char_at_def)

lemma ex_bar:
  "(\<exists>i. char_at (c # s) i x \<and> char_at (c # s) (Suc i) x \<and> (even (count_list (take i (c # s)) CHR 0x60) \<longleftrightarrow> b)) \<longleftrightarrow>
     c = x \<and> char_at s 0 x \<and> b \<or>
     (\<exists>i. char_at s i x \<and> char_at s (Suc i) x \<and>
        (even (count_list (take i s) CHR 0x60) \<longleftrightarrow> (if c = CHR 0x60 then \<not> b else b)))"
  by (subst ex_nat_split) auto

lemma ex_bang:
  "(\<exists>i. char_at (c # s) i x \<and> (even (count_list (take i (c # s)) CHR 0x60) \<longleftrightarrow> b)) \<longleftrightarrow>
     c = x \<and> b \<or>
     (\<exists>i. char_at s i x \<and> (even (count_list (take i s) CHR 0x60) \<longleftrightarrow> (if c = CHR 0x60 then \<not> b else b)))"
  by (subst ex_nat_split) auto

lemma scan_disjunction:
  "pr_disjunction (scan_operators q s out) \<longleftrightarrow> pr_disjunction out \<or>
     (\<exists>i. char_at s i CHR ''|'' \<and> char_at s (Suc i) CHR ''|'' \<and>
        (even (count_list (take i s) CHR 0x60) \<longleftrightarrow> \<not> q))"
proof (induction q s out rule: scan_operators.induct)
  case (2 q c s out)
  have hd: "s \<noteq> [] \<and> hd s = x \<longleftrightarrow> char_at s 0 x" for x by (cases s) simp_all
  show ?case unfolding ex_bar using 2 hd [of "CHR ''|''"] by simp blast
qed simp

lemma scan_negation:
  "pr_negation (scan_operators q s out) \<longleftrightarrow> pr_negation out \<or>
     (\<exists>i. char_at s i CHR ''!'' \<and> (even (count_list (take i s) CHR 0x60) \<longleftrightarrow> \<not> q))"
proof (induction q s out rule: scan_operators.induct)
  case (2 q c s out)
  show ?case unfolding ex_bang using 2 by simp
qed simp

text \<open>C22: The two unsupported operators are reported exactly when they stand outside the backtick
  strings: \<open>||\<close> as a disjunction, \<open>!\<close> as a negation.\<close>

theorem operators_found_outside_strings:
  "(pr_disjunction (parse s) \<longleftrightarrow> (\<exists>i. char_at s i CHR ''|'' \<and> char_at s (Suc i) CHR ''|'' \<and> outside s i)) \<and>
   (pr_negation (parse s) \<longleftrightarrow> (\<exists>i. char_at s i CHR ''!'' \<and> outside s i))"
  by (simp add: parse_def walk_operators scan_disjunction scan_negation outside_def default_rule_def)

end
