(* ===== verification/Route.thy ===== *)
theory Route
  imports Backend Ext_Authz Middleware Rule
begin

text \<open>
  \<^verbatim>\<open>src/transform/route.rs\<close>: one HTTPRoute per Pangolin router. A router is skipped when its
  rule cannot be translated, when it is protected and nothing would protect it, or when its
  service is unknown; \<open>route_decision\<close> states that choice on its own. A skipped router
  leaves the state unchanged.
\<close>

section \<open>The code\<close>

record route_index =
  ri_hostnames :: "(string \<times> unit) list"
  ri_https_hosts :: "(string \<times> unit) list"

definition default_route_index :: route_index where
  "default_route_index = \<lparr>ri_hostnames = [], ri_https_hosts = []\<rparr>"

fun path_match_type_of :: "path_match_kind \<Rightarrow> path_match_type" where
  "path_match_type_of Exact = MatchExact"
| "path_match_type_of Prefix = MatchPathPrefix"
| "path_match_type_of Regex = MatchRegularExpression"

definition route_matches :: "parsed_rule \<Rightarrow> http_match list option" where
  "route_matches parsed =
     map_option (\<lambda>p. [\<lparr>hmatch_path = Some
       \<lparr>hpm_type = Some (path_match_type_of (pm_kind p)), hpm_value = Some (pm_value p)\<rparr>\<rparr>]) (pr_path parsed)"

definition backend_ref_of :: "resolved_backend \<Rightarrow> backend_ref" where
  "backend_ref_of backend =
     \<lparr>bref_group = Some (rb_group backend), bref_kind = Some (rb_kind backend),
      bref_name = rb_name backend, bref_namespace = rb_namespace backend,
      bref_port = Some (rb_port backend), bref_weight = Some 1\<rparr>"

definition is_terminating :: "http_filter list \<Rightarrow> bool" where
  "is_terminating filters = list_ex (\<lambda>f. f_type f = RequestRedirect) filters"

definition route_rule :: "parsed_rule \<Rightarrow> http_filter list \<Rightarrow> resolved_backend \<Rightarrow> http_rule" where
  "route_rule parsed filters backend =
     \<lparr>hr_matches = route_matches parsed,
      hr_filters = non_empty filters,
      hr_backend_refs = then_some (\<not> is_terminating filters) [backend_ref_of backend]\<rparr>"

definition build_route ::
  "config \<Rightarrow> string \<Rightarrow> parsed_rule \<Rightarrow> http_filter list \<Rightarrow> resolved_backend \<Rightarrow> http_route" where
  "build_route cfg route_name parsed filters backend =
     (let labels = owner_labels cfg route_name
      in \<lparr>hroute_metadata = managed_metadata_with cfg route_name labels (cfg_httproute_annotations cfg),
          hroute_parent_refs = Some
            [\<lparr>pref_group = Some ''gateway.networking.k8s.io'', pref_kind = Some ''ListenerSet'',
              pref_name = cfg_listener_set_name cfg, pref_namespace = Some (cfg_namespace cfg),
              pref_section_name = None\<rparr>],
          hroute_hostnames = Some (pr_hosts parsed),
          hroute_rules = Some [route_rule parsed filters backend]\<rparr>)"

definition wants_https :: "config \<Rightarrow> router \<Rightarrow> bool" where
  "wants_https cfg router \<longleftrightarrow>
     cfg_enable_https_listeners cfg \<and>
     (r_tls router \<noteq> None \<or> list_ex (\<lambda>e. e = ''https'') (r_entry_points router))"

definition index_host :: "bool \<Rightarrow> string \<Rightarrow> route_index \<Rightarrow> route_index" where
  "index_host https host index =
     (let index = index\<lparr>ri_hostnames := bs_insert host (ri_hostnames index)\<rparr>
      in if https then index\<lparr>ri_https_hosts := bs_insert host (ri_https_hosts index)\<rparr> else index)"

definition route_step ::
  "platform \<Rightarrow> config \<Rightarrow> (string \<times> middleware) list \<Rightarrow> backend_index \<Rightarrow> string \<times> router \<Rightarrow>
     route_index \<times> desired \<Rightarrow> route_index \<times> desired" where
  "route_step pf cfg mws backends entry st =
     (let (router_name, router) = entry; (index, d) = st; parsed = parse (r_rule router)
      in if \<not> is_usable parsed then (index, d)
         else
           let protected = requires_badger_auth (r_middlewares router) mws
           in if protected \<and> cfg_ext_authz cfg = None \<and> \<not> cfg_allow_unauthenticated_routes cfg
              then (index, d)
              else
                case bt_get backends (r_service router) of
                  None \<Rightarrow> (index, d)
                | Some backend \<Rightarrow>
                    (let filters = build_filters (r_middlewares router) mws;
                         route_name = prefixed_label pf ''hr'' router_name;
                         route = build_route cfg route_name parsed filters backend;
                         index = fold (index_host (wants_https cfg router)) (pr_hosts parsed) index;
                         d = (if protected
                              then (case cfg_ext_authz cfg of
                                      None \<Rightarrow> d
                                    | Some ea \<Rightarrow>
                                        (let sp = build_security_policy pf cfg ea route_name
                                         in d\<lparr>d_security_policies :=
                                                bt_insert (the (om_name (sp_metadata sp))) sp
                                                  (d_security_policies d)\<rparr>))
                              else d)
                     in (index, d\<lparr>d_http_routes := bt_insert route_name route (d_http_routes d)\<rparr>)))"

definition build_routes ::
  "platform \<Rightarrow> config \<Rightarrow> traefik_dynamic_config \<Rightarrow> backend_index \<Rightarrow> desired \<Rightarrow>
     route_index \<times> desired" where
  "build_routes pf cfg dyn backends d =
     fold (route_step pf cfg (hc_middlewares (tdc_http dyn)) backends) (hc_routers (tdc_http dyn))
       (default_route_index, d)"

declare default_route_index_def [exec] route_matches_def [exec] backend_ref_of_def [exec]
  is_terminating_def [exec] route_rule_def [exec] build_route_def [exec] wants_https_def [exec]
  index_host_def [exec] route_step_def [exec] build_routes_def [exec]

section \<open>The loop as a comprehension\<close>

text \<open>
  Which routers become routes, and what each of them becomes. \<open>build_routes_spec\<close> shows that
  the loop inserts exactly that, in the order of the routers.
\<close>

definition protected :: "(string \<times> middleware) list \<Rightarrow> router \<Rightarrow> bool" where
  "protected mws r = requires_badger_auth (r_middlewares r) mws"

definition may_emit :: "config \<Rightarrow> (string \<times> middleware) list \<Rightarrow> router \<Rightarrow> bool" where
  "may_emit cfg mws r \<longleftrightarrow>
     is_usable (parse (r_rule r)) \<and>
     (protected mws r \<longrightarrow> cfg_ext_authz cfg \<noteq> None \<or> cfg_allow_unauthenticated_routes cfg)"

definition emits :: "config \<Rightarrow> (string \<times> middleware) list \<Rightarrow> backend_index \<Rightarrow> string \<times> router \<Rightarrow> bool" where
  "emits cfg mws backends e \<longleftrightarrow>
     may_emit cfg mws (snd e) \<and> bt_get backends (r_service (snd e)) \<noteq> None"

definition route_name_of :: "platform \<Rightarrow> string \<times> router \<Rightarrow> string" where
  "route_name_of pf e = prefixed_label pf ''hr'' (fst e)"

definition route_of ::
  "platform \<Rightarrow> config \<Rightarrow> (string \<times> middleware) list \<Rightarrow> backend_index \<Rightarrow> string \<times> router \<Rightarrow> http_route" where
  "route_of pf cfg mws backends e =
     build_route cfg (route_name_of pf e) (parse (r_rule (snd e)))
       (build_filters (r_middlewares (snd e)) mws) (the (bt_get backends (r_service (snd e))))"

definition policies_of ::
  "platform \<Rightarrow> config \<Rightarrow> (string \<times> middleware) list \<Rightarrow> string \<times> router \<Rightarrow> (string \<times> security_policy) list" where
  "policies_of pf cfg mws e =
     (case cfg_ext_authz cfg of
        Some ea \<Rightarrow>
          (if protected mws (snd e)
           then [(prefixed_label pf ''sp'' (route_name_of pf e),
                  build_security_policy pf cfg ea (route_name_of pf e))]
           else [])
      | None \<Rightarrow> [])"

definition index_entry :: "config \<Rightarrow> string \<times> router \<Rightarrow> route_index \<Rightarrow> route_index" where
  "index_entry cfg e index =
     fold (index_host (wants_https cfg (snd e))) (pr_hosts (parse (r_rule (snd e)))) index"

abbreviation insert_all :: "(string \<times> 'v) list \<Rightarrow> (string \<times> 'v) list \<Rightarrow> (string \<times> 'v) list" where
  "insert_all kvs m \<equiv> fold (\<lambda>(k, v). bt_insert k v) kvs m"

lemma route_step_spec:
  "route_step pf cfg mws backends e (index, d) =
     (if emits cfg mws backends e
      then (index_entry cfg e index,
            d\<lparr>d_http_routes := bt_insert (route_name_of pf e) (route_of pf cfg mws backends e) (d_http_routes d),
              d_security_policies := insert_all (policies_of pf cfg mws e) (d_security_policies d)\<rparr>)
      else (index, d))"
  by (cases e)
     (simp add: route_step_def emits_def may_emit_def protected_def route_name_of_def route_of_def
       policies_of_def index_entry_def Let_def sp_name_build split: option.split)

lemma build_routes_spec_aux:
  "fold (route_step pf cfg mws backends) es (index, d) =
     (let es = filter (emits cfg mws backends) es
      in (fold (index_entry cfg) es index,
          d\<lparr>d_http_routes :=
              insert_all (map (\<lambda>e. (route_name_of pf e, route_of pf cfg mws backends e)) es) (d_http_routes d),
            d_security_policies :=
              insert_all (concat (map (policies_of pf cfg mws) es)) (d_security_policies d)\<rparr>))"
  by (induction es arbitrary: index d) (simp_all add: route_step_spec Let_def)

definition emitting ::
  "config \<Rightarrow> traefik_dynamic_config \<Rightarrow> backend_index \<Rightarrow> (string \<times> router) list" where
  "emitting cfg dyn backends =
     filter (emits cfg (hc_middlewares (tdc_http dyn)) backends) (hc_routers (tdc_http dyn))"

lemma build_routes_spec:
  "build_routes pf cfg dyn backends d =
     (let mws = hc_middlewares (tdc_http dyn); es = emitting cfg dyn backends
      in (fold (index_entry cfg) es default_route_index,
          d\<lparr>d_http_routes :=
              insert_all (map (\<lambda>e. (route_name_of pf e, route_of pf cfg mws backends e)) es) (d_http_routes d),
            d_security_policies :=
              insert_all (concat (map (policies_of pf cfg mws) es)) (d_security_policies d)\<rparr>))"
  by (simp add: build_routes_def build_routes_spec_aux emitting_def Let_def)

section \<open>What is in the maps\<close>

lemma in_insert_all: "x \<in> set (insert_all kvs m) \<Longrightarrow> x \<in> set kvs \<or> x \<in> set m"
  by (induction kvs arbitrary: m) (auto dest!: in_bt_insertD)

lemma build_routes_routes:
  assumes "build_routes pf cfg dyn backends d = (index, d')" and "(n, r) \<in> set (d_http_routes d')"
  obtains (old) "(n, r) \<in> set (d_http_routes d)"
    | (new) e where "e \<in> set (emitting cfg dyn backends)" "n = route_name_of pf e"
        "r = route_of pf cfg (hc_middlewares (tdc_http dyn)) backends e"
  using assms by (auto simp: build_routes_spec Let_def dest!: in_insert_all)

lemma build_routes_frame:
  assumes "build_routes pf cfg dyn backends d = (index, d')"
  shows "d_services d' = d_services d" "d_endpoint_slices d' = d_endpoint_slices d"
    "d_envoy_backends d' = d_envoy_backends d" "d_backend_tls_policies d' = d_backend_tls_policies d"
    "d_tcp_routes d' = d_tcp_routes d" "d_udp_routes d' = d_udp_routes d"
    "d_listener_sets d' = d_listener_sets d"
  using assms by (auto simp: build_routes_spec Let_def)

section \<open>The contract\<close>

lemma meta_ok_route: "is_dns_label n \<Longrightarrow> meta_ok cfg n (hroute_metadata (build_route cfg n p f b))"
  by (simp add: build_route_def Let_def meta_ok_with owned_owner_labels)

lemma wf_policies:
  "entries_ok cfg sp_metadata m \<Longrightarrow> entries_ok cfg sp_metadata (insert_all (policies_of pf cfg mws e) m)"
  by (auto simp: policies_of_def intro: wf_intros split: option.splits)

lemma bt_keys_insert_all: "set (bt_keys (insert_all kvs m)) = fst ` set kvs \<union> set (bt_keys m)"
  by (induction kvs arbitrary: m) (auto simp: bt_keys_insert)

interpretation routes: desired_builder cfg "route_step pf cfg mws backends" snd for cfg pf mws backends
proof unfold_locales
  fix s :: "route_index \<times> desired" and x
  obtain index d where s: "s = (index, d)" by fastforce
  show "wf_desired cfg (snd s) \<Longrightarrow> wf_desired cfg (snd (route_step pf cfg mws backends x s))"
    by (auto simp: s route_step_spec wf_desired_def route_of_def route_name_of_def
        intro!: entries_ok_insert meta_ok_route label_intros wf_policies)
  show "d_names (snd s) \<subseteq> d_names (snd (route_step pf cfg mws backends x s))"
  proof (rule d_names_mono)
    fix k show "set (d_keys (snd s) k) \<subseteq> set (d_keys (snd (route_step pf cfg mws backends x s)) k)"
      by (cases k) (auto simp: s route_step_spec bt_keys_insert bt_keys_insert_all)
  qed
qed

lemma build_routes_ok:
  assumes "build_routes pf cfg dyn backends d = (index, d')"
  shows "wf_desired cfg d \<Longrightarrow> wf_desired cfg d'" and "d_names d \<subseteq> d_names d'"
  using assms
    routes.fold_keeps [of cfg "(default_route_index, d)" pf "hc_middlewares (tdc_http dyn)" backends
      "hc_routers (tdc_http dyn)"]
    routes.fold_grows [of "(default_route_index, d)" pf cfg "hc_middlewares (tdc_http dyn)" backends
      "hc_routers (tdc_http dyn)"]
  by (simp_all add: build_routes_def)

section \<open>Protection\<close>

text \<open>
  A policy of a protected router is found under its name, unless the policy of another route
  has the same one. Names of at most 60 bytes are prefixed without a hash, so they cannot
  clash.
\<close>

lemma sp_name_inj:
  assumes "canonical_label a" "canonical_label b" "length a \<le> 60" "length b \<le> 60"
    and "prefixed_label pf ''sp'' a = prefixed_label pf ''sp'' b"
  shows "a = b"
proof -
  have "canonical_label ''sp''" by (simp add: exec)
  with assms show ?thesis by (simp add: prefixed_label_id)
qed

text \<open>
  No other route's policy is stored under the name of this route's policy. Names are only hashed
  when they are long, so this holds when all route names have at most 60 bytes.
\<close>

definition own_policy_name :: "platform \<Rightarrow> traefik_dynamic_config \<Rightarrow> string \<Rightarrow> bool" where
  "own_policy_name pf dyn n \<longleftrightarrow>
     (\<forall>e \<in> set (hc_routers (tdc_http dyn)).
        prefixed_label pf ''sp'' (route_name_of pf e) = prefixed_label pf ''sp'' n \<longrightarrow> route_name_of pf e = n)"

lemma policy_found:
  assumes run: "build_routes pf cfg dyn backends d = (index, d')" and wf: "bt_wf (d_security_policies d)"
    and e: "e \<in> set (emitting cfg dyn backends)" and prot: "protected (hc_middlewares (tdc_http dyn)) (snd e)"
    and ea: "cfg_ext_authz cfg = Some ea"
    and own: "own_policy_name pf dyn (route_name_of pf e)"
  shows "bt_get (d_security_policies d') (prefixed_label pf ''sp'' (route_name_of pf e)) =
    Some (build_security_policy pf cfg ea (route_name_of pf e))"
proof -
  let ?mws = "hc_middlewares (tdc_http dyn)" and ?es = "emitting cfg dyn backends"
  let ?s = "prefixed_label pf ''sp'' (route_name_of pf e)"
  let ?ps = "concat (map (policies_of pf cfg ?mws) ?es)"
  have get: "bt_get (d_security_policies d') = bt_get (d_security_policies d) ++ map_of (rev ?ps)"
    using run wf bt.get_insert_all [OF wf, of ?ps] by (auto simp: build_routes_spec Let_def)
  have "(?s, build_security_policy pf cfg ea (route_name_of pf e)) \<in> set (rev ?ps)"
    using e prot ea by (auto simp: policies_of_def)
  then obtain sp where sp: "map_of (rev ?ps) ?s = Some sp"
    by (cases "map_of (rev ?ps) ?s") (force simp: map_of_eq_None_iff)+
  then have "(?s, sp) \<in> set ?ps" by (auto dest: map_of_SomeD)
  then obtain e' where e': "e' \<in> set ?es" "?s = prefixed_label pf ''sp'' (route_name_of pf e')"
    "sp = build_security_policy pf cfg ea (route_name_of pf e')"
    using ea by (auto simp: policies_of_def split: if_splits)
  have sub: "set ?es \<subseteq> set (hc_routers (tdc_http dyn))" unfolding emitting_def by (rule filter_is_subset)
  have same: "route_name_of pf e' = route_name_of pf e"
    using own e'(1,2) sub by (auto simp: own_policy_name_def)
  show ?thesis by (simp add: get map_add_def sp e'(3) same)
qed

lemma policies_built:
  assumes "build_routes pf cfg dyn backends d = (index, d')" and "(k, sp) \<in> set (d_security_policies d')"
    and "d_security_policies d = []" and "cfg_ext_authz cfg = Some ea"
  shows "\<exists>n. sp = build_security_policy pf cfg ea n"
proof -
  let ?mws = "hc_middlewares (tdc_http dyn)"
  have "(k, sp) \<in> set (concat (map (policies_of pf cfg ?mws) (emitting cfg dyn backends)))"
    using assms(1-3) by (auto simp: build_routes_spec Let_def dest!: in_insert_all)
  then obtain e where "(k, sp) \<in> set (policies_of pf cfg ?mws e)" by auto
  then have "sp = build_security_policy pf cfg ea (route_name_of pf e)"
    using assms(4) by (simp add: policies_of_def split: if_splits)
  then show ?thesis by blast
qed

lemma route_names_inj:
  assumes "\<forall>e\<in>set es. length (route_name_of pf e) \<le> 60"
  shows "inj_on (prefixed_label pf ''sp'') (route_name_of pf ` set es)"
proof (rule inj_onI)
  fix a b assume "a \<in> route_name_of pf ` set es" "b \<in> route_name_of pf ` set es"
  then have "canonical_label a" "canonical_label b" "length a \<le> 60" "length b \<le> 60"
    using assms by (auto simp: route_name_of_def prefixed_label_canonical)
  then show "prefixed_label pf ''sp'' a = prefixed_label pf ''sp'' b \<Longrightarrow> a = b" by (rule sp_name_inj)
qed

lemma short_names_own_policy:
  assumes "list_all (\<lambda>e. length (route_name_of pf e) \<le> 60) (hc_routers (tdc_http dyn))"
    and "e \<in> set (hc_routers (tdc_http dyn))"
  shows "own_policy_name pf dyn (route_name_of pf e)"
proof -
  have inj: "inj_on (prefixed_label pf ''sp'') (route_name_of pf ` set (hc_routers (tdc_http dyn)))"
    using assms(1) by (intro route_names_inj) (simp add: list_all_iff)
  show ?thesis unfolding own_policy_name_def using inj_onD [OF inj] assms(2) by blast
qed

section \<open>Host names\<close>

lemma keys_index_host1:
  "set (bt_keys (ri_hostnames (index_host https h index))) = insert h (set (bt_keys (ri_hostnames index)))"
  "set (bt_keys (ri_https_hosts (index_host https h index))) =
     (if https then {h} else {}) \<union> set (bt_keys (ri_https_hosts index))"
  by (simp_all add: index_host_def Let_def bs_insert_def bt_keys_insert)

lemma keys_index_host:
  "set (bt_keys (ri_hostnames (fold (index_host https) hs index))) =
     set hs \<union> set (bt_keys (ri_hostnames index))"
  by (induction hs arbitrary: index) (simp_all add: keys_index_host1)

lemma https_index_host:
  "set (bt_keys (ri_https_hosts (fold (index_host https) hs index))) =
     (if https then set hs else {}) \<union> set (bt_keys (ri_https_hosts index))"
  by (induction hs arbitrary: index) (simp_all add: keys_index_host1)

lemma keys_index_entries:
  "set (bt_keys (ri_hostnames (fold (index_entry cfg) es index))) =
     (\<Union>e\<in>set es. set (pr_hosts (parse (r_rule (snd e))))) \<union> set (bt_keys (ri_hostnames index))"
  by (induction es arbitrary: index) (simp_all add: index_entry_def keys_index_host Un_assoc Un_left_commute)

lemma https_index_entries:
  "set (bt_keys (ri_https_hosts (fold (index_entry cfg) es index))) =
     (\<Union>e\<in>set (filter (\<lambda>e. wants_https cfg (snd e)) es). set (pr_hosts (parse (r_rule (snd e)))))
       \<union> set (bt_keys (ri_https_hosts index))"
  by (induction es arbitrary: index) (simp_all add: index_entry_def https_index_host Un_assoc Un_left_commute)

end
