(* ===== verification/Listener.thy ===== *)
theory Listener
  imports Route
begin

text \<open>
  \<^verbatim>\<open>src/transform/listener.rs\<close>: the one ListenerSet, with an HTTP listener per host name, an
  HTTPS listener per host name that asked for TLS when a certificate can be named, and the
  listeners of the TCP and UDP routes.
\<close>

definition render_secret_name :: "string \<Rightarrow> string \<Rightarrow> string" where
  "render_secret_name template host =
     replace_all ''{hostname-dashed}'' (replace_all ''.'' ''-'' host)
       (replace_all ''{hostname}'' host template)"

definition http_listener :: "platform \<Rightarrow> config \<Rightarrow> string \<Rightarrow> listener" where
  "http_listener pf cfg host =
     \<lparr>lis_name = dns_label pf (''http-'' @ host), lis_hostname = Some host,
      lis_port = cfg_http_port cfg, lis_protocol = ''HTTP'', lis_tls = None\<rparr>"

definition https_listener :: "platform \<Rightarrow> config \<Rightarrow> string \<Rightarrow> string \<Rightarrow> listener" where
  "https_listener pf cfg template host =
     \<lparr>lis_name = dns_label pf (''https-'' @ host), lis_hostname = Some host,
      lis_port = cfg_https_port cfg, lis_protocol = ''HTTPS'',
      lis_tls = Some
        \<lparr>ltls_mode = Some Terminate,
         ltls_certificate_refs = Some
           [\<lparr>cref_group = Some [], cref_kind = Some ''Secret'',
             cref_name = render_secret_name template host,
             cref_namespace = cfg_tls_secret_namespace cfg\<rparr>]\<rparr>\<rparr>"

definition listeners_of :: "platform \<Rightarrow> config \<Rightarrow> route_index \<Rightarrow> listener list \<Rightarrow> listener list" where
  "listeners_of pf cfg routes l4_listeners =
     map (http_listener pf cfg) (bt_keys (ri_hostnames routes))
       @ (case cfg_tls_secret_template cfg of
            Some template \<Rightarrow>
              (if cfg_enable_https_listeners cfg
               then map (https_listener pf cfg template) (bt_keys (ri_https_hosts routes))
               else [])
          | None \<Rightarrow> [])
       @ l4_listeners"

definition build_listener_set ::
  "platform \<Rightarrow> config \<Rightarrow> route_index \<Rightarrow> listener list \<Rightarrow> desired \<Rightarrow> desired" where
  "build_listener_set pf cfg routes l4_listeners d =
     (let listeners = listeners_of pf cfg routes l4_listeners;
          name = dns_label pf (cfg_listener_set_name cfg);
          labels = owner_labels cfg name;
          ls = \<lparr>lset_metadata = managed_metadata_with cfg name labels (cfg_listenerset_annotations cfg),
                lset_parent_ref =
                  \<lparr>pref_group = Some ''gateway.networking.k8s.io'', pref_kind = Some ''Gateway'',
                   pref_name = cfg_parent_gateway cfg,
                   pref_namespace = cfg_parent_gateway_namespace cfg, pref_section_name = None\<rparr>,
                lset_listeners = listeners\<rparr>
      in d\<lparr>d_listener_sets := bt_insert name ls (d_listener_sets d)\<rparr>)"

declare render_secret_name_def [exec] http_listener_def [exec] https_listener_def [exec]
  listeners_of_def [exec] build_listener_set_def [exec] replace_all.simps [exec]

section \<open>Lemmas\<close>

lemma wf_listener_set: "wf_desired cfg d \<Longrightarrow> wf_desired cfg (build_listener_set pf cfg ri ls d)"
  unfolding build_listener_set_def Let_def
  by (erule wf_desired_updates)
     (simp add: meta_ok_with dns_label_label owned_owner_labels)

lemma grows_listener_set: "d_names d \<subseteq> d_names (build_listener_set pf cfg ri ls d)"
  by (simp add: build_listener_set_def Let_def d_names_updates)

lemma listener_set_frame:
  "d_http_routes (build_listener_set pf cfg ri ls d) = d_http_routes d"
  "d_services (build_listener_set pf cfg ri ls d) = d_services d"
  "d_endpoint_slices (build_listener_set pf cfg ri ls d) = d_endpoint_slices d"
  "d_envoy_backends (build_listener_set pf cfg ri ls d) = d_envoy_backends d"
  "d_tcp_routes (build_listener_set pf cfg ri ls d) = d_tcp_routes d"
  "d_udp_routes (build_listener_set pf cfg ri ls d) = d_udp_routes d"
  "d_security_policies (build_listener_set pf cfg ri ls d) = d_security_policies d"
  "d_backend_tls_policies (build_listener_set pf cfg ri ls d) = d_backend_tls_policies d"
  by (simp_all add: build_listener_set_def Let_def)

text \<open>\<^verbatim>\<open>str::replace\<close> with an absent pattern changes nothing, and the result of replacing the
  dots has none.\<close>

lemma replace_all_absent: "p \<noteq> [] \<Longrightarrow> hd p \<notin> set s \<Longrightarrow> replace_all p r s = s"
proof (induction s)
  case (Cons c s)
  then have "strip_prefix p (c # s) = None" by (cases p) auto
  with Cons show ?case by simp
qed simp

lemma replace_all_char: "replace_all [c] r s = concat (map (\<lambda>x. if x = c then r else [x]) s)"
  by (induction s) auto

section \<open>Host names with TLS\<close>

lemma tls_hosts:
  assumes "\<And>l. l \<in> set ls \<Longrightarrow> lis_hostname l = None \<and> lis_tls l = None"
  shows "(\<exists>l \<in> set (listeners_of pf cfg ri ls). lis_tls l \<noteq> None \<and> lis_hostname l = Some host) \<longleftrightarrow>
    cfg_tls_secret_template cfg \<noteq> None \<and> cfg_enable_https_listeners cfg \<and> host \<in> set (bt_keys (ri_https_hosts ri))"
proof -
  have "lis_tls (http_listener pf cfg h) = None" "lis_tls (https_listener pf cfg t h) \<noteq> None"
    "lis_hostname (https_listener pf cfg t h) = Some h" for h t
    by (simp_all add: http_listener_def https_listener_def)
  with assms show ?thesis
    by (cases "cfg_tls_secret_template cfg") (auto simp: listeners_of_def intro!: bexI [of _ "https_listener _ _ _ host"])
qed

end
