(* ===== verification/L4.thy ===== *)
theory L4
  imports Backend
begin

text \<open>
  \<^verbatim>\<open>src/transform/l4.rs\<close>: TCPRoutes and UDPRoutes from Pangolin's raw resources, and the
  listeners they attach to. The public port is read from the name of the entry point. The
  lemmas bound the ports and show that no two listeners share one.
\<close>

section \<open>The code\<close>

definition rule_is_supported :: "l4_router \<Rightarrow> l4_protocol \<Rightarrow> bool" where
  "rule_is_supported router proto =
     (if l4r_tls router \<noteq> None then False
      else case map_option trim (l4r_rule router) of
             None \<Rightarrow> True
           | Some rule \<Rightarrow> rule = [] \<or> (proto = Tcp \<and> rule = ''HostSNI(`*`)''))"

definition parse_entrypoint_port :: "string \<Rightarrow> l4_protocol \<Rightarrow> port option" where
  "parse_entrypoint_port entrypoint proto =
     (case strip_prefix (infix_of proto) entrypoint of
        None \<Rightarrow> None
      | Some r \<Rightarrow>
          (case strip_prefix ''-'' r of
             None \<Rightarrow> None
           | Some rest \<Rightarrow>
               (case parse_u16 rest of
                  None \<Rightarrow> None
                | Some port \<Rightarrow> then_some (port \<noteq> 0) (int port))))"

definition l4_parent_refs :: "config \<Rightarrow> string list \<Rightarrow> parent_ref list" where
  "l4_parent_refs cfg section_names =
     map (\<lambda>section. \<lparr>pref_group = Some ''gateway.networking.k8s.io'', pref_kind = Some ''ListenerSet'',
                     pref_name = cfg_listener_set_name cfg, pref_namespace = Some (cfg_namespace cfg),
                     pref_section_name = Some section\<rparr>) section_names"

text \<open>\<open>build_tcp_route\<close> and \<open>build_udp_route\<close> differ in the type they build only.\<close>

definition build_l4_route :: "config \<Rightarrow> string \<Rightarrow> string list \<Rightarrow> resolved_backend \<Rightarrow> l4_route" where
  "build_l4_route cfg route_name section_names backend =
     (let labels = owner_labels cfg route_name
      in \<lparr>l4route_metadata = managed_metadata cfg route_name labels,
          l4route_parent_refs = Some (l4_parent_refs cfg section_names),
          l4route_rules =
            [[\<lparr>bref_group = Some (rb_group backend), bref_kind = Some (rb_kind backend),
               bref_name = rb_name backend, bref_namespace = rb_namespace backend,
               bref_port = Some (rb_port backend), bref_weight = Some 1\<rparr>]]\<rparr>)"

text \<open>The variables the loop over the entry points changes.\<close>

record entrypoint_state =
  eps_listeners :: "listener list"
  eps_claimed :: "(port \<times> string) list"
  eps_sections :: "string list"

definition l4_listener :: "platform \<Rightarrow> l4_protocol \<Rightarrow> port \<Rightarrow> listener" where
  "l4_listener pf proto port =
     \<lparr>lis_name = dns_label pf (infix_of proto @ ''-'' @ show_int port), lis_hostname = None,
      lis_port = port, lis_protocol = k8s_protocol proto, lis_tls = None\<rparr>"

definition entrypoint_step ::
  "platform \<Rightarrow> config \<Rightarrow> l4_protocol \<Rightarrow> string \<Rightarrow> string \<Rightarrow> entrypoint_state \<Rightarrow> entrypoint_state" where
  "entrypoint_step pf cfg proto router_name ep st =
     (case parse_entrypoint_port ep proto of
        None \<Rightarrow> st
      | Some port \<Rightarrow>
          (if proto = Tcp \<and> (port = cfg_http_port cfg \<or> port = cfg_https_port cfg) then st
           else if bt_contains (eps_claimed st) port then st
           else
             let listener = l4_listener pf proto port
             in st\<lparr>eps_claimed := bt_insert port router_name (eps_claimed st),
                   eps_listeners := eps_listeners st @ [listener],
                   eps_sections := eps_sections st @ [lis_name listener]\<rparr>))"

record l4_state =
  l4st_listeners :: "listener list"
  l4st_claimed :: "(port \<times> string) list"
  l4st_desired :: desired

definition insert_l4_route :: "l4_protocol \<Rightarrow> string \<Rightarrow> l4_route \<Rightarrow> desired \<Rightarrow> desired" where
  "insert_l4_route proto route_name route d =
     (case proto of
        Tcp \<Rightarrow> d\<lparr>d_tcp_routes := bt_insert route_name route (d_tcp_routes d)\<rparr>
      | Udp \<Rightarrow> d\<lparr>d_udp_routes := bt_insert route_name route (d_udp_routes d)\<rparr>)"

definition l4_step ::
  "platform \<Rightarrow> config \<Rightarrow> l4_protocol \<Rightarrow> backend_index \<Rightarrow> string \<times> l4_router \<Rightarrow> l4_state \<Rightarrow> l4_state" where
  "l4_step pf cfg proto backends entry st =
     (let (router_name, router) = entry
      in if \<not> rule_is_supported router proto then st
         else
           case bt_get backends (l4r_service router) of
             None \<Rightarrow> st
           | Some backend \<Rightarrow>
               (let eps = fold (entrypoint_step pf cfg proto router_name) (l4r_entry_points router)
                            \<lparr>eps_listeners = l4st_listeners st, eps_claimed = l4st_claimed st,
                             eps_sections = []\<rparr>;
                    st = st\<lparr>l4st_listeners := eps_listeners eps, l4st_claimed := eps_claimed eps\<rparr>
                in if eps_sections eps = [] then st
                   else
                     let route_name = prefixed_label pf (infix_of proto) router_name;
                         route = build_l4_route cfg route_name (eps_sections eps) backend
                     in st\<lparr>l4st_desired := insert_l4_route proto route_name route (l4st_desired st)\<rparr>))"

definition build_l4 ::
  "platform \<Rightarrow> config \<Rightarrow> l4_config \<Rightarrow> l4_protocol \<Rightarrow> desired \<Rightarrow> listener list \<times> desired" where
  "build_l4 pf cfg l4 proto d =
     (let (backends, d1) = build_l4_backends pf cfg (l4c_services l4) proto d;
          st = fold (l4_step pf cfg proto backends) (l4c_routers l4)
                 \<lparr>l4st_listeners = [], l4st_claimed = [], l4st_desired = d1\<rparr>
      in (l4st_listeners st, l4st_desired st))"

declare rule_is_supported_def [exec] parse_entrypoint_port_def [exec] l4_parent_refs_def [exec]
  build_l4_route_def [exec] l4_listener_def [exec] entrypoint_step_def [exec]
  insert_l4_route_def [exec] l4_step_def [exec] build_l4_def [exec]

section \<open>Ports\<close>

definition port_allowed :: "config \<Rightarrow> l4_protocol \<Rightarrow> port \<Rightarrow> bool" where
  "port_allowed cfg proto port \<longleftrightarrow>
     1 \<le> port \<and> port \<le> 65535 \<and>
     (proto = Tcp \<longrightarrow> port \<noteq> cfg_http_port cfg \<and> port \<noteq> cfg_https_port cfg)"

lemma parse_entrypoint_bounds: "parse_entrypoint_port ep proto = Some p \<Longrightarrow> 1 \<le> p \<and> p \<le> 65535"
  by (auto simp: parse_entrypoint_port_def then_some_def split: option.splits if_splits
      dest!: parse_u16_bound)

lemma parse_entrypoint_show:
  "1 \<le> p \<Longrightarrow> p < 65536 \<Longrightarrow> parse_entrypoint_port (infix_of proto @ ''-'' @ show_nat p) proto = Some (int p)"
  by (simp add: parse_entrypoint_port_def then_some_def parse_u16_show)

text \<open>
  The listeners of a run: one per claimed port, each port allowed and none twice. The ports
  are those of the listeners, in the order of their claims.
\<close>

definition claims_ok ::
  "platform \<Rightarrow> config \<Rightarrow> l4_protocol \<Rightarrow> listener list \<Rightarrow> (port \<times> string) list \<Rightarrow> bool" where
  "claims_ok pf cfg proto ls claimed \<longleftrightarrow>
     distinct (map lis_port ls) \<and> set (map lis_port ls) = set (bt_keys claimed) \<and>
     (\<forall>l\<in>set ls. l = l4_listener pf proto (lis_port l) \<and> port_allowed cfg proto (lis_port l))"

definition sections_ok :: "listener list \<Rightarrow> string list \<Rightarrow> bool" where
  "sections_ok ls ss \<longleftrightarrow> set ss \<subseteq> lis_name ` set ls"

definition eps_ok :: "platform \<Rightarrow> config \<Rightarrow> l4_protocol \<Rightarrow> entrypoint_state \<Rightarrow> bool" where
  "eps_ok pf cfg proto st \<longleftrightarrow>
     claims_ok pf cfg proto (eps_listeners st) (eps_claimed st) \<and>
     sections_ok (eps_listeners st) (eps_sections st)"

lemma lis_port_l4_listener [simp]: "lis_port (l4_listener pf proto p) = p"
  by (simp add: l4_listener_def)

lemma eps_ok_step: "eps_ok pf cfg proto st \<Longrightarrow> eps_ok pf cfg proto (entrypoint_step pf cfg proto rn ep st)"
proof (cases "parse_entrypoint_port ep proto")
  case (Some p)
  assume st: "eps_ok pf cfg proto st"
  show ?thesis
    using st Some parse_entrypoint_bounds [OF Some]
    by (auto simp: entrypoint_step_def Let_def eps_ok_def claims_ok_def sections_ok_def
        bt_contains_iff bt_keys_insert port_allowed_def)
qed (simp add: entrypoint_step_def)

lemma eps_ok_fold:
  "eps_ok pf cfg proto st \<Longrightarrow> eps_ok pf cfg proto (fold (entrypoint_step pf cfg proto rn) eps st)"
  by (rule fold_invariant_in) (simp_all add: eps_ok_step)

lemma eps_listeners_grow:
  "set (eps_listeners st) \<subseteq> set (eps_listeners (fold (entrypoint_step pf cfg proto rn) eps st))"
proof (rule fold_invariant_in [where P = "\<lambda>s. set (eps_listeners st) \<subseteq> set (eps_listeners s)"])
  fix x s show "set (eps_listeners st) \<subseteq> set (eps_listeners s) \<Longrightarrow>
    set (eps_listeners st) \<subseteq> set (eps_listeners (entrypoint_step pf cfg proto rn x s))"
    by (auto simp: entrypoint_step_def Let_def split: option.split)
qed simp

section \<open>Routes\<close>

text \<open>
  An L4 route of the model: its sections name listeners of the run, it has at least one, and
  its backend is of the index.
\<close>

definition l4_routes_of :: "l4_protocol \<Rightarrow> desired \<Rightarrow> (string \<times> l4_route) list" where
  "l4_routes_of proto d = (case proto of Tcp \<Rightarrow> d_tcp_routes d | Udp \<Rightarrow> d_udp_routes d)"

definition l4_route_ok ::
  "config \<Rightarrow> backend_index \<Rightarrow> listener list \<Rightarrow> string \<times> l4_route \<Rightarrow> bool" where
  "l4_route_ok cfg backends ls nr \<longleftrightarrow>
     (\<exists>ss s rb. ss \<noteq> [] \<and> sections_ok ls ss \<and> bt_get backends s = Some rb \<and>
        snd nr = build_l4_route cfg (fst nr) ss rb)"

definition l4_ok ::
  "platform \<Rightarrow> config \<Rightarrow> l4_protocol \<Rightarrow> backend_index \<Rightarrow> l4_state \<Rightarrow> bool" where
  "l4_ok pf cfg proto backends st \<longleftrightarrow>
     claims_ok pf cfg proto (l4st_listeners st) (l4st_claimed st) \<and>
     (\<forall>nr\<in>set (l4_routes_of proto (l4st_desired st)). l4_route_ok cfg backends (l4st_listeners st) nr)"

lemma l4_route_ok_mono:
  "l4_route_ok cfg backends ls nr \<Longrightarrow> set ls \<subseteq> set ls' \<Longrightarrow> l4_route_ok cfg backends ls' nr"
  unfolding l4_route_ok_def sections_ok_def by (meson image_mono order_trans)

lemma l4_routes_of_insert:
  "l4_routes_of proto (insert_l4_route proto n r d) = bt_insert n r (l4_routes_of proto d)"
  by (cases proto) (simp_all add: l4_routes_of_def insert_l4_route_def)

text \<open>A step skips the router, or claims ports and adds the router's route if it got one.\<close>

lemma l4_step_cases:
  obtains (skip) "l4_step pf cfg proto backends (rn, r) st = st"
  | (claim) eps where
      "eps = fold (entrypoint_step pf cfg proto rn) (l4r_entry_points r)
         \<lparr>eps_listeners = l4st_listeners st, eps_claimed = l4st_claimed st, eps_sections = []\<rparr>"
      "eps_sections eps = []"
      "l4_step pf cfg proto backends (rn, r) st =
         st\<lparr>l4st_listeners := eps_listeners eps, l4st_claimed := eps_claimed eps\<rparr>"
  | (route) eps rb where
      "eps = fold (entrypoint_step pf cfg proto rn) (l4r_entry_points r)
         \<lparr>eps_listeners = l4st_listeners st, eps_claimed = l4st_claimed st, eps_sections = []\<rparr>"
      "eps_sections eps \<noteq> []" "bt_get backends (l4r_service r) = Some rb"
      "l4_step pf cfg proto backends (rn, r) st =
         st\<lparr>l4st_listeners := eps_listeners eps, l4st_claimed := eps_claimed eps,
            l4st_desired := insert_l4_route proto (prefixed_label pf (infix_of proto) rn)
              (build_l4_route cfg (prefixed_label pf (infix_of proto) rn) (eps_sections eps) rb)
              (l4st_desired st)\<rparr>"
proof -
  let ?eps = "fold (entrypoint_step pf cfg proto rn) (l4r_entry_points r)
    \<lparr>eps_listeners = l4st_listeners st, eps_claimed = l4st_claimed st, eps_sections = []\<rparr>"
  show ?thesis
  proof (cases "rule_is_supported r proto")
    case False
    then show ?thesis by (intro skip) (simp add: l4_step_def)
  next
    case True
    show ?thesis
    proof (cases "bt_get backends (l4r_service r)")
      case None
      then show ?thesis by (intro skip) (simp add: l4_step_def)
    next
      case (Some rb)
      with True show ?thesis
        using claim [of ?eps] route [of ?eps rb]
        by (cases "eps_sections ?eps = []") (simp_all add: l4_step_def Let_def)
    qed
  qed
qed

lemma l4_ok_step:
  assumes "l4_ok pf cfg proto backends st"
  shows "l4_ok pf cfg proto backends (l4_step pf cfg proto backends (rn, r) st)"
proof (cases rule: l4_step_cases [of pf cfg proto backends rn r st])
  case skip
  with assms show ?thesis by simp
next
  case (claim eps)
  have "eps_ok pf cfg proto eps"
    unfolding claim(1) by (rule eps_ok_fold) (use assms in \<open>simp add: eps_ok_def l4_ok_def sections_ok_def\<close>)
  moreover have "set (l4st_listeners st) \<subseteq> set (eps_listeners eps)"
    unfolding claim(1) using eps_listeners_grow by fastforce
  ultimately show ?thesis
    using assms claim(3) l4_route_ok_mono by (auto simp: l4_ok_def eps_ok_def)
next
  case (route eps rb)
  have eps: "eps_ok pf cfg proto eps"
    unfolding route(1) by (rule eps_ok_fold) (use assms in \<open>simp add: eps_ok_def l4_ok_def sections_ok_def\<close>)
  have "set (l4st_listeners st) \<subseteq> set (eps_listeners eps)"
    unfolding route(1) using eps_listeners_grow by fastforce
  with assms have "\<forall>nr\<in>set (l4_routes_of proto (l4st_desired st)). l4_route_ok cfg backends (eps_listeners eps) nr"
    using l4_route_ok_mono unfolding l4_ok_def by blast
  moreover have "l4_route_ok cfg backends (eps_listeners eps)
      (n, build_l4_route cfg n (eps_sections eps) rb)" for n
    using eps route(2,3) by (auto simp: l4_route_ok_def eps_ok_def)
  ultimately show ?thesis
    using eps route(4) by (auto simp: l4_ok_def eps_ok_def l4_routes_of_insert dest!: in_bt_insertD)
qed

section \<open>The contract\<close>

lemma wf_insert_l4:
  assumes "wf_desired cfg d" "meta_ok cfg n (l4route_metadata r)"
  shows "wf_desired cfg (insert_l4_route proto n r d)"
  using wf_desired_updates(8,9) [OF assms] by (cases proto) (simp_all add: insert_l4_route_def)

lemma meta_ok_l4: "is_dns_label n \<Longrightarrow> meta_ok cfg n (l4route_metadata (build_l4_route cfg n ss rb))"
  by (simp add: build_l4_route_def Let_def meta_ok_managed owned_owner_labels)

interpretation l4_routers: desired_builder cfg "l4_step pf cfg proto backends" l4st_desired
  for cfg pf proto backends
proof unfold_locales
  fix s :: l4_state and x :: "string \<times> l4_router"
  obtain rn r where x: "x = (rn, r)" by fastforce
  show "wf_desired cfg (l4st_desired s) \<Longrightarrow> wf_desired cfg (l4st_desired (l4_step pf cfg proto backends x s))"
    by (cases rule: l4_step_cases [of pf cfg proto backends rn r s])
       (simp_all add: x wf_insert_l4 meta_ok_l4 prefixed_label_label)
  show "d_names (l4st_desired s) \<subseteq> d_names (l4st_desired (l4_step pf cfg proto backends x s))"
    by (cases rule: l4_step_cases [of pf cfg proto backends rn r s])
       (simp_all add: x insert_l4_route_def d_names_updates split: l4_protocol.split)
qed

lemma build_l4_ok:
  assumes "build_l4 pf cfg l4 proto d = (ls, d')"
  shows "wf_desired cfg d \<Longrightarrow> wf_desired cfg d'" and "d_names d \<subseteq> d_names d'"
proof -
  obtain backends d1 where b: "build_l4_backends pf cfg (l4c_services l4) proto d = (backends, d1)"
    by fastforce
  let ?st = "\<lparr>l4st_listeners = [], l4st_claimed = [], l4st_desired = d1\<rparr>"
  have d': "d' = l4st_desired (fold (l4_step pf cfg proto backends) (l4c_routers l4) ?st)"
    using assms b by (simp add: build_l4_def Let_def)
  show "wf_desired cfg d \<Longrightarrow> wf_desired cfg d'"
    using build_l4_backends_ok(2) [OF b] l4_routers.fold_keeps [of cfg ?st pf proto backends "l4c_routers l4"]
    by (simp add: d')
  show "d_names d \<subseteq> d_names d'"
    using build_l4_backends_ok(3) [OF b] l4_routers.fold_grows [of ?st pf cfg proto backends "l4c_routers l4"]
    by (simp add: d')
qed

lemma build_l4_run:
  assumes run: "build_l4 pf cfg l4 proto d = (ls, d')" and start: "l4_routes_of proto d = []"
  obtains backends claimed where "claims_ok pf cfg proto ls claimed" and "index_ok backends d'"
    and "\<forall>nr\<in>set (l4_routes_of proto d'). l4_route_ok cfg backends ls nr"
proof -
  obtain backends d1 where b: "build_l4_backends pf cfg (l4c_services l4) proto d = (backends, d1)"
    by fastforce
  let ?st = "\<lparr>l4st_listeners = [], l4st_claimed = [], l4st_desired = d1\<rparr>"
  let ?fin = "fold (l4_step pf cfg proto backends) (l4c_routers l4) ?st"
  have res: "ls = l4st_listeners ?fin" "d' = l4st_desired ?fin"
    using run b by (simp_all add: build_l4_def Let_def)
  have "l4_routes_of proto d1 = []"
    using start emitted_frame [OF emitted_build_l4_backends [of cfg d pf "l4c_services l4" proto]] b
    by (cases proto) (simp_all add: l4_routes_of_def)
  then have "l4_ok pf cfg proto backends ?st" by (simp add: l4_ok_def claims_ok_def bt_keys_def)
  then have "l4_ok pf cfg proto backends ?fin"
    by (rule fold_invariant_in) (metis l4_ok_step surj_pair)
  moreover have "index_ok backends d'"
    using index_ok_mono [OF build_l4_backends_ok(1) [OF b]]
      l4_routers.fold_grows [of ?st pf cfg proto backends "l4c_routers l4"] by (simp add: res)
  ultimately show ?thesis using that [of "l4st_claimed ?fin" backends] by (simp add: l4_ok_def res)
qed

section \<open>Properties\<close>

text \<open>C40: The port of an entry point name is the number that was printed into it, and whatever is read
  is a port between 1 and 65535.\<close>

theorem entrypoint_port_roundtrip:
  assumes "1 \<le> p" and "p < 65536"
  shows "parse_entrypoint_port (infix_of proto @ ''-'' @ show_nat p) proto = Some (int p) \<and>
    (case parse_entrypoint_port ep proto of None \<Rightarrow> True | Some q \<Rightarrow> 1 \<le> q \<and> q \<le> 65535)"
  using parse_entrypoint_show [OF assms] parse_entrypoint_bounds by (simp split: option.split)

theorem entrypoint_port_roundtrip_witness:
  "parse_entrypoint_port ''tcp-22'' Tcp = Some 22 \<and>
   (case parse_entrypoint_port ''tcp-0'' Tcp of None \<Rightarrow> True | Some q \<Rightarrow> 1 \<le> q \<and> q \<le> 65535)"
proof -
  have "show_nat 22 = ''22''" by code_simp
  with entrypoint_port_roundtrip [of 22 Tcp "''tcp-0''"] show ?thesis by simp
qed

end
