(* ===== verification/Transform.thy ===== *)
theory Transform
  imports Listener L4
begin

text \<open>
  \<^verbatim>\<open>src/transform/mod.rs\<close>: the whole translation of Pangolin's configuration into the desired
  state, in the order of the code: HTTP backends, routes, TCP, UDP, and the ListenerSet
  last. \<open>backend_stage\<close> to \<open>udp_stage\<close> name the intermediate states, for the properties that span the
  stages.
\<close>

definition build_l4_family ::
  "platform \<Rightarrow> config \<Rightarrow> l4_config option \<Rightarrow> l4_protocol \<Rightarrow> bool \<Rightarrow> desired \<Rightarrow>
     listener list \<times> desired" where
  "build_l4_family pf cfg block proto enabled d =
     (case block of
        None \<Rightarrow> ([], d)
      | Some block \<Rightarrow> if \<not> enabled then ([], d) else build_l4 pf cfg block proto d)"

definition build_desired :: "platform \<Rightarrow> config \<Rightarrow> traefik_dynamic_config \<Rightarrow> desired" where
  "build_desired pf cfg dyn =
     (let d = empty_desired;
          (backend_index, d) = build_backends pf cfg (hc_services (tdc_http dyn))
                                 (hc_servers_transports (tdc_http dyn)) d;
          (route_index, d) = build_routes pf cfg dyn backend_index d;
          (tcp, d) = build_l4_family pf cfg (tdc_tcp dyn) Tcp (cfg_enable_tcp_routes cfg) d;
          (udp, d) = build_l4_family pf cfg (tdc_udp dyn) Udp (cfg_enable_udp_routes cfg) d
      in build_listener_set pf cfg route_index (tcp @ udp) d)"

declare build_l4_family_def [exec] build_desired_def [exec]

section \<open>The stages of a run\<close>

definition backend_stage :: "platform \<Rightarrow> config \<Rightarrow> traefik_dynamic_config \<Rightarrow> backend_index \<times> desired" where
  "backend_stage pf cfg dyn =
     build_backends pf cfg (hc_services (tdc_http dyn)) (hc_servers_transports (tdc_http dyn)) empty_desired"

definition route_stage :: "platform \<Rightarrow> config \<Rightarrow> traefik_dynamic_config \<Rightarrow> route_index \<times> desired" where
  "route_stage pf cfg dyn =
     build_routes pf cfg dyn (fst (backend_stage pf cfg dyn)) (snd (backend_stage pf cfg dyn))"

definition tcp_stage :: "platform \<Rightarrow> config \<Rightarrow> traefik_dynamic_config \<Rightarrow> listener list \<times> desired" where
  "tcp_stage pf cfg dyn =
     build_l4_family pf cfg (tdc_tcp dyn) Tcp (cfg_enable_tcp_routes cfg) (snd (route_stage pf cfg dyn))"

definition udp_stage :: "platform \<Rightarrow> config \<Rightarrow> traefik_dynamic_config \<Rightarrow> listener list \<times> desired" where
  "udp_stage pf cfg dyn =
     build_l4_family pf cfg (tdc_udp dyn) Udp (cfg_enable_udp_routes cfg) (snd (tcp_stage pf cfg dyn))"

lemma build_desired_stages:
  "build_desired pf cfg dyn =
     build_listener_set pf cfg (fst (route_stage pf cfg dyn))
       (fst (tcp_stage pf cfg dyn) @ fst (udp_stage pf cfg dyn)) (snd (udp_stage pf cfg dyn))"
  by (simp add: build_desired_def backend_stage_def route_stage_def tcp_stage_def udp_stage_def Let_def
      split_beta)

lemma stage_runs:
  "build_backends pf cfg (hc_services (tdc_http dyn)) (hc_servers_transports (tdc_http dyn)) empty_desired =
     (fst (backend_stage pf cfg dyn), snd (backend_stage pf cfg dyn))"
  "build_routes pf cfg dyn (fst (backend_stage pf cfg dyn)) (snd (backend_stage pf cfg dyn)) =
     (fst (route_stage pf cfg dyn), snd (route_stage pf cfg dyn))"
  "build_l4_family pf cfg (tdc_tcp dyn) Tcp (cfg_enable_tcp_routes cfg) (snd (route_stage pf cfg dyn)) =
     (fst (tcp_stage pf cfg dyn), snd (tcp_stage pf cfg dyn))"
  "build_l4_family pf cfg (tdc_udp dyn) Udp (cfg_enable_udp_routes cfg) (snd (tcp_stage pf cfg dyn)) =
     (fst (udp_stage pf cfg dyn), snd (udp_stage pf cfg dyn))"
  by (simp_all add: backend_stage_def route_stage_def tcp_stage_def udp_stage_def)

lemma build_l4_family_ok:
  assumes "build_l4_family pf cfg block proto enabled d = (ls, d')"
  shows "wf_desired cfg d \<Longrightarrow> wf_desired cfg d'" and "d_names d \<subseteq> d_names d'"
  using assms build_l4_ok by (auto simp: build_l4_family_def split: option.splits if_splits)

section \<open>What the L4 stages change\<close>

text \<open>
  An L4 stage emits backends and then adds routes of its own protocol only; \<open>other\<close> is the
  rest of the desired state.
\<close>

lemma l4_step_other:
  "l4st_desired (l4_step pf cfg proto backends e st) = l4st_desired st \<or>
   (\<exists>n r. l4st_desired (l4_step pf cfg proto backends e st) = insert_l4_route proto n r (l4st_desired st))"
proof -
  obtain rn r where e: "e = (rn, r)" by fastforce
  show ?thesis
    by (cases rule: l4_step_cases [of pf cfg proto backends rn r st]) (auto simp: e)
qed

definition same_but_l4 :: "l4_protocol \<Rightarrow> desired \<Rightarrow> desired \<Rightarrow> bool" where
  "same_but_l4 proto d d' \<longleftrightarrow>
     (case proto of Tcp \<Rightarrow> d' = d\<lparr>d_tcp_routes := d_tcp_routes d'\<rparr>
                  | Udp \<Rightarrow> d' = d\<lparr>d_udp_routes := d_udp_routes d'\<rparr>)"

lemma same_but_l4_insert: "same_but_l4 proto d d' \<Longrightarrow> same_but_l4 proto d (insert_l4_route proto n r d')"
  by (cases proto; cases d; cases d') (auto simp: same_but_l4_def insert_l4_route_def)

lemma same_but_l4_fold:
  "same_but_l4 proto (l4st_desired st) (l4st_desired (fold (l4_step pf cfg proto backends) es st))"
proof (rule fold_invariant_in [where P = "\<lambda>s. same_but_l4 proto (l4st_desired st) (l4st_desired s)"])
  show "same_but_l4 proto (l4st_desired st) (l4st_desired st)"
    by (cases proto) (simp_all add: same_but_l4_def)
  fix e and s :: l4_state assume "same_but_l4 proto (l4st_desired st) (l4st_desired s)"
  then show "same_but_l4 proto (l4st_desired st) (l4st_desired (l4_step pf cfg proto backends e s))"
    using l4_step_other [of pf cfg proto backends e s] same_but_l4_insert by metis
qed

lemma build_l4_family_cases:
  assumes "build_l4_family pf cfg block proto enabled d = (ls, d')"
  obtains (off) "block = None \<or> \<not> enabled" "ls = []" "d' = d"
    | (on) l4 d1 where "enabled" "block = Some l4" "build_l4 pf cfg l4 proto d = (ls, d')"
        "emitted cfg (\<lambda>_. False) d d1" "same_but_l4 proto d1 d'"
proof (cases "block = None \<or> \<not> enabled")
  case True
  then show ?thesis using assms off by (cases block) (auto simp: build_l4_family_def)
next
  case False
  then obtain l4 where l4: "block = Some l4" "enabled" by auto
  obtain backends d1 where b: "build_l4_backends pf cfg (l4c_services l4) proto d = (backends, d1)"
    by fastforce
  have run: "build_l4 pf cfg l4 proto d = (ls, d')" using assms l4 by (simp add: build_l4_family_def)
  have "emitted cfg (\<lambda>_. False) d d1"
    using emitted_build_l4_backends [of cfg d pf "l4c_services l4" proto] b by simp
  moreover have "same_but_l4 proto d1 d'"
    using run b same_but_l4_fold [of proto "\<lparr>l4st_listeners = [], l4st_claimed = [], l4st_desired = d1\<rparr>"]
    by (auto simp: build_l4_def Let_def)
  ultimately show ?thesis using on l4 run by blast
qed

lemma same_but_l4_frame:
  assumes "same_but_l4 proto d d'"
  shows "d_http_routes d' = d_http_routes d" "d_listener_sets d' = d_listener_sets d"
    "d_services d' = d_services d" "d_endpoint_slices d' = d_endpoint_slices d"
    "d_envoy_backends d' = d_envoy_backends d" "d_security_policies d' = d_security_policies d"
    "d_backend_tls_policies d' = d_backend_tls_policies d"
    "proto = Tcp \<Longrightarrow> d_udp_routes d' = d_udp_routes d" "proto = Udp \<Longrightarrow> d_tcp_routes d' = d_tcp_routes d"
  using assms by (cases proto; cases d; cases d'; simp add: same_but_l4_def)+

lemma l4_family_frame:
  assumes "build_l4_family pf cfg block proto enabled d = (ls, d')"
  shows "d_http_routes d' = d_http_routes d \<and> d_security_policies d' = d_security_policies d \<and>
    d_listener_sets d' = d_listener_sets d \<and>
    (proto = Tcp \<longrightarrow> d_udp_routes d' = d_udp_routes d) \<and> (proto = Udp \<longrightarrow> d_tcp_routes d' = d_tcp_routes d)"
  using assms
proof (cases rule: build_l4_family_cases)
  case (on l4 d1)
  then show ?thesis using emitted_frame [OF on(4)] same_but_l4_frame [OF on(5)] by simp
qed simp

lemma l4_family_slices:
  assumes "build_l4_family pf cfg block proto enabled d = (ls, d')" and "slices_ok d"
  shows "slices_ok d'"
  using assms(1)
proof (cases rule: build_l4_family_cases)
  case (on l4 d1)
  then show ?thesis
    using emitted_slices [OF on(4) assms(2)] same_but_l4_frame(3,4) [OF on(5)] by (simp add: slices_ok_def)
qed (use assms in simp)

lemma l4_family_backends:
  assumes "build_l4_family pf cfg block proto enabled d = (ls, d')" and "backends_ok skip d"
  shows "backends_ok skip d'"
  using assms(1)
proof (cases rule: build_l4_family_cases)
  case (on l4 d1)
  have "emitted cfg skip d d1" using on(4) by (rule emitted_mono) simp
  then show ?thesis
    using emitted_backends [OF _ assms(2)] same_but_l4_frame(5) [OF on(5)] by (simp add: backends_ok_def)
qed (use assms in simp)

lemma l4_family_service_mode:
  assumes "build_l4_family pf cfg block proto enabled d = (ls, d')" and "cfg_backend_kind cfg = ServiceKind"
  shows "d_envoy_backends d' = d_envoy_backends d"
  using assms(1)
proof (cases rule: build_l4_family_cases)
  case (on l4 d1)
  then show ?thesis
    using emitted_service_mode [OF on(4) assms(2)] same_but_l4_frame(5) [OF on(5)] by simp
qed simp

lemma l4_family_envoy_mode:
  assumes "build_l4_family pf cfg block proto enabled d = (ls, d')"
    and "cfg_backend_kind cfg = EnvoyBackendKind"
  shows "d_services d' = d_services d \<and> d_endpoint_slices d' = d_endpoint_slices d \<and>
    d_backend_tls_policies d' = d_backend_tls_policies d"
  using assms(1)
proof (cases rule: build_l4_family_cases)
  case (on l4 d1)
  then show ?thesis
    using emitted_envoy_mode [OF on(4) assms(2)] same_but_l4_frame [OF on(5)] by simp
qed simp

section \<open>The whole run\<close>

lemma run_wf: "wf_desired cfg (build_desired pf cfg dyn)"
proof -
  note r = stage_runs [of pf cfg dyn]
  have "wf_desired cfg (snd (backend_stage pf cfg dyn))" by (rule build_backends_ok(2) [OF r(1) wf_empty_desired])
  then have "wf_desired cfg (snd (route_stage pf cfg dyn))" by (rule build_routes_ok(1) [OF r(2)])
  then have "wf_desired cfg (snd (tcp_stage pf cfg dyn))" by (rule build_l4_family_ok(1) [OF r(3)])
  then have "wf_desired cfg (snd (udp_stage pf cfg dyn))" by (rule build_l4_family_ok(1) [OF r(4)])
  then show ?thesis unfolding build_desired_stages by (rule wf_listener_set)
qed

lemma run_grows:
  "d_names (snd (backend_stage pf cfg dyn)) \<subseteq> d_names (build_desired pf cfg dyn)"
  "d_names (snd (tcp_stage pf cfg dyn)) \<subseteq> d_names (build_desired pf cfg dyn)"
  "d_names (snd (udp_stage pf cfg dyn)) \<subseteq> d_names (build_desired pf cfg dyn)"
proof -
  note r = stage_runs [of pf cfg dyn]
  show u: "d_names (snd (udp_stage pf cfg dyn)) \<subseteq> d_names (build_desired pf cfg dyn)"
    unfolding build_desired_stages by (rule grows_listener_set)
  with build_l4_family_ok(2) [OF r(4)]
  show t: "d_names (snd (tcp_stage pf cfg dyn)) \<subseteq> d_names (build_desired pf cfg dyn)" by (rule order_trans)
  have "d_names (snd (route_stage pf cfg dyn)) \<subseteq> d_names (build_desired pf cfg dyn)"
    using build_l4_family_ok(2) [OF r(3)] t by (rule order_trans)
  with build_routes_ok(2) [OF r(2)]
  show "d_names (snd (backend_stage pf cfg dyn)) \<subseteq> d_names (build_desired pf cfg dyn)" by (rule order_trans)
qed

lemma run_index: "index_ok (fst (backend_stage pf cfg dyn)) (build_desired pf cfg dyn)"
  using build_backends_ok(1) [OF stage_runs(1)] run_grows(1) by (rule index_ok_mono)

lemma run_http_fields:
  "d_http_routes (build_desired pf cfg dyn) = d_http_routes (snd (route_stage pf cfg dyn))"
  "d_security_policies (build_desired pf cfg dyn) = d_security_policies (snd (route_stage pf cfg dyn))"
  using l4_family_frame [OF stage_runs(3)] l4_family_frame [OF stage_runs(4)]
  by (simp_all add: build_desired_stages listener_set_frame)

lemma backend_stage_emitted:
  "emitted cfg (skip_names pf (hc_servers_transports (tdc_http dyn)) (hc_services (tdc_http dyn)))
     empty_desired (snd (backend_stage pf cfg dyn))"
  unfolding backend_stage_def by (rule emitted_build_backends)

lemma empty_desired_fields [simp]:
  "d_http_routes empty_desired = []" "d_listener_sets empty_desired = []" "d_services empty_desired = []"
  "d_endpoint_slices empty_desired = []" "d_envoy_backends empty_desired = []"
  "d_tcp_routes empty_desired = []" "d_udp_routes empty_desired = []"
  "d_security_policies empty_desired = []" "d_backend_tls_policies empty_desired = []"
  by (simp_all add: empty_desired_def)

lemma backend_stage_frame:
  "d_http_routes (snd (backend_stage pf cfg dyn)) = []" "d_security_policies (snd (backend_stage pf cfg dyn)) = []"
  "d_tcp_routes (snd (backend_stage pf cfg dyn)) = []" "d_udp_routes (snd (backend_stage pf cfg dyn)) = []"
  "d_listener_sets (snd (backend_stage pf cfg dyn)) = []"
  using emitted_frame [OF backend_stage_emitted] by simp_all

lemma run_l4_fields:
  "d_tcp_routes (build_desired pf cfg dyn) = d_tcp_routes (snd (tcp_stage pf cfg dyn))"
  "d_udp_routes (build_desired pf cfg dyn) = d_udp_routes (snd (udp_stage pf cfg dyn))"
  "d_tcp_routes (snd (route_stage pf cfg dyn)) = []" "d_udp_routes (snd (tcp_stage pf cfg dyn)) = []"
  using l4_family_frame [OF stage_runs(3), of pf cfg dyn] l4_family_frame [OF stage_runs(4), of pf cfg dyn]
    build_routes_frame [OF stage_runs(2), of pf cfg dyn]
  by (simp_all add: build_desired_stages listener_set_frame backend_stage_frame)

lemma run_slices: "slices_ok (build_desired pf cfg dyn)"
proof -
  have "slices_ok (snd (backend_stage pf cfg dyn))"
    by (rule emitted_slices [OF backend_stage_emitted]) (simp add: slices_ok_def)
  then have "slices_ok (snd (route_stage pf cfg dyn))"
    using build_routes_frame [OF stage_runs(2), of pf cfg dyn] by (simp add: slices_ok_def)
  then have "slices_ok (snd (tcp_stage pf cfg dyn))" by (rule l4_family_slices [OF stage_runs(3)])
  then have "slices_ok (snd (udp_stage pf cfg dyn))" by (rule l4_family_slices [OF stage_runs(4)])
  then show ?thesis by (simp add: build_desired_stages slices_ok_def listener_set_frame)
qed

lemma run_backends:
  "backends_ok (skip_names pf (hc_servers_transports (tdc_http dyn)) (hc_services (tdc_http dyn)))
     (build_desired pf cfg dyn)" (is "backends_ok ?skip _")
proof -
  have "backends_ok ?skip (snd (backend_stage pf cfg dyn))"
    by (rule emitted_backends [OF backend_stage_emitted]) (simp add: backends_ok_def)
  then have "backends_ok ?skip (snd (route_stage pf cfg dyn))"
    using build_routes_frame [OF stage_runs(2), of pf cfg dyn] by (simp add: backends_ok_def)
  then have "backends_ok ?skip (snd (tcp_stage pf cfg dyn))" by (rule l4_family_backends [OF stage_runs(3)])
  then have "backends_ok ?skip (snd (udp_stage pf cfg dyn))" by (rule l4_family_backends [OF stage_runs(4)])
  then show ?thesis by (simp add: build_desired_stages backends_ok_def listener_set_frame)
qed

lemma run_service_mode:
  assumes "cfg_backend_kind cfg = ServiceKind" shows "d_envoy_backends (build_desired pf cfg dyn) = []"
  using l4_family_service_mode [OF stage_runs(3) assms, of pf dyn]
    l4_family_service_mode [OF stage_runs(4) assms, of pf dyn]
    build_routes_frame(3) [OF stage_runs(2), of pf cfg dyn]
    emitted_service_mode [OF backend_stage_emitted assms, of pf dyn]
  by (simp add: build_desired_stages listener_set_frame)

lemma run_envoy_mode:
  assumes "cfg_backend_kind cfg = EnvoyBackendKind"
  shows "d_services (build_desired pf cfg dyn) = [] \<and> d_endpoint_slices (build_desired pf cfg dyn) = [] \<and>
    d_backend_tls_policies (build_desired pf cfg dyn) = []"
  using l4_family_envoy_mode [OF stage_runs(3) assms, of pf dyn]
    l4_family_envoy_mode [OF stage_runs(4) assms, of pf dyn]
    build_routes_frame [OF stage_runs(2), of pf cfg dyn]
    emitted_envoy_mode [OF backend_stage_emitted assms, of pf dyn]
  by (simp add: build_desired_stages listener_set_frame)

section \<open>The listeners of a run\<close>

text \<open>The listeners of the one ListenerSet, and those of one L4 protocol among them.\<close>

definition the_listener_set :: "platform \<Rightarrow> config \<Rightarrow> desired \<Rightarrow> listener_set option" where
  "the_listener_set pf cfg d = bt_get (d_listener_sets d) (dns_label pf (cfg_listener_set_name cfg))"

lemma listener_set_run:
  "map_option lset_listeners (the_listener_set pf cfg (build_desired pf cfg dyn)) =
     Some (listeners_of pf cfg (fst (route_stage pf cfg dyn))
       (fst (tcp_stage pf cfg dyn) @ fst (udp_stage pf cfg dyn)))"
  by (simp add: the_listener_set_def build_desired_stages build_listener_set_def Let_def bt_get_insert_same)

lemma route_stage_index:
  "fst (route_stage pf cfg dyn) =
     fold (index_entry cfg) (emitting cfg dyn (fst (backend_stage pf cfg dyn))) default_route_index"
  by (simp add: route_stage_def build_routes_spec Let_def)

lemma l4_family_listeners:
  assumes run: "build_l4_family pf cfg block proto enabled d = (ls, d')" and start: "l4_routes_of proto d = []"
  obtains claimed backends where "claims_ok pf cfg proto ls claimed" and "index_ok backends d'"
    and "\<forall>nr\<in>set (l4_routes_of proto d'). l4_route_ok cfg backends ls nr"
  using run
proof (cases rule: build_l4_family_cases)
  case off
  then show ?thesis using start by (intro that [of "[]" "[]"]) (simp_all add: claims_ok_def bt_keys_def)
next
  case (on l4 d1)
  obtain backends claimed where "claims_ok pf cfg proto ls claimed" "index_ok backends d'"
    "\<forall>nr\<in>set (l4_routes_of proto d'). l4_route_ok cfg backends ls nr"
    by (rule build_l4_run [OF on(3) start])
  then show ?thesis by (rule that)
qed

lemma l4_stage_listeners:
  obtains ct bt cu bu where
    "claims_ok pf cfg Tcp (fst (tcp_stage pf cfg dyn)) ct" "index_ok bt (build_desired pf cfg dyn)"
    "\<forall>nr\<in>set (d_tcp_routes (build_desired pf cfg dyn)). l4_route_ok cfg bt (fst (tcp_stage pf cfg dyn)) nr"
    "claims_ok pf cfg Udp (fst (udp_stage pf cfg dyn)) cu" "index_ok bu (build_desired pf cfg dyn)"
    "\<forall>nr\<in>set (d_udp_routes (build_desired pf cfg dyn)). l4_route_ok cfg bu (fst (udp_stage pf cfg dyn)) nr"
proof -
  note r = stage_runs [of pf cfg dyn] and f = run_l4_fields [of pf cfg dyn] and g = run_grows [of pf cfg dyn]
  obtain ct bt where t: "claims_ok pf cfg Tcp (fst (tcp_stage pf cfg dyn)) ct"
    "index_ok bt (snd (tcp_stage pf cfg dyn))"
    "\<forall>nr\<in>set (l4_routes_of Tcp (snd (tcp_stage pf cfg dyn))). l4_route_ok cfg bt (fst (tcp_stage pf cfg dyn)) nr"
    by (rule l4_family_listeners [OF r(3)]) (simp add: l4_routes_of_def f)
  obtain cu bu where u: "claims_ok pf cfg Udp (fst (udp_stage pf cfg dyn)) cu"
    "index_ok bu (snd (udp_stage pf cfg dyn))"
    "\<forall>nr\<in>set (l4_routes_of Udp (snd (udp_stage pf cfg dyn))). l4_route_ok cfg bu (fst (udp_stage pf cfg dyn)) nr"
    by (rule l4_family_listeners [OF r(4)]) (simp add: l4_routes_of_def f)
  show ?thesis
    using t(1) index_ok_mono [OF t(2) g(2)] t(3) u(1) index_ok_mono [OF u(2) g(3)] u(3)
    by (intro that [of ct bt cu bu]) (simp_all add: l4_routes_of_def f)
qed

lemma l4_listener_fields:
  assumes "l \<in> set (fst (tcp_stage pf cfg dyn) @ fst (udp_stage pf cfg dyn))"
  shows "lis_hostname l = None \<and> lis_tls l = None"
proof -
  obtain ct bt cu bu where "claims_ok pf cfg Tcp (fst (tcp_stage pf cfg dyn)) ct"
    "claims_ok pf cfg Udp (fst (udp_stage pf cfg dyn)) cu"
    by (rule l4_stage_listeners)
  with assms obtain proto where "l = l4_listener pf proto (lis_port l)" by (auto simp: claims_ok_def)
  then show ?thesis by (metis l4_listener_def listener.select_convs(2,5))
qed

definition l4_listeners :: "l4_protocol \<Rightarrow> listener_set \<Rightarrow> listener list" where
  "l4_listeners proto ls = filter (\<lambda>l. lis_protocol l = k8s_protocol proto) (lset_listeners ls)"

lemma l4_listeners_run:
  assumes "the_listener_set pf cfg (build_desired pf cfg dyn) = Some ls"
  shows "l4_listeners Tcp ls = fst (tcp_stage pf cfg dyn)" and "l4_listeners Udp ls = fst (udp_stage pf cfg dyn)"
proof -
  have ls: "lset_listeners ls = listeners_of pf cfg (fst (route_stage pf cfg dyn))
      (fst (tcp_stage pf cfg dyn) @ fst (udp_stage pf cfg dyn))"
    using listener_set_run [of pf cfg dyn] assms by simp
  obtain ct bt cu bu where c: "claims_ok pf cfg Tcp (fst (tcp_stage pf cfg dyn)) ct"
    "claims_ok pf cfg Udp (fst (udp_stage pf cfg dyn)) cu"
    by (rule l4_stage_listeners)
  have proto: "lis_protocol l = k8s_protocol p"
    if "claims_ok pf cfg p xs cl" "l \<in> set xs" for p xs cl l
  proof -
    have "l = l4_listener pf p (lis_port l)" using that by (simp add: claims_ok_def)
    then show ?thesis by (metis l4_listener_def listener.select_convs(4))
  qed
  have "filter (\<lambda>l. lis_protocol l = p) (map (http_listener pf cfg) hs) = []"
    "filter (\<lambda>l. lis_protocol l = p) (map (https_listener pf cfg t) hs) = []"
    if "p \<in> {''TCP'', ''UDP''}" for p hs t
    using that by (auto simp: filter_empty_conv http_listener_def https_listener_def)
  then have web: "filter (\<lambda>l. lis_protocol l = k8s_protocol p) (lset_listeners ls) =
      filter (\<lambda>l. lis_protocol l = k8s_protocol p) (fst (tcp_stage pf cfg dyn) @ fst (udp_stage pf cfg dyn))" for p
    by (cases p) (simp_all add: ls listeners_of_def split: option.split)
  show "l4_listeners Tcp ls = fst (tcp_stage pf cfg dyn)" "l4_listeners Udp ls = fst (udp_stage pf cfg dyn)"
    unfolding l4_listeners_def web using proto [OF c(1)] proto [OF c(2)]
    by (simp_all add: filter_id_conv filter_empty_conv)
qed

end
