(* ===== verification/Samples.thy ===== *)
theory Samples
  imports Transform
begin

text \<open>
  Concrete inputs at which the properties are applied: a configuration as \<^verbatim>\<open>from_env\<close> builds
  it from a few variables, a Pangolin response with a plain and a protected HTTP
  resource and a raw TCP resource, and a platform (a hash that is constant and a URL parser
  that knows two URLs).
\<close>

definition sample_url :: url where
  "sample_url = \<lparr>url_as_str = ''http://10.0.0.5:80/'', url_scheme = ''http'',
     url_host_str = Some ''10.0.0.5'', url_port_or_known_default = Some 80\<rparr>"

definition sample_tls_url :: url where
  "sample_tls_url = \<lparr>url_as_str = ''https://a.com/'', url_scheme = ''https'',
     url_host_str = Some ''a.com'', url_port_or_known_default = Some 443\<rparr>"

definition sample_pf :: platform where
  "sample_pf = \<lparr>default_hasher = (\<lambda>_. 0),
     url_parse = (\<lambda>s. if s = ''http://10.0.0.5:80/'' then Some sample_url
                      else if s = ''https://a.com/'' then Some sample_tls_url else None),
     parse_duration = (\<lambda>_. None)\<rparr>"

definition sample_cfg :: config where
  "sample_cfg =
     \<lparr>cfg_pangolin_endpoint = sample_tls_url, cfg_auth_header = None,
      cfg_fetch_timeout = from_secs 30, cfg_poll_interval = from_secs 30, cfg_max_backoff = from_secs 300,
      cfg_max_response_body_bytes = 16 * 1024 * 1024, cfg_tls_skip_verify = False, cfg_ca_file = None,
      cfg_namespace = ''default'', cfg_parent_gateway = ''gw'', cfg_parent_gateway_namespace = None,
      cfg_listener_set_name = ''pangolin'', cfg_http_port = 80, cfg_https_port = 443,
      cfg_enable_https_listeners = True, cfg_enable_tcp_routes = True, cfg_enable_udp_routes = False,
      cfg_backend_kind = EnvoyBackendKind, cfg_ext_authz = None, cfg_allow_unauthenticated_routes = False,
      cfg_tls_secret_template = Some ''tls'', cfg_tls_secret_namespace = None, cfg_field_manager = ''m'',
      cfg_managed_label_key = ''m'', cfg_managed_label_value = ''c'', cfg_instance_label_key = ''i'',
      cfg_instance_label_value = ''d'', cfg_managed_annotation_key = ''s'',
      cfg_managed_annotation_value = ''c'', cfg_httproute_annotations = [],
      cfg_listenerset_annotations = [], cfg_read_only = False, cfg_log_traefik_config = False,
      cfg_health_listen = None\<rparr>"

definition main_env :: env where
  "main_env = map_of [(''CONFIG_ENDPOINT'', ''https://a.com/''), (''CONFIG_PARENT_GATEWAY'', ''gw''),
     (''CONFIG_ENABLE_TCP_ROUTES'', ''1''), (''CONFIG_TLS_SECRET_TEMPLATE'', ''tls''), (''CONFIG_FIELD_MANAGER'', ''m''),
     (''CONFIG_MANAGED_LABEL_KEY'', ''m''), (''CONFIG_MANAGED_LABEL_VALUE'', ''c''),
     (''CONFIG_INSTANCE_LABEL_KEY'', ''i''), (''CONFIG_INSTANCE_LABEL_VALUE'', ''d''),
     (''CONFIG_MANAGED_ANNOTATION_KEY'', ''s''), (''CONFIG_MANAGED_ANNOTATION_VALUE'', ''c''),
     (''CONFIG_HEALTH_LISTEN'', ''off'')]"

lemma main_from_env: "from_env sample_pf main_env = Inr sample_cfg"
proof -
  have one: "to_ascii_lowercase ''1'' = ''1''" by code_simp
  show ?thesis
    by (simp add: from_env_def endpoint_env_def required_env_def bool_env_def duration_env_def u64_env_def
        i32_env_def ext_authz_env_def parse_kv_env_def health_env_def optional_env_def or_default_def
        main_env_def sample_pf_def sample_tls_url_def ok_or_def Let_def one sample_cfg_def)
qed

definition sample_authz :: ext_authz_config where
  "sample_authz = \<lparr>eac_service = ''shim'', eac_namespace = None, eac_port = 90, eac_path = Some ''/verify'',
     eac_headers_to_ext_auth = [''cookie''], eac_headers_to_backend = []\<rparr>"

definition authz_cfg :: config where
  "authz_cfg = sample_cfg\<lparr>cfg_ext_authz := Some sample_authz\<rparr>"

definition service_cfg :: config where
  "service_cfg = sample_cfg\<lparr>cfg_backend_kind := ServiceKind\<rparr>"

definition sample_router :: "string list \<Rightarrow> string \<Rightarrow> router" where
  "sample_router mws rule = \<lparr>r_rule = rule, r_service = ''s'', r_middlewares = mws,
     r_entry_points = [''https''], r_priority = None, r_tls = None\<rparr>"

definition sample_dyn :: traefik_dynamic_config where
  "sample_dyn =
     \<lparr>tdc_http =
        \<lparr>hc_routers = [(''a'', sample_router [] ''Host(`a`)''), (''b'', sample_router [''badger''] ''Host(`b`)'')],
         hc_services = [(''s'', \<lparr>psvc_load_balancer = Some
            \<lparr>lb_servers = [\<lparr>lbs_url = ''http://10.0.0.5:80/''\<rparr>], lb_sticky = None, lb_servers_transport = None,
             lb_pass_host_header = None\<rparr>, psvc_weighted = None, psvc_mirroring = None\<rparr>)],
         hc_middlewares = [(''badger'', Middleware (JObject [(''plugin'', JObject [(''badger'', JObject [])])]))],
         hc_servers_transports = []\<rparr>,
      tdc_tcp = Some
        \<lparr>l4c_routers = [(''t'', \<lparr>l4r_rule = Some ''HostSNI(`*`)'', l4r_service = ''u'',
            l4r_entry_points = [''tcp-22''], l4r_tls = None\<rparr>)],
         l4c_services = [(''u'', \<lparr>l4svc_load_balancer = Some
            \<lparr>l4lb_servers = [\<lparr>l4s_address = ''10.0.0.6:22''\<rparr>]\<rparr>, l4svc_weighted = None\<rparr>)]\<rparr>,
      tdc_udp = None\<rparr>"

declare sample_url_def [exec] sample_tls_url_def [exec] sample_cfg_def [exec]
  sample_authz_def [exec] authz_cfg_def [exec] service_cfg_def [exec] sample_router_def [exec]
  sample_dyn_def [exec]

section \<open>Evaluated leaves\<close>

lemma sample_labels:
  "prefixed_label sample_pf ''hr'' ''a'' = ''hr-a''" "prefixed_label sample_pf ''hr'' ''b'' = ''hr-b''"
  "prefixed_label sample_pf ''sp'' ''hr-b'' = ''sp-hr-b''"
  "prefixed_label sample_pf ''be'' ''s'' = ''be-s''" "prefixed_label sample_pf ''svc'' ''s'' = ''svc-s''"
  "prefixed_label sample_pf ''eps'' ''s'' = ''eps-s''" "prefixed_label sample_pf ''be-tcp'' ''u'' = ''be-tcp-u''"
  "prefixed_label sample_pf ''svc-tcp'' ''u'' = ''svc-tcp-u''" "prefixed_label sample_pf ''eps-tcp'' ''u'' = ''eps-tcp-u''"
  "prefixed_label sample_pf ''tcp'' ''t'' = ''tcp-t''" "dns_label sample_pf ''pangolin'' = ''pangolin''"
  "dns_label sample_pf ''http-a'' = ''http-a''" "dns_label sample_pf ''https-a'' = ''https-a''"
  "dns_label sample_pf ''http-b'' = ''http-b''" "dns_label sample_pf ''https-b'' = ''https-b''"
  "dns_label sample_pf ''tcp-22'' = ''tcp-22''"
  by (simp_all add: exec)

lemma sample_strings:
  "parse ''Host(`a`)'' = default_rule\<lparr>pr_hosts := [''a'']\<rparr>"
  "parse ''Host(`b`)'' = default_rule\<lparr>pr_hosts := [''b'']\<rparr>"
  "parse_ip_addr ''10.0.0.5'' = Some (V4 10 0 0 5)" "show_ip_addr (V4 10 0 0 5) = ''10.0.0.5''"
  "parse_ip_addr ''10.0.0.6'' = Some (V4 10 0 0 6)" "show_ip_addr (V4 10 0 0 6) = ''10.0.0.6''"
  "trim ''HostSNI(`*`)'' = ''HostSNI(`*`)''"
  "trim_end_matches CHR '']'' (trim_start_matches CHR ''['' ''10.0.0.5'') = ''10.0.0.5''"
  "show_int 22 = ''22''" "render_secret_name ''tls'' ''a'' = ''tls''" "render_secret_name ''tls'' ''b'' = ''tls''"
  by code_simp+

lemma sample_ports:
  "parse_l4_address ''10.0.0.6:22'' = Some \<lparr>hp_host = ''10.0.0.6'', hp_port = 22, hp_tls = False\<rparr>"
  "parse_entrypoint_port ''tcp-22'' Tcp = Some 22"
proof -
  have 22: "show_nat 22 = ''22''" by code_simp
  have "list_all host_char ''10.0.0.6''" by code_simp
  with 22 parse_l4_address_plain [of "''10.0.0.6''" 22]
  show "parse_l4_address ''10.0.0.6:22'' = Some \<lparr>hp_host = ''10.0.0.6'', hp_port = 22, hp_tls = False\<rparr>"
    by simp
  show "parse_entrypoint_port ''tcp-22'' Tcp = Some 22"
    using 22 parse_entrypoint_show [of 22 Tcp] by simp
qed

lemma sample_urls:
  "url_parse sample_pf ''http://10.0.0.5:80/'' = Some sample_url"
  "url_parse sample_pf ''https://a.com/'' = Some sample_tls_url"
  by (simp_all add: sample_pf_def)

text \<open>With the leaves evaluated by these equations, a run is evaluated by rewriting.\<close>

lemmas leaf_defs = parse_def parse_entrypoint_port_def parse_l4_address_def prefixed_label_def dns_label_def
  render_secret_name_def parse_ip_addr_def show_ip_addr.simps trim_end_matches_def trim_start_matches_def trim_def
  show_int_def
lemmas run_sample = sample_labels sample_strings sample_ports sample_urls map_filter_simps

section \<open>Evaluated stages\<close>

definition sample_rb :: resolved_backend where
  "sample_rb = \<lparr>rb_group = ''gateway.envoyproxy.io'', rb_kind = ''Backend'', rb_name = ''be-s'',
     rb_namespace = None, rb_port = 80\<rparr>"

definition sample_backend :: envoy_backend where
  "sample_backend =
     \<lparr>eb_metadata = managed_metadata sample_cfg ''be-s'' (owner_labels sample_cfg ''be-s''),
      eb_spec = \<lparr>bspec_endpoints = [\<lparr>be_ip = Some \<lparr>bip_address = ''10.0.0.5'', bip_port = 80\<rparr>,
                                      be_fqdn = None\<rparr>], bspec_tls = None\<rparr>\<rparr>"

lemma sample_backend_stage:
  assumes "cfg = sample_cfg \<or> cfg = authz_cfg"
  shows "backend_stage sample_pf cfg sample_dyn =
    ([(''s'', sample_rb)], empty_desired\<lparr>d_envoy_backends := [(''be-s'', sample_backend)]\<rparr>)"
  using assms
  by (elim disjE)
     (simp_all add: backend_stage_def exec run_sample sample_rb_def sample_backend_def del: leaf_defs,
      simp_all add: Let_def)

lemma sample_emits:
  "emits cfg mws [(''s'', sample_rb)] (n, sample_router ms rule) \<longleftrightarrow> may_emit cfg mws (sample_router ms rule)"
  by (simp add: emits_def sample_router_def bt_get_def)

lemma sample_badger: "protected (hc_middlewares (tdc_http sample_dyn)) (sample_router [''badger''] rule)"
  by (simp add: protected_def exec)

lemma sample_plain: "\<not> protected mws (sample_router [] rule)"
  by (simp add: protected_def exec)

lemma sample_cfg_fields:
  "cfg_ext_authz sample_cfg = None" "cfg_allow_unauthenticated_routes sample_cfg = False"
  "cfg_ext_authz authz_cfg = Some sample_authz" "cfg_backend_kind sample_cfg = EnvoyBackendKind"
  "cfg_backend_kind service_cfg = ServiceKind" "cfg_enable_tcp_routes sample_cfg = True"
  "cfg_enable_udp_routes sample_cfg = False" "cfg_read_only sample_cfg = False"
  "cfg_read_only authz_cfg = False"
  by (simp_all add: sample_cfg_def authz_cfg_def service_cfg_def)

lemma sample_usable:
  "is_usable (parse (r_rule (sample_router ms ''Host(`a`)'')))"
  "is_usable (parse (r_rule (sample_router ms ''Host(`b`)'')))"
  by (simp_all add: sample_router_def run_sample is_usable_def default_rule_def)

lemma sample_may_emit:
  "may_emit sample_cfg (hc_middlewares (tdc_http sample_dyn)) (sample_router [] ''Host(`a`)'')"
  "\<not> may_emit sample_cfg (hc_middlewares (tdc_http sample_dyn)) (sample_router [''badger''] ''Host(`b`)'')"
  "may_emit authz_cfg (hc_middlewares (tdc_http sample_dyn)) (sample_router [] ''Host(`a`)'')"
  "may_emit authz_cfg (hc_middlewares (tdc_http sample_dyn)) (sample_router [''badger''] ''Host(`b`)'')"
  by (simp_all add: may_emit_def sample_plain sample_badger sample_cfg_fields sample_usable)

lemma sample_routers:
  "hc_routers (tdc_http sample_dyn) =
     [(''a'', sample_router [] ''Host(`a`)''), (''b'', sample_router [''badger''] ''Host(`b`)'')]"
  by (simp add: sample_dyn_def)

lemma sample_emitting:
  "emitting sample_cfg sample_dyn [(''s'', sample_rb)] = [(''a'', sample_router [] ''Host(`a`)'')]"
  "emitting authz_cfg sample_dyn [(''s'', sample_rb)] =
     [(''a'', sample_router [] ''Host(`a`)''), (''b'', sample_router [''badger''] ''Host(`b`)'')]"
  by (simp_all add: emitting_def sample_routers sample_emits sample_may_emit)

definition sample_route :: "config \<Rightarrow> string \<Rightarrow> string \<Rightarrow> http_route" where
  "sample_route cfg name host = build_route cfg name (default_rule\<lparr>pr_hosts := [host]\<rparr>) [] sample_rb"

lemma sample_filters:
  "build_filters [] mws = []" "build_filters [''badger''] (hc_middlewares (tdc_http sample_dyn)) = []"
  by (simp_all add: build_filters_def merge_filters_def merge_init_def merge_finish_def sample_dyn_def
      bt_get_def translate_def)

lemma sample_route_of:
  "route_of sample_pf cfg mws [(''s'', sample_rb)] (''a'', sample_router [] ''Host(`a`)'') =
     sample_route cfg ''hr-a'' ''a''"
  "route_of sample_pf cfg (hc_middlewares (tdc_http sample_dyn)) [(''s'', sample_rb)]
     (''b'', sample_router [''badger''] ''Host(`b`)'') = sample_route cfg ''hr-b'' ''b''"
  by (simp_all add: route_of_def sample_route_def route_name_of_def run_sample sample_router_def
      sample_filters bt_get_def)

lemma sample_names:
  "route_name_of sample_pf (''a'', r) = ''hr-a''" "route_name_of sample_pf (''b'', r) = ''hr-b''"
  by (simp_all add: route_name_of_def run_sample)

lemma sample_own_policy: "own_policy_name sample_pf sample_dyn ''hr-b''"
  using short_names_own_policy [of sample_pf sample_dyn "(''b'', sample_router [''badger''] ''Host(`b`)'')"]
  by (simp add: sample_routers sample_names)

lemma sample_inserts:
  "bt_insert ''hr-b'' y [(''hr-a'', x)] = [(''hr-a'', x), (''hr-b'', y)]"
  "bt_insert (n :: string) x [] = [(n, x)]"
  by (simp_all add: bt_insert.simps)

lemma sample_http:
  "d_http_routes (build_desired sample_pf sample_cfg sample_dyn) = [(''hr-a'', sample_route sample_cfg ''hr-a'' ''a'')]"
  "d_http_routes (build_desired sample_pf authz_cfg sample_dyn) =
     [(''hr-a'', sample_route authz_cfg ''hr-a'' ''a''), (''hr-b'', sample_route authz_cfg ''hr-b'' ''b'')]"
  "d_security_policies (build_desired sample_pf authz_cfg sample_dyn) =
     [(''sp-hr-b'', build_security_policy sample_pf authz_cfg sample_authz ''hr-b'')]"
  by (simp_all add: run_http_fields route_stage_def sample_backend_stage build_routes_spec Let_def
      sample_emitting sample_route_of policies_of_def sample_plain sample_badger sample_names sample_cfg_fields
      sample_inserts run_sample)

definition sample_l4_listener :: listener where
  "sample_l4_listener = \<lparr>lis_name = ''tcp-22'', lis_hostname = None, lis_port = 22, lis_protocol = ''TCP'',
     lis_tls = None\<rparr>"

lemma sample_tcp_stage:
  "fst (tcp_stage sample_pf sample_cfg sample_dyn) = [sample_l4_listener]"
  "bt_keys (d_tcp_routes (snd (tcp_stage sample_pf sample_cfg sample_dyn))) = [''tcp-t'']"
proof -
  have l4: "build_l4_family sample_pf sample_cfg (tdc_tcp sample_dyn) Tcp True d =
    ([sample_l4_listener],
     let (ix, d1) = build_l4_backends sample_pf sample_cfg (l4c_services (the (tdc_tcp sample_dyn))) Tcp d
     in insert_l4_route Tcp ''tcp-t'' (build_l4_route sample_cfg ''tcp-t'' [''tcp-22''] (snd (hd ix))) d1)" for d
    by (simp add: exec run_sample sample_l4_listener_def del: leaf_defs build_l4_route_def)
       (simp add: Let_def)
  show "fst (tcp_stage sample_pf sample_cfg sample_dyn) = [sample_l4_listener]"
    by (simp add: tcp_stage_def sample_cfg_fields l4)
  show "bt_keys (d_tcp_routes (snd (tcp_stage sample_pf sample_cfg sample_dyn))) = [''tcp-t'']"
    using run_l4_fields(3) [of sample_pf sample_cfg sample_dyn]
      emitted_frame [OF emitted_build_l4_backends [of sample_cfg "snd (route_stage sample_pf sample_cfg sample_dyn)"
        sample_pf "l4c_services (the (tdc_tcp sample_dyn))" Tcp]]
    by (simp add: tcp_stage_def sample_cfg_fields l4 insert_l4_route_def split_beta sample_inserts bt_keys_def)
qed

section \<open>Service mode\<close>

lemma sample_cfg_labels: "cfg_managed_label_key sample_cfg = ''m''" "cfg_instance_label_key sample_cfg = ''i''"
  by (simp_all add: sample_cfg_def)

lemma sample_service_stage:
  "''eps-s'' \<in> set (bt_keys (d_endpoint_slices (snd (backend_stage sample_pf service_cfg sample_dyn))))"
  by (simp add: backend_stage_def exec run_sample del: leaf_defs) (simp add: Let_def)

end
