(* ===== verification/Reconcile.thy ===== *)
theory Reconcile
  imports Transform
begin

text \<open>
  \<^verbatim>\<open>reconcile_once\<close> of \<^verbatim>\<open>src/reconcile.rs\<close>, \<^verbatim>\<open>src/gc.rs\<close> and the \<open>ssa_apply\<close> of \<^verbatim>\<open>src/apply.rs\<close>: the
  requests by which the cluster is brought to the desired state. The Kubernetes API is a
  parameter, a function from the requests made so far (the last one included) to a response,
  so that nothing is assumed about it; how a real one behaves is stated in \<open>Cluster\<close>. Log
  output is not modelled.
\<close>

section \<open>Requests\<close>

datatype kobject =
    OService k8s_service
  | OEndpointSlice endpoint_slice
  | OBackend envoy_backend
  | OBackendTLSPolicy backend_tls_policy
  | OListenerSet listener_set
  | OHTTPRoute http_route
  | OTCPRoute l4_route
  | OUDPRoute l4_route
  | OSecurityPolicy security_policy

fun kind_of :: "kobject \<Rightarrow> obj_kind" where
  "kind_of (OService _) = KService"
| "kind_of (OEndpointSlice _) = KEndpointSlice"
| "kind_of (OBackend _) = KBackend"
| "kind_of (OBackendTLSPolicy _) = KBackendTLSPolicy"
| "kind_of (OListenerSet _) = KListenerSet"
| "kind_of (OHTTPRoute _) = KHTTPRoute"
| "kind_of (OTCPRoute _) = KTCPRoute"
| "kind_of (OUDPRoute _) = KUDPRoute"
| "kind_of (OSecurityPolicy _) = KSecurityPolicy"

fun meta_of :: "kobject \<Rightarrow> object_meta" where
  "meta_of (OService x) = svc_metadata x"
| "meta_of (OEndpointSlice x) = es_metadata x"
| "meta_of (OBackend x) = eb_metadata x"
| "meta_of (OBackendTLSPolicy x) = btp_metadata x"
| "meta_of (OListenerSet x) = lset_metadata x"
| "meta_of (OHTTPRoute x) = hroute_metadata x"
| "meta_of (OTCPRoute x) = l4route_metadata x"
| "meta_of (OUDPRoute x) = l4route_metadata x"
| "meta_of (OSecurityPolicy x) = sp_metadata x"

text \<open>
  A patch is a forced server-side apply by the field manager; a list carries the label
  selector. All are in the controller's namespace.
\<close>

datatype request =
    ReqPatch string obj_kind string kobject
  | ReqList obj_kind string
  | ReqDelete obj_kind string

datatype response = ROk | RItems "string option list" | RErr nat

type_synonym server = "request list \<Rightarrow> response"
type_synonym log = "request list"

definition call :: "server \<Rightarrow> request \<Rightarrow> log \<Rightarrow> response \<times> log" where
  "call srv req log = (srv (log @ [req]), log @ [req])"

datatype api_error = NoName | ApplyFailed obj_kind string | ListFailed obj_kind

section \<open>Server-side apply\<close>

definition ssa_apply :: "server \<Rightarrow> config \<Rightarrow> kobject \<Rightarrow> log \<Rightarrow> (api_error + unit) \<times> log" where
  "ssa_apply srv cfg obj log =
     (case om_name (meta_of obj) of
        None \<Rightarrow> (Inl NoName, log)
      | Some name \<Rightarrow>
          (if cfg_read_only cfg then (Inr (), log)
           else
             case call srv (ReqPatch (cfg_field_manager cfg) (kind_of obj) name obj) log of
               (RErr _, log) \<Rightarrow> (Inl (ApplyFailed (kind_of obj) name), log)
             | (_, log) \<Rightarrow> (Inr (), log)))"

text \<open>A \<^verbatim>\<open>for\<close> loop whose body ends in \<^verbatim>\<open>?\<close>: the first error leaves the function.\<close>

fun apply_all :: "server \<Rightarrow> config \<Rightarrow> kobject list \<Rightarrow> log \<Rightarrow> (api_error + unit) \<times> log" where
  "apply_all srv cfg [] log = (Inr (), log)"
| "apply_all srv cfg (obj # objs) log =
     (case ssa_apply srv cfg obj log of
        (Inl e, log) \<Rightarrow> (Inl e, log)
      | (Inr _, log) \<Rightarrow> apply_all srv cfg objs log)"

definition and_then ::
  "(log \<Rightarrow> ('e + unit) \<times> log) \<Rightarrow> (log \<Rightarrow> ('e + unit) \<times> log) \<Rightarrow> log \<Rightarrow> ('e + unit) \<times> log" where
  "and_then f g log = (case f log of (Inl e, log) \<Rightarrow> (Inl e, log) | (Inr _, log) \<Rightarrow> g log)"

definition apply_phase :: "server \<Rightarrow> config \<Rightarrow> desired \<Rightarrow> log \<Rightarrow> (api_error + unit) \<times> log" where
  "apply_phase srv cfg d =
     and_then (apply_all srv cfg (map OService (bt_values (d_services d))))
     (and_then (apply_all srv cfg (map OEndpointSlice (bt_values (d_endpoint_slices d))))
     (and_then (apply_all srv cfg (map OBackend (bt_values (d_envoy_backends d))))
     (and_then (apply_all srv cfg (map OBackendTLSPolicy (bt_values (d_backend_tls_policies d))))
     (and_then (apply_all srv cfg (map OListenerSet (bt_values (d_listener_sets d))))
     (and_then (apply_all srv cfg (map OHTTPRoute (bt_values (d_http_routes d))))
     (and_then (apply_all srv cfg (map OTCPRoute (bt_values (d_tcp_routes d))))
     (and_then (apply_all srv cfg (map OUDPRoute (bt_values (d_udp_routes d))))
     (apply_all srv cfg (map OSecurityPolicy (bt_values (d_security_policies d)))))))))))"

section \<open>Garbage collection\<close>

text \<open>A failed delete is only logged, whatever the error.\<close>

definition sweep_item ::
  "server \<Rightarrow> config \<Rightarrow> obj_kind \<Rightarrow> string list \<Rightarrow> string option \<Rightarrow> log \<Rightarrow> log" where
  "sweep_item srv cfg kind desired_names item log =
     (case item of
        None \<Rightarrow> log
      | Some name \<Rightarrow>
          (if name \<in> set desired_names then log
           else if cfg_read_only cfg then log
           else snd (call srv (ReqDelete kind name) log)))"

definition sweep ::
  "server \<Rightarrow> config \<Rightarrow> obj_kind \<Rightarrow> string list \<Rightarrow> log \<Rightarrow> (api_error + unit) \<times> log" where
  "sweep srv cfg kind desired_names log =
     (case call srv (ReqList kind (managed_selector cfg)) log of
        (RItems items, log) \<Rightarrow> (Inr (), fold (sweep_item srv cfg kind desired_names) items log)
      | (_, log) \<Rightarrow> (Inl (ListFailed kind), log))"

text \<open>The kinds that are swept, with the conditions under which their CRDs are there to list.\<close>

definition swept :: "config \<Rightarrow> obj_kind \<Rightarrow> bool" where
  "swept cfg kind =
     (case kind of
        KBackend \<Rightarrow> cfg_backend_kind cfg = EnvoyBackendKind
      | KTCPRoute \<Rightarrow> cfg_enable_tcp_routes cfg
      | KUDPRoute \<Rightarrow> cfg_enable_udp_routes cfg
      | KSecurityPolicy \<Rightarrow> cfg_ext_authz cfg \<noteq> None
      | _ \<Rightarrow> True)"

definition gc_order :: "obj_kind list" where
  "gc_order = [KHTTPRoute, KListenerSet, KEndpointSlice, KService, KBackend, KTCPRoute, KUDPRoute,
     KSecurityPolicy, KBackendTLSPolicy]"

definition gc_kind :: "server \<Rightarrow> config \<Rightarrow> desired \<Rightarrow> obj_kind \<Rightarrow> log \<Rightarrow> log" where
  "gc_kind srv cfg d kind log =
     (if swept cfg kind then snd (sweep srv cfg kind (d_keys d kind) log) else log)"

definition gc_phase :: "server \<Rightarrow> config \<Rightarrow> desired \<Rightarrow> log \<Rightarrow> log" where
  "gc_phase srv cfg d log = fold (gc_kind srv cfg d) gc_order log"

text \<open>\<^verbatim>\<open>report_status\<close> lists the objects again and logs their rejected conditions.\<close>

definition report_status :: "server \<Rightarrow> config \<Rightarrow> obj_kind \<Rightarrow> log \<Rightarrow> log" where
  "report_status srv cfg kind log = snd (call srv (ReqList kind (managed_selector cfg)) log)"

definition report_phase :: "server \<Rightarrow> config \<Rightarrow> log \<Rightarrow> log" where
  "report_phase srv cfg log =
     fold (report_status srv cfg)
       ([KHTTPRoute, KListenerSet]
         @ (if cfg_enable_tcp_routes cfg then [KTCPRoute] else [])
         @ (if cfg_enable_udp_routes cfg then [KUDPRoute] else [])) log"

definition reconcile_once :: "server \<Rightarrow> config \<Rightarrow> desired \<Rightarrow> log \<Rightarrow> (api_error + unit) \<times> log" where
  "reconcile_once srv cfg d log =
     (case apply_phase srv cfg d log of
        (Inl e, log) \<Rightarrow> (Inl e, log)
      | (Inr _, log) \<Rightarrow> (Inr (), report_phase srv cfg (gc_phase srv cfg d log)))"

declare call_def [exec] ssa_apply_def [exec] and_then_def [exec] apply_phase_def [exec]
  sweep_item_def [exec] sweep_def [exec] swept_def [exec] gc_order_def [exec] gc_kind_def [exec]
  gc_phase_def [exec] report_status_def [exec] report_phase_def [exec] reconcile_once_def [exec]

section \<open>The objects of the desired state\<close>

fun d_entries :: "desired \<Rightarrow> obj_kind \<Rightarrow> (string \<times> kobject) list" where
  "d_entries d KService = map (apsnd OService) (d_services d)"
| "d_entries d KEndpointSlice = map (apsnd OEndpointSlice) (d_endpoint_slices d)"
| "d_entries d KBackend = map (apsnd OBackend) (d_envoy_backends d)"
| "d_entries d KBackendTLSPolicy = map (apsnd OBackendTLSPolicy) (d_backend_tls_policies d)"
| "d_entries d KListenerSet = map (apsnd OListenerSet) (d_listener_sets d)"
| "d_entries d KHTTPRoute = map (apsnd OHTTPRoute) (d_http_routes d)"
| "d_entries d KTCPRoute = map (apsnd OTCPRoute) (d_tcp_routes d)"
| "d_entries d KUDPRoute = map (apsnd OUDPRoute) (d_udp_routes d)"
| "d_entries d KSecurityPolicy = map (apsnd OSecurityPolicy) (d_security_policies d)"

definition apply_order :: "obj_kind list" where
  "apply_order = [KService, KEndpointSlice, KBackend, KBackendTLSPolicy, KListenerSet, KHTTPRoute,
     KTCPRoute, KUDPRoute, KSecurityPolicy]"

definition d_objects :: "desired \<Rightarrow> (string \<times> kobject) list" where
  "d_objects d = concat (map (d_entries d) apply_order)"

lemma all_kinds: "set apply_order = UNIV" "distinct apply_order" "sorted apply_order"
    "set gc_order = UNIV" "distinct gc_order"
proof -
  show "set apply_order = UNIV" "set gc_order = UNIV"
    by (rule set_eqI; rename_tac k; case_tac k; simp add: apply_order_def gc_order_def)+
  show "distinct apply_order" "distinct gc_order" by (simp_all add: apply_order_def gc_order_def)
  show "sorted apply_order" by (simp add: apply_order_def less_eq_obj_kind_def)
qed

lemma d_keys_entries: "d_keys d k = bt_keys (d_entries d k)"
  by (cases k) (simp_all add: bt_keys_def)

lemma in_d_keys_iff: "n \<in> set (d_keys d k) \<longleftrightarrow> bt_get (d_entries d k) n \<noteq> None"
  by (simp add: d_keys_entries bt_contains_iff [symmetric] bt_contains_def)

lemma entries_wf:
  assumes "wf_desired cfg d"
  shows "bt_wf (d_entries d k)"
    and "(n, obj) \<in> set (d_entries d k) \<Longrightarrow> kind_of obj = k \<and> meta_ok cfg n (meta_of obj)"
  using assms
  by (cases k; auto simp: wf_desired_def entries_ok_def bt_wf_def)+

lemma objects_wf:
  assumes "wf_desired cfg d" and "(n, obj) \<in> set (d_objects d)"
  shows "om_name (meta_of obj) = Some n" and "(n, obj) \<in> set (d_entries d (kind_of obj))"
  using assms(2) entries_wf(2) [OF assms(1)] by (auto simp: d_objects_def meta_ok_def)

lemma in_objects_iff: "wf_desired cfg d \<Longrightarrow>
    (n, obj) \<in> set (d_objects d) \<longleftrightarrow> bt_get (d_entries d (kind_of obj)) n = Some obj"
  using entries_wf objects_wf(2) all_kinds(1) by (auto simp: bt_get_iff d_objects_def)

section \<open>Applying\<close>

lemma and_then_apply_all:
  "and_then (apply_all srv cfg xs) (apply_all srv cfg ys) = apply_all srv cfg (xs @ ys)"
proof
  fix log show "and_then (apply_all srv cfg xs) (apply_all srv cfg ys) log = apply_all srv cfg (xs @ ys) log"
    by (induction xs arbitrary: log) (auto simp: and_then_def split: sum.splits prod.splits)
qed

lemma apply_phase_objects: "apply_phase srv cfg d = apply_all srv cfg (map snd (d_objects d))"
  by (simp add: apply_phase_def and_then_apply_all d_objects_def apply_order_def bt_values_def)

definition patch_of :: "config \<Rightarrow> string \<times> kobject \<Rightarrow> request" where
  "patch_of cfg e = ReqPatch (cfg_field_manager cfg) (kind_of (snd e)) (fst e) (snd e)"

definition named :: "(string \<times> kobject) list \<Rightarrow> bool" where
  "named es \<longleftrightarrow> (\<forall>e\<in>set es. om_name (meta_of (snd e)) = Some (fst e))"

lemma named_objects: "wf_desired cfg d \<Longrightarrow> named (d_objects d)"
  by (auto simp: named_def objects_wf)

text \<open>
  The requests of the apply phase are the patches of a prefix of the objects, in their order:
  of all of them when it succeeds, up to the failing one otherwise.
\<close>

lemma apply_all_read_only:
  "cfg_read_only cfg \<Longrightarrow> named es \<Longrightarrow> apply_all srv cfg (map snd es) log = (Inr (), log)"
  by (induction es) (auto simp: named_def ssa_apply_def)

lemma apply_all_run:
  assumes "\<not> cfg_read_only cfg" and "named es"
  obtains (ok) "apply_all srv cfg (map snd es) log = (Inr (), log @ map (patch_of cfg) es)"
  | (failed) pre e rest where "es = pre @ e # rest"
      "apply_all srv cfg (map snd es) log =
         (Inl (ApplyFailed (kind_of (snd e)) (fst e)), log @ map (patch_of cfg) (pre @ [e]))"
proof -
  have "apply_all srv cfg (map snd es) log = (Inr (), log @ map (patch_of cfg) es) \<or>
    (\<exists>pre e rest. es = pre @ e # rest \<and>
      apply_all srv cfg (map snd es) log =
        (Inl (ApplyFailed (kind_of (snd e)) (fst e)), log @ map (patch_of cfg) (pre @ [e])))"
    using assms(2)
  proof (induction es arbitrary: log)
    case (Cons e es)
    let ?req = "patch_of cfg e"
    have name: "om_name (meta_of (snd e)) = Some (fst e)" and "named es"
      using Cons.prems by (simp_all add: named_def)
    show ?case
    proof (cases "\<exists>c. srv (log @ [?req]) = RErr c")
      case True
      then have "apply_all srv cfg (map snd (e # es)) log =
          (Inl (ApplyFailed (kind_of (snd e)) (fst e)), log @ map (patch_of cfg) ([] @ [e]))"
        using assms(1) name by (auto simp: ssa_apply_def call_def patch_of_def)
      then show ?thesis by (intro disjI2) blast
    next
      case False
      then have step: "apply_all srv cfg (map snd (e # es)) log = apply_all srv cfg (map snd es) (log @ [?req])"
        using assms(1) name by (auto simp: ssa_apply_def call_def patch_of_def split: response.split)
      from Cons.IH [OF \<open>named es\<close>, of "log @ [?req]"] show ?thesis
      proof
        assume "apply_all srv cfg (map snd es) (log @ [?req]) = (Inr (), (log @ [?req]) @ map (patch_of cfg) es)"
        then show ?thesis unfolding step by simp
      next
        assume "\<exists>pre e' rest. es = pre @ e' # rest \<and>
          apply_all srv cfg (map snd es) (log @ [?req]) =
            (Inl (ApplyFailed (kind_of (snd e')) (fst e')), (log @ [?req]) @ map (patch_of cfg) (pre @ [e']))"
        then obtain pre e' rest where *: "es = pre @ e' # rest"
          "apply_all srv cfg (map snd es) (log @ [?req]) =
            (Inl (ApplyFailed (kind_of (snd e')) (fst e')), (log @ [?req]) @ map (patch_of cfg) (pre @ [e']))"
          by blast
        then have "e # es = (e # pre) @ e' # rest" by simp
        moreover have "apply_all srv cfg (map snd (e # es)) log =
            (Inl (ApplyFailed (kind_of (snd e')) (fst e')), log @ map (patch_of cfg) ((e # pre) @ [e']))"
          unfolding step using *(2) by simp
        ultimately show ?thesis by blast
      qed
    qed
  qed simp
  then show ?thesis using ok failed by blast
qed

section \<open>Sweeping\<close>

text \<open>
  What garbage collection asks for: lists of swept kinds with the managed selector, and
  deletes of names that are not desired; no deletes in read-only mode.
\<close>

definition gc_request :: "config \<Rightarrow> desired \<Rightarrow> request \<Rightarrow> bool" where
  "gc_request cfg d req =
     (case req of
        ReqPatch _ _ _ _ \<Rightarrow> False
      | ReqList k sel \<Rightarrow> swept cfg k \<and> sel = managed_selector cfg
      | ReqDelete k n \<Rightarrow> swept cfg k \<and> n \<notin> set (d_keys d k) \<and> \<not> cfg_read_only cfg)"

definition appends :: "(request \<Rightarrow> bool) \<Rightarrow> log \<Rightarrow> log \<Rightarrow> bool" where
  "appends P log log' \<longleftrightarrow> (\<exists>new. log' = log @ new \<and> list_all P new)"

lemma appends_refl [simp]: "appends P log log"
  by (simp add: appends_def)

lemma appends_trans: "appends P a b \<Longrightarrow> appends P b c \<Longrightarrow> appends P a c"
  by (fastforce simp: appends_def)

lemma appends_call: "P req \<Longrightarrow> appends P log (snd (call srv req log))"
  by (simp add: appends_def call_def)

lemma appends_mono: "appends P log log' \<Longrightarrow> (\<And>r. P r \<Longrightarrow> Q r) \<Longrightarrow> appends Q log log'"
  by (auto simp: appends_def list_all_iff)

lemma appends_fold: "(\<And>x log. x \<in> set xs \<Longrightarrow> appends P log (f x log)) \<Longrightarrow> appends P log (fold f xs log)"
  by (rule fold_invariant_in [where P = "appends P log"]) (auto intro: appends_trans)

lemma appends_sweep_item:
  "swept cfg k \<Longrightarrow> appends (gc_request cfg d) log (sweep_item srv cfg k (d_keys d k) item log)"
  by (auto simp: sweep_item_def gc_request_def intro!: appends_call split: option.split)

lemma appends_sweep:
  assumes "swept cfg k"
  shows "appends (gc_request cfg d) log (snd (sweep srv cfg k (d_keys d k) log))"
proof -
  let ?req = "ReqList k (managed_selector cfg)"
  have call: "appends (gc_request cfg d) log (log @ [?req])"
    using appends_call [of "gc_request cfg d" ?req log srv] assms by (simp add: gc_request_def call_def)
  have "appends (gc_request cfg d) (log @ [?req])
      (fold (sweep_item srv cfg k (d_keys d k)) items (log @ [?req]))" for items
    by (rule appends_fold) (rule appends_sweep_item [OF assms])
  then show ?thesis
    using call appends_trans [OF call] by (simp add: sweep_def call_def split: response.split)
qed

lemma appends_gc: "appends (gc_request cfg d) log (gc_phase srv cfg d log)"
  unfolding gc_phase_def
  by (rule appends_fold) (simp add: gc_kind_def appends_sweep)

lemma appends_report:
  "appends (\<lambda>req. \<exists>k. req = ReqList k (managed_selector cfg)) log (report_phase srv cfg log)"
  unfolding report_phase_def
  by (rule appends_fold) (auto simp: report_status_def intro: appends_call)

text \<open>A run of \<open>reconcile_once\<close> that succeeds: the patches, then sweeps and reports.\<close>

lemma reconcile_run:
  assumes wf: "wf_desired cfg d" and ro: "\<not> cfg_read_only cfg"
  obtains (ok) swp rep where
      "reconcile_once srv cfg d log = (Inr (), log @ map (patch_of cfg) (d_objects d) @ swp @ rep)"
      "gc_phase srv cfg d (log @ map (patch_of cfg) (d_objects d)) = log @ map (patch_of cfg) (d_objects d) @ swp"
      "list_all (gc_request cfg d) swp" "list_all (\<lambda>req. \<exists>k. req = ReqList k (managed_selector cfg)) rep"
  | (failed) pre e rest where "d_objects d = pre @ e # rest"
      "reconcile_once srv cfg d log =
         (Inl (ApplyFailed (kind_of (snd e)) (fst e)), log @ map (patch_of cfg) (pre @ [e]))"
  using ro named_objects [OF wf]
proof (cases rule: apply_all_run [of cfg "d_objects d" srv log])
  case ok
  let ?log = "log @ map (patch_of cfg) (d_objects d)"
  obtain swp where swp: "gc_phase srv cfg d ?log = ?log @ swp" "list_all (gc_request cfg d) swp"
    using appends_gc [of cfg d ?log srv] by (auto simp: appends_def)
  obtain rep where rep: "report_phase srv cfg (?log @ swp) = (?log @ swp) @ rep"
    "list_all (\<lambda>req. \<exists>k. req = ReqList k (managed_selector cfg)) rep"
    using appends_report [of cfg "?log @ swp" srv] by (auto simp: appends_def)
  have "reconcile_once srv cfg d log = (Inr (), ?log @ swp @ rep)"
    using ok swp rep by (simp add: reconcile_once_def apply_phase_objects)
  with swp rep show ?thesis by (intro that(1)) simp_all
next
  case (failed pre e rest)
  then show ?thesis by (intro that(2)) (simp_all add: reconcile_once_def apply_phase_objects)
qed

lemma reconcile_read_only:
  assumes wf: "wf_desired cfg d" and ro: "cfg_read_only cfg"
  obtains new where "reconcile_once srv cfg d log = (Inr (), log @ new)"
    and "list_all (\<lambda>req. \<exists>k. req = ReqList k (managed_selector cfg)) new"
proof -
  let ?P = "\<lambda>req. \<exists>k. req = ReqList k (managed_selector cfg)"
  have "gc_request cfg d req \<Longrightarrow> ?P req" for req using ro by (auto simp: gc_request_def split: request.splits)
  then have "appends ?P log (gc_phase srv cfg d log)" by (rule appends_mono [OF appends_gc])
  then have "appends ?P log (report_phase srv cfg (gc_phase srv cfg d log))"
    using appends_report by (rule appends_trans)
  moreover have "reconcile_once srv cfg d log = (Inr (), report_phase srv cfg (gc_phase srv cfg d log))"
    by (simp add: reconcile_once_def apply_phase_objects apply_all_read_only [OF ro named_objects [OF wf]])
  ultimately show ?thesis using that by (auto simp: appends_def)
qed

text \<open>Requests in the order of dependencies.\<close>

lemma kinds_sorted: "wf_desired cfg d \<Longrightarrow> sorted (map (kind_of \<circ> snd) (d_objects d))"
proof -
  assume wf: "wf_desired cfg d"
  have kinds: "map (kind_of \<circ> snd) (d_entries d k) = replicate (length (d_entries d k)) k" for k
    using entries_wf(2) [OF wf] by (intro replicate_eqI) auto
  have "sorted ks \<Longrightarrow> sorted (concat (map (\<lambda>k. replicate (length (d_entries d k)) k) ks))" for ks
    by (induction ks) (auto simp: sorted_append sorted_replicate)
  then show ?thesis
    using all_kinds(3) by (simp add: d_objects_def map_concat comp_def kinds [unfolded comp_def])
qed

section \<open>What any request of a run may be\<close>

lemma desired_keeps_backends:
  assumes "n \<in> set (d_keys (snd (backend_stage pf cfg dyn)) k)"
  shows "\<exists>obj. bt_get (d_entries (build_desired pf cfg dyn) k) n = Some obj"
proof -
  have "n \<in> set (d_keys (build_desired pf cfg dyn) k)"
    using assms run_grows(1) [of pf cfg dyn] by (auto simp: d_names_def)
  then show ?thesis by (simp add: in_d_keys_iff)
qed

lemma list_all_imp: "list_all P xs \<Longrightarrow> (\<And>x. P x \<Longrightarrow> Q x) \<Longrightarrow> list_all Q xs"
  by (auto simp: list_all_iff)

definition sane_request :: "config \<Rightarrow> desired \<Rightarrow> request \<Rightarrow> bool" where
  "sane_request cfg d req =
     (case req of
        ReqPatch fm k n obj \<Rightarrow>
          \<not> cfg_read_only cfg \<and> fm = cfg_field_manager cfg \<and> bt_get (d_entries d k) n = Some obj
      | ReqDelete k n \<Rightarrow> \<not> cfg_read_only cfg \<and> swept cfg k \<and> n \<notin> set (d_keys d k)
      | ReqList k sel \<Rightarrow> sel = managed_selector cfg)"

lemma sane_gc: "gc_request cfg d req \<Longrightarrow> sane_request cfg d req"
  by (auto simp: gc_request_def sane_request_def split: request.splits)

lemma sane_list: "\<exists>k. req = ReqList k (managed_selector cfg) \<Longrightarrow> sane_request cfg d req"
  by (auto simp: sane_request_def)

lemma sane_patches:
  assumes "wf_desired cfg d" "\<not> cfg_read_only cfg" "set es \<subseteq> set (d_objects d)"
  shows "list_all (sane_request cfg d) (map (patch_of cfg) es)"
  using assms(2,3) in_objects_iff [OF assms(1)]
  by (fastforce simp: list_all_iff sane_request_def patch_of_def)

lemma reconcile_sane:
  assumes wf: "wf_desired cfg d"
  obtains new where "snd (reconcile_once srv cfg d log) = log @ new" and "list_all (sane_request cfg d) new"
proof (cases "cfg_read_only cfg")
  case True
  show ?thesis
    by (rule reconcile_read_only [OF wf True, of srv log]) (rule that, simp, rule list_all_imp, simp, rule sane_list)
next
  case False
  note patches = sane_patches [OF wf False]
  show ?thesis
    using wf False
  proof (cases rule: reconcile_run [of cfg d srv log])
    case (ok swp rep)
    then show ?thesis
      using patches [OF order_refl] list_all_imp [OF ok(3) sane_gc] list_all_imp [OF ok(4) sane_list]
      by (intro that [of "map (patch_of cfg) (d_objects d) @ swp @ rep"]) simp_all
  next
    case (failed pre e rest)
    have "set (pre @ [e]) \<subseteq> set (d_objects d)" by (auto simp: failed(1))
    from patches [OF this] show ?thesis
      using failed(2) by (intro that [of "map (patch_of cfg) (pre @ [e])"]) simp_all
  qed
qed

end
