(* ===== verification/Cluster.thy ===== *)
theory Cluster
  imports Reconcile
begin

text \<open>
  What requests do to a cluster. Locales state the interface that reconciling relies on:
  \<open>kubernetes_api\<close>, an API server whose requests may fail at any time, and \<open>recovered_api\<close>, one
  that serves them all from some moment on; \<open>reliable_api\<close> is the case of the very beginning.
  \<open>Sim_Cluster\<close> has servers that satisfy them.
\<close>

section \<open>What a cluster does\<close>

text \<open>
  \<open>cl\<close> reads the state of the cluster off the requests made so far: which object a name of a
  kind has (as last applied). A patch that succeeds sets it, a delete that succeeds removes
  it, and a list answers with the objects that carry the controller's labels.
\<close>

type_synonym cluster = "obj_kind \<times> string \<Rightarrow> kobject option"

definition labelled :: "config \<Rightarrow> kobject option \<Rightarrow> bool" where
  "labelled cfg x =
     (case x of
        None \<Rightarrow> False
      | Some obj \<Rightarrow> (case om_labels (meta_of obj) of None \<Rightarrow> False | Some ls \<Rightarrow> selected cfg ls))"

definition is_err :: "response \<Rightarrow> bool" where
  "is_err r \<longleftrightarrow> (\<exists>c. r = RErr c)"

text \<open>The state that reconciling from \<open>c\<close> aims at.\<close>

definition converged :: "config \<Rightarrow> desired \<Rightarrow> cluster \<Rightarrow> cluster" where
  "converged cfg d c = (\<lambda>(k, n).
     case bt_get (d_entries d k) n of
       Some obj \<Rightarrow> Some obj
     | None \<Rightarrow> if swept cfg k \<and> labelled cfg (c (k, n)) then None else c (k, n))"

lemma converged_idem: "converged cfg d (converged cfg d c) = converged cfg d c"
  by (auto simp: converged_def fun_eq_iff split: option.split)

lemma objects_map:
  assumes wf: "wf_desired cfg d"
  shows "map_of (rev (map (\<lambda>(n, obj). ((kind_of obj, n), obj)) (d_objects d))) (k, n) = bt_get (d_entries d k) n"
    (is "map_of (rev ?es) _ = _")
proof (cases "bt_get (d_entries d k) n")
  case None
  have "(k, n) \<notin> fst ` set (rev ?es)"
  proof
    assume "(k, n) \<in> fst ` set (rev ?es)"
    then obtain obj where "(n, obj) \<in> set (d_objects d)" "kind_of obj = k" by auto
    with in_objects_iff [OF wf] None show False by auto
  qed
  then show ?thesis using None map_of_eq_None_iff [of "rev ?es" "(k, n)"] by simp
next
  case (Some obj)
  have "(n, obj) \<in> set (d_entries d k)" using Some by (rule bt_get_SomeD)
  then have k: "kind_of obj = k" using entries_wf(2) [OF wf] by blast
  then have "(n, obj) \<in> set (d_objects d)" using in_objects_iff [OF wf] Some by blast
  then have "((k, n), obj) \<in> set (rev ?es)" using k by force
  then obtain obj' where obj': "map_of (rev ?es) (k, n) = Some obj'"
    by (cases "map_of (rev ?es) (k, n)") (force simp: map_of_eq_None_iff)+
  then have "((k, n), obj') \<in> set (rev ?es)" by (rule map_of_SomeD)
  then have "(n, obj') \<in> set (d_objects d)" "kind_of obj' = k" by auto
  then have "bt_get (d_entries d k) n = Some obj'" using in_objects_iff [OF wf] by blast
  with Some obj' show ?thesis by simp
qed

section \<open>An API server\<close>

text \<open>
  A request that fails changes nothing. Nothing is said about which requests fail.
\<close>

locale kubernetes_api =
  fixes cfg :: config and srv :: server and cl :: "log \<Rightarrow> cluster"
  assumes patched: "cl (log @ [ReqPatch fm k n obj]) =
      (if is_err (srv (log @ [ReqPatch fm k n obj])) then cl log else (cl log)((k, n) \<mapsto> obj))"
    and deleted: "cl (log @ [ReqDelete k n]) =
      (if is_err (srv (log @ [ReqDelete k n])) then cl log else (cl log)((k, n) := None))"
    and listing_reads: "cl (log @ [ReqList k sel]) = cl log"
    and listed: "srv (log @ [ReqList k (managed_selector cfg)]) = RItems items \<Longrightarrow>
      set items = {Some n | n. labelled cfg (cl log (k, n))}"
begin

text \<open>Every object of the cluster was there at first or has been patched.\<close>

lemma origin:
  "cl log (k, n) = Some obj \<Longrightarrow> cl [] (k, n) = Some obj \<or> (\<exists>fm. ReqPatch fm k n obj \<in> set log)"
proof (induction log rule: rev_induct)
  case (snoc req log)
  then show ?case
    by (cases req) (auto simp: patched deleted listing_reads split: if_splits)
qed simp

lemma report_cluster: "cl (report_phase srv cfg log) = cl log"
  unfolding report_phase_def
  by (rule fold_invariant_in [where P = "\<lambda>l. cl l = cl log"])
     (simp_all add: report_status_def call_def listing_reads)

end

section \<open>A server that serves every request from some moment on\<close>

locale recovered_api = kubernetes_api +
  fixes since :: log
  assumes no_error: "prefix since log \<Longrightarrow> \<not> is_err (srv (log @ [req]))"
    and answers_lists: "prefix since log \<Longrightarrow> \<exists>items. srv (log @ [ReqList k sel]) = RItems items"
begin

lemma patches_cluster:
  "prefix since log \<Longrightarrow> cl (log @ map (patch_of cfg) es) = cl log ++ map_of (rev (map (\<lambda>(n, obj). ((kind_of obj, n), obj)) es))"
proof (induction es arbitrary: log)
  case (Cons e es)
  obtain n obj where e: "e = (n, obj)" by fastforce
  have "cl (log @ [patch_of cfg e]) = (cl log)((kind_of obj, n) \<mapsto> obj)"
    using no_error [OF Cons.prems] by (simp add: e patch_of_def patched)
  then show ?case
    using Cons.IH [of "log @ [patch_of cfg e]"] Cons.prems
    by (simp add: e fun_eq_iff map_add_def split: option.split)
qed simp

text \<open>Sweeping one kind removes its labelled objects that are not desired, and nothing else.\<close>

lemma sweep_item_cluster:
  "\<not> cfg_read_only cfg \<Longrightarrow> prefix since log \<Longrightarrow> cl (sweep_item srv cfg k names item log) =
    (case item of Some n \<Rightarrow> if n \<in> set names then cl log else (cl log)((k, n) := None) | None \<Rightarrow> cl log)"
  using no_error by (simp add: sweep_item_def call_def deleted split: option.split)

lemma sweep_item_extends: "prefix since log \<Longrightarrow> prefix since (sweep_item srv cfg k names item log)"
  by (auto simp: sweep_item_def call_def split: option.split)

lemma sweep_items_cluster:
  assumes ro: "\<not> cfg_read_only cfg"
  shows "prefix since log \<Longrightarrow> cl (fold (sweep_item srv cfg k names) items log) (k', n) =
    (if k' = k \<and> Some n \<in> set items \<and> n \<notin> set names then None else cl log (k', n))"
proof (induction items arbitrary: log)
  case (Cons item items)
  show ?case
    using Cons.IH [of "sweep_item srv cfg k names item log"] Cons.prems
    by (auto simp: sweep_item_cluster [OF ro] sweep_item_extends split: option.splits)
qed simp

lemma gc_kind_extends: "prefix since log \<Longrightarrow> prefix since (gc_kind srv cfg d k log)"
  using appends_sweep [of cfg k d log srv] by (auto simp: gc_kind_def appends_def)

lemma gc_kind_cluster:
  assumes ro: "\<not> cfg_read_only cfg" and since: "prefix since log"
  shows "cl (gc_kind srv cfg d k log) (k', n) =
    (if k' = k \<and> swept cfg k \<and> labelled cfg (cl log (k, n)) \<and> n \<notin> set (d_keys d k) then None
     else cl log (k', n))"
proof (cases "swept cfg k")
  case True
  let ?req = "ReqList k (managed_selector cfg)"
  obtain items where items: "srv (log @ [?req]) = RItems items" using answers_lists [OF since] by blast
  moreover have "gc_kind srv cfg d k log = fold (sweep_item srv cfg k (d_keys d k)) items (log @ [?req])"
    using True items by (simp add: gc_kind_def sweep_def call_def)
  ultimately show ?thesis
    using True listed [OF items] since by (auto simp: sweep_items_cluster [OF ro] listing_reads)
qed (simp add: gc_kind_def)

lemma gc_cluster:
  assumes ro: "\<not> cfg_read_only cfg"
  shows "distinct ks \<Longrightarrow> prefix since log \<Longrightarrow> cl (fold (gc_kind srv cfg d) ks log) (k, n) =
    (if k \<in> set ks \<and> swept cfg k \<and> labelled cfg (cl log (k, n)) \<and> n \<notin> set (d_keys d k) then None
     else cl log (k, n))"
proof (induction ks arbitrary: log)
  case (Cons k' ks)
  then show ?case
    using Cons.IH [of "gc_kind srv cfg d k' log"] by (auto simp: gc_kind_cluster [OF ro] gc_kind_extends)
qed simp

lemma apply_phase_runs:
  assumes ro: "\<not> cfg_read_only cfg" and wf: "wf_desired cfg d" and since: "prefix since log"
  shows "apply_phase srv cfg d log = (Inr (), log @ map (patch_of cfg) (d_objects d))"
proof -
  have "apply_all srv cfg (map snd es) log = (Inr (), log @ map (patch_of cfg) es)"
    if "named es" for es
    using that since
  proof (induction es arbitrary: log)
    case (Cons e es)
    then show ?case
      using no_error ro
      by (auto simp: named_def ssa_apply_def call_def patch_of_def is_err_def split: response.split)
  qed simp
  then show ?thesis using named_objects [OF wf] by (simp add: apply_phase_objects)
qed

text \<open>One reconcile reaches the state it aims at.\<close>

lemma reconcile_cluster:
  assumes ro: "\<not> cfg_read_only cfg" and wf: "wf_desired cfg d" and since: "prefix since log"
  obtains log' where "reconcile_once srv cfg d log = (Inr (), log')"
    and "cl log' = converged cfg d (cl log)"
proof -
  let ?log = "log @ map (patch_of cfg) (d_objects d)"
  have applied: "cl ?log (k, n) = (case bt_get (d_entries d k) n of Some obj \<Rightarrow> Some obj | None \<Rightarrow> cl log (k, n))"
    for k n
    using patches_cluster [OF since, of "d_objects d"] objects_map [OF wf, of k n] by (simp add: map_add_def)
  have "cl (gc_phase srv cfg d ?log) (k, n) = converged cfg d (cl log) (k, n)" for k n
    using gc_cluster [OF ro all_kinds(5), of ?log d k n] since applied [of k n]
    by (auto simp: gc_phase_def all_kinds(4) converged_def in_d_keys_iff split: option.split)
  then have "cl (gc_phase srv cfg d ?log) = converged cfg d (cl log)" by (auto simp: fun_eq_iff)
  moreover have "reconcile_once srv cfg d log = (Inr (), report_phase srv cfg (gc_phase srv cfg d ?log))"
    by (simp add: reconcile_once_def apply_phase_runs [OF ro wf since])
  ultimately show ?thesis using that by (simp add: report_cluster)
qed

end

text \<open>One that serves every request.\<close>

locale reliable_api = kubernetes_api +
  assumes never_error: "\<not> is_err (srv (log @ [req]))"
    and always_lists: "\<exists>items. srv (log @ [ReqList k sel]) = RItems items"

sublocale reliable_api \<subseteq> from_start: recovered_api cfg srv cl "[]"
  by unfold_locales (simp_all add: never_error always_lists)

context reliable_api
begin

lemmas reconcile_cluster = from_start.reconcile_cluster [OF _ _ Nil_prefix]

end

end
