(* ===== verification/Client.thy ===== *)
theory Client
  imports Config Pangolin_Types
begin

text \<open>
  \<^verbatim>\<open>src/pangolin/client.rs\<close>: one conditional GET of Pangolin's configuration. What the HTTP
  stack answered is an input (\<open>http_reply\<close>); the JSON decoder and SHA-256 are parameters
  (\<open>client_lib\<close>; \<open>Pangolin_Wire\<close> builds it from a parser of JSON text), as are the file system and the certificate parser of \<open>client_new\<close>.
\<close>

section \<open>The client\<close>

record http_options =
  ho_timeout :: duration
  ho_connect_timeout :: duration
  ho_pool_idle_timeout :: "duration option"
  ho_accept_invalid_certs :: bool
  ho_root_certificates :: "string list"

record client =
  cl_http :: http_options
  cl_endpoint :: url
  cl_auth_header :: "string option"
  cl_max_body_bytes :: nat
  cl_log_body :: bool

datatype client_error = ReadingCaFile string | ParsingCaFile | BuildingClient | ParsingEndpoint

text \<open>\<open>read_file\<close> and \<open>pem_ok\<close> read and check the PEM file, \<open>build_ok\<close> is the TLS back end's answer.\<close>

definition client_new ::
  "platform \<Rightarrow> (string \<Rightarrow> string option) \<Rightarrow> (string \<Rightarrow> bool) \<Rightarrow> (http_options \<Rightarrow> bool) \<Rightarrow> config \<Rightarrow>
     client_error + client" where
  "client_new pf read_file pem_ok build_ok cfg =
     (let builder = \<lparr>ho_timeout = cfg_fetch_timeout cfg, ho_connect_timeout = from_secs 10,
                     ho_pool_idle_timeout = Some (from_secs 90), ho_accept_invalid_certs = False,
                     ho_root_certificates = []\<rparr>;
          builder = (if cfg_tls_skip_verify cfg then builder\<lparr>ho_accept_invalid_certs := True\<rparr> else builder)
      in try_then (case cfg_ca_file cfg of
                     None \<Rightarrow> Inr builder
                   | Some path \<Rightarrow>
                       try_then (ok_or (ReadingCaFile path) (read_file path)) (\<lambda>pem.
                         if pem_ok pem then Inr (builder\<lparr>ho_root_certificates := [pem]\<rparr>)
                         else Inl ParsingCaFile)) (\<lambda>builder.
         try_then (if build_ok builder then Inr () else Inl BuildingClient) (\<lambda>_.
         try_then (ok_or ParsingEndpoint (url_parse pf (url_as_str (cfg_pangolin_endpoint cfg)))) (\<lambda>endpoint.
         Inr \<lparr>cl_http = builder, cl_endpoint = endpoint, cl_auth_header = cfg_auth_header cfg,
              cl_max_body_bytes = cfg_max_response_body_bytes cfg,
              cl_log_body = cfg_log_traefik_config cfg\<rparr>))))"

section \<open>One fetch\<close>

record fetch_request =
  fr_url :: url
  fr_headers :: "(string \<times> string) list"

definition fetch_request_of :: "client \<Rightarrow> string option \<Rightarrow> fetch_request" where
  "fetch_request_of cl last_etag =
     \<lparr>fr_url = cl_endpoint cl,
      fr_headers =
        [(''accept'', ''application/json'')]
          @ (case cl_auth_header cl of Some token \<Rightarrow> [(''authorization'', token)] | None \<Rightarrow> [])
          @ (case last_etag of Some tag \<Rightarrow> [(''if-none-match'', tag)] | None \<Rightarrow> [])\<rparr>"

text \<open>
  A reply: the status, the ETag when it is a readable header, the announced length, and the
  body as text (for an error message) and as bytes, \<^term>\<open>None\<close> when reading it failed.
\<close>

record http_reply =
  hrep_status :: nat
  hrep_etag :: "string option"
  hrep_content_length :: "nat option"
  hrep_text :: "string option"
  hrep_bytes :: "string option"

record client_lib =
  lib_sha256_hex :: "string \<Rightarrow> string"
  lib_decode :: "string \<Rightarrow> traefik_dynamic_config option"

record changed_config =
  cc_config :: traefik_dynamic_config
  cc_etag :: "string option"
  cc_digest :: string
  cc_raw_bytes :: nat

datatype fetch_outcome = NotModified | Changed changed_config

datatype fetch_error =
    CallFailed
  | BadStatus nat string
  | AnnouncedTooLarge nat
  | BodyUnreadable
  | BodyTooLarge nat
  | Undecodable

definition is_success :: "nat \<Rightarrow> bool" where
  "is_success status \<longleftrightarrow> 200 \<le> status \<and> status < 300"

text \<open>The loop of \<open>truncate\<close>, from \<open>idx\<close> down to a character boundary.\<close>

fun boundary_at_or_before :: "string \<Rightarrow> nat \<Rightarrow> nat" where
  "boundary_at_or_before s 0 = 0"
| "boundary_at_or_before s (Suc idx) =
     (if is_char_boundary s (Suc idx) then Suc idx else boundary_at_or_before s idx)"

definition truncate_str :: "string \<Rightarrow> nat \<Rightarrow> string" where
  "truncate_str s mx = (if length s \<le> mx then s else take (boundary_at_or_before s mx) s)"

definition fetch :: "client_lib \<Rightarrow> client \<Rightarrow> http_reply option \<Rightarrow> fetch_error + fetch_outcome" where
  "fetch lib cl reply =
     try_then (ok_or CallFailed reply) (\<lambda>resp.
       if hrep_status resp = 304 then Inr NotModified
       else if \<not> is_success (hrep_status resp) then
         (let body = (case hrep_text resp of None \<Rightarrow> [] | Some b \<Rightarrow> b)
          in Inl (BadStatus (hrep_status resp) (truncate_str body 512)))
       else if (case hrep_content_length resp of None \<Rightarrow> False | Some len \<Rightarrow> cl_max_body_bytes cl < len)
       then Inl (AnnouncedTooLarge (the (hrep_content_length resp)))
       else
         try_then (ok_or BodyUnreadable (hrep_bytes resp)) (\<lambda>raw.
           if cl_max_body_bytes cl < length raw then Inl (BodyTooLarge (length raw))
           else
             try_then (ok_or Undecodable (lib_decode lib raw)) (\<lambda>config.
               Inr (Changed
                 \<lparr>cc_config = config, cc_etag = hrep_etag resp,
                  cc_digest = lib_sha256_hex lib raw, cc_raw_bytes = length raw\<rparr>))))"

declare client_new_def [exec] fetch_request_of_def [exec] is_success_def [exec]
  truncate_str_def [exec] fetch_def [exec]

section \<open>Lemmas\<close>

lemma boundary_le: "boundary_at_or_before s i \<le> i"
  by (induction s i rule: boundary_at_or_before.induct) auto

lemma boundary_is: "is_char_boundary s (boundary_at_or_before s i)"
  by (induction s i rule: boundary_at_or_before.induct) (auto simp: is_char_boundary_def)

text \<open>No boundary lies between the one found and the limit.\<close>

lemma boundary_greatest:
  "is_char_boundary s j \<Longrightarrow> j \<le> i \<Longrightarrow> j \<le> boundary_at_or_before s i"
  by (induction s i rule: boundary_at_or_before.induct) (auto simp: le_Suc_eq)

lemma fetch_Changed_iff:
  "fetch lib cl reply = Inr (Changed c) \<longleftrightarrow>
     (\<exists>resp raw config.
        reply = Some resp \<and> is_success (hrep_status resp) \<and>
        (\<forall>len. hrep_content_length resp = Some len \<longrightarrow> len \<le> cl_max_body_bytes cl) \<and>
        hrep_bytes resp = Some raw \<and> length raw \<le> cl_max_body_bytes cl \<and>
        lib_decode lib raw = Some config \<and>
        c = \<lparr>cc_config = config, cc_etag = hrep_etag resp, cc_digest = lib_sha256_hex lib raw,
             cc_raw_bytes = length raw\<rparr>)"
proof (cases reply)
  case (Some resp)
  show ?thesis
  proof (cases "hrep_bytes resp")
    case (Some raw)
    then show ?thesis
      using \<open>reply = Some resp\<close>
      by (cases "lib_decode lib raw")
         (auto simp: fetch_def ok_or_def is_success_def Let_def not_less split: option.splits)
  qed (use Some in \<open>simp add: fetch_def ok_or_def Let_def\<close>)
qed (simp add: fetch_def ok_or_def)

section \<open>Properties\<close>

definition justified :: "client_lib \<Rightarrow> client \<Rightarrow> http_reply option \<Rightarrow> fetch_error + fetch_outcome \<Rightarrow> bool" where
  "justified lib cl reply result =
     (case result of
        Inr NotModified \<Rightarrow> (\<exists>resp. reply = Some resp \<and> hrep_status resp = 304)
      | Inr (Changed c) \<Rightarrow>
          (\<exists>resp raw. reply = Some resp \<and> is_success (hrep_status resp) \<and> hrep_bytes resp = Some raw \<and>
             length raw \<le> cl_max_body_bytes cl \<and> cc_raw_bytes c = length raw \<and>
             lib_decode lib raw = Some (cc_config c) \<and> cc_digest c = lib_sha256_hex lib raw \<and>
             cc_etag c = hrep_etag resp)
      | Inl CallFailed \<Rightarrow> reply = None
      | Inl (BadStatus status excerpt) \<Rightarrow> \<not> is_success status \<and> status \<noteq> 304 \<and> length excerpt \<le> 512
      | Inl (AnnouncedTooLarge n) \<Rightarrow>
          cl_max_body_bytes cl < n \<and> (\<exists>resp. reply = Some resp \<and> hrep_content_length resp = Some n)
      | Inl BodyUnreadable \<Rightarrow> (\<exists>resp. reply = Some resp \<and> hrep_bytes resp = None)
      | Inl (BodyTooLarge n) \<Rightarrow>
          cl_max_body_bytes cl < n \<and> (\<exists>resp raw. reply = Some resp \<and> hrep_bytes resp = Some raw \<and> n = length raw)
      | Inl Undecodable \<Rightarrow>
          (\<exists>resp raw. reply = Some resp \<and> hrep_bytes resp = Some raw \<and> lib_decode lib raw = None))"

lemma fetch_outcome_justified: "justified lib cl reply (fetch lib cl reply)"
proof (cases reply)
  case None
  then show ?thesis by (simp add: fetch_def ok_or_def justified_def)
next
  case (Some resp)
  have short: "length (truncate_str s 512) \<le> 512" for s
    using boundary_le [of s 512] by (simp add: truncate_str_def)
  show ?thesis
  proof (cases "hrep_bytes resp")
    case None
    then show ?thesis using Some short
      by (auto simp: fetch_def ok_or_def justified_def Let_def split: option.splits)
  next
    case bytes: (Some raw)
    then show ?thesis using Some short
      by (cases "lib_decode lib raw")
         (auto simp: fetch_def ok_or_def justified_def Let_def not_less split: option.splits)
  qed
qed

text \<open>C34: Every outcome of a poll is justified by the reply: a new configuration only from a successful
  response whose body is within the limit and decodes, with the digest of exactly that body, and
  every error by what was wrong, with at most 512 bytes of the body quoted.\<close>

theorem fetch_justified: "justified lib cl reply (fetch lib cl reply)"
  by (rule fetch_outcome_justified)

text \<open>Truncation keeps the longest prefix within the limit that does not split a character.\<close>

lemma truncation_maximal:
  assumes "is_char_boundary s j" and "j \<le> mx"
  shows "is_char_boundary s (length (truncate_str s mx)) \<and> prefix (truncate_str s mx) s \<and>
    j \<le> length (truncate_str s mx) \<and> length (truncate_str s mx) \<le> mx"
proof -
  have le: "length (truncate_str s mx) = (if length s \<le> mx then length s else boundary_at_or_before s mx)"
    using boundary_le [of s mx] by (simp add: truncate_str_def)
  show ?thesis
    using boundary_le [of s mx] boundary_is [of s mx] boundary_greatest [OF assms] assms(1)
    by (auto simp: le truncate_str_def take_is_prefix is_char_boundary_def)
qed

end
