(* ===== verification/Poll_Loop.thy ===== *)
theory Poll_Loop
  imports Cluster Client
begin

text \<open>
  \<^verbatim>\<open>run_loop\<close> of \<^verbatim>\<open>src/reconcile.rs\<close>: polling Pangolin, reconciling when its configuration has
  changed, backing off when something fails.
\<close>

section \<open>The poll loop\<close>

text \<open>
  The variables of \<open>run_loop\<close>, with the requests made to the API so far. An iteration gives
  the time to wait and the state in which the next one starts.
\<close>

record loop_state =
  lp_last_etag :: "string option"
  lp_last_digest :: "string option"
  lp_backoff :: duration
  lp_ready :: bool
  lp_log :: log

definition loop_init :: loop_state where
  "loop_init = \<lparr>lp_last_etag = None, lp_last_digest = None, lp_backoff = from_secs 1,
     lp_ready = False, lp_log = []\<rparr>"

definition opt_or :: "'a option \<Rightarrow> 'a option \<Rightarrow> 'a option" where
  "opt_or x y = (case x of None \<Rightarrow> y | Some v \<Rightarrow> Some v)"

definition back_off :: "config \<Rightarrow> loop_state \<Rightarrow> duration \<times> loop_state" where
  "back_off cfg st = (lp_backoff st, st\<lparr>lp_backoff := min (lp_backoff st * 2) (cfg_max_backoff cfg)\<rparr>)"

definition iteration ::
  "platform \<Rightarrow> config \<Rightarrow> server \<Rightarrow> fetch_error + fetch_outcome \<Rightarrow> loop_state \<Rightarrow> duration \<times> loop_state" where
  "iteration pf cfg srv outcome st =
     (case outcome of
        Inl e \<Rightarrow> back_off cfg st
      | Inr outcome \<Rightarrow>
          (let st = st\<lparr>lp_backoff := from_secs 1\<rparr>
           in case outcome of
                NotModified \<Rightarrow> (cfg_poll_interval cfg, st\<lparr>lp_ready := True\<rparr>)
              | Changed c \<Rightarrow>
                  (if lp_last_digest st = Some (cc_digest c) then
                     (cfg_poll_interval cfg,
                      st\<lparr>lp_ready := True, lp_last_etag := opt_or (cc_etag c) (lp_last_etag st)\<rparr>)
                   else
                     case reconcile_once srv cfg (build_desired pf cfg (cc_config c)) (lp_log st) of
                       (Inl e, log) \<Rightarrow> back_off cfg (st\<lparr>lp_log := log\<rparr>)
                     | (Inr _, log) \<Rightarrow>
                         (cfg_poll_interval cfg,
                          st\<lparr>lp_log := log, lp_last_digest := Some (cc_digest c), lp_ready := True,
                             lp_last_etag := opt_or (cc_etag c) (lp_last_etag st)\<rparr>))))"

text \<open>
  What the environment does during one turn of the loop: whether shutdown was requested before
  it, how Pangolin replies to the request that the client makes, and whether shutdown ended the
  wait. A finite list of turns is a finite part of a run.
\<close>

record turn =
  turn_cancelled :: bool
  turn_pangolin :: "fetch_request \<Rightarrow> http_reply option"
  turn_cancelled_waiting :: bool

definition poll :: "client_lib \<Rightarrow> client \<Rightarrow> turn \<Rightarrow> string option \<Rightarrow> fetch_error + fetch_outcome" where
  "poll lib cl t last_etag = fetch lib cl (turn_pangolin t (fetch_request_of cl last_etag))"

datatype loop_result = Running loop_state | Returned loop_state

fun run_loop ::
  "platform \<Rightarrow> client_lib \<Rightarrow> client \<Rightarrow> config \<Rightarrow> server \<Rightarrow> turn list \<Rightarrow> loop_state \<Rightarrow> loop_result" where
  "run_loop pf lib cl cfg srv [] st = Running st"
| "run_loop pf lib cl cfg srv (t # ts) st =
     (if turn_cancelled t then Returned st
      else
        let st = snd (iteration pf cfg srv (poll lib cl t (lp_last_etag st)) st)
        in if turn_cancelled_waiting t then Returned st else run_loop pf lib cl cfg srv ts st)"

declare poll_def [exec] loop_init_def [exec] opt_or_def [exec] back_off_def [exec] iteration_def [exec]

text \<open>The states at the head of the loop, with the outcomes that led there.\<close>

inductive reachable ::
  "platform \<Rightarrow> config \<Rightarrow> server \<Rightarrow> (fetch_error + fetch_outcome) list \<Rightarrow> loop_state \<Rightarrow> bool"
  for pf cfg srv where
  reach_init: "reachable pf cfg srv [] loop_init"
| reach_step: "reachable pf cfg srv tr st \<Longrightarrow>
     reachable pf cfg srv (tr @ [r]) (snd (iteration pf cfg srv r st))"

inductive_simps reachable_snoc: "reachable pf cfg srv (tr @ [r]) st"

section \<open>Invariants of the loop\<close>

lemmas iteration_defs = iteration_def back_off_def Let_def

lemma back_off_simps [simp]:
  "fst (back_off cfg st) = lp_backoff st"
  "lp_backoff (snd (back_off cfg st)) = min (lp_backoff st * 2) (cfg_max_backoff cfg)"
  "lp_last_etag (snd (back_off cfg st)) = lp_last_etag st"
  "lp_last_digest (snd (back_off cfg st)) = lp_last_digest st"
  "lp_ready (snd (back_off cfg st)) = lp_ready st"
  "lp_log (snd (back_off cfg st)) = lp_log st"
  by (simp_all add: back_off_def)

text \<open>An iteration whose configuration is in the cluster at its end.\<close>

definition completes :: "platform \<Rightarrow> config \<Rightarrow> server \<Rightarrow> fetch_error + fetch_outcome \<Rightarrow> loop_state \<Rightarrow> bool" where
  "completes pf cfg srv r st =
     (case r of
        Inl _ \<Rightarrow> False
      | Inr NotModified \<Rightarrow> True
      | Inr (Changed c) \<Rightarrow>
          lp_last_digest st = Some (cc_digest c) \<or>
          (\<exists>log. reconcile_once srv cfg (build_desired pf cfg (cc_config c)) (lp_log st) = (Inr (), log)))"

text \<open>What each kind of outcome does to the state.\<close>

lemma iteration_cases:
  obtains (error) e where "r = Inl e" "iteration pf cfg srv r st = back_off cfg st"
  | (not_modified) "r = Inr NotModified"
      "iteration pf cfg srv r st = (cfg_poll_interval cfg, st\<lparr>lp_backoff := from_secs 1, lp_ready := True\<rparr>)"
  | (unchanged) c where "r = Inr (Changed c)" "lp_last_digest st = Some (cc_digest c)"
      "iteration pf cfg srv r st = (cfg_poll_interval cfg,
         st\<lparr>lp_backoff := from_secs 1, lp_ready := True,
            lp_last_etag := opt_or (cc_etag c) (lp_last_etag st)\<rparr>)"
  | (failed) c e log where "r = Inr (Changed c)" "lp_last_digest st \<noteq> Some (cc_digest c)"
      "reconcile_once srv cfg (build_desired pf cfg (cc_config c)) (lp_log st) = (Inl e, log)"
      "iteration pf cfg srv r st = back_off cfg (st\<lparr>lp_backoff := from_secs 1, lp_log := log\<rparr>)"
  | (applied) c log where "r = Inr (Changed c)" "lp_last_digest st \<noteq> Some (cc_digest c)"
      "reconcile_once srv cfg (build_desired pf cfg (cc_config c)) (lp_log st) = (Inr (), log)"
      "iteration pf cfg srv r st = (cfg_poll_interval cfg,
         st\<lparr>lp_backoff := from_secs 1, lp_log := log, lp_last_digest := Some (cc_digest c), lp_ready := True,
            lp_last_etag := opt_or (cc_etag c) (lp_last_etag st)\<rparr>)"
proof (cases r)
  case (Inl e)
  then show ?thesis by (intro error) (simp_all add: iteration_def)
next
  case (Inr outcome)
  show ?thesis
  proof (cases outcome)
    case NotModified
    with Inr show ?thesis by (intro not_modified) (simp_all add: iteration_def Let_def)
  next
    case (Changed c)
    obtain res log where run:
      "reconcile_once srv cfg (build_desired pf cfg (cc_config c)) (lp_log st) = (res, log)" by fastforce
    show ?thesis
    proof (cases "lp_last_digest st = Some (cc_digest c)")
      case True
      with Inr Changed show ?thesis by (intro unchanged) (simp_all add: iteration_def Let_def)
    next
      case False
      with Inr Changed run show ?thesis
        by (cases res) (auto simp: iteration_def Let_def intro: failed applied)
    qed
  qed
qed

lemma backoff_bound:
  assumes "reachable pf cfg srv tr st"
  shows "lp_backoff st \<le> max (from_secs 1) (cfg_max_backoff cfg)"
  using assms
proof (induction rule: reachable.induct)
  case reach_init
  show ?case by (simp add: loop_init_def)
next
  case (reach_step tr st r)
  show ?case
    by (cases rule: iteration_cases [of r pf cfg srv st]) (auto simp: min_le_iff_disj)
qed

text \<open>The digest kept is that of a configuration that was applied.\<close>

definition was_applied :: "platform \<Rightarrow> config \<Rightarrow> server \<Rightarrow> (fetch_error + fetch_outcome) list \<Rightarrow> string \<Rightarrow> bool" where
  "was_applied pf cfg srv tr digest \<longleftrightarrow>
     (\<exists>c log log'. Inr (Changed c) \<in> set tr \<and> cc_digest c = digest \<and>
        reconcile_once srv cfg (build_desired pf cfg (cc_config c)) log = (Inr (), log'))"

lemma was_applied_snoc: "was_applied pf cfg srv tr dg \<Longrightarrow> was_applied pf cfg srv (tr @ [r]) dg"
  unfolding was_applied_def by (metis in_set_conv_decomp append_Cons append_assoc)

lemma digest_applied:
  assumes "reachable pf cfg srv tr st"
  shows "lp_last_digest st = Some dg \<Longrightarrow> was_applied pf cfg srv tr dg"
  using assms
proof (induction rule: reachable.induct)
  case reach_init
  then show ?case by (simp add: loop_init_def)
next
  case (reach_step tr st r)
  show ?case
  proof (cases rule: iteration_cases [of r pf cfg srv st])
    case (applied c log)
    then show ?thesis
      using reach_step.prems by (fastforce simp: was_applied_def)
  qed (use reach_step in \<open>auto intro: was_applied_snoc\<close>)
qed

lemma etag_applied:
  assumes "reachable pf cfg srv tr st"
  shows "lp_last_etag st \<noteq> None \<Longrightarrow> lp_last_digest st \<noteq> None"
  using assms
proof (induction rule: reachable.induct)
  case reach_init
  then show ?case by (simp add: loop_init_def)
next
  case (reach_step tr st r)
  then show ?case
    by (cases rule: iteration_cases [of r pf cfg srv st]) auto
qed

lemma ready_applied:
  assumes "reachable pf cfg srv tr st"
  shows "lp_ready st \<Longrightarrow> lp_last_digest st \<noteq> None \<or> Inr NotModified \<in> set tr"
  using assms
proof (induction rule: reachable.induct)
  case reach_init
  then show ?case by (simp add: loop_init_def)
next
  case (reach_step tr st r)
  then show ?case
    by (cases rule: iteration_cases [of r pf cfg srv st]) auto
qed

lemma ready_sticky: "lp_ready st \<Longrightarrow> lp_ready (snd (iteration pf cfg srv r st))"
  by (cases rule: iteration_cases [of r pf cfg srv st]) auto

text \<open>
  After a failed poll, a 304 or a configuration with the digest of the last applied one, no
  request is sent to the API server.
\<close>

lemma unchanged_is_silent:
  assumes "case r of Inl _ \<Rightarrow> True | Inr NotModified \<Rightarrow> True
      | Inr (Changed c) \<Rightarrow> lp_last_digest st = Some (cc_digest c)"
  shows "lp_log (snd (iteration pf cfg srv r st)) = lp_log st \<and>
    lp_last_digest (snd (iteration pf cfg srv r st)) = lp_last_digest st"
  using assms by (cases rule: iteration_cases [of r pf cfg srv st]) auto

text \<open>Failed fetches in a row, from the state after a successful one.\<close>

lemma backoff_after_failures:
  "lp_backoff st = from_secs 1 \<Longrightarrow>
     lp_backoff (fold (\<lambda>e st. snd (iteration pf cfg srv (Inl e) st)) es st) =
       (if es = [] then from_secs 1 else min (2 ^ length es * from_secs 1) (cfg_max_backoff cfg))"
proof (induction es rule: rev_induct)
  case (snoc e es)
  then show ?case by (auto simp: iteration_def min_def)
qed simp

text \<open>The loop returns exactly when a turn is cancelled.\<close>

lemma run_loop_returns:
  "(\<exists>st'. run_loop pf lib cl cfg srv ts st = Returned st') \<longleftrightarrow>
     (\<exists>t\<in>set ts. turn_cancelled t \<or> turn_cancelled_waiting t)"
  by (induction ts arbitrary: st) (auto simp: Let_def)

text \<open>A run is a path of reachable states whose outcomes are those of its turns.\<close>

lemma run_loop_reachable:
  assumes "reachable pf cfg srv tr st" and "run_loop pf lib cl cfg srv ts st \<in> {Running st', Returned st'}"
  shows "\<exists>tr'. reachable pf cfg srv (tr @ tr') st' \<and> set tr' \<subseteq> (\<Union>t\<in>set ts. range (poll lib cl t))"
  using assms
proof (induction ts arbitrary: tr st)
  case Nil
  then show ?case by (intro exI [of _ "[]"]) simp
next
  case (Cons t ts)
  let ?r = "poll lib cl t (lp_last_etag st)"
  let ?st = "snd (iteration pf cfg srv ?r st)"
  have next1: "reachable pf cfg srv (tr @ [?r]) ?st" using Cons.prems(1) by (rule reach_step)
  consider "turn_cancelled t" | "\<not> turn_cancelled t" "turn_cancelled_waiting t"
    | "\<not> turn_cancelled t" "\<not> turn_cancelled_waiting t" by blast
  then show ?case
  proof cases
    case 1
    then show ?thesis using Cons.prems by (intro exI [of _ "[]"]) simp
  next
    case 2
    then show ?thesis using Cons.prems(2) next1 by (intro exI [of _ "[?r]"]) (simp add: Let_def)
  next
    case 3
    then obtain tr' where "reachable pf cfg srv ((tr @ [?r]) @ tr') st'"
      "set tr' \<subseteq> (\<Union>t\<in>set ts. range (poll lib cl t))"
      using Cons.IH [OF next1] Cons.prems(2) by (auto simp: Let_def)
    then show ?thesis by (intro exI [of _ "?r # tr'"]) auto
  qed
qed

lemma run_loop_snoc:
  "run_loop pf lib cl cfg srv (ts @ [t]) st =
     (case run_loop pf lib cl cfg srv ts st of
        Running st' \<Rightarrow> run_loop pf lib cl cfg srv [t] st'
      | Returned st' \<Rightarrow> Returned st')"
  by (induction ts arbitrary: st) (simp_all add: Let_def)

section \<open>What the loop has asked for\<close>

text \<open>Every request of a run belongs to the reconciling of a configuration that was fetched.\<close>

lemma reachable_requests:
  assumes "reachable pf cfg srv tr st"
  shows "req \<in> set (lp_log st) \<Longrightarrow>
    \<exists>c. Inr (Changed c) \<in> set tr \<and> sane_request cfg (build_desired pf cfg (cc_config c)) req"
  using assms
proof (induction rule: reachable.induct)
  case reach_init
  then show ?case by (simp add: loop_init_def)
next
  case (reach_step tr st r)
  have new: ?case if changed: "r = Inr (Changed c)" and req: "req \<in> set log"
    and run: "snd (reconcile_once srv cfg (build_desired pf cfg (cc_config c)) (lp_log st)) = log" for c log
  proof -
    obtain new where "log = lp_log st @ new"
      "list_all (sane_request cfg (build_desired pf cfg (cc_config c))) new"
      using reconcile_sane [OF run_wf] run by metis
    then show ?thesis using changed req reach_step.IH by (auto simp: list_all_iff)
  qed
  show ?case
  proof (cases rule: iteration_cases [of r pf cfg srv st])
    case (failed c e log)
    then show ?thesis using reach_step.prems by (intro new [of c log]) simp_all
  next
    case (applied c log)
    then show ?thesis using reach_step.prems by (intro new [of c log]) simp_all
  qed (use reach_step in auto)
qed

section \<open>The configuration in the cluster\<close>

text \<open>The configuration of the digest that is kept is the one the cluster has.\<close>

definition tracks ::
  "platform \<Rightarrow> config \<Rightarrow> (log \<Rightarrow> cluster) \<Rightarrow> (fetch_error + fetch_outcome) list \<Rightarrow> loop_state \<Rightarrow> bool" where
  "tracks pf cfg cl tr st \<longleftrightarrow>
     (\<exists>c \<in> {c. Inr (Changed c) \<in> set tr}. lp_last_digest st = Some (cc_digest c) \<and>
        cl (lp_log st) = converged cfg (build_desired pf cfg (cc_config c)) (cl (lp_log st)))"

lemma tracks_same:
  "tracks pf cfg cl tr st \<Longrightarrow> lp_last_digest st' = lp_last_digest st \<Longrightarrow> lp_log st' = lp_log st \<Longrightarrow>
     tracks pf cfg cl (tr @ [r]) st'"
  by (auto simp: tracks_def)

lemma cluster_tracks_aux:
  assumes "reachable pf cfg srv tr st" and "reliable_api cfg srv cl" and "\<not> cfg_read_only cfg"
  shows "lp_last_digest st = None \<and> lp_log st = [] \<or> tracks pf cfg cl tr st"
  using assms(1)
proof (induction rule: reachable.induct)
  case reach_init
  then show ?case by (simp add: loop_init_def)
next
  case (reach_step tr st r)
  have reconciles: "\<exists>log'. reconcile_once srv cfg (build_desired pf cfg dyn) log = (Inr (), log') \<and>
      cl log' = converged cfg (build_desired pf cfg dyn) (cl log')" for dyn log
    using reliable_api.reconcile_cluster [OF assms(2,3) run_wf] by (metis converged_idem)
  show ?case
  proof (cases rule: iteration_cases [of r pf cfg srv st])
    case (failed c e log)
    then show ?thesis using reconciles [of "cc_config c" "lp_log st"] by simp
  next
    case (applied c log)
    have "cl log = converged cfg (build_desired pf cfg (cc_config c)) (cl log)"
      using reconciles [of "cc_config c" "lp_log st"] applied(3) by simp
    then have "tracks pf cfg cl (tr @ [r]) (snd (iteration pf cfg srv r st))"
      using applied unfolding tracks_def by (intro bexI [of _ c]) auto
    then show ?thesis ..
  qed (use reach_step.IH in \<open>auto intro: tracks_same\<close>)
qed

section \<open>Conditional requests\<close>

text \<open>
  A Pangolin that has the configuration \<open>body\<close> during a turn and follows RFC 9110: it answers 304
  only to a request that carries the current entity tag, and success with this body and its tag.
  It may also fail in any way.
\<close>

definition serves :: "(string \<Rightarrow> string) \<Rightarrow> string \<Rightarrow> turn \<Rightarrow> bool" where
  "serves tag body t \<longleftrightarrow>
     (\<forall>req. case turn_pangolin t req of
        None \<Rightarrow> True
      | Some resp \<Rightarrow>
          (if hrep_status resp = 304 then (''if-none-match'', tag body) \<in> set (fr_headers req)
           else is_success (hrep_status resp) \<longrightarrow>
             hrep_etag resp = Some (tag body) \<and> hrep_bytes resp \<in> {None, Some body}))"

lemma if_none_match: "(''if-none-match'', x) \<in> set (fr_headers (fetch_request_of cl etag)) \<longleftrightarrow> etag = Some x"
  by (auto simp: fetch_request_of_def split: option.splits)

lemma poll_serves:
  assumes "serves tag body t"
  shows "poll lib cl t etag = Inr NotModified \<Longrightarrow> etag = Some (tag body)"
    and "poll lib cl t etag = Inr (Changed c) \<Longrightarrow>
      lib_decode lib body = Some (cc_config c) \<and> cc_etag c = Some (tag body) \<and> cc_digest c = lib_sha256_hex lib body"
proof -
  let ?req = "fetch_request_of cl etag"
  show "etag = Some (tag body)" if "poll lib cl t etag = Inr NotModified"
  proof -
    have "justified lib cl (turn_pangolin t ?req) (Inr NotModified)"
      using fetch_outcome_justified [of lib cl "turn_pangolin t ?req"] that by (simp add: poll_def)
    then obtain resp where "turn_pangolin t ?req = Some resp" "hrep_status resp = 304"
      by (auto simp: justified_def)
    then have "(''if-none-match'', tag body) \<in> set (fr_headers ?req)"
      using assms unfolding serves_def by (auto dest!: spec [where x = ?req])
    then show ?thesis by (simp add: if_none_match)
  qed
  show "lib_decode lib body = Some (cc_config c) \<and> cc_etag c = Some (tag body) \<and> cc_digest c = lib_sha256_hex lib body"
    if changed: "poll lib cl t etag = Inr (Changed c)"
  proof -
    obtain resp raw where "turn_pangolin t ?req = Some resp" "is_success (hrep_status resp)"
      "hrep_bytes resp = Some raw" "lib_decode lib raw = Some (cc_config c)"
      "cc_etag c = hrep_etag resp" "cc_digest c = lib_sha256_hex lib raw"
      using changed by (auto simp: poll_def fetch_Changed_iff)
    then show ?thesis using assms unfolding serves_def
      by (auto simp: is_success_def dest!: spec [where x = ?req] split: if_splits)
  qed
qed

text \<open>The tag and the digest that are kept are those of the configuration in the cluster.\<close>

definition describes ::
  "platform \<Rightarrow> client_lib \<Rightarrow> config \<Rightarrow> (log \<Rightarrow> cluster) \<Rightarrow> (string \<Rightarrow> string) \<Rightarrow> string \<Rightarrow> loop_state \<Rightarrow> bool" where
  "describes pf lib cfg cl tag body st \<longleftrightarrow>
     lp_last_etag st = Some (tag body) \<and> lp_last_digest st = Some (lib_sha256_hex lib body) \<and>
     (\<exists>dyn. lib_decode lib body = Some dyn \<and>
        cl (lp_log st) = converged cfg (build_desired pf cfg dyn) (cl (lp_log st)))"

definition in_sync ::
  "platform \<Rightarrow> client_lib \<Rightarrow> config \<Rightarrow> (log \<Rightarrow> cluster) \<Rightarrow> (string \<Rightarrow> string) \<Rightarrow> string set \<Rightarrow> loop_state \<Rightarrow> bool" where
  "in_sync pf lib cfg cl tag bodies st \<longleftrightarrow>
     lp_last_etag st = None \<and> lp_last_digest st = None \<or>
     (\<exists>body\<in>bodies. describes pf lib cfg cl tag body st)"

lemma describes_same:
  "describes pf lib cfg cl tag body st \<Longrightarrow> lp_last_etag st' = lp_last_etag st \<Longrightarrow>
     lp_last_digest st' = lp_last_digest st \<Longrightarrow> lp_log st' = lp_log st \<Longrightarrow> describes pf lib cfg cl tag body st'"
  by (simp add: describes_def)

lemma in_sync_step:
  fixes client :: client
  assumes sync: "in_sync pf lib cfg cl tag bodies st" and serves: "serves tag body t" and body: "body \<in> bodies"
    and inj: "inj_on tag bodies" "inj_on (lib_sha256_hex lib) bodies"
    and api: "reliable_api cfg srv cl" and ro: "\<not> cfg_read_only cfg"
  defines "r \<equiv> poll lib client t (lp_last_etag st)"
  defines "st' \<equiv> snd (iteration pf cfg srv r st)"
  shows "in_sync pf lib cfg cl tag bodies st'"
    and "r = Inr outcome \<Longrightarrow> describes pf lib cfg cl tag body st'"
proof -
  note [simp] = poll_serves [OF serves, of lib client "lp_last_etag st", folded r_def]
  have current: "describes pf lib cfg cl tag body st" if same:
    "lp_last_etag st = Some (tag body) \<or> lp_last_digest st = Some (lib_sha256_hex lib body)"
  proof -
    obtain body' where body': "body' \<in> bodies" "describes pf lib cfg cl tag body' st"
      using sync same by (auto simp: in_sync_def)
    then have "tag body' = tag body \<or> lib_sha256_hex lib body' = lib_sha256_hex lib body"
      using same by (auto simp: describes_def)
    then have "body' = body" using inj_onD [OF inj(1)] inj_onD [OF inj(2)] body body'(1) by blast
    with body'(2) show ?thesis by simp
  qed
  have cases: "describes pf lib cfg cl tag body st' \<or>
      (\<exists>e. r = Inl e) \<and> lp_last_etag st' = lp_last_etag st \<and> lp_last_digest st' = lp_last_digest st \<and> lp_log st' = lp_log st"
  proof (cases rule: iteration_cases [of r pf cfg srv st])
    case (not_modified)
    then have "describes pf lib cfg cl tag body st" by (intro current) simp
    then show ?thesis using not_modified(2) by (auto simp: st'_def elim!: describes_same)
  next
    case (unchanged c)
    then have "describes pf lib cfg cl tag body st" by (intro current) simp
    then show ?thesis using unchanged by (auto simp: st'_def describes_def opt_or_def)
  next
    case (failed c e log)
    then show ?thesis using reliable_api.reconcile_cluster [OF api ro run_wf] by (metis Pair_inject Inl_Inr_False)
  next
    case (applied c log)
    have "cl log = converged cfg (build_desired pf cfg (cc_config c)) (cl log)"
      using reliable_api.reconcile_cluster [OF api ro run_wf] applied(3) converged_idem by (metis Pair_inject)
    then show ?thesis using applied by (auto simp: st'_def describes_def opt_or_def)
  qed (simp add: st'_def)
  show "in_sync pf lib cfg cl tag bodies st'"
    using cases sync body by (auto simp: in_sync_def dest: describes_same)
  show "r = Inr outcome \<Longrightarrow> describes pf lib cfg cl tag body st'" using cases by auto
qed

lemma poll_succeeds:
  assumes api: "reliable_api cfg srv cl" and ro: "\<not> cfg_read_only cfg"
  shows "\<exists>st'. iteration pf cfg srv (Inr outcome) st = (cfg_poll_interval cfg, st') \<and> lp_ready st'"
proof (cases outcome)
  case NotModified
  then show ?thesis by (simp add: iteration_def Let_def)
next
  case (Changed c)
  obtain log where "reconcile_once srv cfg (build_desired pf cfg (cc_config c)) (lp_log st) = (Inr (), log)"
    by (rule reliable_api.reconcile_cluster [OF api ro run_wf])
  with Changed show ?thesis by (simp add: iteration_def Let_def)
qed

lemma run_in_sync:
  assumes "list_all2 (serves tag) bs ts" and "set bs \<subseteq> bodies" and "in_sync pf lib cfg cl tag bodies st"
    and "inj_on tag bodies" "inj_on (lib_sha256_hex lib) bodies" "reliable_api cfg srv cl" "\<not> cfg_read_only cfg"
    and "run_loop pf lib client cfg srv ts st \<in> {Running st', Returned st'}"
  shows "in_sync pf lib cfg cl tag bodies st'"
  using assms(1,2,3,8)
proof (induction arbitrary: st rule: list_all2_induct)
  case (Cons b bs t ts)
  let ?st = "snd (iteration pf cfg srv (poll lib client t (lp_last_etag st)) st)"
  have "in_sync pf lib cfg cl tag bodies ?st"
    using in_sync_step(1) [OF Cons.prems(2) Cons.hyps(1) _ assms(4-7)] Cons.prems(1) by simp
  then show ?case using Cons.IH [of ?st] Cons.prems by (auto simp: Let_def split: if_splits)
qed simp

lemma poll_current:
  assumes "run_loop pf lib client cfg srv ts loop_init = Running st"
    and "list_all2 (serves tag) bs ts" "serves tag body t"
    and "inj_on tag (insert body (set bs))" "inj_on (lib_sha256_hex lib) (insert body (set bs))"
    and api: "reliable_api cfg srv cl" "\<not> cfg_read_only cfg"
    and "poll lib client t (lp_last_etag st) = Inr outcome"
  shows "\<exists>dyn st'. lib_decode lib body = Some dyn \<and>
    iteration pf cfg srv (Inr outcome) st = (cfg_poll_interval cfg, st') \<and> lp_ready st' \<and>
    cl (lp_log st') = converged cfg (build_desired pf cfg dyn) (cl (lp_log st'))"
proof -
  have start: "in_sync pf lib cfg cl tag (insert body (set bs)) loop_init"
    by (simp add: in_sync_def loop_init_def)
  have "in_sync pf lib cfg cl tag (insert body (set bs)) st"
    using assms(1) by (intro run_in_sync [OF assms(2) _ start assms(4-7), where client = client and st' = st]) auto
  then have "describes pf lib cfg cl tag body (snd (iteration pf cfg srv (Inr outcome) st))"
    using in_sync_step(2) [OF _ assms(3) _ assms(4-7), where client = client and outcome = outcome] assms(8) by simp
  moreover obtain st' where "iteration pf cfg srv (Inr outcome) st = (cfg_poll_interval cfg, st')" "lp_ready st'"
    using poll_succeeds [OF api] by blast
  ultimately show ?thesis by (auto simp: describes_def)
qed

text \<open>
  The tag of an earlier configuration is kept when a reply has none: a later 304 for it is then
  taken to be about the newer configuration.
\<close>

lemma stale_tag_kept:
  assumes "reconcile_once srv cfg (build_desired pf cfg (cc_config c)) (lp_log st) = (Inr (), log)"
    and "cc_etag c = None" and "lp_last_digest st \<noteq> Some (cc_digest c)"
  defines "st1 \<equiv> snd (iteration pf cfg srv (Inr (Changed c)) st)"
  shows "lp_last_digest st1 = Some (cc_digest c)" and "lp_last_etag st1 = lp_last_etag st"
    and "lp_log (snd (iteration pf cfg srv (Inr NotModified) st1)) = log"
    and "lp_ready (snd (iteration pf cfg srv (Inr NotModified) st1))"
  using assms by (simp_all add: iteration_def Let_def opt_or_def)

text \<open>
  A failed reconcile leaves the digest of the configuration before it. When Pangolin then goes
  back to that configuration, nothing is applied, whatever the failed run had changed.
\<close>

lemma revert_after_failure_not_applied:
  assumes "lp_last_digest st = Some (cc_digest c0)" and "cc_digest c \<noteq> cc_digest c0"
    and "reconcile_once srv cfg (build_desired pf cfg (cc_config c)) (lp_log st) = (Inl e, log)"
  defines "st1 \<equiv> snd (iteration pf cfg srv (Inr (Changed c)) st)"
  shows "lp_log st1 = log" and "lp_log (snd (iteration pf cfg srv (Inr (Changed c0)) st1)) = log"
    and "lp_ready (snd (iteration pf cfg srv (Inr (Changed c0)) st1))"
  using assms by (simp_all add: iteration_def Let_def)

end
