(* ===== verification/Health.thy ===== *)
theory Health
  imports Prelude
begin

text \<open>
  \<^verbatim>\<open>src/health.rs\<close>: the probe endpoints. The flag is the \<open>lp_ready\<close> of the poll loop
  (\<open>Startup\<close> connects them); the router's answer to other paths and methods is axum's and is left out.
\<close>

definition set_ready :: "bool \<Rightarrow> bool" where
  "set_ready ready = True"

definition is_ready :: "bool \<Rightarrow> bool" where
  "is_ready ready = ready"

definition probe :: "string \<Rightarrow> bool \<Rightarrow> (nat \<times> string) option" where
  "probe path ready =
     (if path = ''/healthz'' then Some (200, ''ok'')
      else if path = ''/readyz'' then
        (if is_ready ready then Some (200, ''ready'')
         else Some (503, ''waiting for first successful reconcile''))
      else None)"

declare set_ready_def [exec] is_ready_def [exec] probe_def [exec]

end
