(* ===== verification/Shim.thy ===== *)
theory Shim
  imports Platform
begin

text \<open>
  \<^verbatim>\<open>src/shim.rs\<close>: the external authorization service that asks Pangolin whether a request may
  pass. Pangolin's API, the codec of \<^verbatim>\<open>application/x-www-form-urlencoded\<close> and the test for a
  valid header value belong to other code and are parameters (\<open>shim_lib\<close>). A response that the
  code builds with \<^verbatim>\<open>expect\<close> on a possibly bad header is \<open>Panic\<close> here when the header is bad.
\<close>

section \<open>Configuration\<close>

record shim_config =
  sc_listen :: string
  sc_pangolin_api_base_url :: url
  sc_path_prefix :: string
  sc_user_session_cookie_name :: string
  sc_resource_session_request_param :: string
  sc_timeout :: duration
  sc_ca_file :: "string option"
  sc_tls_skip_verify :: bool

datatype shim_error =
    MissingApiUrl
  | InvalidApiUrl
  | BadPathPrefix string
  | ShimTlsSkipVerifyNotAcknowledged
  | InvalidTimeout

definition optional :: "(string \<Rightarrow> string option) \<Rightarrow> string \<Rightarrow> string option" where
  "optional env key = (case env key of Some v \<Rightarrow> if v = [] then None else Some v | None \<Rightarrow> None)"

definition unwrap_or :: "'a \<Rightarrow> 'a option \<Rightarrow> 'a" where
  "unwrap_or d x = (case x of None \<Rightarrow> d | Some v \<Rightarrow> v)"

definition shim_from_env :: "platform \<Rightarrow> (string \<Rightarrow> string option) \<Rightarrow> shim_error + shim_config" where
  "shim_from_env pf env =
     try_then (ok_or MissingApiUrl (env ''SHIM_PANGOLIN_API_BASE_URL'')) (\<lambda>api_raw.
     try_then (ok_or InvalidApiUrl (url_parse pf (trim_end_matches CHR ''/'' api_raw))) (\<lambda>base.
     let path_prefix = unwrap_or ''/verify'' (optional env ''SHIM_PATH_PREFIX'')
     in if path_prefix \<noteq> [] \<and> \<not> starts_with ''/'' path_prefix then Inl (BadPathPrefix path_prefix)
        else
          let skip = (case optional env ''SHIM_TLS_SKIP_VERIFY'' of
                        None \<Rightarrow> False
                      | Some v \<Rightarrow> to_ascii_lowercase v \<in> set [''1'', ''true'', ''yes'', ''on'']);
              ack = (case optional env ''I_UNDERSTAND_SHIM_TLS_SKIP_VERIFY_IS_INSECURE'' of
                       None \<Rightarrow> False
                     | Some v \<Rightarrow> eq_ignore_ascii_case v ''true'')
          in if skip \<and> \<not> ack then Inl ShimTlsSkipVerifyNotAcknowledged
             else
               try_then (case optional env ''SHIM_PANGOLIN_TIMEOUT'' of
                           None \<Rightarrow> Inr (from_secs 10)
                         | Some v \<Rightarrow> ok_or InvalidTimeout (parse_duration pf v)) (\<lambda>timeout.
               Inr \<lparr>sc_listen = unwrap_or ''0.0.0.0:9001'' (optional env ''SHIM_LISTEN''),
                    sc_pangolin_api_base_url = base,
                    sc_path_prefix = path_prefix,
                    sc_user_session_cookie_name =
                      unwrap_or ''p_session_token'' (optional env ''SHIM_USER_SESSION_COOKIE_NAME''),
                    sc_resource_session_request_param =
                      unwrap_or ''p_session_request'' (optional env ''SHIM_RESOURCE_SESSION_REQUEST_PARAM''),
                    sc_timeout = timeout,
                    sc_ca_file = optional env ''SHIM_CA_FILE'',
                    sc_tls_skip_verify = skip\<rparr>)))"

section \<open>Pure helpers\<close>

definition strip_path_prefix :: "string \<Rightarrow> string \<Rightarrow> string option" where
  "strip_path_prefix pre path_and_query =
     (if pre = [] \<or> pre = ''/'' then Some path_and_query
      else
        case strip_prefix (trim_end_matches CHR ''/'' pre) path_and_query of
          None \<Rightarrow> None
        | Some rest \<Rightarrow>
            (if rest = [] then Some ''/''
             else if starts_with ''/'' rest \<or> starts_with ''?'' rest then
               Some (if starts_with ''?'' rest then ''/'' @ rest else rest)
             else None))"

definition session_step :: "string \<Rightarrow> string \<Rightarrow> (string \<times> string) list \<Rightarrow> (string \<times> string) list" where
  "session_step name_prefix pair sessions =
     (case split_once CHR ''='' pair of
        None \<Rightarrow> sessions
      | Some (name, v) \<Rightarrow>
          (let name = trim name
           in if name \<noteq> [] \<and> starts_with name_prefix name then bt_insert name (trim v) sessions
              else sessions))"

definition collect_sessions :: "string \<Rightarrow> string \<Rightarrow> (string \<times> string) list" where
  "collect_sessions cookie_header name_prefix =
     fold (session_step name_prefix) (split_on CHR '';'' cookie_header) []"

text \<open>\<^verbatim>\<open>form_urlencoded::parse\<close> and a finished \<^verbatim>\<open>Serializer\<close>; \<^verbatim>\<open>HeaderValue::from_str\<close> is ok.\<close>

record shim_codec =
  form_parse :: "string \<Rightarrow> (string \<times> string) list"
  form_serialize :: "(string \<times> string) list \<Rightarrow> string"
  header_value_ok :: "string \<Rightarrow> bool"

definition parse_query :: "shim_codec \<Rightarrow> string \<Rightarrow> (string \<times> string) list" where
  "parse_query lib query = fold (\<lambda>(k, v). bt_or_insert k v) (form_parse lib query) []"

definition strip_query_param :: "shim_codec \<Rightarrow> string \<Rightarrow> string \<Rightarrow> string" where
  "strip_query_param lib path_and_query param =
     (case split_once CHR ''?'' path_and_query of
        None \<Rightarrow> path_and_query
      | Some (path, query) \<Rightarrow>
          (let kept = filter (\<lambda>(k, v). k \<noteq> param) (form_parse lib query)
           in if kept \<noteq> [] then path @ ''?'' @ form_serialize lib kept else path))"

text \<open>The names are those of HTTP headers, whose characters are single bytes.\<close>

definition canonical_segment :: "string \<Rightarrow> string" where
  "canonical_segment seg =
     (case seg of [] \<Rightarrow> [] | c # cs \<Rightarrow> char_to_upper c # to_ascii_lowercase cs)"

definition canonical_header :: "string \<Rightarrow> string" where
  "canonical_header name = join ''-'' (map canonical_segment (split_on CHR ''-'' name))"

section \<open>Requests and replies\<close>

text \<open>
  A request: its headers in order, names in lower case, a value being \<^term>\<open>None\<close> when it
  is not readable as text.
\<close>

record check_request =
  cr_path_and_query :: "string option"
  cr_method :: string
  cr_headers :: "(string \<times> string option) list"

definition header_str :: "check_request \<Rightarrow> string \<Rightarrow> string option" where
  "header_str req key = (case map_of (cr_headers req) key of None \<Rightarrow> None | Some v \<Rightarrow> v)"

definition header_entry :: "string \<times> string option \<Rightarrow> (string \<times> string) list \<Rightarrow> (string \<times> string) list" where
  "header_entry nv out =
     (let (name, val) = nv
      in if name = ''cookie'' then out
         else case val of None \<Rightarrow> out | Some v \<Rightarrow> bt_or_insert (canonical_header name) v out)"

definition collect_headers :: "check_request \<Rightarrow> (string \<times> string) list" where
  "collect_headers req = fold header_entry (cr_headers req) []"

record verify_body =
  vb_sessions :: "(string \<times> string) list"
  vb_headers :: "(string \<times> string) list"
  vb_query :: "(string \<times> string) list"
  vb_original_request_url :: string
  vb_scheme :: string
  vb_host :: string
  vb_path :: string
  vb_method :: string
  vb_tls :: bool
  vb_request_ip :: "string option"

record user_data =
  ud_user_id :: "string option"
  ud_username :: "string option"
  ud_email :: "string option"
  ud_name :: "string option"
  ud_role :: "string option"

record verify_data =
  vd_valid :: bool
  vd_redirect_url :: "string option"
  vd_header_auth_challenged :: "bool option"
  vd_user_data :: "user_data option"

record exchange_body =
  xb_request_token :: string
  xb_host :: string
  xb_request_ip :: "string option"

record exchange_data =
  xd_valid :: bool
  xd_cookie :: "string option"

definition default_verify_data :: verify_data where
  "default_verify_data = \<lparr>vd_valid = False, vd_redirect_url = None, vd_header_auth_challenged = None,
     vd_user_data = None\<rparr>"

definition default_exchange_data :: exchange_data where
  "default_exchange_data = \<lparr>xd_valid = False, xd_cookie = None\<rparr>"

text \<open>Pangolin's answer to a POST: not sent, or a status and the decoded body, if it decodes.\<close>

datatype 'a api_reply = SendFailed | Reply nat "'a option"

text \<open>\<open>post\<close> gets the URL and the body.\<close>

record shim_lib = shim_codec +
  post_verify :: "url \<Rightarrow> verify_body \<Rightarrow> verify_data api_reply"
  post_exchange :: "url \<Rightarrow> exchange_body \<Rightarrow> exchange_data api_reply"

datatype call_error = BadEndpoint | CallSend | CallDecode

definition endpoint :: "platform \<Rightarrow> url \<Rightarrow> string \<Rightarrow> call_error + url" where
  "endpoint pf base path =
     ok_or BadEndpoint (url_parse pf (trim_end_matches CHR ''/'' (url_as_str base) @ ''/'' @ path))"

definition ok_status :: "nat \<Rightarrow> bool" where
  "ok_status status \<longleftrightarrow> 200 \<le> status \<and> status < 300"

text \<open>The common end of both calls: a body counts whatever the status; without one, only an
  error status gives the default.\<close>

definition read_reply :: "'a \<Rightarrow> 'a api_reply \<Rightarrow> call_error + 'a" where
  "read_reply dflt reply =
     (case reply of
        SendFailed \<Rightarrow> Inl CallSend
      | Reply status (Some data) \<Rightarrow> Inr data
      | Reply status None \<Rightarrow> if ok_status status then Inl CallDecode else Inr dflt)"

definition verify_session ::
  "platform \<Rightarrow> shim_lib \<Rightarrow> shim_config \<Rightarrow> verify_body \<Rightarrow> call_error + verify_data" where
  "verify_session pf lib cfg body =
     try_then (endpoint pf (sc_pangolin_api_base_url cfg) ''badger/verify-session'') (\<lambda>u.
       read_reply default_verify_data (post_verify lib u body))"

definition exchange_session ::
  "platform \<Rightarrow> shim_lib \<Rightarrow> shim_config \<Rightarrow> string \<Rightarrow> string \<Rightarrow> string option \<Rightarrow> call_error + exchange_data" where
  "exchange_session pf lib cfg token host request_ip =
     try_then (endpoint pf (sc_pangolin_api_base_url cfg) ''badger/exchange-session'') (\<lambda>u.
       read_reply default_exchange_data
         (post_exchange lib u
           \<lparr>xb_request_token = token, xb_host = hd (split_on CHR '':'' host), xb_request_ip = request_ip\<rparr>))"

declare optional_def [exec] unwrap_or_def [exec] shim_from_env_def [exec] strip_path_prefix_def [exec]
  session_step_def [exec] collect_sessions_def [exec] parse_query_def [exec] strip_query_param_def [exec]
  canonical_segment_def [exec] canonical_header_def [exec] header_str_def [exec] header_entry_def [exec]
  collect_headers_def [exec] default_verify_data_def [exec] default_exchange_data_def [exec]
  endpoint_def [exec] ok_status_def [exec] read_reply_def [exec] verify_session_def [exec]
  exchange_session_def [exec]

section \<open>The check\<close>

record reply =
  re_status :: nat
  re_headers :: "(string \<times> string) list"

datatype outcome = Respond reply | Panic

definition plain :: "nat \<Rightarrow> outcome" where
  "plain status = Respond \<lparr>re_status = status, re_headers = []\<rparr>"

definition user_headers :: "shim_lib \<Rightarrow> user_data \<Rightarrow> (string \<times> string) list" where
  "user_headers lib user =
     List.map_filter (\<lambda>(name, v). case v of
         Some s \<Rightarrow> if header_value_ok lib s then Some (name, s) else None
       | None \<Rightarrow> None)
       [(''remote-user-id'', ud_user_id user), (''remote-user'', ud_username user),
        (''remote-email'', ud_email user), (''remote-name'', ud_name user),
        (''remote-role'', ud_role user)]"

text \<open>The last part of \<open>check\<close>: what Pangolin's verdict means to Envoy.\<close>

definition answer :: "shim_lib \<Rightarrow> call_error + verify_data \<Rightarrow> outcome" where
  "answer lib verdict =
     (case verdict of
        Inl _ \<Rightarrow> plain 503
      | Inr data \<Rightarrow>
          (case vd_redirect_url data of
             Some (c # redirect) \<Rightarrow>
               (if header_value_ok lib (c # redirect)
                then Respond \<lparr>re_status = 302, re_headers = [(''location'', c # redirect)]\<rparr>
                else plain 503)
           | _ \<Rightarrow>
               (if unwrap_or False (vd_header_auth_challenged data) then
                  Respond \<lparr>re_status = 401, re_headers = [(''www-authenticate'', ''Basic realm=\"pangolin\"'')]\<rparr>
                else if vd_valid data then
                  Respond \<lparr>re_status = 200,
                    re_headers = (case vd_user_data data of None \<Rightarrow> [] | Some user \<Rightarrow> user_headers lib user)\<rparr>
                else plain 401)))"

definition request_ip_of :: "check_request \<Rightarrow> string option" where
  "request_ip_of req =
     (case header_str req ''x-forwarded-for'' of
        None \<Rightarrow> None
      | Some v \<Rightarrow> (let ip = trim (hd (split_on CHR '','' v)) in if ip = [] then None else Some ip))"

definition split_path :: "string \<Rightarrow> string \<times> string" where
  "split_path pq = (case split_once CHR ''?'' pq of Some (p, q) \<Rightarrow> (p, q) | None \<Rightarrow> (pq, []))"

definition verify_body_of ::
  "shim_lib \<Rightarrow> shim_config \<Rightarrow> check_request \<Rightarrow> string \<Rightarrow> string \<Rightarrow> string \<Rightarrow> verify_body" where
  "verify_body_of lib cfg req original_path_q scheme host =
     (let (path_only, query_str) = split_path original_path_q
      in \<lparr>vb_sessions = collect_sessions (unwrap_or [] (header_str req ''cookie'')) (sc_user_session_cookie_name cfg),
          vb_headers = collect_headers req,
          vb_query = parse_query (shim_codec.truncate lib) query_str,
          vb_original_request_url = scheme @ ''://'' @ host @ original_path_q,
          vb_scheme = scheme, vb_host = host, vb_path = path_only, vb_method = cr_method req,
          vb_tls = (scheme = ''https''), vb_request_ip = request_ip_of req\<rparr>)"

text \<open>The handoff of a session-request token: a response, or go on with the verification.\<close>

definition handoff ::
  "shim_lib \<Rightarrow> shim_config \<Rightarrow> call_error + exchange_data \<Rightarrow> string \<Rightarrow> string \<Rightarrow> string \<Rightarrow> outcome option" where
  "handoff lib cfg exchanged original_path_q scheme host =
     (case exchanged of
        Inl _ \<Rightarrow> Some (plain 503)
      | Inr data \<Rightarrow>
          (case (xd_valid data, xd_cookie data) of
             (True, Some (c # cookie)) \<Rightarrow>
               (let location = scheme @ ''://'' @ host @
                      strip_query_param (shim_codec.truncate lib) original_path_q (sc_resource_session_request_param cfg)
                in if \<not> header_value_ok lib (c # cookie) then Some (plain 503)
                   else if \<not> header_value_ok lib location then Some Panic
                   else Some (Respond \<lparr>re_status = 302,
                          re_headers = [(''location'', location), (''set-cookie'', c # cookie)]\<rparr>))
           | _ \<Rightarrow> None))"

definition original_path :: "shim_config \<Rightarrow> check_request \<Rightarrow> string" where
  "original_path cfg req =
     (let full_path = unwrap_or ''/'' (cr_path_and_query req)
      in unwrap_or full_path (strip_path_prefix (sc_path_prefix cfg) full_path))"

definition check :: "platform \<Rightarrow> shim_lib \<Rightarrow> shim_config \<Rightarrow> check_request \<Rightarrow> outcome" where
  "check pf lib cfg req =
     (let original_path_q = original_path cfg req;
          host = unwrap_or [] (header_str req ''host'')
      in if host = [] then plain 400
         else
           let scheme = unwrap_or ''https'' (header_str req ''x-forwarded-proto'');
               query = parse_query (shim_codec.truncate lib) (snd (split_path original_path_q));
               early = (case bt_get query (sc_resource_session_request_param cfg) of
                          None \<Rightarrow> None
                        | Some token \<Rightarrow>
                            handoff lib cfg (exchange_session pf lib cfg token host (request_ip_of req))
                              original_path_q scheme host)
           in case early of
                Some response \<Rightarrow> response
              | None \<Rightarrow> answer lib (verify_session pf lib cfg
                          (verify_body_of lib cfg req original_path_q scheme host)))"

text \<open>
  \<^verbatim>\<open>router\<close>: the health route is matched first, by its path alone, and every other path goes to
  \<open>check\<close>. As in axum, a \<^verbatim>\<open>get\<close> route also answers HEAD, and refuses other methods itself.
\<close>

definition shim_router :: "platform \<Rightarrow> shim_lib \<Rightarrow> shim_config \<Rightarrow> check_request \<Rightarrow> outcome" where
  "shim_router pf lib cfg req =
     (if fst (split_path (unwrap_or ''/'' (cr_path_and_query req))) = ''/healthz'' then
        (if cr_method req \<in> {''GET'', ''HEAD''} then plain 200
         else Respond \<lparr>re_status = 405, re_headers = [(''allow'', ''GET,HEAD'')]\<rparr>)
      else check pf lib cfg req)"

text \<open>\<^verbatim>\<open>build_http_client\<close>: the settings of the client that talks to Pangolin.\<close>

record shim_http_options =
  sh_root_certificates :: "string list"
  sh_accept_invalid_certs :: bool

datatype shim_client_error = ReadingShimCaFile string | ParsingShimCaFile string | BuildingShimClient

definition build_http_client ::
  "(string \<Rightarrow> string option) \<Rightarrow> (string \<Rightarrow> string list option) \<Rightarrow> (shim_http_options \<Rightarrow> bool) \<Rightarrow>
     shim_config \<Rightarrow> shim_client_error + shim_http_options" where
  "build_http_client read_file pem_bundle build_ok cfg =
     (let builder = \<lparr>sh_root_certificates = [], sh_accept_invalid_certs = False\<rparr>
      in try_then (case sc_ca_file cfg of
                     None \<Rightarrow> Inr builder
                   | Some path \<Rightarrow>
                       try_then (ok_or (ReadingShimCaFile path) (read_file path)) (\<lambda>pem.
                       try_then (ok_or (ParsingShimCaFile path) (pem_bundle pem)) (\<lambda>cert.
                       Inr (fold (\<lambda>c b. b\<lparr>sh_root_certificates := sh_root_certificates b @ [c]\<rparr>) cert builder))))
           (\<lambda>builder.
             let builder = (if sc_tls_skip_verify cfg then builder\<lparr>sh_accept_invalid_certs := True\<rparr> else builder)
             in if build_ok builder then Inr builder else Inl BuildingShimClient))"

declare plain_def [exec] user_headers_def [exec] answer_def [exec] request_ip_of_def [exec]
  split_path_def [exec] verify_body_of_def [exec] handoff_def [exec] original_path_def [exec]
  check_def [exec]

section \<open>Lemmas on the helpers\<close>

lemma starts_with_Cons: "starts_with [c] s \<longleftrightarrow> s \<noteq> [] \<and> hd s = c"
  by (cases s) (auto simp: starts_with_iff)

lemma strip_path_prefix_spec:
  assumes "pre \<noteq> []" "pre \<noteq> ''/''"
  shows "strip_path_prefix pre pq = Some r \<longleftrightarrow>
    (let base = trim_end_matches CHR ''/'' pre
     in (pq = base \<and> r = ''/'') \<or> (\<exists>s. pq = base @ ''/'' @ s \<and> r = ''/'' @ s) \<or>
        (\<exists>s. pq = base @ ''?'' @ s \<and> r = ''/?'' @ s))"
proof (cases "strip_prefix (trim_end_matches CHR ''/'' pre) pq")
  case None
  then have "pq \<noteq> trim_end_matches CHR ''/'' pre @ s" for s
    using strip_prefix_append by (metis option.distinct(1))
  from this [of "[]"] this show ?thesis using None assms by (auto simp: strip_path_prefix_def Let_def)
next
  case (Some rest)
  then have pq: "pq = trim_end_matches CHR ''/'' pre @ rest" by (simp add: strip_prefix_Some_iff)
  show ?thesis
    using Some assms by (cases rest) (auto simp: strip_path_prefix_def pq Let_def starts_with_Cons)
qed

lemma session_step_in:
  "e \<in> set (session_step pre pair m) \<Longrightarrow>
     e \<in> set m \<or> (\<exists>n v. pair = n @ ''='' @ v \<and> e = (trim n, trim v) \<and> trim n \<noteq> [] \<and> starts_with pre (trim n))"
proof (cases "split_once CHR ''='' pair")
  case None
  then show "e \<in> set (session_step pre pair m) \<Longrightarrow> ?thesis" by (simp add: session_step_def)
next
  case (Some nv)
  obtain n v where nv: "nv = (n, v)" by fastforce
  have pair: "pair = n @ ''='' @ v" using Some by (simp add: nv split_once_Some_iff)
  assume e: "e \<in> set (session_step pre pair m)"
  show ?thesis
  proof (cases "trim n \<noteq> [] \<and> starts_with pre (trim n)")
    case True
    then have "e = (trim n, trim v) \<or> e \<in> set m"
      using e Some by (auto simp: session_step_def nv dest: in_bt_insertD)
    with True pair show ?thesis by blast
  next
    case False
    then show ?thesis using e Some by (auto simp: session_step_def nv Let_def)
  qed
qed

lemma collect_sessions_in:
  assumes "(name, val) \<in> set (collect_sessions header pre)"
  shows "starts_with pre name \<and> name \<noteq> [] \<and>
    (\<exists>n v. n @ ''='' @ v \<in> set (split_on CHR '';'' header) \<and> name = trim n \<and> val = trim v)"
proof -
  let ?ps = "split_on CHR '';'' header"
  let ?P = "\<lambda>m. \<forall>e\<in>set m. starts_with pre (fst e) \<and> fst e \<noteq> [] \<and>
    (\<exists>n v. n @ ''='' @ v \<in> set ?ps \<and> fst e = trim n \<and> snd e = trim v)"
  have "?P (fold (session_step pre) ?ps [])"
  proof (rule fold_invariant_in)
    fix pair m assume pair: "pair \<in> set ?ps" and m: "?P m"
    show "?P (session_step pre pair m)"
    proof
      fix e assume "e \<in> set (session_step pre pair m)"
      from session_step_in [OF this] show "starts_with pre (fst e) \<and> fst e \<noteq> [] \<and>
          (\<exists>n v. n @ ''='' @ v \<in> set ?ps \<and> fst e = trim n \<and> snd e = trim v)"
      proof
        assume "e \<in> set m"
        with m show ?thesis by blast
      next
        assume "\<exists>n v. pair = n @ ''='' @ v \<and> e = (trim n, trim v) \<and> trim n \<noteq> [] \<and> starts_with pre (trim n)"
        with pair show ?thesis by (metis fst_conv snd_conv)
      qed
    qed
  qed simp
  then show ?thesis using assms unfolding collect_sessions_def by fastforce
qed

lemma parse_query_get: "bt_get (parse_query lib q) k = map_of (form_parse lib q) k"
  using bt_get_or_insert_all [of "[]" "form_parse lib q"]
  by (simp add: parse_query_def) (simp add: bt_get_def map_add_def split: option.split)

definition codec_ok :: "shim_codec \<Rightarrow> bool" where
  "codec_ok lib \<longleftrightarrow>
     form_parse lib [] = [] \<and> (\<forall>kvs. kvs \<noteq> [] \<longrightarrow> form_parse lib (form_serialize lib kvs) = kvs)"

lemma split_path_append: "CHR ''?'' \<notin> set p \<Longrightarrow> split_path (p @ ''?'' @ q) = (p, q)"
  using split_once_Some_iff [of "CHR ''?''" "p @ ''?'' @ q" p q] by (simp add: split_path_def)

lemma split_path_fst: "CHR ''?'' \<notin> set (fst (split_path pq))"
  by (auto simp: split_path_def split_once_Some_iff split_once_None_iff split: option.splits)

lemma split_path_id: "CHR ''?'' \<notin> set p \<Longrightarrow> split_path p = (p, [])"
  by (simp add: split_path_def split_once_None_iff [THEN iffD2])

lemma strip_query_param_eq:
  assumes "form_parse lib [] = []"
  shows "strip_query_param lib pq param =
    (let (path, query) = split_path pq; kept = filter (\<lambda>(k, v). k \<noteq> param) (form_parse lib query)
     in if kept = [] then path else path @ ''?'' @ form_serialize lib kept)"
  using assms by (simp add: strip_query_param_def split_path_def Let_def split: option.split)

lemma strip_query_param_aux:
  assumes "codec_ok lib"
  shows "fst (split_path (strip_query_param lib pq param)) = fst (split_path pq)"
    and "form_parse lib (snd (split_path (strip_query_param lib pq param))) =
      filter (\<lambda>(k, v). k \<noteq> param) (form_parse lib (snd (split_path pq)))"
proof -
  obtain path query where pq: "split_path pq = (path, query)" by fastforce
  have path: "CHR ''?'' \<notin> set path" using split_path_fst [of pq] by (simp add: pq)
  let ?kept = "filter (\<lambda>(k, v). k \<noteq> param) (form_parse lib query)"
  have eq: "strip_query_param lib pq param =
      (if ?kept = [] then path else path @ ''?'' @ form_serialize lib ?kept)"
    using assms strip_query_param_eq [of lib pq param] by (simp add: codec_ok_def pq)
  show "fst (split_path (strip_query_param lib pq param)) = fst (split_path pq)"
    by (simp only: eq pq split_path_append [OF path] split_path_id [OF path] fst_conv split: if_split) simp
  show "form_parse lib (snd (split_path (strip_query_param lib pq param))) =
      filter (\<lambda>(k, v). k \<noteq> param) (form_parse lib (snd (split_path pq)))"
  proof (cases "?kept = []")
    case True
    then have "strip_query_param lib pq param = path" using eq by simp
    then show ?thesis using assms True split_path_id [OF path] by (simp add: codec_ok_def pq)
  next
    case False
    then show ?thesis
      using assms by (simp only: eq pq if_False split_path_append [OF path] snd_conv) (simp add: codec_ok_def)
  qed
qed

section \<open>Canonical header names\<close>

lemma char_to_lower_upper [simp]: "char_to_lower (char_to_upper c) = char_to_lower c"
proof (cases "is_lower c")
  case True
  then have up: "is_upper (set_bit5 False c)" by (metis char_to_upper_def is_upper_to_upper)
  moreover have "set_bit5 True c = c"
  proof -
    have "byte (set_bit5 False c) + 32 = byte c" using True by (rule set_bit5_byte')
    moreover have "byte (set_bit5 True (set_bit5 False c)) = byte (set_bit5 False c) + 32"
      using up by (rule set_bit5_byte)
    ultimately show ?thesis by (metis byte_inject set_bit5_set_bit5)
  qed
  ultimately show ?thesis
    using True lower_not_upper [OF True] by (simp add: char_to_upper_def char_to_lower_def)
next
  case False
  then show ?thesis by (simp add: char_to_upper_def)
qed

lemma lower_canonical_segment: "to_ascii_lowercase (canonical_segment s) = to_ascii_lowercase s"
  by (cases s) (simp_all add: canonical_segment_def to_ascii_lowercase_def)

lemma lower_join: "to_ascii_lowercase (join d xs) = join (to_ascii_lowercase d) (map to_ascii_lowercase xs)"
  by (induction d xs rule: join.induct) (auto simp: to_ascii_lowercase_def)

lemma lower_canonical: "to_ascii_lowercase (canonical_header s) = to_ascii_lowercase s"
proof -
  have "to_ascii_lowercase (canonical_header s) =
      join (to_ascii_lowercase ''-'') (map to_ascii_lowercase (split_on CHR ''-'' s))"
    by (simp add: canonical_header_def lower_join comp_def lower_canonical_segment)
  also have "\<dots> = to_ascii_lowercase s" by (simp add: lower_join [symmetric] join_split_on)
  finally show ?thesis .
qed

lemma canonical_inj:
  assumes "to_ascii_lowercase a = a" "to_ascii_lowercase b = b" "canonical_header a = canonical_header b"
  shows "a = b"
  using assms lower_canonical by metis

lemma case_dash: "char_to_upper c = CHR ''-'' \<Longrightarrow> c = CHR ''-''" "char_to_lower c = CHR ''-'' \<Longrightarrow> c = CHR ''-''"
proof -
  have d: "\<not> is_upper CHR ''-''" "\<not> is_lower CHR ''-''" by (simp_all add: is_upper_def is_lower_def byte_def)
  show "char_to_upper c = CHR ''-'' \<Longrightarrow> c = CHR ''-''"
    using is_upper_to_upper [of c] d by (metis char_to_upper_def)
  show "char_to_lower c = CHR ''-'' \<Longrightarrow> c = CHR ''-''"
    using is_lower_to_lower [of c] d by (metis char_to_lower_def)
qed

lemma canonical_segment_no_dash: "CHR ''-'' \<notin> set s \<Longrightarrow> CHR ''-'' \<notin> set (canonical_segment s)"
proof (cases s)
  case (Cons c cs)
  assume "CHR ''-'' \<notin> set s"
  then have "CHR ''-'' \<noteq> char_to_upper c" "CHR ''-'' \<notin> char_to_lower ` set cs"
    using case_dash [of c] case_dash(2) by (auto simp: Cons) (metis case_dash(1))+
  then show ?thesis by (simp add: Cons canonical_segment_def to_ascii_lowercase_def)
qed (simp add: canonical_segment_def)

lemma canonical_segment_idem: "canonical_segment (canonical_segment s) = canonical_segment s"
  by (cases s) (simp_all add: canonical_segment_def)

lemma canonical_idem_aux: "canonical_header (canonical_header s) = canonical_header s"
proof -
  let ?segs = "map canonical_segment (split_on CHR ''-'' s)"
  have "\<forall>p\<in>set ?segs. CHR ''-'' \<notin> set p"
    using split_on_pieces [of "CHR ''-''" s] canonical_segment_no_dash by auto
  then have "split_on CHR ''-'' (join ''-'' ?segs) = ?segs" by (intro split_on_join) simp_all
  then show ?thesis
    by (simp add: canonical_header_def comp_def canonical_segment_idem)
qed

text \<open>The readable headers but the cookies, under their names.\<close>

definition readable :: "check_request \<Rightarrow> (string \<times> string) list" where
  "readable req =
     List.map_filter (\<lambda>(n, v). if n = ''cookie'' then None else map_option (Pair n) v) (cr_headers req)"

lemma collect_headers_readable:
  "collect_headers req =
     fold (\<lambda>(k, v). bt_or_insert k v) (map (\<lambda>(n, v). (canonical_header n, v)) (readable req)) []"
proof -
  have "fold header_entry hs m =
      fold (\<lambda>(k, v). bt_or_insert k v)
        (map (\<lambda>(n, v). (canonical_header n, v))
          (List.map_filter (\<lambda>(n, v). if n = ''cookie'' then None else map_option (Pair n) v) hs)) m" for hs m
  proof (induction hs arbitrary: m)
    case (Cons h hs)
    obtain n v where h: "h = (n, v)" by fastforce
    have "header_entry h m = (case (if n = ''cookie'' then None else map_option (Pair n) v) of
        None \<Rightarrow> m | Some (n, v) \<Rightarrow> bt_or_insert (canonical_header n) v m)"
      by (cases v) (auto simp: h header_entry_def)
    then show ?case
      by (simp add: Cons h map_filter_simps split: option.split)
  qed (simp add: map_filter_simps)
  then show ?thesis by (simp add: collect_headers_def readable_def)
qed

lemma map_of_inj_key:
  assumes "\<forall>(n', v)\<in>set kvs. f n' = f n \<longrightarrow> n' = n"
  shows "map_of (map (\<lambda>(n, v). (f n, v)) kvs) (f n) = map_of kvs n"
  using assms by (induction kvs) auto

lemma collect_headers_get:
  assumes "\<forall>(n', v)\<in>set (cr_headers req). to_ascii_lowercase n' = n'" and "to_ascii_lowercase n = n"
  shows "bt_get (collect_headers req) (canonical_header n) = map_of (readable req) n"
proof -
  have "\<forall>(n', v)\<in>set (readable req). canonical_header n' = canonical_header n \<longrightarrow> n' = n"
    using assms canonical_inj
    by (fastforce simp: readable_def List.map_filter_def split: if_splits)
  then have "map_of (map (\<lambda>(n, v). (canonical_header n, v)) (readable req)) (canonical_header n) =
      map_of (readable req) n" by (rule map_of_inj_key)
  moreover have "bt_get (fold (\<lambda>(k, v). bt_or_insert k v) kvs []) = map_of kvs" for kvs :: "(string \<times> string) list"
    using bt_get_or_insert_all [of "[]" kvs] by (simp add: bt_get_def fun_eq_iff map_add_def split: option.split)
  ultimately show ?thesis by (simp add: collect_headers_readable)
qed

section \<open>Lemmas on the check\<close>

text \<open>Pangolin let the request with this body pass.\<close>

definition allowed :: "verify_data \<Rightarrow> bool" where
  "allowed data \<longleftrightarrow>
     vd_valid data \<and> vd_redirect_url data \<in> {None, Some []} \<and> vd_header_auth_challenged data \<noteq> Some True"

lemma answer_200: "answer lib verdict = Respond r \<Longrightarrow> re_status r = 200 \<Longrightarrow> \<exists>data. verdict = Inr data \<and> allowed data"
  by (auto simp: answer_def plain_def allowed_def unwrap_or_def
      split: sum.splits option.splits list.splits if_splits)

lemma handoff_not_200: "handoff lib cfg x p s h = Some (Respond r) \<Longrightarrow> re_status r \<noteq> 200"
  by (auto simp: handoff_def plain_def Let_def split: sum.splits option.splits list.splits bool.splits if_splits)

lemma verify_session_allowed:
  assumes "verify_session pf lib cfg body = Inr data" "vd_valid data"
  shows "\<exists>u st. post_verify lib u body = Reply st (Some data)"
proof -
  obtain u where u: "read_reply default_verify_data (post_verify lib u body) = Inr data"
    using assms(1) by (auto simp: verify_session_def try_then_Inr_iff)
  have "data \<noteq> default_verify_data" using assms(2) by (auto simp: default_verify_data_def)
  then show ?thesis
    using u by (cases "post_verify lib u body") (auto simp: read_reply_def split: option.splits if_splits)
qed

definition scheme_of :: "check_request \<Rightarrow> string" where
  "scheme_of req = unwrap_or ''https'' (header_str req ''x-forwarded-proto'')"

definition host_of :: "check_request \<Rightarrow> string" where
  "host_of req = unwrap_or [] (header_str req ''host'')"

definition body_of :: "shim_lib \<Rightarrow> shim_config \<Rightarrow> check_request \<Rightarrow> verify_body" where
  "body_of lib cfg req = verify_body_of lib cfg req (original_path cfg req) (scheme_of req) (host_of req)"

text \<open>A check is refused at once, ends in the handoff of a token, or is Pangolin's verdict.\<close>

lemma check_cases:
  obtains (no_host) "host_of req = []" "check pf lib cfg req = plain 400"
  | (handed) token out where "host_of req \<noteq> []"
      "handoff lib cfg (exchange_session pf lib cfg token (host_of req) (request_ip_of req))
         (original_path cfg req) (scheme_of req) (host_of req) = Some out"
      "check pf lib cfg req = out"
  | (verified) "host_of req \<noteq> []"
      "check pf lib cfg req = answer lib (verify_session pf lib cfg (body_of lib cfg req))"
proof (cases "host_of req = []")
  case True
  then show ?thesis by (intro no_host) (simp_all add: check_def host_of_def Let_def)
next
  case False
  let ?query = "parse_query (shim_codec.truncate lib) (snd (split_path (original_path cfg req)))"
  show ?thesis
  proof (cases "bt_get ?query (sc_resource_session_request_param cfg)")
    case None
    with False show ?thesis
      by (intro verified) (simp_all add: check_def host_of_def body_of_def scheme_of_def Let_def)
  next
    case (Some token)
    let ?h = "handoff lib cfg (exchange_session pf lib cfg token (host_of req) (request_ip_of req))
        (original_path cfg req) (scheme_of req) (host_of req)"
    show ?thesis
    proof (cases ?h)
      case none: None
      with Some False show ?thesis
        by (intro verified) (simp_all add: check_def host_of_def body_of_def scheme_of_def Let_def)
    next
      case (Some out)
      with \<open>bt_get ?query _ = Some token\<close> False show ?thesis
        by (intro handed [of token out]) (simp_all add: check_def host_of_def scheme_of_def Let_def)
    qed
  qed
qed

section \<open>No panic\<close>

text \<open>
  The bytes \<^verbatim>\<open>HeaderValue::from_str\<close> accepts, and requests made of them: what the HTTP server
  hands over as a readable header value or a path.
\<close>

definition header_byte :: "char \<Rightarrow> bool" where
  "header_byte c \<longleftrightarrow> (32 \<le> byte c \<and> byte c \<noteq> 127) \<or> byte c = 9"

definition header_text :: "string \<Rightarrow> bool" where
  "header_text s \<longleftrightarrow> list_all header_byte s"

definition request_ok :: "check_request \<Rightarrow> bool" where
  "request_ok req \<longleftrightarrow>
     header_text (unwrap_or [] (cr_path_and_query req)) \<and>
     list_all (\<lambda>(n, v). header_text (unwrap_or [] v)) (cr_headers req)"

declare header_byte_def [exec] header_text_def [exec] request_ok_def [exec]

lemma header_text_simps [simp]:
  "header_text []" "header_text (c # s) \<longleftrightarrow> header_byte c \<and> header_text s"
  "header_text (a @ b) \<longleftrightarrow> header_text a \<and> header_text b"
  by (simp_all add: header_text_def)

lemma header_byte_consts [simp]:
  "header_byte CHR '':''" "header_byte CHR ''/''" "header_byte CHR ''?''"
  "header_text ''https''"
  by (simp_all add: header_byte_def byte_def)

lemma header_text_header:
  assumes "request_ok req" "header_text d"
  shows "header_text (unwrap_or d (header_str req key))"
proof (cases "header_str req key")
  case (Some v)
  then have "(key, Some v) \<in> set (cr_headers req)"
    by (auto simp: header_str_def dest: map_of_SomeD split: option.splits)
  then show ?thesis using assms(1) Some by (fastforce simp: request_ok_def list_all_iff unwrap_or_def)
qed (use assms in \<open>simp add: unwrap_or_def\<close>)

lemma header_text_strip_path: "header_text pq \<Longrightarrow> strip_path_prefix pre pq = Some r \<Longrightarrow> header_text r"
  by (auto simp: strip_path_prefix_def strip_prefix_Some_iff split: if_splits option.splits)

lemma header_text_original_path: "request_ok req \<Longrightarrow> header_text (original_path cfg req)"
  using header_text_strip_path [of "unwrap_or ''/'' (cr_path_and_query req)" "sc_path_prefix cfg"]
  by (cases "cr_path_and_query req")
     (auto simp: original_path_def request_ok_def unwrap_or_def Let_def split: option.splits)

lemma header_text_strip_query:
  assumes "\<And>kvs. header_text (form_serialize lib kvs)" "header_text pq"
  shows "header_text (strip_query_param lib pq param)"
proof (cases "split_once CHR ''?'' pq")
  case None
  then show ?thesis using assms(2) by (simp add: strip_query_param_def)
next
  case (Some pqs)
  obtain path query where p: "pqs = (path, query)" by fastforce
  have "pq = path @ ''?'' @ query" using Some by (simp add: p split_once_Some_iff)
  then have "header_text path" using assms(2) by simp
  then show ?thesis
    using assms(1) by (simp add: strip_query_param_def Some p Let_def)
qed

lemma handoff_no_panic:
  assumes "header_value_ok lib = header_text" "\<And>kvs. header_text (form_serialize lib kvs)"
    "header_text p" "header_text s" "header_text h"
  shows "handoff lib cfg x p s h \<noteq> Some Panic"
proof -
  have "header_text (s @ ''://'' @ h @ strip_query_param (shim_codec.truncate lib) p param)" for param
    using assms header_text_strip_query [of "shim_codec.truncate lib" p param]
    by (simp add: shim_codec.defs)
  then show ?thesis
    using assms(1)
    by (auto simp: handoff_def plain_def Let_def split: sum.splits option.splits list.splits bool.splits)
qed

lemma check_no_panic:
  assumes "header_value_ok lib = header_text" "\<And>kvs. header_text (form_serialize lib kvs)" "request_ok req"
  shows "check pf lib cfg req \<noteq> Panic"
proof (cases rule: check_cases [of req pf lib cfg])
  case no_host
  then show ?thesis by (simp add: plain_def)
next
  case (handed token out)
  have "header_text (original_path cfg req)" "header_text (scheme_of req)" "header_text (host_of req)"
    using header_text_original_path [OF assms(3)] header_text_header [OF assms(3), of "''https''"]
      header_text_header [OF assms(3), of "[]"] header_byte_consts(4)
    by (simp_all only: scheme_of_def host_of_def header_text_simps)
  from handoff_no_panic [OF assms(1,2) this] handed show ?thesis by auto
next
  case verified
  then show ?thesis
    by (auto simp: answer_def plain_def split: sum.splits option.splits list.splits if_splits)
qed

section \<open>Properties\<close>

lemma check_allows:
  assumes "check pf lib cfg req = Respond r" and "re_status r = 200"
  shows "host_of req \<noteq> [] \<and>
    (\<exists>u st data. endpoint pf (sc_pangolin_api_base_url cfg) ''badger/verify-session'' = Inr u \<and>
       post_verify lib u (body_of lib cfg req) = Reply st (Some data) \<and> allowed data)"
proof (cases rule: check_cases [of req pf lib cfg])
  case no_host
  then show ?thesis using assms by (simp add: plain_def)
next
  case (handed token out)
  then show ?thesis using assms handoff_not_200 by metis
next
  case verified
  with assms answer_200 obtain data where data: "verify_session pf lib cfg (body_of lib cfg req) = Inr data"
    "allowed data" by metis
  then obtain u where u: "endpoint pf (sc_pangolin_api_base_url cfg) ''badger/verify-session'' = Inr u"
    "read_reply default_verify_data (post_verify lib u (body_of lib cfg req)) = Inr data"
    by (auto simp: verify_session_def try_then_Inr_iff)
  moreover have "vd_valid data" using data(2) by (simp add: allowed_def)
  ultimately show ?thesis
    using verified(1) data(2)
    by (auto simp: read_reply_def default_verify_data_def split: api_reply.splits option.splits if_splits)
qed

text \<open>A shim configuration, a Pangolin that accepts every session, and a request.\<close>

definition shim_pf :: platform where
  "shim_pf = \<lparr>default_hasher = (\<lambda>_. 0),
     url_parse = (\<lambda>s. Some \<lparr>url_as_str = s, url_scheme = ''http'', url_host_str = Some ''p'',
       url_port_or_known_default = Some 80\<rparr>),
     parse_duration = (\<lambda>_. None)\<rparr>"

definition shim_cfg :: shim_config where
  "shim_cfg = \<lparr>sc_listen = ''l'', sc_pangolin_api_base_url = \<lparr>url_as_str = ''http://p/'', url_scheme = ''http'',
       url_host_str = Some ''p'', url_port_or_known_default = Some 80\<rparr>,
     sc_path_prefix = ''/verify'', sc_user_session_cookie_name = ''p_s'',
     sc_resource_session_request_param = ''t'', sc_timeout = 10, sc_ca_file = None, sc_tls_skip_verify = False\<rparr>"

definition accepting :: verify_data where
  "accepting = default_verify_data\<lparr>vd_valid := True\<rparr>"

definition shim_sample_lib :: "verify_data api_reply \<Rightarrow> shim_lib" where
  "shim_sample_lib verdict =
     \<lparr>form_parse = (\<lambda>s. if s = [] then [] else [(s, [])]), form_serialize = (\<lambda>kvs. if kvs = [] then [] else fst (hd kvs)),
      header_value_ok = (\<lambda>_. True), post_verify = (\<lambda>_ _. verdict), post_exchange = (\<lambda>_ _. SendFailed)\<rparr>"

definition shim_req :: check_request where
  "shim_req = \<lparr>cr_path_and_query = Some ''/verify/x'', cr_method = ''GET'',
     cr_headers = [(''host'', Some ''a''), (''x-user'', Some ''v'')]\<rparr>"

lemma shim_leaves:
  "host_of shim_req = ''a''" "original_path shim_cfg shim_req = ''/x''" "split_path ''/x'' = (''/x'', [])"
  "header_str shim_req ''x-forwarded-proto'' = None"
  by code_simp+

lemma shim_sample_check_any:
  assumes "host_of req \<noteq> []" and "split_path (original_path shim_cfg req) = (path, [])"
  shows "check shim_pf (shim_sample_lib verdict) shim_cfg req =
     answer (shim_sample_lib verdict) (read_reply default_verify_data verdict)"
  using assms
  by (simp add: check_def host_of_def parse_query_def Let_def shim_sample_lib_def bt_get_def
      verify_session_def endpoint_def shim_pf_def ok_or_def shim_codec.defs)

lemma shim_sample_check:
  "check shim_pf (shim_sample_lib verdict) shim_cfg shim_req =
     answer (shim_sample_lib verdict) (read_reply default_verify_data verdict)"
  by (rule shim_sample_check_any) (simp_all add: shim_leaves)

definition health_request :: "check_request \<Rightarrow> bool" where
  "health_request req \<longleftrightarrow> fst (split_path (unwrap_or ''/'' (cr_path_and_query req))) = ''/healthz''"

text \<open>Every header of the request that is readable text (the cookie apart) reaches Pangolin under its
  canonical name, and different lower-case names do not collide.\<close>

lemma headers_found_under_canonical_name:
  assumes "\<forall>(n', v)\<in>set (cr_headers req). to_ascii_lowercase n' = n'" and "to_ascii_lowercase n = n"
  shows "bt_get (collect_headers req) (canonical_header n) = map_of (readable req) n \<and>
    canonical_header (canonical_header n) = canonical_header n"
  using collect_headers_get [OF assms] canonical_idem_aux by blast

text \<open>C6: A request passes (status 200) only if it names a host and Pangolin was asked about exactly this
  request and answered that the session is valid, without a redirect or a challenge; or if its
  path is that of the health route, which is not checked at all.\<close>

theorem allows_only_what_pangolin_allows:
  assumes "shim_router pf lib cfg req = Respond r" and "re_status r = 200" and "\<not> health_request req"
  shows "host_of req \<noteq> [] \<and>
    (\<exists>u st data. endpoint pf (sc_pangolin_api_base_url cfg) ''badger/verify-session'' = Inr u \<and>
       post_verify lib u (body_of lib cfg req) = Reply st (Some data) \<and> allowed data)"
  using assms by (intro check_allows) (simp_all add: shim_router_def health_request_def)

theorem allows_only_what_pangolin_allows_witness:
  "shim_router shim_pf (shim_sample_lib (Reply 200 (Some accepting))) shim_cfg shim_req =
      Respond \<lparr>re_status = 200, re_headers = []\<rparr> \<and>
   host_of shim_req \<noteq> [] \<and>
   (\<exists>u st data. endpoint shim_pf (sc_pangolin_api_base_url shim_cfg) ''badger/verify-session'' = Inr u \<and>
      post_verify (shim_sample_lib (Reply 200 (Some accepting))) u
        (body_of (shim_sample_lib (Reply 200 (Some accepting))) shim_cfg shim_req) = Reply st (Some data) \<and>
      allowed data)"
proof -
  have path: "\<not> health_request shim_req" by code_simp
  then have "shim_router shim_pf (shim_sample_lib (Reply 200 (Some accepting))) shim_cfg shim_req =
      Respond \<lparr>re_status = 200, re_headers = []\<rparr>"
    by (simp add: shim_router_def health_request_def shim_sample_check read_reply_def answer_def accepting_def
        default_verify_data_def unwrap_or_def)
  from allows_only_what_pangolin_allows [OF this _ path] this show ?thesis by simp
qed

text \<open>The health route passes without Pangolin being asked: where the policy sends the original path
  without a prefix, the \<^verbatim>\<open>/healthz\<close> of every protected resource is open.\<close>

lemma health_route_bypasses_pangolin:
  "health_request req \<Longrightarrow> cr_method req = ''GET'' \<Longrightarrow> shim_router pf lib cfg req = plain 200"
  by (simp add: shim_router_def health_request_def)

text \<open>C31: When Pangolin cannot be reached, every request for another path than \<^verbatim>\<open>/healthz\<close> is denied: the answer
  of the router is 503, or 400 without a host. (\<^verbatim>\<open>/healthz\<close> is the shim's own and is answered without
  asking Pangolin.)\<close>

theorem unreachable_is_denied:
  assumes "\<And>u body. post_verify lib u body = SendFailed" and "\<And>u body. post_exchange lib u body = SendFailed"
    and "\<not> health_request req"
  shows "shim_router pf lib cfg req = plain (if host_of req = [] then 400 else 503)"
proof -
  have verify: "verify_session pf lib cfg body = Inl CallSend \<or> verify_session pf lib cfg body = Inl BadEndpoint" for body
    using assms(1)
    by (auto simp: verify_session_def endpoint_def read_reply_def ok_or_def split: option.split)
  have exchange: "handoff lib cfg (exchange_session pf lib cfg token h ip) p s h' = Some (plain 503)" for token h ip p s h'
    using assms(2)
    by (auto simp: handoff_def exchange_session_def endpoint_def read_reply_def ok_or_def split: option.split)
  have "check pf lib cfg req = plain (if host_of req = [] then 400 else 503)"
  proof (cases rule: check_cases [of req pf lib cfg])
    case (handed token out)
    then show ?thesis by (simp add: exchange)
  next
    case verified
    then show ?thesis using verify [of "body_of lib cfg req"] by (auto simp: answer_def)
  qed simp
  with assms(3) show ?thesis by (simp add: shim_router_def health_request_def)
qed

theorem unreachable_is_denied_witness:
  "shim_router shim_pf (shim_sample_lib SendFailed) shim_cfg shim_req = plain 503"
proof -
  have "\<not> health_request shim_req" by code_simp
  from unreachable_is_denied [OF _ _ this, of "shim_sample_lib SendFailed" shim_pf shim_cfg] show ?thesis
    by (simp add: shim_sample_lib_def shim_leaves)
qed

text \<open>C32: For the requests an HTTP server delivers (visible bytes in path and headers) the handler always
  answers, with one of the five statuses, and its \<open>unwrap\<close> calls never panic. The hypotheses are the
  documented alphabet of header values and of the form encoding.\<close>

theorem never_panics:
  assumes "header_value_ok lib = header_text" and "\<And>kvs. header_text (form_serialize lib kvs)" and "request_ok req"
  shows "\<exists>r. check pf lib cfg req = Respond r \<and> re_status r \<in> {200, 302, 400, 401, 503}"
proof -
  have ans: "\<exists>r. answer lib v = Respond r \<and> re_status r \<in> {200, 302, 400, 401, 503}" for v
    by (auto simp: answer_def plain_def split: sum.split option.split list.split)
  have hand: "\<exists>r. out = Respond r \<and> re_status r \<in> {200, 302, 400, 401, 503}"
    if "handoff lib cfg x p s h = Some out" "out \<noteq> Panic" for x p s h out
    using that
    by (auto simp: handoff_def plain_def Let_def split: sum.splits option.splits list.splits bool.splits if_splits)
  show ?thesis
  proof (cases rule: check_cases [of req pf lib cfg])
    case (handed token out)
    then show ?thesis using hand [OF handed(2)] check_no_panic [OF assms, of pf cfg] by simp
  qed (use ans in \<open>simp_all add: plain_def\<close>)
qed

definition strict_lib :: shim_lib where
  "strict_lib = (shim_sample_lib SendFailed)\<lparr>header_value_ok := header_text, form_serialize := \<lambda>_. ''x''\<rparr>"

theorem never_panics_witness:
  "\<exists>r. check shim_pf strict_lib shim_cfg shim_req = Respond r \<and> re_status r \<in> {200, 302, 400, 401, 503}"
proof (rule never_panics)
  show "header_value_ok strict_lib = header_text" by (simp add: strict_lib_def)
  have "header_text ''x''" by code_simp
  then show "header_text (form_serialize strict_lib kvs)" for kvs by (simp add: strict_lib_def)
  show "request_ok shim_req" by code_simp
qed

text \<open>Before the browser is sent back, exactly the parameters with the session token's name are
  removed from the query; path and other parameters stay, in order.\<close>

lemma session_token_removed:
  assumes "codec_ok lib"
  shows "fst (split_path (strip_query_param lib pq param)) = fst (split_path pq) \<and>
    form_parse lib (snd (split_path (strip_query_param lib pq param))) =
      filter (\<lambda>(k, v). k \<noteq> param) (form_parse lib (snd (split_path pq)))"
  using strip_query_param_aux [OF assms] by blast

text \<open>
  A codec that satisfies the law: two bytes per symbol, a tag and a byte. The tag says that
  the byte belongs to the text, or that the key or the pair is complete.
\<close>

definition tag_text :: "string \<Rightarrow> string" where
  "tag_text s = concat (map (\<lambda>c. [CHR ''c'', c]) s)"

definition tag_pairs :: "(string \<times> string) list \<Rightarrow> string" where
  "tag_pairs kvs = concat (map (\<lambda>(k, v). tag_text k @ ''=='' @ tag_text v @ ''&&'') kvs)"

fun untag :: "string \<Rightarrow> string \<Rightarrow> string \<Rightarrow> (string \<times> string) list" where
  "untag key acc (t # c # s) =
     (if t = CHR ''c'' then untag key (acc @ [c]) s
      else if t = CHR ''='' then untag acc [] s
      else (key, acc) # untag [] [] s)"
| "untag key acc _ = []"

definition tag_codec :: shim_codec where
  "tag_codec = \<lparr>form_parse = untag [] [], form_serialize = tag_pairs, header_value_ok = header_text\<rparr>"

lemma untag_text: "untag key acc (tag_text v @ s) = untag key (acc @ v) s"
  by (induction v arbitrary: acc) (simp_all add: tag_text_def)

lemma tag_codec_ok: "codec_ok tag_codec"
proof -
  have "untag [] [] (tag_pairs kvs) = kvs" for kvs
    by (induction kvs) (auto simp: tag_pairs_def untag_text)
  then show ?thesis by (simp add: codec_ok_def tag_codec_def)
qed

lemma session_token_removed_example:
  "fst (split_path (strip_query_param tag_codec ''/p?ct==ca&&cu==cb&&'' ''t'')) = ''/p'' \<and>
   form_parse tag_codec (snd (split_path (strip_query_param tag_codec ''/p?ct==ca&&cu==cb&&'' ''t''))) =
     [(''u'', ''b'')]"
proof -
  have "split_path ''/p?ct==ca&&cu==cb&&'' = (''/p'', ''ct==ca&&cu==cb&&'')"
    "form_parse tag_codec ''ct==ca&&cu==cb&&'' = [(''t'', ''a''), (''u'', ''b'')]" by code_simp+
  with session_token_removed [OF tag_codec_ok, of "''/p?ct==ca&&cu==cb&&''" "''t''"] show ?thesis by simp
qed

end
