(* ===== verification/Startup.thy ===== *)
theory Startup
  imports Poll_Loop Health Shim
begin

text \<open>
  \<^verbatim>\<open>src/main.rs\<close> and \<^verbatim>\<open>src/bin/badger_ext_authz_shim.rs\<close>: how the two processes are put together from
  the modelled parts, and how they end. The record \<open>host\<close> is what the machine provides: access to the
  Kubernetes API, files, the TLS back end and sockets. Signals arrive as the cancellations of the
  turns. Logging is not modelled.
\<close>

section \<open>The controller\<close>

record host =
  host_kube :: "server option"
  host_read_file :: "string \<Rightarrow> string option"
  host_pem_ok :: "string \<Rightarrow> bool"
  host_build_ok :: "http_options \<Rightarrow> bool"
  host_bind :: "string \<Rightarrow> bool"

datatype startup_error = ConnectingKube | BuildingPangolinClient client_error

definition pangolin_client :: "platform \<Rightarrow> host \<Rightarrow> config \<Rightarrow> client_error + client" where
  "pangolin_client pf host cfg =
     client_new pf (host_read_file host) (host_pem_ok host) (host_build_ok host) cfg"

definition run :: "platform \<Rightarrow> client_lib \<Rightarrow> host \<Rightarrow> config \<Rightarrow> turn list \<Rightarrow> startup_error + loop_result" where
  "run pf lib host cfg ts =
     try_then (ok_or ConnectingKube (host_kube host)) (\<lambda>kube.
     try_then (case pangolin_client pf host cfg of Inl e \<Rightarrow> Inl (BuildingPangolinClient e) | Inr c \<Rightarrow> Inr c)
       (\<lambda>client. Inr (run_loop pf lib client cfg kube ts loop_init)))"

text \<open>
  A process that has ended has its exit status and the requests it made. One that is alive also
  serves the probes, where an address is configured.
\<close>

datatype controller = Exited nat log | Alive "string option" loop_state

definition controller_main ::
  "platform \<Rightarrow> client_lib \<Rightarrow> env \<Rightarrow> host \<Rightarrow> turn list \<Rightarrow> controller" where
  "controller_main pf lib env host ts =
     (case from_env pf env of
        Inl e \<Rightarrow> Exited 2 []
      | Inr cfg \<Rightarrow>
          (case run pf lib host cfg ts of
             Inl e \<Rightarrow> Exited 1 []
           | Inr (Returned st) \<Rightarrow> Exited 0 (lp_log st)
           | Inr (Running st) \<Rightarrow> Alive (cfg_health_listen cfg) st))"

fun controller_log :: "controller \<Rightarrow> log" where
  "controller_log (Exited status log) = log"
| "controller_log (Alive listen st) = lp_log st"

text \<open>When the address of the probes cannot be bound, this is logged and the controller goes on.\<close>

fun controller_probe :: "host \<Rightarrow> controller \<Rightarrow> string \<Rightarrow> (nat \<times> string) option" where
  "controller_probe host (Exited status log) path = None"
| "controller_probe host (Alive listen st) path =
     (case listen of
        None \<Rightarrow> None
      | Some address \<Rightarrow> if host_bind host address then probe path (lp_ready st) else None)"

section \<open>The shim\<close>

datatype shim_startup_error = ShimConfigError shim_error | ShimClientError shim_client_error | BindingShim string

record shim_host =
  sh_read_file :: "string \<Rightarrow> string option"
  sh_pem_bundle :: "string \<Rightarrow> string list option"
  sh_build_ok :: "shim_http_options \<Rightarrow> bool"
  sh_bind :: "string \<Rightarrow> bool"

text \<open>\<open>lib\<close> is what the shim uses of the outside, given the settings of its HTTP client.\<close>

definition shim_main ::
  "platform \<Rightarrow> (shim_http_options \<Rightarrow> shim_lib) \<Rightarrow> env \<Rightarrow> shim_host \<Rightarrow>
     shim_startup_error + (check_request \<Rightarrow> outcome)" where
  "shim_main pf lib env host =
     try_then (case shim_from_env pf env of Inl e \<Rightarrow> Inl (ShimConfigError e) | Inr cfg \<Rightarrow> Inr cfg) (\<lambda>cfg.
     try_then (case build_http_client (sh_read_file host) (sh_pem_bundle host) (sh_build_ok host) cfg of
                 Inl e \<Rightarrow> Inl (ShimClientError e) | Inr http \<Rightarrow> Inr http) (\<lambda>http.
     if sh_bind host (sc_listen cfg) then Inr (shim_router pf (lib http) cfg)
     else Inl (BindingShim (sc_listen cfg))))"

declare pangolin_client_def [exec] run_def [exec] controller_main_def [exec] shim_main_def [exec]

section \<open>Lemmas\<close>

lemma run_Inr_iff: "run pf lib host cfg ts = Inr result \<longleftrightarrow>
    (\<exists>srv client. host_kube host = Some srv \<and> pangolin_client pf host cfg = Inr client \<and>
       result = run_loop pf lib client cfg srv ts loop_init)"
  by (auto simp: run_def ok_or_def split: option.split sum.split)

lemma main_log:
  assumes "from_env pf env = Inr cfg" and "req \<in> set (controller_log (controller_main pf lib env host ts))"
  obtains srv client st where "host_kube host = Some srv" and "pangolin_client pf host cfg = Inr client"
    and "run_loop pf lib client cfg srv ts loop_init \<in> {Running st, Returned st}"
    and "controller_log (controller_main pf lib env host ts) = lp_log st"
proof (cases "run pf lib host cfg ts")
  case (Inl e)
  then show ?thesis using assms by (simp add: controller_main_def)
next
  case (Inr result)
  then obtain srv client where "host_kube host = Some srv" "pangolin_client pf host cfg = Inr client"
    "run_loop pf lib client cfg srv ts loop_init = result"
    by (auto simp: run_Inr_iff)
  with that [of srv client] assms(1) Inr show ?thesis by (cases result) (simp_all add: controller_main_def)
qed

text \<open>Whatever the configuration, every patch of the process is one of a configuration it has fetched.\<close>

lemma main_requests:
  assumes env: "from_env pf env = Inr cfg" and req: "req \<in> set (controller_log (controller_main pf lib env host ts))"
  obtains client t etag c where "pangolin_client pf host cfg = Inr client" and "t \<in> set ts"
    and "poll lib client t etag = Inr (Changed c)"
    and "sane_request cfg (build_desired pf cfg (cc_config c)) req"
proof -
  obtain srv client st where st: "pangolin_client pf host cfg = Inr client"
    "run_loop pf lib client cfg srv ts loop_init \<in> {Running st, Returned st}" "req \<in> set (lp_log st)"
    using main_log [OF env req] req by metis
  obtain tr where tr: "reachable pf cfg srv tr st" "set tr \<subseteq> (\<Union>t\<in>set ts. range (poll lib client t))"
    using run_loop_reachable [OF reach_init st(2)] by auto
  obtain c where "Inr (Changed c) \<in> set tr" "sane_request cfg (build_desired pf cfg (cc_config c)) req"
    using reachable_requests [OF tr(1) st(3)] by blast
  moreover from this(1) tr(2) obtain t etag where "t \<in> set ts" "poll lib client t etag = Inr (Changed c)"
    by (fastforce simp: image_iff)
  ultimately show ?thesis using that st(1) by blast
qed

text \<open>The shim's client skips certificate verification only when that was acknowledged.\<close>

lemma shim_client_verifies:
  assumes "shim_from_env pf env = Inr cfg" and "build_http_client rf pb ok cfg = Inr http"
    and "sh_accept_invalid_certs http"
  shows "\<exists>v. env ''I_UNDERSTAND_SHIM_TLS_SKIP_VERIFY_IS_INSECURE'' = Some v \<and> eq_ignore_ascii_case v ''true''"
proof -
  have keep: "sh_accept_invalid_certs (fold (\<lambda>c b. b\<lparr>sh_root_certificates := sh_root_certificates b @ [c]\<rparr>) cs b) =
      sh_accept_invalid_certs b" for cs b
    by (induction cs arbitrary: b) simp_all
  have "sc_tls_skip_verify cfg"
    using assms(2,3) by (auto simp: build_http_client_def try_then_Inr_iff ok_or_Inr_iff keep Let_def
        split: if_splits option.splits)
  then have "case optional env ''I_UNDERSTAND_SHIM_TLS_SKIP_VERIFY_IS_INSECURE'' of
      None \<Rightarrow> False | Some v \<Rightarrow> eq_ignore_ascii_case v ''true''"
    using assms(1) by (auto simp: shim_from_env_def try_then_Inr_iff Let_def split: if_split_asm)
  then show ?thesis by (auto simp: optional_def split: option.splits if_split_asm)
qed

end
