(* ===== verification/Mock_Pangolin.thy ===== *)
theory Mock_Pangolin
  imports Poll_Loop
begin

text \<open>
  \<^verbatim>\<open>examples/mock_pangolin.rs\<close>: a stand-in for Pangolin that serves one configuration with an entity
  tag and honours \<^verbatim>\<open>If-None-Match\<close>. It reads and writes bytes: a connection is the list of the
  results of its reads, and the answer is the bytes written. SHA-256 is a parameter, as in the
  client. That the controller's HTTP stack brings requests and answers over is stated by the locale
  \<open>http_transport\<close>.
\<close>

section \<open>Start\<close>

record mock_config =
  mk_body :: string
  mk_etag :: string

datatype mock_error = MissingFixture | ReadingFixture string | BindingMock string

definition mock_main ::
  "(string \<Rightarrow> string) \<Rightarrow> (string \<Rightarrow> string option) \<Rightarrow> (string \<Rightarrow> string option) \<Rightarrow> (string \<Rightarrow> bool) \<Rightarrow>
     mock_error + mock_config" where
  "mock_main sha256_hex env read_file can_bind =
     (let listen = (case env ''MOCK_PANGOLIN_LISTEN'' of None \<Rightarrow> ''127.0.0.1:18080'' | Some v \<Rightarrow> v)
      in try_then (ok_or MissingFixture (env ''MOCK_PANGOLIN_FIXTURE'')) (\<lambda>fixture.
         try_then (ok_or (ReadingFixture fixture) (read_file fixture)) (\<lambda>body.
         let etag = [CHR 0x22] @ sha256_hex body @ [CHR 0x22]
         in if can_bind listen then Inr \<lparr>mk_body = body, mk_etag = etag\<rparr> else Inl (BindingMock listen))))"

section \<open>Reading a request\<close>

definition crlf :: string where
  "crlf = [CHR 0x0D, CHR 0x0A]"

text \<open>\<^verbatim>\<open>windows(n).any(|w| w == p)\<close> for a pattern of length n.\<close>

fun has_window :: "string \<Rightarrow> string \<Rightarrow> bool" where
  "has_window p [] = (p = [])"
| "has_window p (c # s) = (starts_with p (c # s) \<or> has_window p s)"

text \<open>The result of a read is \<^term>\<open>None\<close> when it failed and empty at the end of the stream.\<close>

fun read_request :: "string option list \<Rightarrow> string \<Rightarrow> string" where
  "read_request [] received = received"
| "read_request (None # reads) received = received"
| "read_request (Some bytes # reads) received =
     (if bytes = [] then received
      else
        let received = received @ bytes
        in if has_window (crlf @ crlf) received then received else read_request reads received)"

text \<open>
  \<^verbatim>\<open>String::from_utf8_lossy\<close>: the lengths of the well-formed sequences of the standard, and for an
  ill-formed one the longest part that could begin one, which is replaced by U+FFFD.
\<close>

definition in_range :: "nat \<Rightarrow> nat \<Rightarrow> string \<Rightarrow> bool" where
  "in_range lo hi s = (case s of [] \<Rightarrow> False | c # _ \<Rightarrow> lo \<le> byte c \<and> byte c \<le> hi)"

definition tail_of :: "nat \<Rightarrow> nat \<Rightarrow> nat \<Rightarrow> string \<Rightarrow> bool \<times> nat" where
  "tail_of n lo hi s =
     (if \<not> in_range lo hi s then (False, 1)
      else if n = 1 then (True, 2)
      else if \<not> in_range 128 191 (drop 1 s) then (False, 2)
      else if n = 2 then (True, 3)
      else if \<not> in_range 128 191 (drop 2 s) then (False, 3)
      else (True, 4))"

text \<open>Whether the first sequence is well-formed, and how many bytes it takes.\<close>

fun utf8_step :: "string \<Rightarrow> bool \<times> nat" where
  "utf8_step [] = (True, 0)"
| "utf8_step (c # s) =
     (let b = byte c
      in if b < 128 then (True, 1)
         else if 194 \<le> b \<and> b \<le> 223 then tail_of 1 128 191 s
         else if b = 224 then tail_of 2 160 191 s
         else if b = 237 then tail_of 2 128 159 s
         else if 225 \<le> b \<and> b \<le> 239 then tail_of 2 128 191 s
         else if b = 240 then tail_of 3 144 191 s
         else if 241 \<le> b \<and> b \<le> 243 then tail_of 3 128 191 s
         else if b = 244 then tail_of 3 128 143 s
         else (False, 1))"

lemma utf8_step_pos: "0 < snd (utf8_step (c # s))"
  by (simp add: tail_of_def Let_def)

function from_utf8_lossy :: "string \<Rightarrow> string" where
  "from_utf8_lossy s =
     (if s = [] then []
      else
        let (ok, n) = utf8_step s
        in (if ok then take n s else [CHR 0xEF, CHR 0xBF, CHR 0xBD]) @ from_utf8_lossy (drop n s))"
  by pat_completeness auto
termination
proof (relation "measure length", goal_cases)
  case (2 s x ok n)
  then obtain c r where "s = c # r" by (cases s) auto
  then have "0 < n" using 2 utf8_step_pos [of c r] by (metis snd_conv)
  with 2(1) show ?case by simp
qed simp

declare from_utf8_lossy.simps [simp del]

text \<open>\<^verbatim>\<open>str::lines\<close>: a line ends with LF or CR LF; the last one may have no end.\<close>

definition strip_cr :: "string \<Rightarrow> string" where
  "strip_cr s = (if s \<noteq> [] \<and> last s = CHR 0x0D then butlast s else s)"

definition str_lines :: "string \<Rightarrow> string list" where
  "str_lines s =
     (let parts = split_on (CHR 0x0A) s
      in map strip_cr (butlast parts) @ (if last parts = [] then [] else [last parts]))"

text \<open>\<^verbatim>\<open>find_map\<close>.\<close>

fun find_map :: "('a \<Rightarrow> 'b option) \<Rightarrow> 'a list \<Rightarrow> 'b option" where
  "find_map f [] = None"
| "find_map f (x # xs) = (case f x of None \<Rightarrow> find_map f xs | Some y \<Rightarrow> Some y)"

definition if_none_match_line :: "string \<Rightarrow> string option" where
  "if_none_match_line line =
     (case split_once CHR '':'' line of
        None \<Rightarrow> None
      | Some (k, v) \<Rightarrow> (if eq_ignore_ascii_case (trim k) ''if-none-match'' then Some (trim v) else None))"

section \<open>Answering\<close>

definition mock_response :: "mock_config \<Rightarrow> string option \<Rightarrow> string" where
  "mock_response cfg if_none_match =
     (if if_none_match = Some (mk_etag cfg) then
        ''HTTP/1.1 304 Not Modified'' @ crlf @ ''ETag: '' @ mk_etag cfg @ crlf @ ''Content-Length: 0'' @ crlf @
        ''Connection: close'' @ crlf @ crlf
      else
        ''HTTP/1.1 200 OK'' @ crlf @ ''Content-Type: application/json'' @ crlf @ ''ETag: '' @ mk_etag cfg @ crlf @
        ''Content-Length: '' @ show_nat (length (mk_body cfg)) @ crlf @ ''Connection: close'' @ crlf @ crlf @
        mk_body cfg)"

definition mock_connection :: "mock_config \<Rightarrow> string option list \<Rightarrow> string" where
  "mock_connection cfg reads =
     (let received = read_request reads [];
          request = from_utf8_lossy received
      in mock_response cfg (find_map if_none_match_line (str_lines request)))"

text \<open>
  The accept loop: a failed accept is skipped, and every connection has a task of its own, which
  shares nothing with the others but the body and the tag. The answers in the order of the accepts.
\<close>

definition mock_serve :: "mock_config \<Rightarrow> string option list option list \<Rightarrow> string list" where
  "mock_serve cfg accepts = map (mock_connection cfg) (List.map_filter (\<lambda>reads. reads) accepts)"

declare mock_main_def [exec] crlf_def [exec] in_range_def [exec] tail_of_def [exec] from_utf8_lossy.simps [exec]
  strip_cr_def [exec] str_lines_def [exec] if_none_match_line_def [exec] mock_response_def [exec]
  mock_connection_def [exec] mock_serve_def [exec]

lemma mock_etag_visible:
  assumes "mock_main sha256_hex env read_file can_bind = Inr mock" and "list_all visible (sha256_hex (mk_body mock))"
  shows "list_all visible (mk_etag mock)"
  using assms by (auto simp: mock_main_def try_then_Inr_iff ok_or_Inr_iff Let_def visible_def byte_def split: if_splits)

section \<open>A request that arrives in pieces\<close>

definition printable :: "char \<Rightarrow> bool" where
  "printable c \<longleftrightarrow> 32 \<le> byte c \<and> byte c \<le> 126"

definition text_line :: "string \<Rightarrow> bool" where
  "text_line l \<longleftrightarrow> l \<noteq> [] \<and> list_all printable l"

definition with_crlf :: "string list \<Rightarrow> string" where
  "with_crlf ls = concat (map (\<lambda>l. l @ crlf) ls)"

lemma text_line_chars: "text_line l \<Longrightarrow> CHR 0x0D \<notin> set l \<and> CHR 0x0A \<notin> set l"
  by (auto simp: text_line_def list_all_iff printable_def byte_def)

lemma has_window_iff: "p \<noteq> [] \<Longrightarrow> has_window p s \<longleftrightarrow> (\<exists>a b. s = a @ p @ b)"
proof (induction s)
  case (Cons c s)
  show ?case
  proof
    assume "has_window p (c # s)"
    then consider r where "c # s = p @ r" | a b where "s = a @ p @ b"
      using Cons by (auto simp: starts_with_iff)
    then show "\<exists>a b. c # s = a @ p @ b" by cases (metis append_Nil, metis append_Cons)
  next
    assume "\<exists>a b. c # s = a @ p @ b"
    then obtain a b where ab: "c # s = a @ p @ b" by blast
    show "has_window p (c # s)"
    proof (cases a)
      case Nil
      with ab have "starts_with p (c # s)" by (auto simp: starts_with_iff)
      then show ?thesis by simp
    next
      case (Cons x a')
      with ab have "s = a' @ p @ b" by simp
      with Cons.IH Cons.prems show ?thesis by auto
    qed
  qed
qed simp

text \<open>The first empty line of a request is its end, so no proper prefix has one.\<close>

lemma no_blank_inside:
  assumes "list_all text_line ls" and "ls \<noteq> []" and "with_crlf ls @ crlf = p @ q" and "q \<noteq> []"
  shows "\<not> has_window (crlf @ crlf) p"
  using assms
proof (induction ls arbitrary: p)
  case (Cons l ls)
  have no: "CHR 0x0D \<notin> set l" using Cons.prems(1) text_line_chars by simp
  show ?case
  proof
    assume "has_window (crlf @ crlf) p"
    then obtain a b where p: "p = a @ crlf @ crlf @ b" by (auto simp: has_window_iff crlf_def)
    have eq: "l @ crlf @ with_crlf ls @ crlf = a @ crlf @ crlf @ b @ q"
      using Cons.prems(3) by (simp add: with_crlf_def p)
    consider us where "a = l @ us" | us where "l = a @ us" "us \<noteq> []"
      using append_eq_append_conv2 [THEN iffD1, OF eq] by (metis append_Nil2)
    then show False
    proof cases
      case 2
      then have "us @ crlf @ with_crlf ls @ crlf = crlf @ crlf @ b @ q" using eq by simp
      then have "hd us = CHR 0x0D" using 2(2) by (cases us) (simp_all add: crlf_def)
      then show False using no 2 by (cases us) auto
    next
      case 1
      then have tail: "crlf @ with_crlf ls @ crlf = us @ crlf @ crlf @ b @ q" using eq by simp
      show False
      proof (cases ls)
        case Nil
        then have "length (us @ crlf @ crlf @ b @ q) = 4" using arg_cong [OF tail, of length]
          by (simp add: with_crlf_def crlf_def)
        then show False using Cons.prems(4) by (simp add: crlf_def)
      next
        case (Cons l2 ls2)
        have l2: "text_line l2" using Cons.prems(1) Cons by simp
        then obtain c l2' where c: "l2 = c # l2'" "c \<noteq> CHR 0x0D"
          using text_line_chars [OF l2] by (cases l2) (auto simp: text_line_def)
        have "2 \<le> length us"
        proof (rule ccontr)
          assume "\<not> 2 \<le> length us"
          then consider "us = []" | x where "us = [x]" by (cases us rule: remdups_adj.cases) auto
          then show False using tail c by cases (auto simp: Cons with_crlf_def crlf_def)
        qed
        then obtain us' where "us = crlf @ us'"
          using tail by (cases us rule: remdups_adj.cases) (auto simp: crlf_def)
        then have "with_crlf ls @ crlf = (us' @ crlf @ crlf @ b) @ q" using tail by simp
        moreover have "has_window (crlf @ crlf) (us' @ crlf @ crlf @ b)"
          by (auto simp: has_window_iff crlf_def)
        ultimately show False using Cons.IH Cons.prems(1,4) Cons by (metis list.pred_inject(2) list.discI)
      qed
    qed
  qed
qed simp

lemma read_request_pieces:
  assumes "\<And>p q. acc @ concat pieces = p @ q \<Longrightarrow> q \<noteq> [] \<Longrightarrow> \<not> has_window (crlf @ crlf) p"
    and "[] \<notin> set pieces"
  shows "read_request (map Some pieces) acc = acc @ concat pieces"
  using assms
proof (induction pieces arbitrary: acc)
  case (Cons piece pieces)
  show ?case
  proof (cases "has_window (crlf @ crlf) (acc @ piece)")
    case True
    then have "concat pieces = []" using Cons.prems(1) [of "acc @ piece" "concat pieces"] by auto
    then show ?thesis using Cons.prems(2) True by simp
  next
    case False
    moreover have "piece \<noteq> []" using Cons.prems(2) by auto
    ultimately show ?thesis using Cons.IH [of "acc @ piece"] Cons.prems by simp
  qed
qed simp

section \<open>The lines of a request\<close>

lemma ascii_lossy: "list_all (\<lambda>c. byte c < 128) s \<Longrightarrow> from_utf8_lossy s = s"
proof (induction s)
  case (Cons c s)
  then show ?case by (subst from_utf8_lossy.simps) simp
qed (subst from_utf8_lossy.simps, simp)

lemma str_lines_text:
  assumes "list_all text_line ls"
  shows "str_lines (with_crlf ls @ crlf) = ls @ [[]]"
proof -
  have "split_on (CHR 0x0A) (with_crlf ls @ crlf) = map (\<lambda>l. l @ [CHR 0x0D]) ls @ [[CHR 0x0D], []]"
    using assms
  proof (induction ls)
    case (Cons l ls)
    then have "CHR 0x0A \<notin> set (l @ [CHR 0x0D])" using text_line_chars by simp
    from split_on_append_sep [OF this, of "with_crlf ls @ crlf"] Cons show ?case
      by (simp add: with_crlf_def crlf_def)
  qed (simp add: with_crlf_def crlf_def)
  moreover have "map (strip_cr \<circ> (\<lambda>l. l @ [CHR 0x0D])) ls = ls" by (simp add: strip_cr_def comp_def)
  ultimately show ?thesis
    by (simp add: str_lines_def Let_def butlast_append strip_cr_def)
qed

lemma text_ascii: "list_all text_line ls \<Longrightarrow> list_all (\<lambda>c. byte c < 128) (with_crlf ls @ crlf)"
  by (fastforce simp: with_crlf_def crlf_def text_line_def printable_def list_all_iff byte_def)

lemma mock_connection_text:
  assumes "list_all text_line ls" and "ls \<noteq> []" and "concat pieces = with_crlf ls @ crlf" and "[] \<notin> set pieces"
  shows "mock_connection cfg (map Some pieces) = mock_response cfg (find_map if_none_match_line (ls @ [[]]))"
proof -
  have "read_request (map Some pieces) [] = with_crlf ls @ crlf"
    using read_request_pieces [of "[]" pieces] no_blank_inside [OF assms(1,2)] assms(3,4) by simp
  then show ?thesis
    using assms(1) by (simp add: mock_connection_def ascii_lossy [OF text_ascii] str_lines_text)
qed

section \<open>Header lines\<close>

definition header_line :: "string \<times> string \<Rightarrow> string" where
  "header_line h = fst h @ '': '' @ snd h"

definition header_ok :: "string \<times> string \<Rightarrow> bool" where
  "header_ok h \<longleftrightarrow>
     fst h \<noteq> [] \<and> list_all visible (fst h) \<and> CHR '':'' \<notin> set (fst h) \<and> list_all printable (snd h) \<and>
     (eq_ignore_ascii_case (fst h) ''if-none-match'' \<longrightarrow> list_all visible (snd h))"

lemma visible_printable: "visible c \<Longrightarrow> printable c"
  by (simp add: visible_def printable_def)

lemma header_text: "header_ok h \<Longrightarrow> text_line (header_line h)"
  by (auto simp: header_ok_def header_line_def text_line_def list_all_iff visible_printable)
     (simp_all add: printable_def byte_def)

lemma trim_space: "trim (CHR '' '' # s) = trim s"
proof -
  have "skip_tok ws_len (CHR '' '' # s) = skip_tok ws_len s"
    using skip_tok_step [of "CHR '' '' # s" ws_len] by simp
  then show ?thesis by (simp add: trim_def trim_start_def)
qed

lemma header_if_none_match:
  assumes "header_ok h"
  shows "if_none_match_line (header_line h) =
    (if eq_ignore_ascii_case (fst h) ''if-none-match'' then Some (snd h) else None)"
proof -
  have "split_once CHR '':'' (header_line h) = Some (fst h, CHR '' '' # snd h)"
    using assms by (simp add: header_line_def header_ok_def split_once_Some_iff)
  then show ?thesis
    using assms by (auto simp: if_none_match_line_def trim_space trim_visible header_ok_def)
qed

text \<open>The first \<^verbatim>\<open>If-None-Match\<close> among the headers of a request.\<close>

lemma find_map_append: "find_map f (xs @ ys) = (case find_map f xs of None \<Rightarrow> find_map f ys | Some y \<Rightarrow> Some y)"
  by (induction xs) (auto split: option.split)

lemma find_header:
  assumes "list_all header_ok hs"
  shows "find_map if_none_match_line (map header_line hs) =
    map_option snd (find (\<lambda>h. eq_ignore_ascii_case (fst h) ''if-none-match'') hs)"
  using assms by (induction hs) (auto simp: header_if_none_match)

section \<open>Carrying requests and answers\<close>

text \<open>
  What is relied on of the controller's HTTP client (reqwest and hyper): it writes a request as a
  request line and header lines, its own headers among them, and reads an answer that is framed by
  \<^verbatim>\<open>Content-Length\<close>.
\<close>

definition request_text :: "string \<Rightarrow> (string \<times> string) list \<Rightarrow> string" where
  "request_text start hs = with_crlf (start # map header_line hs) @ crlf"

definition response_text :: "nat \<Rightarrow> string \<Rightarrow> (string \<times> string) list \<Rightarrow> string \<Rightarrow> string" where
  "response_text code reason hs body =
     with_crlf ((''HTTP/1.1 '' @ show_nat code @ '' '' @ reason) # map header_line hs) @ crlf @ body"

definition sendable :: "fetch_request \<Rightarrow> bool" where
  "sendable req \<longleftrightarrow> list_all (\<lambda>h. header_ok h \<and> to_ascii_lowercase (fst h) = fst h) (fr_headers req)"

locale http_transport =
  fixes send :: "fetch_request \<Rightarrow> string" and receive :: "string \<Rightarrow> http_reply option"
  assumes sent: "\<exists>start extra. send req = request_text start (extra @ fr_headers req) \<and>
      text_line start \<and> if_none_match_line start = None \<and> list_all header_ok extra \<and>
      list_all (\<lambda>h. \<not> eq_ignore_ascii_case (fst h) ''if-none-match'') extra"
    and received: "code < 1000 \<Longrightarrow> list_all printable reason \<Longrightarrow> list_all header_ok hs \<Longrightarrow> distinct (map fst hs) \<Longrightarrow>
      (''Content-Length'', show_nat (length body)) \<in> set hs \<Longrightarrow>
      \<exists>reply. receive (response_text code reason hs body) = Some reply \<and> hrep_status reply = code \<and>
        hrep_etag reply = map_of hs ''ETag'' \<and> hrep_bytes reply = Some body \<and>
        hrep_content_length reply = Some (length body)"
begin

text \<open>The answer to a request that the transport brought over, in whatever pieces.\<close>

lemma mock_answer:
  assumes "list_all header_ok (fr_headers req)" and "concat pieces = send req" and "[] \<notin> set pieces"
  shows "mock_connection cfg (map Some pieces) =
    mock_response cfg (map_option snd (find (\<lambda>h. eq_ignore_ascii_case (fst h) ''if-none-match'') (fr_headers req)))"
proof -
  obtain start extra where req: "send req = request_text start (extra @ fr_headers req)"
    "text_line start" "if_none_match_line start = None" "list_all header_ok extra"
    "list_all (\<lambda>h. \<not> eq_ignore_ascii_case (fst h) ''if-none-match'') extra" using sent by blast
  let ?ls = "start # map header_line (extra @ fr_headers req)"
  have lines: "list_all text_line ?ls" using req(2,4) assms(1) by (auto simp: list_all_iff header_text)
  have none: "find (\<lambda>h. eq_ignore_ascii_case (fst h) ''if-none-match'') extra = None"
    using req(5) by (auto simp: find_None_iff list_all_iff)
  have "if_none_match_line [] = None" by (simp add: if_none_match_line_def)
  then have "find_map if_none_match_line (?ls @ [[]]) =
      map_option snd (find (\<lambda>h. eq_ignore_ascii_case (fst h) ''if-none-match'') (fr_headers req))"
    using req(3,4) assms(1) none by (simp add: find_map_append find_header split: option.split)
  moreover have "mock_connection cfg (map Some pieces) =
      mock_response cfg (find_map if_none_match_line (?ls @ [[]]))"
    using mock_connection_text [OF lines _ _ assms(3)] assms(2) req(1) by (simp add: request_text_def)
  ultimately show ?thesis by simp
qed

text \<open>What the controller makes of the answer.\<close>

lemma mock_received:
  assumes "list_all visible (mk_etag cfg)"
  shows "\<exists>reply. receive (mock_response cfg inm) = Some reply \<and> hrep_etag reply = Some (mk_etag cfg) \<and>
    (if inm = Some (mk_etag cfg) then hrep_status reply = 304
     else hrep_status reply = 200 \<and> hrep_bytes reply = Some (mk_body cfg) \<and>
       hrep_content_length reply = Some (length (mk_body cfg)))"
proof -
  let ?hs304 = "[(''ETag'', mk_etag cfg), (''Content-Length'', ''0''), (''Connection'', ''close'')]"
  let ?hs200 = "[(''Content-Type'', ''application/json''), (''ETag'', mk_etag cfg),
     (''Content-Length'', show_nat (length (mk_body cfg))), (''Connection'', ''close'')]"
  have nums: "show_nat 0 = ''0''" "show_nat 304 = ''304''" "show_nat 200 = ''200''" by code_simp+
  have digits: "list_all printable (show_nat n)" for n
    using show_nat_digits [of n] by (auto simp: list_all_iff is_digit_def printable_def)
  have inm: "\<not> eq_ignore_ascii_case ''ETag'' ''if-none-match''" "\<not> eq_ignore_ascii_case ''Content-Length'' ''if-none-match''"
    "\<not> eq_ignore_ascii_case ''Connection'' ''if-none-match''" "\<not> eq_ignore_ascii_case ''Content-Type'' ''if-none-match''"
    by code_simp+
  have reasons: "list_all printable ''Not Modified''" "list_all printable ''OK''" by code_simp+
  have ok: "list_all header_ok ?hs304" "list_all header_ok ?hs200"
    using assms digits visible_printable
    by (auto simp: header_ok_def inm list_all_iff) (simp_all add: printable_def visible_def byte_def)
  have 304: "mock_response cfg (Some (mk_etag cfg)) = response_text 304 ''Not Modified'' ?hs304 []"
    by (simp add: mock_response_def response_text_def with_crlf_def header_line_def nums)
  have 200: "mock_response cfg inm = response_text 200 ''OK'' ?hs200 (mk_body cfg)" if "inm \<noteq> Some (mk_etag cfg)"
    using that by (simp add: mock_response_def response_text_def with_crlf_def header_line_def nums)
  show ?thesis
    using received [of 304 "''Not Modified''" ?hs304 "[]"] received [of 200 "''OK''" ?hs200 "mk_body cfg"]
      ok reasons nums(1) 304 200 by (cases "inm = Some (mk_etag cfg)") auto
qed

text \<open>Header names of the \<^verbatim>\<open>http\<close> crate are in lower case. A turn of the controller during which the mock is its Pangolin. Requests whose headers are not
  text are not made.\<close>

lemma mock_serves_aux:
  assumes etag: "list_all visible (mk_etag cfg)"
    and pieces: "\<And>w. concat (pieces w) = w" "\<And>w. [] \<notin> set (pieces w)"
    and turn: "\<And>req. turn_pangolin t req =
      (if sendable req then receive (mock_connection cfg (map Some (pieces (send req)))) else None)"
    and tag: "tag (mk_body cfg) = mk_etag cfg"
  shows "serves tag (mk_body cfg) t"
  unfolding serves_def
proof (intro allI)
  fix req
  let ?inm = "\<lambda>h. eq_ignore_ascii_case (fst h) ''if-none-match''"
  show "case turn_pangolin t req of None \<Rightarrow> True
    | Some resp \<Rightarrow> if hrep_status resp = 304 then (''if-none-match'', tag (mk_body cfg)) \<in> set (fr_headers req)
        else is_success (hrep_status resp) \<longrightarrow>
          hrep_etag resp = Some (tag (mk_body cfg)) \<and> hrep_bytes resp \<in> {None, Some (mk_body cfg)}"
  proof (cases "sendable req")
    case True
    then have ok: "list_all header_ok (fr_headers req)" by (simp add: sendable_def list_all_iff)
    obtain reply where reply: "turn_pangolin t req = Some reply" "hrep_etag reply = Some (mk_etag cfg)"
      "if map_option snd (find ?inm (fr_headers req)) = Some (mk_etag cfg) then hrep_status reply = 304
       else hrep_status reply = 200 \<and> hrep_bytes reply = Some (mk_body cfg)"
      using mock_received [OF etag, of "map_option snd (find ?inm (fr_headers req))"] True
      by (auto simp: turn mock_answer [OF ok pieces])
    have lower: "to_ascii_lowercase ''if-none-match'' = ''if-none-match''" by code_simp
    have "(''if-none-match'', mk_etag cfg) \<in> set (fr_headers req)"
      if inm: "map_option snd (find ?inm (fr_headers req)) = Some (mk_etag cfg)"
    proof -
      obtain k where "(k, mk_etag cfg) \<in> set (fr_headers req)" "eq_ignore_ascii_case k ''if-none-match''"
        using inm find_Some_in by fastforce
      moreover from this(1) True have "to_ascii_lowercase k = k" by (auto simp: sendable_def list_all_iff)
      ultimately show ?thesis by (simp add: eq_ignore_ascii_case_def lower)
    qed
    with reply show ?thesis by (auto simp: tag is_success_def split: if_splits)
  qed (simp add: turn)
qed

end

section \<open>A transport\<close>

text \<open>HTTP/1.1 without options, and with no headers beside those of the request.\<close>

definition plain_send :: "fetch_request \<Rightarrow> string" where
  "plain_send req = request_text ''GET /api/v1/traefik-config HTTP/1.1'' (fr_headers req)"

function read_head :: "string \<Rightarrow> (string list \<times> string) option" where
  "read_head s =
     (case split_once_str crlf s of
        None \<Rightarrow> None
      | Some (l, r) \<Rightarrow>
          (if l = [] then Some ([], r)
           else case read_head r of None \<Rightarrow> None | Some (ls, body) \<Rightarrow> Some (l # ls, body)))"
  by pat_completeness auto
termination
  by (relation "measure length") (auto simp: crlf_def dest!: split_once_str_SomeD)

declare read_head.simps [simp del]

definition header_of_line :: "string \<Rightarrow> (string \<times> string) option" where
  "header_of_line l = map_option (\<lambda>(k, v). (k, drop 1 v)) (split_once CHR '':'' l)"

definition status_of_line :: "string \<Rightarrow> nat option" where
  "status_of_line l =
     (case split_once CHR '' '' l of
        None \<Rightarrow> None
      | Some (_, r) \<Rightarrow> (case split_once CHR '' '' r of None \<Rightarrow> None | Some (code, _) \<Rightarrow> parse_unsigned 999 code))"

definition plain_receive :: "string \<Rightarrow> http_reply option" where
  "plain_receive s =
     (case read_head s of
        Some (l # ls, body) \<Rightarrow>
          map_option (\<lambda>status. \<lparr>hrep_status = status, hrep_etag = map_of (List.map_filter header_of_line ls) ''ETag'',
            hrep_content_length = Some (length body), hrep_text = Some body, hrep_bytes = Some body\<rparr>)
            (status_of_line l)
      | _ \<Rightarrow> None)"

lemma read_head_text: "list_all text_line ls \<Longrightarrow> read_head (with_crlf ls @ crlf @ body) = Some (ls, body)"
proof (induction ls)
  case Nil
  then show ?case
    using split_once_str_append [of crlf "[]" body] by (subst read_head.simps) (simp add: with_crlf_def crlf_def)
next
  case (Cons l ls)
  then have "split_once_str crlf (l @ crlf @ with_crlf ls @ crlf @ body) = Some (l, with_crlf ls @ crlf @ body)"
    using text_line_chars [of l] by (intro split_once_str_append) (auto simp: crlf_def)
  with Cons show ?case
    by (subst read_head.simps) (simp add: with_crlf_def text_line_def)
qed

lemma header_of_header_line: "header_ok h \<Longrightarrow> header_of_line (header_line h) = Some h"
proof -
  assume "header_ok h"
  then have "split_once CHR '':'' (header_line h) = Some (fst h, CHR '' '' # snd h)"
    by (simp add: header_line_def header_ok_def split_once_Some_iff)
  then show ?thesis by (simp add: header_of_line_def)
qed

lemma headers_read: "list_all header_ok hs \<Longrightarrow> List.map_filter header_of_line (map header_line hs) = hs"
  by (induction hs) (simp_all add: map_filter_simps header_of_header_line)

lemma status_read:
  assumes "code < 1000"
  shows "status_of_line (''HTTP/1.1 '' @ show_nat code @ '' '' @ reason) = Some code"
proof -
  have "CHR '' '' \<notin> set (show_nat code)" using show_nat_digits [of code] by (auto simp: is_digit_def byte_def)
  then have "split_once CHR '' '' (show_nat code @ '' '' @ reason) = Some (show_nat code, reason)"
    by (simp add: split_once_Some_iff)
  moreover have "split_once CHR '' '' (''HTTP/1.1 '' @ show_nat code @ '' '' @ reason)
      = Some (''HTTP/1.1'', show_nat code @ '' '' @ reason)"
    by (simp add: split_once_Some_iff)
  moreover have "parse_unsigned 999 (show_nat code) = Some code" using assms by (intro parse_unsigned_show) simp
  ultimately show ?thesis by (simp add: status_of_line_def)
qed

interpretation plain: http_transport plain_send plain_receive
proof
  fix req
  let ?start = "''GET /api/v1/traefik-config HTTP/1.1''"
  have "text_line ?start" "if_none_match_line ?start = None" by code_simp+
  then show "\<exists>start extra. plain_send req = request_text start (extra @ fr_headers req) \<and>
      text_line start \<and> if_none_match_line start = None \<and> list_all header_ok extra \<and>
      list_all (\<lambda>h. \<not> eq_ignore_ascii_case (fst h) ''if-none-match'') extra"
    unfolding plain_send_def by (intro exI [of _ ?start] exI [of _ "[]"]) simp
next
  fix code :: nat and reason hs body
  assume *: "code < 1000" "list_all printable reason" "list_all header_ok hs"
  have "list_all printable (show_nat code)"
    using show_nat_digits [of code] by (auto simp: list_all_iff is_digit_def printable_def)
  then have "text_line (''HTTP/1.1 '' @ show_nat code @ '' '' @ reason)"
    using *(2) by (simp add: text_line_def printable_def byte_def)
  then have "list_all text_line ((''HTTP/1.1 '' @ show_nat code @ '' '' @ reason) # map header_line hs)"
    using *(3) by (auto simp: list_all_iff header_text)
  from read_head_text [OF this, of body] show "\<exists>reply. plain_receive (response_text code reason hs body) = Some reply \<and>
      hrep_status reply = code \<and> hrep_etag reply = map_of hs ''ETag'' \<and> hrep_bytes reply = Some body \<and>
      hrep_content_length reply = Some (length body)"
    using status_read [OF *(1), of reason] headers_read [OF *(3)]
    by (simp add: plain_receive_def response_text_def)
qed

end
