(* ===== verification/Sim_Cluster.thy ===== *)
theory Sim_Cluster
  imports Samples Startup Mock_Pangolin
begin

text \<open>
  API servers to run the controller against, at which the properties about the cluster are
  applied: one that stores what is patched and answers lists from it (it interprets
  \<open>kubernetes_api\<close> and \<open>reliable_api\<close>), one that fails at first and then works (\<open>recovered_api\<close>),
  and one that refuses the objects of one kind. The sample configuration is run against them,
  with a fixed Pangolin and, in the last section, with the mock over a plain HTTP transport.
\<close>

section \<open>A server that works\<close>

fun sim_step :: "request \<Rightarrow> cluster \<Rightarrow> cluster" where
  "sim_step (ReqPatch fm k n obj) c = c((k, n) \<mapsto> obj)"
| "sim_step (ReqDelete k n) c = c((k, n) := None)"
| "sim_step (ReqList k sel) c = c"

definition sim_cluster :: "log \<Rightarrow> cluster" where
  "sim_cluster log = fold sim_step log (\<lambda>_. None)"

fun patched_name :: "obj_kind \<Rightarrow> request \<Rightarrow> string list" where
  "patched_name k (ReqPatch fm k' n obj) = (if k' = k then [n] else [])"
| "patched_name k _ = []"

fun sim_answer :: "config \<Rightarrow> request \<Rightarrow> log \<Rightarrow> response" where
  "sim_answer cfg (ReqList k sel) log =
     RItems (map Some (filter (\<lambda>n. labelled cfg (sim_cluster log (k, n))) (concat (map (patched_name k) log))))"
| "sim_answer cfg _ log = ROk"

definition sim_server :: "config \<Rightarrow> server" where
  "sim_server cfg log = (if log = [] then ROk else sim_answer cfg (last log) (butlast log))"

lemma sim_cluster_names: "sim_cluster log (k, n) \<noteq> None \<Longrightarrow> n \<in> set (concat (map (patched_name k) log))"
proof (induction log rule: rev_induct)
  case (snoc req log)
  then show ?case by (cases req) (auto simp: sim_cluster_def split: if_splits)
qed (simp add: sim_cluster_def)

lemma sim_server_snoc: "sim_server cfg (log @ [req]) = sim_answer cfg req log"
  by (simp add: sim_server_def)

lemma sim_not_err: "\<not> is_err (sim_answer cfg req log)"
  by (cases req) (simp_all add: is_err_def)

lemma sim_labelled_names: "labelled cfg (sim_cluster log (k, n)) \<Longrightarrow> n \<in> set (concat (map (patched_name k) log))"
  by (rule sim_cluster_names) (auto simp: labelled_def split: option.splits)

lemma sim_cluster_snoc: "sim_cluster (log @ [req]) = sim_step req (sim_cluster log)"
  by (simp add: sim_cluster_def)

interpretation sim: kubernetes_api cfg "sim_server cfg" sim_cluster for cfg
  by unfold_locales (auto simp: sim_server_snoc sim_cluster_snoc is_err_def intro!: imageI dest: sim_labelled_names)

interpretation sim: reliable_api cfg "sim_server cfg" sim_cluster for cfg
  by unfold_locales (simp_all add: sim_server_snoc sim_not_err)

section \<open>A server that refuses the objects of one kind\<close>

definition refusing_server :: "obj_kind \<Rightarrow> server" where
  "refusing_server k log =
     (if log = [] then ROk
      else case last log of ReqPatch fm k' n obj \<Rightarrow> (if k' = k then RErr 403 else ROk) | _ \<Rightarrow> RItems [])"

lemma apply_all_refused:
  assumes "\<not> cfg_read_only cfg" and "named (pre @ [e])" and "kind_of (snd e) = k"
    and "list_all (\<lambda>x. kind_of (snd x) \<noteq> k) pre"
  shows "apply_all (refusing_server k) cfg (map snd (pre @ [e])) log =
    (Inl (ApplyFailed k (fst e)), log @ map (patch_of cfg) (pre @ [e]))"
  using assms
  by (induction pre arbitrary: log)
     (auto simp: named_def ssa_apply_def call_def refusing_server_def patch_of_def)

section \<open>A server with an outage\<close>

text \<open>The first request fails, all others are served.\<close>

definition outage_server :: "config \<Rightarrow> server" where
  "outage_server cfg log = (if length log \<le> 1 then RErr 503 else sim_server cfg (tl log))"

definition outage_cluster :: "log \<Rightarrow> cluster" where
  "outage_cluster log = sim_cluster (tl log)"

interpretation outage: kubernetes_api cfg "outage_server cfg" outage_cluster for cfg
proof
  fix log fm k n obj sel items
  show "outage_cluster (log @ [ReqPatch fm k n obj]) =
      (if is_err (outage_server cfg (log @ [ReqPatch fm k n obj])) then outage_cluster log
       else (outage_cluster log)((k, n) \<mapsto> obj))"
    "outage_cluster (log @ [ReqDelete k n]) =
      (if is_err (outage_server cfg (log @ [ReqDelete k n])) then outage_cluster log
       else (outage_cluster log)((k, n) := None))"
    by (cases log; simp add: outage_server_def outage_cluster_def is_err_def sim_cluster_snoc sim_server_snoc)+
  show "outage_cluster (log @ [ReqList k sel]) = outage_cluster log"
    by (cases log) (simp_all add: outage_cluster_def sim_cluster_snoc)
  show "set items = {Some n | n. labelled cfg (outage_cluster log (k, n))}"
    if "outage_server cfg (log @ [ReqList k (managed_selector cfg)]) = RItems items"
    using that sim.listed [of cfg "tl log" k items]
    by (cases log) (simp_all add: outage_server_def outage_cluster_def)
qed

lemma outage_recovers:
  assumes "log \<noteq> []"
  shows "recovered_api cfg (outage_server cfg) outage_cluster log"
proof
  fix log' req k sel assume "prefix log log'"
  with assms have "log' \<noteq> []" by auto
  then show "\<not> is_err (outage_server cfg (log' @ [req]))"
    "\<exists>items. outage_server cfg (log' @ [ReqList k sel]) = RItems items"
    using sim.never_error [of cfg "tl log'" req] sim.always_lists [of cfg "tl log'" k sel]
    by (cases log'; simp add: outage_server_def)+
qed

interpretation outage_over: recovered_api cfg "outage_server cfg" outage_cluster "[req]" for cfg req
  by (rule outage_recovers) simp

section \<open>The sample against these servers\<close>

lemma sample_refused:
  "\<exists>log'. reconcile_once (refusing_server KSecurityPolicy) authz_cfg
     (build_desired sample_pf authz_cfg sample_dyn) [] = (Inl (ApplyFailed KSecurityPolicy ''sp-hr-b''), log')"
proof -
  let ?D = "build_desired sample_pf authz_cfg sample_dyn"
  let ?e = "(''sp-hr-b'', OSecurityPolicy (build_security_policy sample_pf authz_cfg sample_authz ''hr-b''))"
  let ?pre = "concat (map (d_entries ?D) (butlast apply_order))"
  have objs: "d_objects ?D = ?pre @ [?e]"
    by (simp add: d_objects_def apply_order_def sample_http)
  have kinds: "kind_of obj = k" if "(n, obj) \<in> set (d_entries ?D k)" for k n obj
    using entries_wf(2) [OF run_wf that] by blast
  have "list_all (\<lambda>x. kind_of (snd x) \<noteq> KSecurityPolicy) ?pre"
    by (auto simp: list_all_iff apply_order_def simp del: d_entries.simps dest!: kinds)
  then show ?thesis
    using apply_all_refused [of authz_cfg ?pre ?e KSecurityPolicy "[]"] named_objects [OF run_wf, of sample_pf authz_cfg sample_dyn]
    by (simp add: reconcile_once_def apply_phase_objects objs sample_cfg_fields)
qed

text \<open>The first object meets the outage.\<close>

lemma sample_outage:
  assumes "dyn = sample_dyn" and "log0 = []"
  obtains err log where "reconcile_once (outage_server sample_cfg) sample_cfg (build_desired sample_pf sample_cfg dyn) log0
      = (Inl err, log)" and "log \<noteq> []"
proof -
  let ?d = "build_desired sample_pf sample_cfg sample_dyn"
  have ro: "\<not> cfg_read_only sample_cfg" by (simp add: sample_cfg_fields)
  have "(''hr-a'', OHTTPRoute (sample_route sample_cfg ''hr-a'' ''a'')) \<in> set (d_objects ?d)"
    by (simp add: in_objects_iff [OF run_wf] bt_get_map_values sample_http bt_get_def)
  then obtain e es where objs: "d_objects ?d = e # es" by (cases "d_objects ?d") auto
  show ?thesis
    using run_wf ro
  proof (cases rule: reconcile_run [of sample_cfg ?d "outage_server sample_cfg" "[]"])
    case (ok swp rep)
    have "named (d_objects ?d)" by (rule named_objects [OF run_wf])
    then have "fst (apply_phase (outage_server sample_cfg) sample_cfg ?d []) \<noteq> Inr ()"
      using ro by (simp add: apply_phase_objects objs named_def ssa_apply_def call_def outage_server_def)
    then have "fst (reconcile_once (outage_server sample_cfg) sample_cfg ?d []) \<noteq> Inr ()"
      by (auto simp: reconcile_once_def split: prod.split sum.split)
    with ok show ?thesis by simp
  next
    case (failed pre e rest)
    then show ?thesis using that assms by simp
  qed
qed

definition sample_changed :: changed_config where
  "sample_changed = \<lparr>cc_config = sample_dyn, cc_etag = Some ''e1'', cc_digest = ''{}'', cc_raw_bytes = 2\<rparr>"

definition sample_lib :: client_lib where
  "sample_lib = \<lparr>lib_sha256_hex = (\<lambda>s. s), lib_decode = (\<lambda>s. if s = ''{}'' then Some sample_dyn else None)\<rparr>"

definition sample_client :: client where
  "sample_client = \<lparr>cl_http = \<lparr>ho_timeout = from_secs 30, ho_connect_timeout = from_secs 10,
       ho_pool_idle_timeout = Some (from_secs 90),
       ho_accept_invalid_certs = False, ho_root_certificates = []\<rparr>,
     cl_endpoint = sample_tls_url, cl_auth_header = None, cl_max_body_bytes = 16 * 1024 * 1024, cl_log_body = False\<rparr>"

definition sample_reply :: http_reply where
  "sample_reply = \<lparr>hrep_status = 200, hrep_etag = Some ''e1'', hrep_content_length = Some 2, hrep_text = None,
     hrep_bytes = Some ''{}''\<rparr>"

lemma sample_fetch:
  "fetch sample_lib sample_client (Some sample_reply) = Inr (Changed sample_changed)"
  by (simp add: fetch_def sample_changed_def sample_lib_def sample_client_def sample_reply_def ok_or_def is_success_def)

text \<open>A Pangolin with one configuration, which answers 304 when the request carries its tag.\<close>

definition sample_pangolin :: "fetch_request \<Rightarrow> http_reply option" where
  "sample_pangolin req =
     Some (if (''if-none-match'', ''e1'') \<in> set (fr_headers req) then sample_reply\<lparr>hrep_status := 304\<rparr>
           else sample_reply)"

definition sample_turn :: "bool \<Rightarrow> turn" where
  "sample_turn stop =
     \<lparr>turn_cancelled = False, turn_pangolin = sample_pangolin, turn_cancelled_waiting = stop\<rparr>"

lemma sample_poll: "poll sample_lib sample_client (sample_turn stop) None = Inr (Changed sample_changed)"
  by (simp add: poll_def sample_turn_def sample_pangolin_def if_none_match sample_fetch)

lemma sample_poll_again: "poll sample_lib sample_client (sample_turn stop) (Some ''e1'') = Inr NotModified"
  by (simp add: poll_def sample_turn_def sample_pangolin_def if_none_match fetch_def sample_reply_def ok_or_def)

lemma sample_serves: "serves (\<lambda>_. ''e1'') ''{}'' (sample_turn stop)"
  by (simp add: serves_def sample_turn_def sample_pangolin_def sample_reply_def)

lemma sample_iteration:
  obtains log where "snd (iteration sample_pf sample_cfg (sim_server sample_cfg) (Inr (Changed sample_changed)) loop_init) =
     \<lparr>lp_last_etag = Some ''e1'', lp_last_digest = Some ''{}'', lp_backoff = from_secs 1, lp_ready = True,
      lp_log = log\<rparr>"
    and "sim_cluster log (KHTTPRoute, ''hr-a'') = Some (OHTTPRoute (sample_route sample_cfg ''hr-a'' ''a''))"
proof -
  obtain log where "reconcile_once (sim_server sample_cfg) sample_cfg (build_desired sample_pf sample_cfg sample_dyn) []
      = (Inr (), log)"
    and "sim_cluster log = converged sample_cfg (build_desired sample_pf sample_cfg sample_dyn) (sim_cluster [])"
    by (rule sim.reconcile_cluster [OF _ run_wf, of sample_cfg sample_pf sample_dyn "[]"])
       (simp_all add: sample_cfg_fields)
  then show ?thesis
    using that by (simp add: iteration_def loop_init_def sample_changed_def opt_or_def converged_def
        sample_http bt_get_def)
qed

lemma sample_reachable:
  "reachable sample_pf sample_cfg srv [r] (snd (iteration sample_pf sample_cfg srv r loop_init))"
  using reach_step [OF reach_init] by simp

text \<open>One turn of the loop with this Pangolin and this cluster.\<close>

lemma sample_run:
  obtains st where "run_loop sample_pf sample_lib sample_client sample_cfg (sim_server sample_cfg)
      [sample_turn stop] loop_init = (if stop then Returned st else Running st)"
    and "lp_last_digest st = Some ''{}''" and "lp_last_etag st = Some ''e1''" and "lp_ready st"
    and "sim_cluster (lp_log st) (KHTTPRoute, ''hr-a'') = Some (OHTTPRoute (sample_route sample_cfg ''hr-a'' ''a''))"
proof -
  have start: "lp_last_etag loop_init = None" by (simp add: loop_init_def)
  obtain log where "snd (iteration sample_pf sample_cfg (sim_server sample_cfg) (Inr (Changed sample_changed)) loop_init) =
     \<lparr>lp_last_etag = Some ''e1'', lp_last_digest = Some ''{}'', lp_backoff = from_secs 1, lp_ready = True,
      lp_log = log\<rparr>"
    "sim_cluster log (KHTTPRoute, ''hr-a'') = Some (OHTTPRoute (sample_route sample_cfg ''hr-a'' ''a''))"
    by (rule sample_iteration)
  moreover have "turn_cancelled (sample_turn stop) = False" "turn_cancelled_waiting (sample_turn stop) = stop"
    by (simp_all add: sample_turn_def)
  ultimately show ?thesis by (intro that) (auto simp: start sample_poll Let_def)
qed

text \<open>The process on a machine with this cluster.\<close>

definition sample_host :: host where
  "sample_host = \<lparr>host_kube = Some (sim_server sample_cfg), host_read_file = (\<lambda>_. None), host_pem_ok = (\<lambda>_. True),
     host_build_ok = (\<lambda>_. True), host_bind = (\<lambda>_. True)\<rparr>"

lemma sample_pangolin_client: "pangolin_client sample_pf sample_host sample_cfg = Inr sample_client"
  by (simp add: pangolin_client_def sample_host_def client_new_def sample_cfg_def sample_client_def sample_pf_def
      sample_tls_url_def ok_or_def Let_def)

lemma sample_main:
  "sim_cluster (controller_log (controller_main sample_pf sample_lib main_env sample_host [sample_turn stop]))
     (KHTTPRoute, ''hr-a'') = Some (OHTTPRoute (sample_route sample_cfg ''hr-a'' ''a''))"
proof (rule sample_run [of stop])
  fix st
  assume "run_loop sample_pf sample_lib sample_client sample_cfg (sim_server sample_cfg)
      [sample_turn stop] loop_init = (if stop then Returned st else Running st)"
    and "sim_cluster (lp_log st) (KHTTPRoute, ''hr-a'') = Some (OHTTPRoute (sample_route sample_cfg ''hr-a'' ''a''))"
  moreover have "host_kube sample_host = Some (sim_server sample_cfg)" by (simp add: sample_host_def)
  ultimately show ?thesis
    by (simp add: controller_main_def run_def main_from_env sample_pangolin_client ok_or_def split: if_splits)
qed

section \<open>The controller and the mock\<close>

definition sample_mock :: mock_config where
  "sample_mock = \<lparr>mk_body = ''{}'', mk_etag = [CHR 0x22] @ ''{}'' @ [CHR 0x22]\<rparr>"

definition mock_env :: env where
  "mock_env = [''MOCK_PANGOLIN_FIXTURE'' \<mapsto> ''f'']"

lemma sample_mock_main: "mock_main (lib_sha256_hex sample_lib) mock_env (\<lambda>_. Some ''{}'') (\<lambda>_. True) = Inr sample_mock"
  by (simp add: mock_main_def mock_env_def sample_lib_def sample_mock_def ok_or_def Let_def)

lemma sample_mock_visible: "list_all visible (lib_sha256_hex sample_lib (mk_body sample_mock))"
  by (simp add: sample_lib_def sample_mock_def visible_def byte_def)

text \<open>Requests arrive byte by byte.\<close>

definition byte_pieces :: "string \<Rightarrow> string list" where
  "byte_pieces = map (\<lambda>c. [c])"

lemma byte_pieces: "concat (byte_pieces w) = w" "[] \<notin> set (byte_pieces w)"
  by (induction w) (auto simp: byte_pieces_def)

definition mock_turn :: turn where
  "mock_turn = \<lparr>turn_cancelled = False,
     turn_pangolin = (\<lambda>req. if sendable req
       then plain_receive (mock_connection sample_mock (map Some (byte_pieces (plain_send req)))) else None),
     turn_cancelled_waiting = False\<rparr>"

lemma mock_request:
  assumes "etag = None \<or> etag = Some (mk_etag sample_mock)"
  shows "sendable (fetch_request_of sample_client etag)"
    and "map_option snd (find (\<lambda>h. eq_ignore_ascii_case (fst h) ''if-none-match'')
      (fr_headers (fetch_request_of sample_client etag))) = etag"
  using assms
  by (auto simp: fetch_request_of_def sample_client_def sample_mock_def sendable_def header_ok_def visible_def
      printable_def byte_def eq_ignore_ascii_case_def to_ascii_lowercase_def
      char_to_lower_def is_upper_def byte_def)

lemma mock_poll:
  "\<exists>c. poll sample_lib sample_client mock_turn None = Inr (Changed c) \<and> cc_config c = sample_dyn \<and>
     cc_etag c = Some (mk_etag sample_mock)"
  "poll sample_lib sample_client mock_turn (Some (mk_etag sample_mock)) = Inr NotModified"
proof -
  have etag: "list_all visible (mk_etag sample_mock)"
    by (rule mock_etag_visible [OF sample_mock_main sample_mock_visible])
  have reply: "\<exists>reply. turn_pangolin mock_turn (fetch_request_of sample_client inm) = Some reply \<and>
      hrep_etag reply = Some (mk_etag sample_mock) \<and>
      (if inm = Some (mk_etag sample_mock) then hrep_status reply = 304
       else hrep_status reply = 200 \<and> hrep_bytes reply = Some (mk_body sample_mock) \<and>
         hrep_content_length reply = Some (length (mk_body sample_mock)))"
    if "inm = None \<or> inm = Some (mk_etag sample_mock)" for inm
  proof -
    have "list_all header_ok (fr_headers (fetch_request_of sample_client inm))"
      using mock_request(1) [OF that] by (auto simp: sendable_def list_all_iff)
    from plain.mock_answer [OF this byte_pieces] show ?thesis
      using plain.mock_received [OF etag, of inm] mock_request [OF that] by (simp add: mock_turn_def)
  qed
  obtain r where "turn_pangolin mock_turn (fetch_request_of sample_client (Some (mk_etag sample_mock))) = Some r"
    "hrep_status r = 304" using reply [of "Some (mk_etag sample_mock)"] by auto
  then show "poll sample_lib sample_client mock_turn (Some (mk_etag sample_mock)) = Inr NotModified"
    by (simp add: poll_def fetch_def ok_or_def)
  obtain r where "turn_pangolin mock_turn (fetch_request_of sample_client None) = Some r" "hrep_status r = 200"
    "hrep_bytes r = Some ''{}''" "hrep_content_length r = Some 2" "hrep_etag r = Some (mk_etag sample_mock)"
    using reply [of None] by (auto simp: sample_mock_def)
  then show "\<exists>c. poll sample_lib sample_client mock_turn None = Inr (Changed c) \<and> cc_config c = sample_dyn \<and>
     cc_etag c = Some (mk_etag sample_mock)"
    by (simp add: poll_def fetch_def ok_or_def is_success_def sample_client_def sample_lib_def)
qed

lemma mock_run:
  obtains st where "run_loop sample_pf sample_lib sample_client sample_cfg (sim_server sample_cfg) [mock_turn] loop_init
      = Running st" and "lp_last_etag st = Some (mk_etag sample_mock)"
proof -
  obtain c where c: "poll sample_lib sample_client mock_turn None = Inr (Changed c)" "cc_etag c = Some (mk_etag sample_mock)"
    using mock_poll(1) by blast
  obtain log where "reconcile_once (sim_server sample_cfg) sample_cfg (build_desired sample_pf sample_cfg (cc_config c)) []
      = (Inr (), log)"
    by (rule sim.reconcile_cluster [OF _ run_wf, of sample_cfg sample_pf "cc_config c" "[]"]) (simp_all add: sample_cfg_fields)
  moreover have "turn_cancelled mock_turn = False" "turn_cancelled_waiting mock_turn = False"
    by (simp_all add: mock_turn_def)
  ultimately show ?thesis using that c by (simp add: loop_init_def iteration_def opt_or_def Let_def)
qed

end
