(* ===== verification/Matching.thy ===== *)
theory Matching
  imports Route
begin

text \<open>
  Which requests a router's rule selects and which its HTTPRoute selects. Both are evaluated over
  a parameter \<open>ev\<close> that decides the primitive matches of a request, a host name or a path with a
  kind of match, so that the comparison does not depend on how hosts and paths are compared.
  Nothing here models code of its own: it is the yardstick for the parser and the route builder.
\<close>

section \<open>Meaning of a Traefik rule\<close>

datatype atom = HostIs string | PathIs path_match_kind string

type_synonym request_eval = "atom \<Rightarrow> bool"

definition path_atom :: "string \<Rightarrow> string \<Rightarrow> atom" where
  "path_atom ident a =
     (if ident = ''PathPrefix'' then PathIs Prefix (normalize_path a)
      else if ident = ''Path'' then PathIs Exact (normalize_path a)
      else PathIs Regex a)"

text \<open>The predicates that are translated hold when one of their arguments does; a rule is the
  conjunction of its predicates.\<close>

definition pred_holds :: "request_eval \<Rightarrow> predicate \<Rightarrow> bool" where
  "pred_holds ev p =
     list_ex (\<lambda>a. ev (if fst p = ''Host'' then HostIs a else path_atom (fst p) a)) (snd p)"

definition rule_holds :: "request_eval \<Rightarrow> predicate list \<Rightarrow> bool" where
  "rule_holds ev ps = list_all (pred_holds ev) ps"

section \<open>Meaning of an HTTPRoute\<close>

text \<open>As the Gateway API documents it, defaults included: hostnames and matches are alternatives.\<close>

definition kind_of_match :: "path_match_type option \<Rightarrow> path_match_kind" where
  "kind_of_match t =
     (case t of Some MatchExact \<Rightarrow> Exact | Some MatchRegularExpression \<Rightarrow> Regex | _ \<Rightarrow> Prefix)"

definition match_accepts :: "request_eval \<Rightarrow> http_match \<Rightarrow> bool" where
  "match_accepts ev m =
     (case hmatch_path m of
        None \<Rightarrow> True
      | Some p \<Rightarrow> ev (PathIs (kind_of_match (hpm_type p)) (case hpm_value p of None \<Rightarrow> ''/'' | Some v \<Rightarrow> v)))"

definition any_or_empty :: "('a \<Rightarrow> bool) \<Rightarrow> 'a list option \<Rightarrow> bool" where
  "any_or_empty P xs = (case xs of None \<Rightarrow> True | Some ys \<Rightarrow> ys = [] \<or> list_ex P ys)"

definition route_accepts :: "request_eval \<Rightarrow> http_route \<Rightarrow> bool" where
  "route_accepts ev r \<longleftrightarrow>
     any_or_empty (\<lambda>h. ev (HostIs h)) (hroute_hostnames r) \<and>
     any_or_empty (\<lambda>rule. any_or_empty (match_accepts ev) (hr_matches rule)) (hroute_rules r)"

declare path_atom_def [exec] pred_holds_def [exec] rule_holds_def [exec]
  kind_of_match_def [exec] match_accepts_def [exec] any_or_empty_def [exec] route_accepts_def [exec]

section \<open>What a built route accepts\<close>

lemma kind_of_match_type [simp]: "kind_of_match (Some (path_match_type_of k)) = k"
  by (cases k) (simp_all add: kind_of_match_def)

text \<open>A route built from a usable rule accepts what one of the hosts and the path matcher accept.\<close>

lemma build_route_accepts:
  assumes "is_usable parsed"
  shows "route_accepts ev (build_route cfg name parsed filters rb) \<longleftrightarrow>
    list_ex (\<lambda>h. ev (HostIs h)) (pr_hosts parsed) \<and>
    (case pr_path parsed of None \<Rightarrow> True | Some p \<Rightarrow> ev (PathIs (pm_kind p) (pm_value p)))"
  using assms
  by (auto simp: route_accepts_def build_route_def Let_def any_or_empty_def route_rule_def route_matches_def
      match_accepts_def is_usable_def split: option.split)

lemma list_ex_concat: "list_ex P (concat xss) \<longleftrightarrow> list_ex (list_ex P) xss"
  by (induction xss) auto

text \<open>Of several \<open>Host\<close> predicates one is enough for the route, of several path predicates only the
  last counts.\<close>

lemma rule_of_hosts:
  "list_ex (\<lambda>h. ev (HostIs h)) (pr_hosts (rule_of ps)) \<longleftrightarrow> list_ex (pred_holds ev) (filter (\<lambda>p. fst p = ''Host'') ps)"
  by (induction ps) (auto simp: rule_of_def pred_holds_def)

lemma path_of_pred_atom:
  assumes "fst p \<in> set path_idents" and "length (snd p) = 1"
  shows "\<exists>pm. path_of_pred p = Some pm \<and> ev (PathIs (pm_kind pm) (pm_value pm)) = pred_holds ev p"
proof -
  obtain a where "snd p = [a]" using assms(2) by (auto simp: length_Suc_conv)
  then show ?thesis using assms(1)
    by (auto simp: path_idents_def path_of_pred_def pred_holds_def path_atom_def)
qed

section \<open>Rules that are translated exactly\<close>

lemma rule_of_path:
  assumes "length (filter (\<lambda>p. fst p \<in> set path_idents) ps) \<le> 1"
    and "list_all (\<lambda>p. fst p \<in> set path_idents \<longrightarrow> length (snd p) = 1) ps"
  shows "(case pr_path (rule_of ps) of None \<Rightarrow> True | Some p \<Rightarrow> ev (PathIs (pm_kind p) (pm_value p))) \<longleftrightarrow>
    list_all (pred_holds ev) (filter (\<lambda>p. fst p \<in> set path_idents) ps)"
proof -
  have path: "pr_path (rule_of ps) = last_some (map path_of_pred (filter (\<lambda>p. fst p \<in> set path_idents) ps))"
    using last_some_filter [of ps "\<lambda>p. fst p \<in> set path_idents" path_of_pred]
    by (simp add: rule_of_def path_of_other)
  show ?thesis
    using assms(1)
  proof (cases rule: short_filter_cases)
    case 1
    then show ?thesis by (simp add: path last_some_def)
  next
    case (2 p)
    then have "length (snd p) = 1" using assms(2) by (auto simp: list_all_iff)
    from path_of_pred_atom [OF 2(3) this] obtain pm where
      "path_of_pred p = Some pm" "ev (PathIs (pm_kind pm) (pm_value pm)) = pred_holds ev p" by blast
    with 2(1) show ?thesis by (simp add: path last_some_def)
  qed
qed

lemma route_means_rule:
  assumes "unambiguous ps" and "is_usable (parse (show_rule ps))"
  shows "route_accepts ev (build_route cfg name (parse (show_rule ps)) filters rb) \<longleftrightarrow> rule_holds ev ps"
proof -
  let ?host = "\<lambda>p. fst p = ''Host''" and ?path = "\<lambda>p. fst p \<in> set path_idents"
  have parse: "parse (show_rule ps) = rule_of ps"
    using assms(1) by (simp add: unambiguous_def parse_show_rule_aux apply_preds_rule_of)
  have usable: "is_usable (rule_of ps)" using assms(2) by (simp add: parse)
  have "rule_holds ev ps \<longleftrightarrow> list_all (pred_holds ev) (filter ?host ps) \<and> list_all (pred_holds ev) (filter ?path ps)"
    using usable_idents [OF usable] unfolding rule_holds_def list_all_iff set_filter by blast
  moreover have "list_all (pred_holds ev) (filter ?host ps) \<longleftrightarrow> list_ex (pred_holds ev) (filter ?host ps)"
  proof -
    have "filter ?host ps \<noteq> []" using usable unfolding is_usable_def rule_of_def by (intro notI) simp
    then obtain p where "filter ?host ps = [p]"
      using assms(1) by (cases "filter ?host ps") (auto simp: unambiguous_def)
    then show ?thesis by simp
  qed
  moreover have "(case pr_path (rule_of ps) of None \<Rightarrow> True | Some p \<Rightarrow> ev (PathIs (pm_kind p) (pm_value p)))
      \<longleftrightarrow> list_all (pred_holds ev) (filter ?path ps)"
    using assms(1) by (intro rule_of_path) (simp_all add: unambiguous_def)
  ultimately show ?thesis by (simp add: parse build_route_accepts [OF usable] rule_of_hosts)
qed

text \<open>
  With two path predicates the route selects more than the rule: the first one is dropped. Likewise
  two \<open>Host\<close> predicates, a conjunction in Traefik, become alternatives.
\<close>

lemma second_path_widens:
  defines "ps \<equiv> [(''Host'', [''a'']), (''Path'', [''/x'']), (''PathPrefix'', [''/''])]"
  defines "ev \<equiv> (\<lambda>x. x \<in> {HostIs ''a'', PathIs Prefix ''/''})"
  shows "is_usable (parse (show_rule ps))" and "\<not> rule_holds ev ps"
    and "route_accepts ev (build_route cfg name (parse (show_rule ps)) filters rb)"
proof -
  have wf: "list_all wf_pred ps" unfolding ps_def by code_simp
  then have parse: "parse (show_rule ps) = rule_of ps" by (simp add: parse_show_rule_aux apply_preds_rule_of)
  have rule: "rule_of ps = \<lparr>pr_hosts = [''a''], pr_path = Some \<lparr>pm_kind = Prefix, pm_value = ''/''\<rparr>,
     pr_host_regexp = False, pr_unsupported = [], pr_disjunction = False, pr_negation = False\<rparr>"
    unfolding ps_def by code_simp
  show usable: "is_usable (parse (show_rule ps))" by (simp add: parse rule is_usable_def)
  show "\<not> rule_holds ev ps"
    by (simp add: ps_def ev_def rule_holds_def pred_holds_def path_atom_def normalize_path_def starts_with_def)
  show "route_accepts ev (build_route cfg name (parse (show_rule ps)) filters rb)"
    using build_route_accepts [OF usable] by (simp add: parse rule ev_def)
qed

section \<open>Rules that the API server refuses\<close>

text \<open>
  Two of the validations of the HTTPRoute resource: a rule has no redirect beside a rewrite, and a
  rule that replaces the matched prefix has exactly one match, by prefix (the default is the
  prefix /). A rule that breaks them is refused, and a refused patch ends the reconcile run.
\<close>

definition replaces_prefix :: "http_filter \<Rightarrow> bool" where
  "replaces_prefix f \<longleftrightarrow>
     (case opt_bind (f_url_rewrite f) ur_path of None \<Rightarrow> False | Some p \<Rightarrow> rp_type p = ReplacePrefixMatch)"

definition admitted :: "http_rule \<Rightarrow> bool" where
  "admitted r \<longleftrightarrow>
     (let fs = (case hr_filters r of None \<Rightarrow> [] | Some fs \<Rightarrow> fs)
      in \<not> (list_ex (\<lambda>f. f_type f = RequestRedirect) fs \<and> list_ex (\<lambda>f. f_type f = UrlRewrite) fs) \<and>
         (list_ex replaces_prefix fs \<longrightarrow>
            (case hr_matches r of
               None \<Rightarrow> True
             | Some ms \<Rightarrow>
                 (case ms of
                    [m] \<Rightarrow> (case hmatch_path m of None \<Rightarrow> False | Some p \<Rightarrow> hpm_type p = Some MatchPathPrefix)
                  | _ \<Rightarrow> False))))"

declare replaces_prefix_def [exec] admitted_def [exec]

text \<open>What is admitted, in terms of the router: nothing else of it matters.\<close>

lemma route_rule_admitted:
  "admitted (route_rule parsed fs rb) \<longleftrightarrow>
     \<not> (is_terminating fs \<and> list_ex (\<lambda>f. f_type f = UrlRewrite) fs) \<and>
     (list_ex replaces_prefix fs \<longrightarrow> (case pr_path parsed of None \<Rightarrow> True | Some p \<Rightarrow> pm_kind p = Prefix))"
proof -
  have type: "path_match_type_of k = MatchPathPrefix \<longleftrightarrow> k = Prefix" for k by (cases k) simp_all
  have fs: "(case non_empty fs of None \<Rightarrow> [] | Some fs \<Rightarrow> fs) = fs" by (simp add: non_empty_def)
  show ?thesis
    by (simp add: admitted_def route_rule_def fs is_terminating_def route_matches_def type split: option.split)
qed

text \<open>An exact path with a middleware that adds a prefix is translated to a rule that is refused, and
  so is a redirect with any path rewrite. All prefixes are stripped alike: what is removed is the
  prefix of the match.\<close>

definition one_middleware :: "string \<Rightarrow> string \<Rightarrow> json \<Rightarrow> (string \<times> middleware) list" where
  "one_middleware name kind body = [(name, Middleware (JObject [(kind, body)]))]"

lemma exact_path_with_prefix_refused:
  "\<not> admitted (route_rule (parse ''Host(`a`) && Path(`/x`)'')
     (build_filters [''m''] (one_middleware ''m'' ''addPrefix'' (JObject [(''prefix'', JString ''/p'')]))) rb)"
proof -
  have "(case pr_path (parse ''Host(`a`) && Path(`/x`)'') of None \<Rightarrow> True | Some p \<Rightarrow> pm_kind p = Prefix) = False \<and>
    list_ex replaces_prefix
      (build_filters [''m''] (one_middleware ''m'' ''addPrefix'' (JObject [(''prefix'', JString ''/p'')])))" by code_simp
  then show ?thesis by (simp add: route_rule_admitted)
qed

lemma redirect_with_rewrite_refused:
  "\<not> admitted (route_rule parsed
     (build_filters [''m'', ''n'']
        [(''m'', Middleware (JObject [(''redirectScheme'', JObject [(''scheme'', JString ''https'')])])),
         (''n'', Middleware (JObject [(''replacePath'', JObject [(''path'', JString ''/p'')])]))]) rb)"
proof -
  have "is_terminating (build_filters [''m'', ''n'']
        [(''m'', Middleware (JObject [(''redirectScheme'', JObject [(''scheme'', JString ''https'')])])),
         (''n'', Middleware (JObject [(''replacePath'', JObject [(''path'', JString ''/p'')])]))]) \<and>
    list_ex (\<lambda>f. f_type f = UrlRewrite) (build_filters [''m'', ''n'']
        [(''m'', Middleware (JObject [(''redirectScheme'', JObject [(''scheme'', JString ''https'')])])),
         (''n'', Middleware (JObject [(''replacePath'', JObject [(''path'', JString ''/p'')])]))])" by code_simp
  then show ?thesis by (simp add: route_rule_admitted)
qed

lemma strip_prefix_ignores_prefixes:
  assumes "opt_bind (json_get b ''prefixes'') json_as_array = Some (p # ps)"
    and "opt_bind (json_get b' ''prefixes'') json_as_array = Some (q # qs)"
  shows "translate_strip_prefix b = translate_strip_prefix b'"
  using assms by (simp add: translate_strip_prefix_def)

end
