(* ===== verification/Wire.thy ===== *)
theory Wire
  imports Pangolin_Types
begin

text \<open>
  JSON on the wire, as the \<^verbatim>\<open>serde\<close> attributes of the structs define it. A document is a \<^typ>\<open>json\<close>
  whose objects list their entries in the order of the text, repeated keys included; the parser
  that makes it from bytes is a parameter. Every error of decoding is \<^term>\<open>None\<close>, since the
  program does not tell them apart. The locale \<open>wire_format\<close> is the contract of a type that is
  both written and read; the types of \<open>Envoy_Wire\<close> interpret it.
\<close>

section \<open>Values\<close>

text \<open>An integer that fits; minus zero is a float for serde.\<close>

fun json_as_i64 :: "json \<Rightarrow> int option" where
  "json_as_i64 (JNumber t) =
     (case t of
        [] \<Rightarrow> None
      | c # r \<Rightarrow>
          (if c = CHR ''-'' then
             (case parse_digits 0 r of
                Some n \<Rightarrow> if r \<noteq> [] \<and> 0 < n \<and> n \<le> 2 ^ 63 then Some (- int n) else None
              | None \<Rightarrow> None)
           else map_option int (parse_unsigned (2 ^ 63 - 1) t)))"
| "json_as_i64 _ = None"

definition json_object :: "(string \<times> json) list \<Rightarrow> json" where
  "json_object kvs = JObject (fold (\<lambda>(k, v). bt_insert k v) kvs [])"

text \<open>A \<^verbatim>\<open>Value\<close> read from a document: of equal keys the last one counts.\<close>

primrec to_value :: "json \<Rightarrow> json" where
  "to_value JNull = JNull"
| "to_value (JBool b) = JBool b"
| "to_value (JNumber t) = JNumber t"
| "to_value (JString s) = JString s"
| "to_value (JArray xs) = JArray (map to_value xs)"
| "to_value (JObject kvs) = json_object (map (map_prod (\<lambda>k. k) to_value) kvs)"

section \<open>Reading\<close>

definition dec_value :: "json \<Rightarrow> json option" where
  "dec_value v = Some (to_value v)"

definition dec_i32 :: "json \<Rightarrow> int option" where
  "dec_i32 v =
     (case json_as_i64 v of
        None \<Rightarrow> None
      | Some i \<Rightarrow> if - (2 ^ 31) \<le> i \<and> i < 2 ^ 31 then Some i else None)"

definition dec_option :: "(json \<Rightarrow> 'a option) \<Rightarrow> json \<Rightarrow> 'a option option" where
  "dec_option d v = (if v = JNull then Some None else map_option Some (d v))"

definition dec_seq :: "(json \<Rightarrow> 'a option) \<Rightarrow> json \<Rightarrow> 'a list option" where
  "dec_seq d v = (case json_as_array v of None \<Rightarrow> None | Some xs \<Rightarrow> those (map d xs))"

definition dec_entry :: "(json \<Rightarrow> 'a option) \<Rightarrow> string \<times> json \<Rightarrow> (string \<times> 'a) option" where
  "dec_entry d kv = map_option (Pair (fst kv)) (d (snd kv))"

text \<open>A \<^verbatim>\<open>BTreeMap\<close>: of equal keys the last one counts.\<close>

definition dec_map :: "(json \<Rightarrow> 'a option) \<Rightarrow> json \<Rightarrow> (string \<times> 'a) list option" where
  "dec_map d v =
     (case json_as_object v of
        None \<Rightarrow> None
      | Some kvs \<Rightarrow>
          map_option (\<lambda>es. fold (\<lambda>(k, x). bt_insert k x) es []) (those (map (dec_entry d) kvs)))"

text \<open>
  A derived struct is read from an object, unknown keys ignored and a known key not repeated, or
  from an array by position. \<open>struct_fields\<close> gives the value of each field that is there.
\<close>

definition struct_fields :: "string list \<Rightarrow> json \<Rightarrow> (string \<Rightarrow> json option) option" where
  "struct_fields names v =
     (case v of
        JObject kvs \<Rightarrow>
          (if distinct (filter (\<lambda>k. k \<in> set names) (map fst kvs)) then Some (map_of kvs) else None)
      | JArray xs \<Rightarrow> (if length xs \<le> length names then Some (map_of (zip names xs)) else None)
      | _ \<Rightarrow> None)"

text \<open>A field that must be there, and one with \<^verbatim>\<open>serde(default)\<close>.\<close>

definition required_field :: "(string \<Rightarrow> json option) \<Rightarrow> string \<Rightarrow> (json \<Rightarrow> 'a option) \<Rightarrow> 'a option" where
  "required_field f k d = (case f k of None \<Rightarrow> None | Some v \<Rightarrow> d v)"

definition default_field :: "(string \<Rightarrow> json option) \<Rightarrow> string \<Rightarrow> (json \<Rightarrow> 'a option) \<Rightarrow> 'a \<Rightarrow> 'a option" where
  "default_field f k d dflt = (case f k of None \<Rightarrow> Some dflt | Some v \<Rightarrow> d v)"

text \<open>Reading goes on with what was read.\<close>

definition reads :: "'a option \<Rightarrow> ('a \<Rightarrow> 'b option) \<Rightarrow> 'b option" where
  "reads x f = (case x of None \<Rightarrow> None | Some v \<Rightarrow> f v)"

section \<open>Writing\<close>

text \<open>
  A struct: fields that are \<^verbatim>\<open>None\<close> are skipped. What is written lists its keys in their order, not
  in that of the struct; no reader of JSON depends on it.
\<close>

definition enc_struct :: "(string \<times> json option) list \<Rightarrow> json" where
  "enc_struct kvs =
     json_object (List.map_filter (\<lambda>(k, v). map_option (Pair k) v) kvs)"

definition enc_seq :: "('a \<Rightarrow> json) \<Rightarrow> 'a list \<Rightarrow> json" where
  "enc_seq e xs = JArray (map e xs)"

definition enc_i32 :: "int \<Rightarrow> json" where
  "enc_i32 i = JNumber (show_int i)"

definition enc_map :: "('a \<Rightarrow> json) \<Rightarrow> (string \<times> 'a) list \<Rightarrow> json" where
  "enc_map e kvs = json_object (map (apsnd e) kvs)"

declare json_object_def [exec] dec_value_def [exec] dec_i32_def [exec] dec_option_def [exec] dec_seq_def [exec]
  dec_entry_def [exec] dec_map_def [exec] struct_fields_def [exec] required_field_def [exec]
  default_field_def [exec] reads_def [exec] enc_struct_def [exec] enc_seq_def [exec] enc_i32_def [exec]
  enc_map_def [exec]

section \<open>Lemmas\<close>

lemma reads_Some [simp]: "reads (Some x) f = f x" "reads None f = None"
  by (simp_all add: reads_def)

lemma reads_Some_iff: "reads x f = Some y \<longleftrightarrow> (\<exists>v. x = Some v \<and> f v = Some y)"
  by (auto simp: reads_def split: option.split)

lemma json_object_get: "json_get (json_object kvs) k = map_of (rev kvs) k"
  using bt.get_insert_all [of "[] :: (string \<times> json) list" kvs]
  by (simp add: json_get_def json_object_def bt_get_eq)

lemma map_of_present:
  assumes "distinct (map fst kvs)"
  shows "map_of (rev (List.map_filter (\<lambda>(k, v). map_option (Pair k) v) kvs)) k =
    (case map_of kvs k of None \<Rightarrow> None | Some v \<Rightarrow> v)"
  using assms
proof (induction kvs)
  case Nil
  then show ?case by (simp add: map_filter_simps)
next
  case (Cons kv kvs)
  obtain k' v where kv: "kv = (k', v)" by fastforce
  have "map_of kvs k' = None" using Cons.prems by (simp add: kv map_of_eq_None_iff)
  then show ?case
    using Cons by (cases v) (auto simp: kv map_filter_simps map_add_def split: option.splits)
qed

text \<open>What is written is found again, field by field.\<close>

lemma struct_fields_enc:
  assumes "names = map fst kvs" and "distinct names"
  shows "struct_fields names (enc_struct kvs) =
    Some (\<lambda>k. case map_of kvs k of None \<Rightarrow> None | Some v \<Rightarrow> v)"
proof -
  let ?es = "List.map_filter (\<lambda>(k, v). map_option (Pair k) v) kvs"
  let ?m = "fold (\<lambda>(k, v). bt_insert k v) ?es []"
  have "distinct (map fst ?m)"
    using bt.keys_distinct [OF bt.wf_insert_all [OF bt_wf_Nil, of ?es]] by (simp add: bt_keys_def)
  moreover have "map_of ?m = (\<lambda>k. case map_of kvs k of None \<Rightarrow> None | Some v \<Rightarrow> v)"
    using bt.get_insert_all [OF bt_wf_Nil, of ?es] map_of_present [of kvs] assms
    by (auto simp: bt_get_eq fun_eq_iff)
  ultimately show ?thesis by (simp add: struct_fields_def enc_struct_def json_object_def)
qed

lemma those_map_Some: "(\<And>x. x \<in> set xs \<Longrightarrow> f x = Some (g x)) \<Longrightarrow> those (map f xs) = Some (map g xs)"
  by (induction xs) auto

lemma those_Some_iff: "those xs = Some ys \<longleftrightarrow> xs = map Some ys"
  by (induction xs arbitrary: ys) (auto split: option.splits simp: map_eq_Cons_conv Cons_eq_map_conv)

lemma those_None_iff: "those xs = None \<longleftrightarrow> None \<in> set xs"
  by (induction xs) (auto split: option.splits)

lemma json_as_i64_show: "- (2 ^ 63) \<le> i \<Longrightarrow> i < 2 ^ 63 \<Longrightarrow> json_as_i64 (JNumber (show_int i)) = Some i"
proof -
  assume range: "- (2 ^ 63) \<le> i" "i < 2 ^ 63"
  show ?thesis
  proof (cases "i < 0")
    case True
    moreover have "nat (- i) \<le> 2 ^ 63" using range by simp
    ultimately show ?thesis by (simp add: show_int_def parse_digits_show)
  next
    case False
    obtain c r where cr: "show_nat (nat i) = c # r" by (cases "show_nat (nat i)") auto
    then have "is_digit c" using show_nat_digits [of "nat i"] by simp
    then have "c \<noteq> CHR ''-''" by (auto simp: is_digit_def byte_def)
    moreover have "parse_unsigned (2 ^ 63 - 1) (show_nat (nat i)) = Some (nat i)"
      using range False by (intro parse_unsigned_show) simp
    ultimately show ?thesis using False cr by (simp add: show_int_def)
  qed
qed

lemma enc_struct_not_null: "enc_struct kvs \<noteq> JNull"
  by (simp add: enc_struct_def json_object_def)

section \<open>Reading a document by its paths\<close>

text \<open>The value at a path of keys; of equal keys the last one counts.\<close>

fun json_at :: "json \<Rightarrow> string list \<Rightarrow> json option" where
  "json_at v [] = Some v"
| "json_at (JObject kvs) (k # ks) = (case map_of (rev kvs) k of None \<Rightarrow> None | Some w \<Rightarrow> json_at w ks)"
| "json_at _ (k # ks) = None"

lemma map_of_rev_distinct:
  "distinct (filter (\<lambda>k. k \<in> set names) (map fst kvs)) \<Longrightarrow> k \<in> set names \<Longrightarrow> map_of (rev kvs) k = map_of kvs k"
proof (induction kvs)
  case (Cons kv kvs)
  show ?case
  proof (cases "fst kv = k")
    case True
    then have "k \<notin> fst ` set kvs" using Cons.prems by auto
    then have "map_of kvs k = None" by (simp add: map_of_eq_None_iff)
    moreover have "distinct (filter (\<lambda>k. k \<in> set names) (map fst kvs))"
      using Cons.prems(1) by (auto split: if_splits)
    ultimately have "map_of (rev kvs) k = None" using Cons by simp
    with True show ?thesis by (cases kv) (simp add: map_add_def)
  next
    case False
    with Cons show ?thesis by (cases kv) (auto simp: map_add_def split: if_splits option.splits)
  qed
qed simp

text \<open>A struct read from an object has the fields of the object.\<close>

lemma struct_fields_object:
  assumes "struct_fields names v = Some f" and "json_at v [k] = Some w" and "k \<in> set names"
  shows "f k = Some w"
  using assms by (cases v) (auto simp: struct_fields_def map_of_rev_distinct split: if_splits option.splits)

lemma struct_fields_missing:
  assumes "struct_fields names (JObject kvs) = Some f" and "k \<in> set names"
  shows "f k = json_at (JObject kvs) [k]"
  using assms map_of_rev_distinct [of names kvs k]
  by (auto simp: struct_fields_def split: if_splits option.splits)

lemma map_of_entries: "map_of (map (map_prod id g) kvs) k = map_option g (map_of kvs k)"
  by (induction kvs) auto

lemma those_entries: "those (map (dec_entry d) kvs) = Some es \<Longrightarrow>
    (case map_of kvs k of None \<Rightarrow> None | Some w \<Rightarrow> d w) = map_of es k"
  by (induction kvs arbitrary: es) (auto simp: dec_entry_def split: option.splits)

lemma those_rev: "those (map f xs) = Some ys \<Longrightarrow> those (map f (rev xs)) = Some (rev ys)"
  by (simp add: those_Some_iff rev_map [symmetric])

lemma enc_struct_at:
  assumes "distinct (map fst kvs)" and "k \<in> fst ` set kvs"
  shows "json_at (enc_struct kvs) [k] = (case map_of kvs k of None \<Rightarrow> None | Some v \<Rightarrow> v)"
proof -
  obtain es where es: "enc_struct kvs = JObject es" by (simp add: enc_struct_def json_object_def)
  show ?thesis
    using struct_fields_missing [of "map fst kvs" es, folded es, OF struct_fields_enc [OF refl assms(1)]] assms(2)
    by simp
qed

lemma json_object_at: "json_at (json_object kvs) [k] = map_of (rev kvs) k"
proof -
  have wf: "bt_wf (fold (\<lambda>(k, v). bt_insert k v) kvs [])" by (rule bt.wf_insert_all) simp
  have "map_of (rev m) k = map_of m k" if "bt_wf m" for m :: "(string \<times> json) list"
    using that map_of_rev_distinct [of "map fst m" m k] map_of_eq_None_iff [of m k] map_of_eq_None_iff [of "rev m" k]
    by (cases "k \<in> set (map fst m)") (auto simp: bt_wf_def strict_sorted_iff)
  with wf show ?thesis
    using json_object_get [of kvs k]
    by (simp add: json_object_def json_get_def bt_get_eq split: option.split)
qed

lemma enc_map_at: "json_at (enc_map e kvs) [k] = map_option e (map_of (rev kvs) k)"
proof -
  have "map_of (map (apsnd e) xs) k = map_option e (map_of xs k)" for xs by (induction xs) auto
  then show ?thesis by (simp add: enc_map_def json_object_at rev_map)
qed

text \<open>A map read from an object: sorted, with the values of the object.\<close>

lemma dec_map_read:
  assumes "dec_map d v = Some m"
  shows "bt_wf m" and "bt_get m k = reads (json_at v [k]) d"
proof -
  obtain kvs es where v: "v = JObject kvs" and es: "those (map (dec_entry d) kvs) = Some es"
    and m: "m = fold (\<lambda>(k, x). bt_insert k x) es []"
    using assms by (cases v) (auto simp: dec_map_def)
  show "bt_wf m" unfolding m by (rule bt.wf_insert_all) simp
  have "bt_get m k = map_of (rev es) k"
    using bt.get_insert_all [OF bt_wf_Nil, of es] by (simp add: m bt_get_eq)
  also have "\<dots> = (case map_of (rev kvs) k of None \<Rightarrow> None | Some w \<Rightarrow> d w)"
    using those_entries [OF those_rev [OF es]] by simp
  finally show "bt_get m k = reads (json_at v [k]) d" by (simp add: v reads_def split: option.split)
qed

lemma json_at_append: "json_at v (ks @ ls) = reads (json_at v ks) (\<lambda>w. json_at w ls)"
  by (induction v ks rule: json_at.induct) (auto split: option.split)

lemma json_at_Cons: "json_at v (k # ks) = reads (json_at v [k]) (\<lambda>w. json_at w ks)"
  using json_at_append [of v "[k]" ks] by simp

lemma to_value_object [simp]: "json_as_object (to_value v) = None \<longleftrightarrow> json_as_object v = None"
  by (cases v) (simp_all add: json_object_def)

lemma json_get_to_value: "json_get (to_value v) k = map_option to_value (json_at v [k])"
proof (cases v)
  case (JObject kvs)
  have "map_of (rev (map (map_prod (\<lambda>k. k) to_value) kvs)) k = map_option to_value (map_of (rev kvs) k)"
    using map_of_entries [of to_value "rev kvs" k] by (simp add: rev_map id_def)
  then show ?thesis by (simp add: JObject json_object_get split: option.split)
qed (simp_all add: json_get_def)

text \<open>The fields of a struct that is read from an object.\<close>

lemma default_field_object:
  assumes "struct_fields names (JObject kvs) = Some f" and "k \<in> set names"
  shows "default_field f k d x = (case json_at (JObject kvs) [k] of None \<Rightarrow> Some x | Some w \<Rightarrow> d w)"
  by (simp only: default_field_def struct_fields_missing [OF assms])

lemma required_field_object:
  assumes "struct_fields names (JObject kvs) = Some f" and "k \<in> set names"
  shows "required_field f k d = reads (json_at (JObject kvs) [k]) d"
  by (simp only: required_field_def reads_def struct_fields_missing [OF assms])

lemma json_at_object: "json_at v (k # ks) = Some w \<Longrightarrow> \<exists>kvs. v = JObject kvs"
  by (cases v) simp_all

lemma those_present: "those (map f xs) = Some ys \<Longrightarrow> x \<in> set xs \<Longrightarrow> f x \<noteq> None"
  using those_None_iff [of "map f xs"] by force

lemma dec_map_entries:
  assumes "dec_map d v = Some m" and "json_at v [k] = Some w"
  shows "d w \<noteq> None"
proof -
  obtain kvs es where v: "v = JObject kvs" and es: "those (map (dec_entry d) kvs) = Some es"
    using assms(1) by (cases v) (auto simp: dec_map_def)
  have "(k, w) \<in> set kvs" using assms(2) by (auto simp: v dest: map_of_SomeD split: option.splits)
  then show ?thesis using those_present [OF es] by (auto simp: dec_entry_def)
qed

lemma default_map_wf: "default_field f k (dec_map d) [] = Some m \<Longrightarrow> bt_wf m"
  by (cases "f k") (auto simp: default_field_def dest: dec_map_read(1))

lemma as_bool_Some: "json_as_bool v = Some b \<longleftrightarrow> v = JBool b"
  by (cases v) auto

lemma as_str_Some: "json_as_str v = Some s \<longleftrightarrow> v = JString s"
  by (cases v) auto

text \<open>What the program does not know is ignored, wherever it stands.\<close>

lemma unknown_ignored:
  assumes "k \<notin> set names"
  shows "struct_fields names (JObject (xs @ (k, v) # ys)) = None \<longleftrightarrow> struct_fields names (JObject (xs @ ys)) = None"
    and "struct_fields names (JObject (xs @ (k, v) # ys)) = Some f \<Longrightarrow>
      struct_fields names (JObject (xs @ ys)) = Some g \<Longrightarrow> k' \<in> set names \<Longrightarrow> f k' = g k'"
  using assms by (auto simp: struct_fields_def map_add_def split: if_splits option.splits)

section \<open>The contract of a format\<close>

text \<open>What is written is never null, so that it can stand in an optional field, and it is read back.\<close>

locale wire_format =
  fixes enc :: "'a \<Rightarrow> json" and dec :: "json \<Rightarrow> 'a option" and ok :: "'a \<Rightarrow> bool"
  assumes read_back: "ok x \<Longrightarrow> dec (enc x) = Some x"
    and not_null: "enc x \<noteq> JNull"
begin

lemma option_field:
  "f k = map_option enc x \<Longrightarrow> pred_option ok x \<Longrightarrow> default_field f k (dec_option dec) None = Some x"
  by (cases x) (simp_all add: default_field_def dec_option_def read_back not_null)

lemma needed_field: "f k = Some (enc x) \<Longrightarrow> ok x \<Longrightarrow> required_field f k dec = Some x"
  by (simp add: required_field_def read_back)

lemma seq_back: "list_all ok xs \<Longrightarrow> dec_seq dec (enc_seq enc xs) = Some xs"
  by (simp add: dec_seq_def enc_seq_def list_all_iff read_back those_map_Some [where g = "\<lambda>x. x"])

lemma seq_format: "wire_format (enc_seq enc) (dec_seq dec) (list_all ok)"
  by unfold_locales (simp_all add: seq_back, simp add: enc_seq_def)

lemma enc_inject: "ok x \<Longrightarrow> ok y \<Longrightarrow> enc x = enc y \<longleftrightarrow> x = y"
  using read_back by (metis option.inject)

end

interpretation str: wire_format JString json_as_str "\<lambda>_. True"
  by unfold_locales simp_all

interpretation boolean: wire_format JBool json_as_bool "\<lambda>_. True"
  by unfold_locales simp_all

definition is_i32 :: "int \<Rightarrow> bool" where
  "is_i32 i \<longleftrightarrow> - (2 ^ 31) \<le> i \<and> i < 2 ^ 31"

interpretation i32: wire_format enc_i32 dec_i32 is_i32
proof
  fix i assume "is_i32 i"
  then show "dec_i32 (enc_i32 i) = Some i"
    by (simp add: dec_i32_def enc_i32_def is_i32_def json_as_i64_show del: json_as_i64.simps)
qed (simp add: enc_i32_def)

interpretation strs: wire_format "enc_seq JString" "dec_seq json_as_str" "\<lambda>_. True"
  using str.seq_format by (simp add: list.pred_True)

end
