(* ===== verification/Bootstrap.thy ===== *)
theory Bootstrap
  imports Config Wire
begin

text \<open>
  \<^verbatim>\<open>examples/pangolin_bootstrap.rs\<close>: provisioning a fresh Pangolin over its REST API. Pangolin is a
  parameter, a function from the requests made so far (the last one included) to an answer; the
  state is the session cookie and these requests. The JSON parser of serde is a parameter. What is
  printed and the pauses between attempts are not modelled.
\<close>

section \<open>Values\<close>

text \<open>Indexing gives null where there is nothing.\<close>

definition json_index :: "json \<Rightarrow> string \<Rightarrow> json" where
  "json_index v key = (case json_get v key of None \<Rightarrow> JNull | Some x \<Rightarrow> x)"

fun json_path :: "json \<Rightarrow> string list \<Rightarrow> json" where
  "json_path v [] = v"
| "json_path v (k # ks) = json_path (json_index v k) ks"

section \<open>Calls\<close>

datatype http_method = GET | PUT | POST

record api_call =
  ac_method :: http_method
  ac_url :: string
  ac_csrf :: bool
  ac_cookie :: "string option"
  ac_body :: "json option"

text \<open>An answer: its status, its body unless reading that failed, and its \<^verbatim>\<open>Set-Cookie\<close> headers.\<close>

record api_answer =
  aa_status :: nat
  aa_text :: "string option"
  aa_set_cookie :: "string list"

type_synonym rest_server = "api_call list \<Rightarrow> api_answer option"

record boot_lib =
  bl_server :: rest_server
  bl_parse :: "string \<Rightarrow> json option"

record pangolin =
  pg_external :: string
  pg_internal :: string
  pg_session :: "string option"
  pg_calls :: "api_call list"

datatype boot_error =
    MustBeSet string
  | BadPort string
  | BuildingHttpClient
  | NotReachable nat
  | Calling string
  | LoginFailed nat
  | NoSessionCookie
  | SetAdminFailed nat
  | LoginStillFails
  | MissingDefault string
  | CreateOrgFailed nat
  | ListFailedWith string nat
  | NotInList string string
  | CreateTargetFailed nat
  | TraefikConfigStatus nat
  | TraefikConfigUndecodable
  | NoServices
  | NoServers

type_synonym 'a step = "pangolin \<Rightarrow> (boot_error + 'a) \<times> pangolin"

definition return :: "'a \<Rightarrow> 'a step" where
  "return x p = (Inr x, p)"

definition fail :: "boot_error \<Rightarrow> 'a step" where
  "fail e p = (Inl e, p)"

definition and_do :: "'a step \<Rightarrow> ('a \<Rightarrow> 'b step) \<Rightarrow> 'b step" where
  "and_do m f p = (case m p of (Inl e, p) \<Rightarrow> (Inl e, p) | (Inr x, p) \<Rightarrow> f x p)"

definition lift :: "boot_error \<Rightarrow> 'a option \<Rightarrow> 'a step" where
  "lift e x = (case x of None \<Rightarrow> fail e | Some y \<Rightarrow> return y)"

definition send_call :: "boot_lib \<Rightarrow> api_call \<Rightarrow> api_answer option step" where
  "send_call lib req p =
     (let calls = pg_calls p @ [req] in (Inr (bl_server lib calls), p\<lparr>pg_calls := calls\<rparr>))"

definition ext :: "pangolin \<Rightarrow> string \<Rightarrow> string" where
  "ext p path = trim_end_matches CHR ''/'' (pg_external p) @ ''/api/v1'' @ path"

definition internal :: "pangolin \<Rightarrow> string \<Rightarrow> api_call" where
  "internal p path =
     \<lparr>ac_method = GET, ac_url = trim_end_matches CHR ''/'' (pg_internal p) @ ''/api/v1'' @ path,
      ac_csrf = False, ac_cookie = None, ac_body = None\<rparr>"

definition status_ok :: "nat \<Rightarrow> bool" where
  "status_ok s \<longleftrightarrow> 200 \<le> s \<and> s < 300"

fun wait_ready_from :: "boot_lib \<Rightarrow> nat \<Rightarrow> nat \<Rightarrow> unit step" where
  "wait_ready_from lib attempts 0 = fail (NotReachable attempts)"
| "wait_ready_from lib attempts (Suc left) =
     (\<lambda>p. and_do (send_call lib (internal p ''/'')) (\<lambda>resp.
        case resp of
          Some r \<Rightarrow> if status_ok (aa_status r) then return () else wait_ready_from lib attempts left
        | None \<Rightarrow> wait_ready_from lib attempts left) p)"

definition wait_ready :: "boot_lib \<Rightarrow> nat \<Rightarrow> unit step" where
  "wait_ready lib attempts = wait_ready_from lib attempts attempts"

definition call_api ::
  "boot_lib \<Rightarrow> http_method \<Rightarrow> string \<Rightarrow> json option \<Rightarrow> (nat \<times> json \<times> string list) step" where
  "call_api lib method path body p =
     and_do (send_call lib \<lparr>ac_method = method, ac_url = ext p path, ac_csrf = True,
         ac_cookie = map_option (\<lambda>token. ''p_session_token='' @ token) (pg_session p), ac_body = body\<rparr>)
       (\<lambda>answer. case answer of
          None \<Rightarrow> fail (Calling path)
        | Some a \<Rightarrow>
            (let txt = (case aa_text a of None \<Rightarrow> [] | Some t \<Rightarrow> t);
                 js = (case bl_parse lib txt of None \<Rightarrow> JString txt | Some v \<Rightarrow> v)
             in return (aa_status a, js, aa_set_cookie a))) p"

text \<open>A header that is not visible ASCII ends the search, as \<^verbatim>\<open>ok()?\<close> leaves the function.\<close>

definition header_to_str :: "string \<Rightarrow> string option" where
  "header_to_str v = (if list_all (\<lambda>c. 32 \<le> byte c \<and> byte c < 127 \<or> byte c = 9) v then Some v else None)"

fun extract_session_cookie :: "string list \<Rightarrow> string option" where
  "extract_session_cookie [] = None"
| "extract_session_cookie (value # values) =
     (case header_to_str value of
        None \<Rightarrow> None
      | Some s \<Rightarrow>
          (case strip_prefix ''p_session_token='' s of
             Some rest \<Rightarrow> Some (hd (split_on CHR '';'' rest))
           | None \<Rightarrow> extract_session_cookie values))"

definition message_contains :: "json \<Rightarrow> string \<Rightarrow> bool" where
  "message_contains body needle =
     (case json_as_str (json_index body ''message'') of
        None \<Rightarrow> False
      | Some m \<Rightarrow> split_once_str needle m \<noteq> None)"

section \<open>Steps\<close>

definition try_login :: "boot_lib \<Rightarrow> string \<Rightarrow> string \<Rightarrow> bool step" where
  "try_login lib email password =
     and_do (call_api lib POST ''/auth/login''
         (Some (json_object [(''email'', JString email), (''password'', JString password)])))
       (\<lambda>(status, body, headers).
          if status = 401 \<or> status = 400 then return False
          else if \<not> status_ok status then fail (LoginFailed status)
          else and_do (lift NoSessionCookie (extract_session_cookie headers))
                 (\<lambda>token p. (Inr True, p\<lparr>pg_session := Some token\<rparr>)))"

definition set_admin :: "boot_lib \<Rightarrow> string \<Rightarrow> string \<Rightarrow> string \<Rightarrow> unit step" where
  "set_admin lib email password setup_token =
     and_do (call_api lib PUT ''/auth/set-server-admin''
         (Some (json_object [(''email'', JString email), (''password'', JString password),
                             (''setupToken'', JString setup_token)])))
       (\<lambda>(status, body, _). if status_ok status then return () else fail (SetAdminFailed status))"

definition ensure_org :: "boot_lib \<Rightarrow> string \<Rightarrow> string \<Rightarrow> unit step" where
  "ensure_org lib org_id name =
     and_do (call_api lib GET ''/pick-org-defaults'' None) (\<lambda>(_, defaults, _).
     and_do (lift (MissingDefault ''subnet'') (json_as_str (json_path defaults [''data'', ''subnet'']))) (\<lambda>subnet.
     and_do (lift (MissingDefault ''utilitySubnet'') (json_as_str (json_path defaults [''data'', ''utilitySubnet''])))
       (\<lambda>utility.
     and_do (call_api lib PUT ''/org''
         (Some (json_object [(''orgId'', JString org_id), (''name'', JString name),
                             (''subnet'', JString subnet), (''utilitySubnet'', JString utility)])))
       (\<lambda>(status, body, _).
          if status_ok status then return ()
          else if message_contains body ''already exists'' \<or> status = 409 then return ()
          else fail (CreateOrgFailed status)))))"

definition find_named :: "string \<Rightarrow> string \<Rightarrow> json \<Rightarrow> int option" where
  "find_named name id_key items =
     (case json_as_array items of
        None \<Rightarrow> None
      | Some arr \<Rightarrow>
          (case find (\<lambda>s. json_index s ''name'' = JString name) arr of
             None \<Rightarrow> None
           | Some s \<Rightarrow> json_as_i64 (json_index s id_key)))"

text \<open>
  The common course of \<open>ensure_local_site\<close> and \<open>ensure_http_resource\<close>: create, or else look the
  object up by its name.
\<close>

definition create_or_find ::
  "boot_lib \<Rightarrow> string \<Rightarrow> json \<Rightarrow> string \<Rightarrow> string \<Rightarrow> string \<Rightarrow> string \<Rightarrow> int step" where
  "create_or_find lib create_path body list_path list_key id_key name =
     and_do (call_api lib PUT create_path (Some body)) (\<lambda>(status, created, _).
       case (if status_ok status then json_as_i64 (json_path created [''data'', id_key]) else None) of
         Some ident \<Rightarrow> return ident
       | None \<Rightarrow>
           and_do (call_api lib GET list_path None) (\<lambda>(status, listed, _).
             if \<not> status_ok status then fail (ListFailedWith list_key status)
             else lift (NotInList list_key name) (find_named name id_key (json_path listed [''data'', list_key]))))"

definition ensure_local_site :: "boot_lib \<Rightarrow> string \<Rightarrow> string \<Rightarrow> int step" where
  "ensure_local_site lib org_id name =
     create_or_find lib (''/org/'' @ org_id @ ''/site'')
       (json_object [(''name'', JString name), (''type'', JString ''local'')])
       (''/org/'' @ org_id @ ''/sites'') ''sites'' ''siteId'' name"

definition ensure_http_resource :: "boot_lib \<Rightarrow> string \<Rightarrow> string \<Rightarrow> string \<Rightarrow> string \<Rightarrow> int step" where
  "ensure_http_resource lib org_id name subdomain domain_id =
     create_or_find lib (''/org/'' @ org_id @ ''/resource'')
       (json_object [(''name'', JString name), (''subdomain'', JString subdomain), (''http'', JBool True),
                     (''protocol'', JString ''tcp''), (''domainId'', JString domain_id)])
       (''/org/'' @ org_id @ ''/resources'') ''resources'' ''resourceId'' name"

definition ensure_target :: "boot_lib \<Rightarrow> int \<Rightarrow> int \<Rightarrow> string \<Rightarrow> nat \<Rightarrow> unit step" where
  "ensure_target lib resource_id site_id ip tport =
     and_do (call_api lib PUT (''/resource/'' @ show_int resource_id @ ''/target'')
         (Some (json_object [(''siteId'', JNumber (show_int site_id)), (''ip'', JString ip),
                             (''port'', JNumber (show_nat tport)), (''method'', JString ''http'')])))
       (\<lambda>(status, body, _).
          if status_ok status then return ()
          else if message_contains body ''already'' then return ()
          else fail (CreateTargetFailed status))"

text \<open>All the servers of all the load balancers of the \<^verbatim>\<open>http\<close> services.\<close>

definition server_urls :: "(string \<times> json) list \<Rightarrow> json list" where
  "server_urls services =
     concat (List.map_filter (\<lambda>s. json_as_array (json_path s [''loadBalancer'', ''servers''])) (bt_values services))"

definition verify_traefik_config :: "boot_lib \<Rightarrow> unit step" where
  "verify_traefik_config lib p =
     and_do (send_call lib (internal p ''/traefik-config'')) (\<lambda>answer.
     and_do (lift (Calling ''internal /traefik-config'') answer) (\<lambda>a.
       let txt = (case aa_text a of None \<Rightarrow> [] | Some t \<Rightarrow> t)
       in if \<not> status_ok (aa_status a) then fail (TraefikConfigStatus (aa_status a))
          else and_do (lift TraefikConfigUndecodable (bl_parse lib txt)) (\<lambda>js.
               and_do (lift NoServices (json_as_object (json_path js [''http'', ''services'']))) (\<lambda>services.
               if length (server_urls services) = 0 then fail NoServers else return ())))) p"

section \<open>The program\<close>

definition boot_required :: "env \<Rightarrow> string \<Rightarrow> boot_error + string" where
  "boot_required env key = ok_or (MustBeSet key) (env key)"

definition boot_optional :: "env \<Rightarrow> string \<Rightarrow> string \<Rightarrow> string" where
  "boot_optional env key dflt = (case env key of None \<Rightarrow> dflt | Some v \<Rightarrow> v)"

record boot_args =
  ba_external :: string
  ba_internal :: string
  ba_setup_token :: string
  ba_email :: string
  ba_password :: string
  ba_org_id :: string
  ba_subdomain :: string
  ba_target_ip :: string
  ba_target_port :: nat
  ba_domain_id :: string

definition boot_args_of :: "env \<Rightarrow> boot_error + boot_args" where
  "boot_args_of env =
     try_then (boot_required env ''PANGOLIN_EXTERNAL_URL'') (\<lambda>external.
     try_then (boot_required env ''PANGOLIN_INTERNAL_URL'') (\<lambda>internal.
     try_then (boot_required env ''PANGOLIN_SETUP_TOKEN'') (\<lambda>setup_token.
     try_then (boot_required env ''PANGOLIN_ADMIN_EMAIL'') (\<lambda>admin_email.
     try_then (boot_required env ''PANGOLIN_ADMIN_PASSWORD'') (\<lambda>admin_password.
     let port_text = boot_optional env ''PANGOLIN_TARGET_PORT'' ''8080''
     in try_then (ok_or (BadPort port_text) (parse_u16 port_text)) (\<lambda>target_port.
     Inr \<lparr>ba_external = external, ba_internal = internal, ba_setup_token = setup_token,
          ba_email = admin_email, ba_password = admin_password,
          ba_org_id = boot_optional env ''PANGOLIN_ORG_ID'' ''e2e'',
          ba_subdomain = boot_optional env ''PANGOLIN_RESOURCE_HOST'' ''web'',
          ba_target_ip = boot_optional env ''PANGOLIN_TARGET_IP'' ''10.0.0.42'',
          ba_target_port = target_port,
          ba_domain_id = boot_optional env ''PANGOLIN_DOMAIN_ID'' ''domain1''\<rparr>))))))"

text \<open>The first run sets the administrator; a later one can log in at once.\<close>

definition log_in :: "boot_lib \<Rightarrow> boot_args \<Rightarrow> unit step" where
  "log_in lib args =
     and_do (try_login lib (ba_email args) (ba_password args)) (\<lambda>ok.
       if ok then return ()
       else and_do (set_admin lib (ba_email args) (ba_password args) (ba_setup_token args)) (\<lambda>_.
            and_do (try_login lib (ba_email args) (ba_password args)) (\<lambda>ok.
              if ok then return () else fail LoginStillFails)))"

definition provision :: "boot_lib \<Rightarrow> boot_args \<Rightarrow> unit step" where
  "provision lib args =
     and_do (ensure_org lib (ba_org_id args) ''E2E Org'') (\<lambda>_.
     and_do (ensure_local_site lib (ba_org_id args) ''e2e-site'') (\<lambda>site_id.
     and_do (ensure_http_resource lib (ba_org_id args) (ba_subdomain args) (ba_subdomain args) (ba_domain_id args))
       (\<lambda>resource_id.
     ensure_target lib resource_id site_id (ba_target_ip args) (ba_target_port args))))"

definition boot_start :: "boot_args \<Rightarrow> pangolin" where
  "boot_start args = \<lparr>pg_external = ba_external args, pg_internal = ba_internal args, pg_session = None, pg_calls = []\<rparr>"

definition boot_main :: "boot_lib \<Rightarrow> bool \<Rightarrow> env \<Rightarrow> (boot_error + unit) \<times> api_call list" where
  "boot_main lib client_ok env =
     (case boot_args_of env of
        Inl e \<Rightarrow> (Inl e, [])
      | Inr args \<Rightarrow>
          (if \<not> client_ok then (Inl BuildingHttpClient, [])
           else apsnd pg_calls
             (and_do (wait_ready lib 30) (\<lambda>_.
              and_do (log_in lib args) (\<lambda>_.
              and_do (provision lib args) (\<lambda>_.
              verify_traefik_config lib)))
              (boot_start args))))"

declare json_index_def [exec] return_def [exec] fail_def [exec] and_do_def [exec]
  lift_def [exec] send_call_def [exec] ext_def [exec] internal_def [exec] status_ok_def [exec]
  wait_ready_def [exec] call_api_def [exec] header_to_str_def [exec] message_contains_def [exec]
  try_login_def [exec] set_admin_def [exec] ensure_org_def [exec] find_named_def [exec]
  create_or_find_def [exec] ensure_local_site_def [exec] ensure_http_resource_def [exec]
  ensure_target_def [exec] server_urls_def [exec] verify_traefik_config_def [exec] boot_required_def [exec]
  boot_optional_def [exec] boot_args_of_def [exec] boot_start_def [exec] log_in_def [exec] provision_def [exec] boot_main_def [exec]

section \<open>Reasoning about steps\<close>

lemma and_do_Inr_iff:
  "and_do m f p = (Inr y, p'') \<longleftrightarrow> (\<exists>x p'. m p = (Inr x, p') \<and> f x p' = (Inr y, p''))"
  by (auto simp: and_do_def split: prod.split sum.split)

text \<open>The request of a REST call.\<close>

definition rest_call :: "pangolin \<Rightarrow> http_method \<Rightarrow> string \<Rightarrow> json option \<Rightarrow> api_call" where
  "rest_call p method path body =
     \<lparr>ac_method = method, ac_url = ext p path, ac_csrf = True,
      ac_cookie = map_option (\<lambda>token. ''p_session_token='' @ token) (pg_session p), ac_body = body\<rparr>"

lemma call_api_rest: "call_api lib method path body p =
    and_do (send_call lib (rest_call p method path body)) (\<lambda>answer. case answer of
          None \<Rightarrow> fail (Calling path)
        | Some a \<Rightarrow>
            (let txt = (case aa_text a of None \<Rightarrow> [] | Some t \<Rightarrow> t);
                 js = (case bl_parse lib txt of None \<Rightarrow> JString txt | Some v \<Rightarrow> v)
             in return (aa_status a, js, aa_set_cookie a))) p"
  by (simp add: call_api_def rest_call_def)

lemma call_api_Inr_iff:
  "call_api lib method path body p = (Inr (status, js, cookies), p') \<longleftrightarrow>
     p' = p\<lparr>pg_calls := pg_calls p @ [rest_call p method path body]\<rparr> \<and>
     (\<exists>a. bl_server lib (pg_calls p @ [rest_call p method path body]) = Some a \<and>
        status = aa_status a \<and> cookies = aa_set_cookie a \<and>
        js = (case bl_parse lib (case aa_text a of None \<Rightarrow> [] | Some t \<Rightarrow> t) of
                None \<Rightarrow> JString (case aa_text a of None \<Rightarrow> [] | Some t \<Rightarrow> t) | Some v \<Rightarrow> v))"
  by (auto simp: call_api_rest and_do_Inr_iff send_call_def fail_def return_def Let_def split: option.split)

lemma rest_call_calls [simp]: "rest_call (p\<lparr>pg_calls := cs\<rparr>) = rest_call p"
  by (simp add: rest_call_def ext_def fun_eq_iff)

section \<open>The provisioning calls\<close>

text \<open>The last of these calls was answered with this status and this document.\<close>

definition boot_answered :: "boot_lib \<Rightarrow> api_call list \<Rightarrow> nat \<Rightarrow> json \<Rightarrow> bool" where
  "boot_answered lib calls status js \<longleftrightarrow>
     (\<exists>a txt. bl_server lib calls = Some a \<and> txt = (case aa_text a of None \<Rightarrow> [] | Some t \<Rightarrow> t) \<and>
        status = aa_status a \<and> js = (case bl_parse lib txt of None \<Rightarrow> JString txt | Some v \<Rightarrow> v))"

lemma call_answered:
  assumes "call_api lib method path body p = (Inr (status, js, cookies), p')"
  shows "p' = p\<lparr>pg_calls := pg_calls p @ [rest_call p method path body]\<rparr>"
    and "boot_answered lib (pg_calls p @ [rest_call p method path body]) status js"
  using assms unfolding call_api_Inr_iff boot_answered_def by blast+

text \<open>
  An object is made by the first call; if its answer gives no identifier, the second call lists the
  objects, and the identifier is that of the object of this name.
\<close>

definition made_or_found ::
  "boot_lib \<Rightarrow> api_call list \<Rightarrow> api_call \<Rightarrow> api_call \<Rightarrow> string \<Rightarrow> string \<Rightarrow> string \<Rightarrow> api_call list \<Rightarrow> int \<Rightarrow> bool" where
  "made_or_found lib before create listing list_key id_key name new ident \<longleftrightarrow>
     (\<exists>status js. boot_answered lib (before @ [create]) status js \<and>
        (case (if status_ok status then json_as_i64 (json_path js [''data'', id_key]) else None) of
           Some i \<Rightarrow> new = [create] \<and> ident = i
         | None \<Rightarrow> new = [create, listing] \<and>
             (\<exists>status js. boot_answered lib (before @ new) status js \<and> status_ok status \<and>
                find_named name id_key (json_path js [''data'', list_key]) = Some ident)))"

lemma create_or_find_Inr:
  assumes "create_or_find lib create_path body list_path list_key id_key name p = (Inr ident, p')"
  obtains new where "p' = p\<lparr>pg_calls := pg_calls p @ new\<rparr>"
    "made_or_found lib (pg_calls p) (rest_call p PUT create_path (Some body)) (rest_call p GET list_path None)
       list_key id_key name new ident"
proof -
  let ?create = "rest_call p PUT create_path (Some body)" and ?list = "rest_call p GET list_path None"
  obtain status created cookies p1 where put: "call_api lib PUT create_path (Some body) p = (Inr (status, created, cookies), p1)"
    and rest: "(case (if status_ok status then json_as_i64 (json_path created [''data'', id_key]) else None) of
         Some ident \<Rightarrow> return ident
       | None \<Rightarrow>
           and_do (call_api lib GET list_path None) (\<lambda>(status, listed, _).
             if \<not> status_ok status then fail (ListFailedWith list_key status)
             else lift (NotInList list_key name) (find_named name id_key (json_path listed [''data'', list_key])))) p1
       = (Inr ident, p')"
    using assms unfolding create_or_find_def and_do_Inr_iff by (auto simp del: json_path.simps)
  note put = call_answered [OF put]
  show ?thesis
  proof (cases "if status_ok status then json_as_i64 (json_path created [''data'', id_key]) else None")
    case (Some i)
    then have "made_or_found lib (pg_calls p) ?create ?list list_key id_key name [?create] ident"
      using put(2) rest unfolding made_or_found_def
      by (intro exI [of _ status] exI [of _ created]) (simp add: return_def del: json_path.simps)
    with put(1) rest Some show ?thesis by (intro that [of "[?create]"]) (auto simp: return_def simp del: json_path.simps)
  next
    case None
    then obtain status' listed cookies' p2 where get: "call_api lib GET list_path None p1 = (Inr (status', listed, cookies'), p2)"
      and found: "status_ok status'" "find_named name id_key (json_path listed [''data'', list_key]) = Some ident" "p' = p2"
      using rest
      by (auto simp: and_do_Inr_iff fail_def lift_def return_def split: if_splits option.splits simp del: json_path.simps)
    note get = call_answered [OF get]
    have "made_or_found lib (pg_calls p) ?create ?list list_key id_key name [?create, ?list] ident"
      using put None get(2) found(1,2) unfolding made_or_found_def
      by (intro exI [of _ status] exI [of _ created]) (auto simp: put(1) simp del: json_path.simps)
    with put(1) get(1) found(3) show ?thesis by (intro that [of "[?create, ?list]"]) simp_all
  qed
qed

text \<open>
  The calls that provision, for a session \<open>p\<close> and after the calls \<open>before\<close>: the defaults and the
  organisation made with them; the site; the resource; and the target, of this site for this resource.
\<close>

definition provisioned :: "boot_lib \<Rightarrow> boot_args \<Rightarrow> pangolin \<Rightarrow> api_call list \<Rightarrow> api_call list \<Rightarrow> bool" where
  "provisioned lib args p before prov \<longleftrightarrow>
     (\<exists>subnet utility status defaults status1 body1 sites site_id resources resource_id status2 body2.
        let org = [rest_call p GET ''/pick-org-defaults'' None,
                   rest_call p PUT ''/org'' (Some (json_object
                     [(''orgId'', JString (ba_org_id args)), (''name'', JString ''E2E Org''),
                      (''subnet'', JString subnet), (''utilitySubnet'', JString utility)]))];
            target = rest_call p PUT (''/resource/'' @ show_int resource_id @ ''/target'') (Some (json_object
                     [(''siteId'', JNumber (show_int site_id)), (''ip'', JString (ba_target_ip args)),
                      (''port'', JNumber (show_nat (ba_target_port args))), (''method'', JString ''http'')]))
        in prov = org @ sites @ resources @ [target] \<and>
           boot_answered lib (before @ take 1 org) status defaults \<and>
           json_as_str (json_path defaults [''data'', ''subnet'']) = Some subnet \<and>
           json_as_str (json_path defaults [''data'', ''utilitySubnet'']) = Some utility \<and>
           boot_answered lib (before @ org) status1 body1 \<and>
           (status_ok status1 \<or> message_contains body1 ''already exists'' \<or> status1 = 409) \<and>
           made_or_found lib (before @ org)
             (rest_call p PUT (''/org/'' @ ba_org_id args @ ''/site'')
                (Some (json_object [(''name'', JString ''e2e-site''), (''type'', JString ''local'')])))
             (rest_call p GET (''/org/'' @ ba_org_id args @ ''/sites'') None)
             ''sites'' ''siteId'' ''e2e-site'' sites site_id \<and>
           made_or_found lib (before @ org @ sites)
             (rest_call p PUT (''/org/'' @ ba_org_id args @ ''/resource'')
                (Some (json_object [(''name'', JString (ba_subdomain args)), (''subdomain'', JString (ba_subdomain args)),
                   (''http'', JBool True), (''protocol'', JString ''tcp''), (''domainId'', JString (ba_domain_id args))])))
             (rest_call p GET (''/org/'' @ ba_org_id args @ ''/resources'') None)
             ''resources'' ''resourceId'' (ba_subdomain args) resources resource_id \<and>
           boot_answered lib (before @ prov) status2 body2 \<and>
           (status_ok status2 \<or> message_contains body2 ''already''))"

lemma provisioned_calls [simp]: "provisioned lib args (p\<lparr>pg_calls := cs\<rparr>) = provisioned lib args p"
  by (simp add: provisioned_def fun_eq_iff)

text \<open>Once there is a session, every one of these calls carries its cookie.\<close>

definition with_cookie :: "string \<Rightarrow> api_call \<Rightarrow> bool" where
  "with_cookie token c \<longleftrightarrow> ac_csrf c \<and> ac_cookie c = Some (''p_session_token='' @ token)"

lemma rest_call_cookie: "pg_session p = Some token \<Longrightarrow> with_cookie token (rest_call p method path body)"
  by (simp add: with_cookie_def rest_call_def)

lemma made_or_found_calls:
  "made_or_found lib before create listing list_key id_key name new ident \<Longrightarrow> new = [create] \<or> new = [create, listing]"
  by (auto simp: made_or_found_def split: option.splits simp del: json_path.simps)

lemma provisioned_session:
  assumes "provisioned lib args p before prov" and "pg_session p = Some token"
  shows "list_all (with_cookie token) prov"
  using assms(1)
  by (auto simp: provisioned_def Let_def rest_call_cookie [OF assms(2)] simp del: json_path.simps dest!: made_or_found_calls)

lemma ensure_org_Inr:
  assumes "ensure_org lib org_id name p = (Inr (), p')"
  obtains subnet utility status defaults status1 body1 where
    "p' = p\<lparr>pg_calls := pg_calls p @ [rest_call p GET ''/pick-org-defaults'' None,
       rest_call p PUT ''/org'' (Some (json_object [(''orgId'', JString org_id), (''name'', JString name),
         (''subnet'', JString subnet), (''utilitySubnet'', JString utility)]))]\<rparr>"
    "boot_answered lib (pg_calls p @ [rest_call p GET ''/pick-org-defaults'' None]) status defaults"
    "json_as_str (json_path defaults [''data'', ''subnet'']) = Some subnet"
    "json_as_str (json_path defaults [''data'', ''utilitySubnet'']) = Some utility"
    "boot_answered lib (pg_calls p') status1 body1"
    "status_ok status1 \<or> message_contains body1 ''already exists'' \<or> status1 = 409"
proof -
  obtain status defaults c1 p1 subnet utility status1 body1 c2 p2 where
    get: "call_api lib GET ''/pick-org-defaults'' None p = (Inr (status, defaults, c1), p1)"
    and vals: "json_as_str (json_path defaults [''data'', ''subnet'']) = Some subnet"
      "json_as_str (json_path defaults [''data'', ''utilitySubnet'']) = Some utility"
    and put: "call_api lib PUT ''/org'' (Some (json_object [(''orgId'', JString org_id), (''name'', JString name),
         (''subnet'', JString subnet), (''utilitySubnet'', JString utility)])) p1 = (Inr (status1, body1, c2), p2)"
    and ok: "status_ok status1 \<or> message_contains body1 ''already exists'' \<or> status1 = 409" "p' = p2"
    using assms
    by (auto simp: ensure_org_def and_do_Inr_iff lift_def return_def fail_def split: if_splits option.splits
        simp del: json_path.simps)
  show ?thesis
    using call_answered [OF get] call_answered [OF put] vals ok by (intro that [of subnet utility status defaults status1 body1]) auto
qed

lemma ensure_target_Inr:
  assumes "ensure_target lib resource_id site_id ip tport p = (Inr (), p')"
  obtains status body where
    "p' = p\<lparr>pg_calls := pg_calls p @ [rest_call p PUT (''/resource/'' @ show_int resource_id @ ''/target'') (Some (json_object
       [(''siteId'', JNumber (show_int site_id)), (''ip'', JString ip),
        (''port'', JNumber (show_nat tport)), (''method'', JString ''http'')]))]\<rparr>"
    "boot_answered lib (pg_calls p') status body" "status_ok status \<or> message_contains body ''already''"
proof -
  let ?body = "Some (json_object [(''siteId'', JNumber (show_int site_id)), (''ip'', JString ip),
        (''port'', JNumber (show_nat tport)), (''method'', JString ''http'')])"
  obtain status body c p1 where
    put: "call_api lib PUT (''/resource/'' @ show_int resource_id @ ''/target'') ?body p = (Inr (status, body, c), p1)"
    and ok: "status_ok status \<or> message_contains body ''already''" "p' = p1"
    using assms by (auto simp: ensure_target_def and_do_Inr_iff return_def fail_def split: if_splits)
  show ?thesis using call_answered [OF put] ok by (intro that [of status body]) auto
qed

lemma provision_Inr:
  assumes "provision lib args p = (Inr (), p')"
  obtains prov where "p' = p\<lparr>pg_calls := pg_calls p @ prov\<rparr>" "provisioned lib args p (pg_calls p) prov"
proof -
  obtain site_id resource_id p1 p2 p3 where
    org: "ensure_org lib (ba_org_id args) ''E2E Org'' p = (Inr (), p1)"
    and site: "ensure_local_site lib (ba_org_id args) ''e2e-site'' p1 = (Inr site_id, p2)"
    and resource: "ensure_http_resource lib (ba_org_id args) (ba_subdomain args) (ba_subdomain args) (ba_domain_id args) p2
      = (Inr resource_id, p3)"
    and target: "ensure_target lib resource_id site_id (ba_target_ip args) (ba_target_port args) p3 = (Inr (), p')"
    using assms by (auto simp: provision_def and_do_Inr_iff)
  obtain subnet utility status defaults status1 body1 where 1: 
    "p1 = p\<lparr>pg_calls := pg_calls p @ [rest_call p GET ''/pick-org-defaults'' None,
       rest_call p PUT ''/org'' (Some (json_object [(''orgId'', JString (ba_org_id args)), (''name'', JString ''E2E Org''),
         (''subnet'', JString subnet), (''utilitySubnet'', JString utility)]))]\<rparr>"
    "boot_answered lib (pg_calls p @ [rest_call p GET ''/pick-org-defaults'' None]) status defaults"
    "json_as_str (json_path defaults [''data'', ''subnet'']) = Some subnet"
    "json_as_str (json_path defaults [''data'', ''utilitySubnet'']) = Some utility"
    "boot_answered lib (pg_calls p1) status1 body1"
    "status_ok status1 \<or> message_contains body1 ''already exists'' \<or> status1 = 409"
    by (rule ensure_org_Inr [OF org])
  obtain sites where 2: "p2 = p1\<lparr>pg_calls := pg_calls p1 @ sites\<rparr>"
    "made_or_found lib (pg_calls p1)
       (rest_call p1 PUT (''/org/'' @ ba_org_id args @ ''/site'')
          (Some (json_object [(''name'', JString ''e2e-site''), (''type'', JString ''local'')])))
       (rest_call p1 GET (''/org/'' @ ba_org_id args @ ''/sites'') None) ''sites'' ''siteId'' ''e2e-site'' sites site_id"
    by (rule create_or_find_Inr [OF site [unfolded ensure_local_site_def]])
  obtain resources where 3: "p3 = p2\<lparr>pg_calls := pg_calls p2 @ resources\<rparr>"
    "made_or_found lib (pg_calls p2)
       (rest_call p2 PUT (''/org/'' @ ba_org_id args @ ''/resource'')
          (Some (json_object [(''name'', JString (ba_subdomain args)), (''subdomain'', JString (ba_subdomain args)),
             (''http'', JBool True), (''protocol'', JString ''tcp''), (''domainId'', JString (ba_domain_id args))])))
       (rest_call p2 GET (''/org/'' @ ba_org_id args @ ''/resources'') None)
       ''resources'' ''resourceId'' (ba_subdomain args) resources resource_id"
    by (rule create_or_find_Inr [OF resource [unfolded ensure_http_resource_def]])
  obtain status2 body2 where 4:
    "p' = p3\<lparr>pg_calls := pg_calls p3 @ [rest_call p3 PUT (''/resource/'' @ show_int resource_id @ ''/target'') (Some (json_object
       [(''siteId'', JNumber (show_int site_id)), (''ip'', JString (ba_target_ip args)),
        (''port'', JNumber (show_nat (ba_target_port args))), (''method'', JString ''http'')]))]\<rparr>"
    "boot_answered lib (pg_calls p') status2 body2" "status_ok status2 \<or> message_contains body2 ''already''"
    by (rule ensure_target_Inr [OF target])
  let ?prov = "drop (length (pg_calls p)) (pg_calls p')"
  have "p' = p\<lparr>pg_calls := pg_calls p @ ?prov\<rparr>" by (simp add: 4(1) 3(1) 2(1) 1(1))
  moreover have "provisioned lib args p (pg_calls p) ?prov"
    unfolding provisioned_def Let_def
    by (rule exI [of _ subnet], rule exI [of _ utility], rule exI [of _ status], rule exI [of _ defaults],
        rule exI [of _ status1], rule exI [of _ body1], rule exI [of _ sites], rule exI [of _ site_id],
        rule exI [of _ resources], rule exI [of _ resource_id], rule exI [of _ status2], rule exI [of _ body2])
       (use 1 2 3 4 in \<open>simp del: json_path.simps\<close>)
  ultimately show ?thesis by (rule that)
qed

section \<open>Reaching Pangolin and logging in\<close>

lemma wait_ready_calls:
  assumes "wait_ready_from lib attempts n p = (Inr (), p')"
  shows "\<exists>k<n. p' = p\<lparr>pg_calls := pg_calls p @ replicate (Suc k) (internal p ''/'')\<rparr>"
  using assms
proof (induction n arbitrary: p)
  case 0
  then show ?case by (simp add: fail_def)
next
  case (Suc n)
  let ?p = "p\<lparr>pg_calls := pg_calls p @ [internal p ''/'']\<rparr>"
  consider "p' = ?p" | "wait_ready_from lib attempts n ?p = (Inr (), p')"
    using Suc.prems by (auto simp: and_do_Inr_iff send_call_def return_def Let_def split: option.splits if_splits)
  then show ?case
  proof cases
    case 1
    then show ?thesis by (intro exI [of _ 0]) simp
  next
    case 2
    from Suc.IH [OF this] obtain k where "k < n"
      "p' = ?p\<lparr>pg_calls := pg_calls ?p @ replicate (Suc k) (internal ?p ''/'')\<rparr>" by blast
    then show ?thesis by (intro exI [of _ "Suc k"]) (simp add: internal_def)
  qed
qed

definition login_call :: "pangolin \<Rightarrow> boot_args \<Rightarrow> api_call" where
  "login_call p args = rest_call p POST ''/auth/login''
     (Some (json_object [(''email'', JString (ba_email args)), (''password'', JString (ba_password args))]))"

definition admin_call :: "pangolin \<Rightarrow> boot_args \<Rightarrow> api_call" where
  "admin_call p args = rest_call p PUT ''/auth/set-server-admin''
     (Some (json_object [(''email'', JString (ba_email args)), (''password'', JString (ba_password args)),
                         (''setupToken'', JString (ba_setup_token args))]))"

text \<open>The last of these calls was answered with a session cookie.\<close>

definition session_given :: "boot_lib \<Rightarrow> api_call list \<Rightarrow> string \<Rightarrow> bool" where
  "session_given lib calls token \<longleftrightarrow>
     (\<exists>a. bl_server lib calls = Some a \<and> status_ok (aa_status a) \<and> extract_session_cookie (aa_set_cookie a) = Some token)"

definition login_refused :: "boot_lib \<Rightarrow> api_call list \<Rightarrow> bool" where
  "login_refused lib calls \<longleftrightarrow> (\<exists>a. bl_server lib calls = Some a \<and> aa_status a \<in> {400, 401})"

lemma try_login_Inr:
  assumes "try_login lib (ba_email args) (ba_password args) p = (Inr ok, p')"
  shows "if ok then \<exists>token. session_given lib (pg_calls p @ [login_call p args]) token \<and>
       p' = p\<lparr>pg_session := Some token, pg_calls := pg_calls p @ [login_call p args]\<rparr>
     else login_refused lib (pg_calls p @ [login_call p args]) \<and> p' = p\<lparr>pg_calls := pg_calls p @ [login_call p args]\<rparr>"
  using assms
  by (auto simp: try_login_def and_do_Inr_iff call_api_Inr_iff login_call_def [symmetric] session_given_def login_refused_def
      lift_def return_def fail_def split: if_splits option.splits)

text \<open>The token is only used after a refused login, and only once.\<close>

lemma log_in_Inr:
  assumes "log_in lib args p = (Inr (), p')"
  obtains (known) token where "session_given lib (pg_calls p @ [login_call p args]) token"
      "p' = p\<lparr>pg_session := Some token, pg_calls := pg_calls p @ [login_call p args]\<rparr>"
  | (fresh) token where "login_refused lib (pg_calls p @ [login_call p args])"
      "session_given lib (pg_calls p @ [login_call p args, admin_call p args, login_call p args]) token"
      "p' = p\<lparr>pg_session := Some token,
              pg_calls := pg_calls p @ [login_call p args, admin_call p args, login_call p args]\<rparr>"
proof -
  obtain ok p1 where first: "try_login lib (ba_email args) (ba_password args) p = (Inr ok, p1)"
    and rest: "(if ok then return ()
       else and_do (set_admin lib (ba_email args) (ba_password args) (ba_setup_token args)) (\<lambda>_.
            and_do (try_login lib (ba_email args) (ba_password args)) (\<lambda>ok.
              if ok then return () else fail LoginStillFails))) p1 = (Inr (), p')"
    using assms by (auto simp: log_in_def and_do_Inr_iff)
  show ?thesis
  proof (cases ok)
    case True
    then show ?thesis using try_login_Inr [OF first] rest known by (auto simp: return_def)
  next
    case False
    then have p1: "login_refused lib (pg_calls p @ [login_call p args])"
      "p1 = p\<lparr>pg_calls := pg_calls p @ [login_call p args]\<rparr>" using try_login_Inr [OF first] by simp_all
    obtain p2 p3 where admin: "set_admin lib (ba_email args) (ba_password args) (ba_setup_token args) p1 = (Inr (), p2)"
      and second: "try_login lib (ba_email args) (ba_password args) p2 = (Inr True, p3)" and "p3 = p'"
      using rest False by (auto simp: and_do_Inr_iff return_def fail_def split: if_splits)
    have same: "login_call p2 args = login_call p args" "admin_call p1 args = admin_call p args"
      if "p2 = p1\<lparr>pg_calls := cs\<rparr>" for cs
      using that by (simp_all add: p1(2) login_call_def admin_call_def rest_call_def ext_def)
    have p2: "p2 = p1\<lparr>pg_calls := pg_calls p1 @ [admin_call p1 args]\<rparr>"
      using admin by (auto simp: set_admin_def and_do_Inr_iff call_api_Inr_iff admin_call_def return_def fail_def
          split: if_splits)
    obtain token where "session_given lib (pg_calls p2 @ [login_call p2 args]) token"
      "p' = p2\<lparr>pg_session := Some token, pg_calls := pg_calls p2 @ [login_call p2 args]\<rparr>"
      using try_login_Inr [OF second] \<open>p3 = p'\<close> by auto
    then show ?thesis
      using p1(1) same [OF p2] by (intro fresh [of token]) (simp_all add: p2 p1(2))
  qed
qed

lemma verify_Inr:
  assumes "verify_traefik_config lib p = (Inr (), p')"
  shows "pg_calls p' = pg_calls p @ [internal p ''/traefik-config'']"
    and "\<exists>a js services. bl_server lib (pg_calls p @ [internal p ''/traefik-config'']) = Some a \<and> status_ok (aa_status a) \<and>
      bl_parse lib (case aa_text a of None \<Rightarrow> [] | Some t \<Rightarrow> t) = Some js \<and>
      json_as_object (json_path js [''http'', ''services'']) = Some services \<and> server_urls services \<noteq> []"
  using assms
  by (auto simp: verify_traefik_config_def and_do_Inr_iff send_call_def lift_def return_def fail_def Let_def
      split: option.splits if_splits)

section \<open>Properties\<close>

lemma call_of_start [simp]:
  "login_call (boot_start args\<lparr>pg_calls := cs\<rparr>) args = login_call (boot_start args) args"
  "admin_call (boot_start args\<lparr>pg_calls := cs\<rparr>) args = admin_call (boot_start args) args"
  by (simp_all add: login_call_def admin_call_def rest_call_def ext_def boot_start_def)

lemma boot_main_Inr:
  assumes "boot_main lib client_ok env = (Inr (), calls)"
  obtains args p1 p2 p3 p4 where "boot_args_of env = Inr args"
    "wait_ready lib 30 (boot_start args) = (Inr (), p1)" "log_in lib args p1 = (Inr (), p2)"
    "provision lib args p2 = (Inr (), p3)" "verify_traefik_config lib p3 = (Inr (), p4)" "calls = pg_calls p4"
proof -
  obtain args p4 where args: "boot_args_of env = Inr args" and
    run: "and_do (wait_ready lib 30) (\<lambda>_. and_do (log_in lib args) (\<lambda>_. and_do (provision lib args) (\<lambda>_.
      verify_traefik_config lib))) (boot_start args) = (Inr (), p4)" and "calls = pg_calls p4"
    using assms by (auto simp: boot_main_def apsnd_def map_prod_def split: sum.splits if_splits prod.splits)
  then show ?thesis using that by (auto simp: and_do_Inr_iff)
qed

text \<open>The state of the client once it is logged in.\<close>

abbreviation boot_session :: "boot_args \<Rightarrow> string \<Rightarrow> pangolin" where
  "boot_session args token \<equiv> (boot_start args)\<lparr>pg_session := Some token\<rparr>"

lemma bootstrap_calls:
  assumes "boot_main lib client_ok env = (Inr (), calls)"
  obtains args k logins token prov where "boot_args_of env = Inr args" "k < 30"
    "calls = replicate (Suc k) (internal (boot_start args) ''/'') @ logins @ prov @ [internal (boot_start args) ''/traefik-config'']"
    "logins = [login_call (boot_start args) args] \<or>
     logins = [login_call (boot_start args) args, admin_call (boot_start args) args, login_call (boot_start args) args] \<and>
     login_refused lib (replicate (Suc k) (internal (boot_start args) ''/'') @ take 1 logins)"
    "session_given lib (replicate (Suc k) (internal (boot_start args) ''/'') @ logins) token"
    "provisioned lib args (boot_session args token) (replicate (Suc k) (internal (boot_start args) ''/'') @ logins) prov"
    "\<exists>a js services. bl_server lib calls = Some a \<and> status_ok (aa_status a) \<and>
      bl_parse lib (case aa_text a of None \<Rightarrow> [] | Some t \<Rightarrow> t) = Some js \<and>
      json_as_object (json_path js [''http'', ''services'']) = Some services \<and> server_urls services \<noteq> []"
proof -
  obtain args p1 p2 p3 p4 where args: "boot_args_of env = Inr args"
    and steps: "wait_ready lib 30 (boot_start args) = (Inr (), p1)" "log_in lib args p1 = (Inr (), p2)"
    "provision lib args p2 = (Inr (), p3)" "verify_traefik_config lib p3 = (Inr (), p4)" and calls: "calls = pg_calls p4"
    by (rule boot_main_Inr [OF assms])
  let ?p0 = "boot_start args"
  have "wait_ready_from lib 30 30 ?p0 = (Inr (), p1)" using steps(1) by (simp only: wait_ready_def)
  then obtain k where k: "k < 30" "p1 = ?p0\<lparr>pg_calls := replicate (Suc k) (internal ?p0 ''/'')\<rparr>"
    using wait_ready_calls by (fastforce simp: boot_start_def)
  let ?waits = "replicate (Suc k) (internal ?p0 ''/'')"
  obtain logins token where p2: "p2 = (boot_session args token)\<lparr>pg_calls := ?waits @ logins\<rparr>"
    "session_given lib (?waits @ logins) token"
    "logins = [login_call ?p0 args] \<or>
     logins = [login_call ?p0 args, admin_call ?p0 args, login_call ?p0 args] \<and> login_refused lib (?waits @ take 1 logins)"
    using steps(2)
  proof (cases rule: log_in_Inr)
    case (known token)
    then show ?thesis by (intro that [of "[login_call ?p0 args]" token]) (simp_all add: k(2))
  next
    case (fresh token)
    then show ?thesis
      by (intro that [of "[login_call ?p0 args, admin_call ?p0 args, login_call ?p0 args]" token]) (simp_all add: k(2))
  qed
  obtain prov where prov: "p3 = p2\<lparr>pg_calls := pg_calls p2 @ prov\<rparr>" "provisioned lib args p2 (pg_calls p2) prov"
    by (rule provision_Inr [OF steps(3)])
  have last: "internal p3 ''/traefik-config'' = internal ?p0 ''/traefik-config''"
    by (simp add: prov(1) p2(1) internal_def)
  show ?thesis
    using that [OF args k(1) _ p2(3,2), of prov] verify_Inr [OF steps(4)] prov(2) calls last
    by (simp add: prov(1) p2(1))
qed

text \<open>C37: A bootstrap that succeeds has made exactly these calls, in this order: at most 30 probes; a login,
  or a login that was refused, the creation of the administrator (with the setup token) and a login
  again; then, with the cookie of the session that the last login's answer set, the provisioning: the
  defaults and the organisation made of them, the site, the resource, and the target that puts this
  site behind this resource, where a site or resource that is not created is looked up by its name in
  a list; and last, at the internal address and so without a session, a look at Traefik's
  configuration, which has servers. So the setup token is only used after a refused login, and once.\<close>

theorem bootstrap_protocol:
  assumes "boot_main lib client_ok env = (Inr (), calls)"
  shows "\<exists>args k logins token prov.
    boot_args_of env = Inr args \<and> k < 30 \<and>
    calls = replicate (Suc k) (internal (boot_start args) ''/'') @ logins @ prov @
      [internal (boot_start args) ''/traefik-config''] \<and>
    (logins = [login_call (boot_start args) args] \<or>
     logins = [login_call (boot_start args) args, admin_call (boot_start args) args, login_call (boot_start args) args] \<and>
     login_refused lib (replicate (Suc k) (internal (boot_start args) ''/'') @ take 1 logins)) \<and>
    session_given lib (replicate (Suc k) (internal (boot_start args) ''/'') @ logins) token \<and>
    provisioned lib args ((boot_start args)\<lparr>pg_session := Some token\<rparr>)
      (replicate (Suc k) (internal (boot_start args) ''/'') @ logins) prov \<and>
    list_all (with_cookie token) prov \<and>
    (\<exists>a js services. bl_server lib calls = Some a \<and> status_ok (aa_status a) \<and>
      bl_parse lib (case aa_text a of None \<Rightarrow> [] | Some t \<Rightarrow> t) = Some js \<and>
      json_as_object (json_path js [''http'', ''services'']) = Some services \<and> server_urls services \<noteq> [])"
proof (rule bootstrap_calls [OF assms], goal_cases)
  case (1 args k logins token prov)
  moreover have "list_all (with_cookie token) prov" using 1(6) by (rule provisioned_session) simp
  ultimately show ?case by blast
qed

definition sample_boot_env :: env where
  "sample_boot_env = map_of [(''PANGOLIN_EXTERNAL_URL'', ''http://e/''), (''PANGOLIN_INTERNAL_URL'', ''http://i''),
     (''PANGOLIN_SETUP_TOKEN'', ''t''), (''PANGOLIN_ADMIN_EMAIL'', ''a''), (''PANGOLIN_ADMIN_PASSWORD'', ''p'')]"

text \<open>A Pangolin that answers every call alike: with all identifiers, a cookie and one server.\<close>

definition sample_answer :: json where
  "sample_answer = JObject
     [(''data'', JObject [(''resourceId'', JNumber ''2''), (''siteId'', JNumber ''1''),
                          (''subnet'', JString ''n''), (''utilitySubnet'', JString ''u'')]),
      (''http'', JObject [(''services'', JObject [(''s'', JObject [(''loadBalancer'',
         JObject [(''servers'', JArray [JNull])])])])])]"

definition sample_boot_lib :: boot_lib where
  "sample_boot_lib =
     \<lparr>bl_server = (\<lambda>_. Some \<lparr>aa_status = 200, aa_text = Some ''{}'', aa_set_cookie = [''p_session_token=s; Path=/'']\<rparr>),
      bl_parse = (\<lambda>_. Some sample_answer)\<rparr>"

lemma sample_boot_call: "call_api sample_boot_lib method path body p =
    (Inr (200, sample_answer, [''p_session_token=s; Path=/'']),
     p\<lparr>pg_calls := pg_calls p @ [rest_call p method path body]\<rparr>)"
  by (simp add: call_api_rest and_do_def send_call_def return_def sample_boot_lib_def Let_def)

lemma sample_boot_send: "send_call sample_boot_lib req p =
    (Inr (Some \<lparr>aa_status = 200, aa_text = Some ''{}'', aa_set_cookie = [''p_session_token=s; Path=/'']\<rparr>),
     p\<lparr>pg_calls := pg_calls p @ [req]\<rparr>)"
  by (simp add: send_call_def sample_boot_lib_def Let_def)

lemma sample_boot_values:
  "json_as_str (json_path sample_answer [''data'', ''subnet'']) = Some ''n''"
  "json_as_str (json_path sample_answer [''data'', ''utilitySubnet'']) = Some ''u''"
  "json_as_i64 (json_path sample_answer [''data'', ''siteId'']) = Some 1"
  "json_as_i64 (json_path sample_answer [''data'', ''resourceId'']) = Some 2"
  "extract_session_cookie [''p_session_token=s; Path=/''] = Some ''s''"
  "\<exists>services. json_as_object (json_path sample_answer [''http'', ''services'']) = Some services \<and>
     server_urls services \<noteq> []"
proof -
  have nums: "parse_unsigned (2 ^ 63 - 1) ''1'' = Some 1" "parse_unsigned (2 ^ 63 - 1) ''2'' = Some 2"
    by (simp_all add: parse_unsigned_def is_digit_def byte_def)
  show "json_as_str (json_path sample_answer [''data'', ''subnet'']) = Some ''n''"
    "json_as_str (json_path sample_answer [''data'', ''utilitySubnet'']) = Some ''u''"
    "json_as_i64 (json_path sample_answer [''data'', ''siteId'']) = Some 1"
    "json_as_i64 (json_path sample_answer [''data'', ''resourceId'']) = Some 2"
    using nums by (simp_all add: sample_answer_def json_index_def json_get_def bt_get_def)
  show "\<exists>services. json_as_object (json_path sample_answer [''http'', ''services'']) = Some services \<and>
     server_urls services \<noteq> []"
    by (simp add: sample_answer_def json_index_def json_get_def bt_get_def server_urls_def bt_values_def map_filter_simps)
  show "extract_session_cookie [''p_session_token=s; Path=/''] = Some ''s''" by code_simp
qed

lemma sample_boots: "fst (boot_main sample_boot_lib True sample_boot_env) = Inr ()"
proof -
  have "n \<noteq> 0 \<Longrightarrow> wait_ready_from sample_boot_lib a n p = (Inr (), p\<lparr>pg_calls := pg_calls p @ [internal p ''/'']\<rparr>)"
    for a n p
    by (cases n) (simp_all add: and_do_def sample_boot_send return_def status_ok_def)
  then have wait: "wait_ready sample_boot_lib 30 p = (Inr (), p\<lparr>pg_calls := pg_calls p @ [internal p ''/'']\<rparr>)" for p
    by (simp add: wait_ready_def)
  have login: "\<exists>p'. log_in sample_boot_lib args p = (Inr (), p')" for args p
    by (simp add: log_in_def try_login_def and_do_def sample_boot_call return_def lift_def status_ok_def
        sample_boot_values del: extract_session_cookie.simps)
  have prov: "\<exists>p'. provision sample_boot_lib args p = (Inr (), p')" for args p
    by (simp add: provision_def ensure_org_def ensure_local_site_def ensure_http_resource_def create_or_find_def
        ensure_target_def and_do_def sample_boot_call return_def lift_def status_ok_def sample_boot_values
        del: json_path.simps)
  obtain services where services: "json_as_object (json_path sample_answer [''http'', ''services'']) = Some services"
    "server_urls services \<noteq> []" using sample_boot_values(6) by blast
  have parse: "bl_parse sample_boot_lib t = Some sample_answer" for t by (simp add: sample_boot_lib_def)
  have verify: "\<exists>p'. verify_traefik_config sample_boot_lib p = (Inr (), p')" for p
    by (simp add: verify_traefik_config_def and_do_def sample_boot_send return_def lift_def status_ok_def
        parse services Let_def del: json_path.simps)
  have "parse_u16 ''8080'' = Some 8080" by (simp add: parse_u16_def parse_unsigned_def is_digit_def byte_def)
  then have "\<exists>args. boot_args_of sample_boot_env = Inr args"
    by (simp add: boot_args_of_def boot_required_def boot_optional_def sample_boot_env_def ok_or_def Let_def)
  then obtain args where args: "boot_args_of sample_boot_env = Inr args" by blast
  obtain p1 where p1: "wait_ready sample_boot_lib 30 (boot_start args) = (Inr (), p1)" using wait by blast
  obtain p2 where p2: "log_in sample_boot_lib args p1 = (Inr (), p2)" using login by blast
  obtain p3 where p3: "provision sample_boot_lib args p2 = (Inr (), p3)" using prov by blast
  obtain p4 where p4: "verify_traefik_config sample_boot_lib p3 = (Inr (), p4)" using verify by blast
  show ?thesis
    using p1 by (simp add: boot_main_def args and_do_def p2 p3 p4)
qed

theorem bootstrap_protocol_witness:
  "\<exists>calls args k logins token prov.
    boot_main sample_boot_lib True sample_boot_env = (Inr (), calls) \<and>
    boot_args_of sample_boot_env = Inr args \<and>
    calls = replicate (Suc k) (internal (boot_start args) ''/'') @ logins @ prov @
      [internal (boot_start args) ''/traefik-config''] \<and>
    provisioned sample_boot_lib args ((boot_start args)\<lparr>pg_session := Some token\<rparr>)
      (replicate (Suc k) (internal (boot_start args) ''/'') @ logins) prov \<and>
    list_all (with_cookie token) prov"
proof -
  obtain calls where run: "boot_main sample_boot_lib True sample_boot_env = (Inr (), calls)"
    using sample_boots by (metis prod.collapse)
  from bootstrap_protocol [OF run] run show ?thesis by blast
qed

end
