(* ===== verification/Authorization.thy ===== *)
theory Authorization
  imports Samples Shim
begin

text \<open>
  The controller's policies and the shim, put together by Envoy. Envoy is not part of the program:
  the locale \<open>ext_authz_proxy\<close> states what the README relies on, that a request to a route with a
  policy is admitted only if the service of such a policy answered 2xx to a check that keeps
  the request's method, host and path (behind the policy's path) and the listed headers.
\<close>

section \<open>The proxy\<close>

definition targets :: "string \<Rightarrow> security_policy \<Rightarrow> bool" where
  "targets n sp \<longleftrightarrow>
     list_ex (\<lambda>t. ptr_group t = ''gateway.networking.k8s.io'' \<and> ptr_kind t = ''HTTPRoute'' \<and> ptr_name t = n)
       (sps_target_refs (sp_spec sp))"

definition request_path :: "check_request \<Rightarrow> string" where
  "request_path req = unwrap_or ''/'' (cr_path_and_query req)"

definition kept_headers :: "ext_auth \<Rightarrow> string list" where
  "kept_headers ext = ''host'' # map to_ascii_lowercase (unwrap_or [] (ea_headers_to_ext_auth ext))"

definition is_check_of :: "ext_auth \<Rightarrow> http_ext_auth_service \<Rightarrow> check_request \<Rightarrow> check_request \<Rightarrow> bool" where
  "is_check_of ext http req creq \<longleftrightarrow>
     cr_method creq = cr_method req \<and>
     cr_path_and_query creq = Some (unwrap_or [] (heas_path http) @ request_path req) \<and>
     (\<forall>h \<in> set (kept_headers ext). header_str creq h = header_str req h)"

type_synonym auth_services = "ext_auth_backend_ref \<Rightarrow> check_request \<Rightarrow> outcome"

definition answers_ok :: "outcome \<Rightarrow> bool" where
  "answers_ok out = (case out of Respond r \<Rightarrow> 200 \<le> re_status r \<and> re_status r < 300 | Panic \<Rightarrow> False)"

text \<open>What a policy says of a request: it fails closed only when it says so.\<close>

definition lets_pass :: "auth_services \<Rightarrow> check_request \<Rightarrow> security_policy \<Rightarrow> bool" where
  "lets_pass svc req sp \<longleftrightarrow>
     (case sps_ext_auth (sp_spec sp) of
        None \<Rightarrow> True
      | Some ext \<Rightarrow>
          (case ea_http ext of
             None \<Rightarrow> True
           | Some http \<Rightarrow>
               ea_fail_open ext \<noteq> Some False \<or>
               (\<exists>ref creq. ref \<in> set (heas_backend_refs http) \<and> is_check_of ext http req creq \<and>
                  answers_ok (svc ref creq))))"

section \<open>What the shim allows\<close>

text \<open>A prefix that is told apart from what follows it.\<close>

definition proper_prefix :: "string \<Rightarrow> bool" where
  "proper_prefix pre \<longleftrightarrow> pre \<noteq> [] \<and> last pre \<noteq> CHR ''/'' \<and> CHR ''?'' \<notin> set pre"

lemma split_path_prefix:
  assumes "proper_prefix pre"
  shows "split_path (pre @ pq) = (pre @ fst (split_path pq), snd (split_path pq))"
proof (cases "split_once CHR ''?'' pq")
  case None
  then have "split_once CHR ''?'' (pre @ pq) = None"
    using assms by (simp add: split_once_None_iff proper_prefix_def)
  then show ?thesis using None by (simp add: split_path_def)
next
  case (Some ab)
  obtain a b where ab: "ab = (a, b)" by fastforce
  then have "split_once CHR ''?'' (pre @ pq) = Some (pre @ a, b)"
    using Some assms by (simp add: split_once_Some_iff proper_prefix_def)
  then show ?thesis using Some ab by (simp add: split_path_def)
qed

lemma path_of_prefixed:
  assumes "proper_prefix pre" and "starts_with ''/'' pq"
  shows "strip_path_prefix pre (pre @ pq) = Some pq" and "fst (split_path (pre @ pq)) \<noteq> ''/healthz''"
proof -
  obtain s where pq: "pq = ''/'' @ s" using assms(2) by (auto simp: starts_with_iff)
  have "trim_end_matches CHR ''/'' pre = pre"
    using assms(1) by (cases pre rule: rev_cases) (simp_all add: trim_end_matches_def proper_prefix_def)
  moreover have "pre \<noteq> []" "pre \<noteq> ''/''" using assms(1) by (auto simp: proper_prefix_def)
  ultimately show "strip_path_prefix pre (pre @ pq) = Some pq"
    by (subst strip_path_prefix_spec) (simp_all add: pq Let_def)
  have "\<exists>t. fst (split_path pq) = ''/'' @ t"
    by (cases "split_once CHR ''?'' s") (auto simp: split_path_def pq)
  then obtain t where t: "fst (split_path pq) = ''/'' @ t" by blast
  have "pre @ ''/'' @ t \<noteq> ''/healthz''"
    using \<open>pre \<noteq> []\<close> by (auto simp: append_eq_Cons_conv)
  then show "fst (split_path (pre @ pq)) \<noteq> ''/healthz''" by (simp add: split_path_prefix [OF assms(1)] t)
qed

text \<open>Every answer of 2xx is 200.\<close>

lemma handoff_not_2xx: "handoff lib cfg x p s h = Some out \<Longrightarrow> \<not> answers_ok out"
  by (auto simp: answers_ok_def handoff_def plain_def Let_def
      split: sum.splits option.splits list.splits bool.splits if_splits)

lemma answer_2xx: "answers_ok (answer lib v) \<Longrightarrow> \<exists>r. answer lib v = Respond r \<and> re_status r = 200"
  by (auto simp: answers_ok_def answer_def plain_def split: sum.splits option.splits list.splits if_splits)

lemma check_2xx:
  assumes "answers_ok (check pf lib cfg req)"
  shows "\<exists>r. check pf lib cfg req = Respond r \<and> re_status r = 200"
proof (cases rule: check_cases [of req pf lib cfg])
  case no_host
  then show ?thesis using assms by (simp add: answers_ok_def plain_def)
next
  case (handed token out)
  then show ?thesis using assms handoff_not_2xx by metis
next
  case verified
  then show ?thesis using assms answer_2xx by metis
qed

text \<open>The body of a verification that asks about this request.\<close>

definition asks_about :: "shim_lib \<Rightarrow> shim_config \<Rightarrow> check_request \<Rightarrow> verify_body \<Rightarrow> bool" where
  "asks_about lib scfg req body \<longleftrightarrow>
     vb_method body = cr_method req \<and> vb_host body = host_of req \<and>
     vb_path body = fst (split_path (request_path req)) \<and>
     vb_query body = parse_query (shim_codec.truncate lib) (snd (split_path (request_path req))) \<and>
     vb_sessions body =
       collect_sessions (unwrap_or [] (header_str req ''cookie'')) (sc_user_session_cookie_name scfg)"

definition pangolin_allows ::
  "platform \<Rightarrow> shim_lib \<Rightarrow> shim_config \<Rightarrow> check_request \<Rightarrow> bool" where
  "pangolin_allows spf lib scfg req \<longleftrightarrow>
     (\<exists>u st data body. endpoint spf (sc_pangolin_api_base_url scfg) ''badger/verify-session'' = Inr u \<and>
        post_verify lib u body = Reply st (Some data) \<and> allowed data \<and> asks_about lib scfg req body)"

lemma shim_asks_pangolin:
  assumes "is_check_of ext http req creq" and "heas_path http = Some (sc_path_prefix scfg)"
    and "proper_prefix (sc_path_prefix scfg)" and "starts_with ''/'' (request_path req)"
    and "''cookie'' \<in> set (kept_headers ext)" and "answers_ok (shim_router spf lib scfg creq)"
  shows "pangolin_allows spf lib scfg req"
proof -
  have path: "cr_path_and_query creq = Some (sc_path_prefix scfg @ request_path req)"
    using assms(1,2) by (simp add: is_check_of_def unwrap_or_def)
  have heads: "header_str creq ''host'' = header_str req ''host''" "header_str creq ''cookie'' = header_str req ''cookie''"
    using assms(1,5) by (auto simp: is_check_of_def kept_headers_def)
  have "\<not> health_request creq"
    using path_of_prefixed(2) [OF assms(3,4)] by (simp add: health_request_def path unwrap_or_def)
  with assms(6) have "answers_ok (check spf lib scfg creq)" by (simp add: shim_router_def health_request_def)
  from check_2xx [OF this] check_allows obtain u st data where pangolin:
    "endpoint spf (sc_pangolin_api_base_url scfg) ''badger/verify-session'' = Inr u"
    "post_verify lib u (body_of lib scfg creq) = Reply st (Some data)" "allowed data" by blast
  have "original_path scfg creq = request_path req"
    using path_of_prefixed(1) [OF assms(3,4)] by (simp add: original_path_def path unwrap_or_def)
  then have "asks_about lib scfg req (body_of lib scfg creq)"
    using assms(1) heads
    by (simp add: asks_about_def body_of_def verify_body_of_def host_of_def is_check_of_def split: prod.split)
  with pangolin show ?thesis by (auto simp: pangolin_allows_def)
qed

section \<open>The interface\<close>

locale ext_authz_proxy =
  fixes admits :: "security_policy list \<Rightarrow> auth_services \<Rightarrow> string \<Rightarrow> check_request \<Rightarrow> bool"
  assumes checked: "admits sps svc n req \<Longrightarrow> list_ex (targets n) sps \<Longrightarrow>
    list_ex (\<lambda>sp. targets n sp \<and> lets_pass svc req sp) sps"
begin

text \<open>
  Where all policies are the controller's, one for this route among them, and the shim is the
  service behind them under the policy's path, what is admitted was allowed by Pangolin.
\<close>

lemma admitted_allowed:
  assumes "admits sps svc n req" and "build_security_policy pf cfg ea n \<in> set sps"
    and built: "\<And>sp. sp \<in> set sps \<Longrightarrow> \<exists>n'. sp = build_security_policy pf cfg ea n'"
    and shim: "svc \<lparr>eab_name = eac_service ea, eab_namespace = eac_namespace ea, eab_port = Some (eac_port ea)\<rparr> =
      shim_router spf lib scfg"
    and "eac_path ea = Some (sc_path_prefix scfg)" and "proper_prefix (sc_path_prefix scfg)"
    and "''cookie'' \<in> set (map to_ascii_lowercase (eac_headers_to_ext_auth ea))"
    and "starts_with ''/'' (request_path req)"
  shows "pangolin_allows spf lib scfg req"
proof -
  have targets: "targets n' (build_security_policy pf cfg ea m) \<longleftrightarrow> m = n'" for n' m
    by (simp add: targets_def build_security_policy_def Let_def)
  then have "list_ex (targets n) sps" using assms(2) by (auto simp: list_ex_iff)
  from checked [OF assms(1) this] obtain sp where sp: "sp \<in> set sps" "targets n sp" "lets_pass svc req sp"
    by (auto simp: list_ex_iff)
  from built [OF sp(1)] sp(2) targets have "sp = build_security_policy pf cfg ea n" by auto
  then obtain ext http creq where check: "is_check_of ext http req creq" "heas_path http = eac_path ea"
    "ea_headers_to_ext_auth ext = non_empty (eac_headers_to_ext_auth ea)" "answers_ok (shim_router spf lib scfg creq)"
    using sp(3) by (auto simp: lets_pass_def build_security_policy_def Let_def shim)
  have "''cookie'' \<in> set (kept_headers ext)"
    using assms(7) by (auto simp: kept_headers_def check(3) non_empty_def unwrap_or_def)
  with check assms(5,6,8) show ?thesis by (intro shim_asks_pangolin) auto
qed

end

text \<open>A proxy that asks the service of the first policy of the route.\<close>

definition plain_check :: "ext_auth \<Rightarrow> http_ext_auth_service \<Rightarrow> check_request \<Rightarrow> check_request" where
  "plain_check ext http req =
     \<lparr>cr_path_and_query = Some (unwrap_or [] (heas_path http) @ request_path req), cr_method = cr_method req,
      cr_headers = filter (\<lambda>h. fst h \<in> set (kept_headers ext)) (cr_headers req)\<rparr>"

definition plain_lets_pass :: "auth_services \<Rightarrow> check_request \<Rightarrow> security_policy \<Rightarrow> bool" where
  "plain_lets_pass svc req sp =
     (case sps_ext_auth (sp_spec sp) of
        None \<Rightarrow> True
      | Some ext \<Rightarrow>
          (case ea_http ext of
             None \<Rightarrow> True
           | Some http \<Rightarrow>
               (case heas_backend_refs http of
                  [] \<Rightarrow> ea_fail_open ext = Some True
                | ref # _ \<Rightarrow> answers_ok (svc ref (plain_check ext http req)))))"

definition plain_admits :: "security_policy list \<Rightarrow> auth_services \<Rightarrow> string \<Rightarrow> check_request \<Rightarrow> bool" where
  "plain_admits sps svc n req =
     (case find (targets n) sps of None \<Rightarrow> True | Some sp \<Rightarrow> plain_lets_pass svc req sp)"

lemma plain_check_is_check: "is_check_of ext http req (plain_check ext http req)"
proof -
  have "map_of (filter (\<lambda>h. fst h \<in> S) hs) k = map_of hs k" if "k \<in> S" for S k and hs :: "(string \<times> string option) list"
    using that by (induction hs) auto
  then show ?thesis by (simp add: is_check_of_def plain_check_def header_str_def)
qed

interpretation envoy: ext_authz_proxy plain_admits
proof
  fix sps svc n req
  assume admits: "plain_admits sps svc n req" and "list_ex (targets n) sps"
  then obtain sp where sp: "find (targets n) sps = Some sp"
    by (cases "find (targets n) sps") (auto simp: find_None_iff list_ex_iff)
  then have "sp \<in> set sps" "targets n sp" by (auto simp: find_Some_iff)
  moreover have "lets_pass svc req sp"
    using admits sp plain_check_is_check
    by (fastforce simp: plain_admits_def plain_lets_pass_def lets_pass_def split: option.splits list.splits)
  ultimately show "list_ex (\<lambda>sp. targets n sp \<and> lets_pass svc req sp) sps" by (auto simp: list_ex_iff)
qed

section \<open>Why the path is needed\<close>

text \<open>Without a path in the policy the visitor chooses what the shim takes for the health route or
  for its own prefix: one page of every resource is open, and Pangolin is asked about another path.\<close>

lemma healthz_open_without_path:
  assumes "eac_path ea = None" and "request_path req = ''/healthz''" and "cr_method req = ''GET''"
  shows "plain_admits [build_security_policy pf cfg ea n] (\<lambda>_. shim_router spf lib scfg) n req"
proof -
  have "split_path ''/healthz'' = (''/healthz'', [])" by code_simp
  then show ?thesis
    using assms
    by (simp add: plain_admits_def targets_def build_security_policy_def Let_def plain_lets_pass_def plain_check_def
        unwrap_or_def shim_router_def plain_def answers_ok_def)
qed

lemma path_confused_without_path:
  assumes "is_check_of ext http req creq" and "heas_path http = None" and "proper_prefix (sc_path_prefix scfg)"
    and "request_path req = sc_path_prefix scfg @ pq" and "starts_with ''/'' pq"
  shows "original_path scfg creq = pq"
  using assms path_of_prefixed(1) [OF assms(3,5)]
  by (simp add: is_check_of_def original_path_def unwrap_or_def)

section \<open>From the router to Pangolin\<close>

definition auth_service_ref :: "ext_authz_config \<Rightarrow> ext_auth_backend_ref" where
  "auth_service_ref ea = \<lparr>eab_name = eac_service ea, eab_namespace = eac_namespace ea, eab_port = Some (eac_port ea)\<rparr>"

definition desired_policies :: "platform \<Rightarrow> config \<Rightarrow> traefik_dynamic_config \<Rightarrow> security_policy list" where
  "desired_policies pf cfg dyn = bt_values (d_security_policies (build_desired pf cfg dyn))"

lemma desired_policies_built:
  assumes "cfg_ext_authz cfg = Some ea" and "sp \<in> set (desired_policies pf cfg dyn)"
  shows "\<exists>n. sp = build_security_policy pf cfg ea n"
proof -
  obtain k where "(k, sp) \<in> set (d_security_policies (snd (route_stage pf cfg dyn)))"
    using assms(2) by (auto simp: desired_policies_def bt_values_def run_http_fields)
  from policies_built [OF stage_runs(2) this _ assms(1)] show ?thesis by (simp add: backend_stage_frame)
qed

lemma desired_policy_there:
  assumes "cfg_ext_authz cfg = Some ea"
    and "own_policy_name pf dyn (route_name_of pf e)"
    and "e \<in> set (emitting cfg dyn (fst (backend_stage pf cfg dyn)))" and "protected (hc_middlewares (tdc_http dyn)) (snd e)"
  shows "build_security_policy pf cfg ea (route_name_of pf e) \<in> set (desired_policies pf cfg dyn)"
proof -
  have "bt_get (d_security_policies (build_desired pf cfg dyn)) (prefixed_label pf ''sp'' (route_name_of pf e)) =
      Some (build_security_policy pf cfg ea (route_name_of pf e))"
    using policy_found [OF stage_runs(2) _ assms(3,4,1,2)] by (simp add: run_http_fields backend_stage_frame)
  then show ?thesis by (force simp: desired_policies_def bt_values_def dest: bt_get_SomeD)
qed

text \<open>C2: Controller, Envoy and shim together: with an authorization service configured whose path is set and
  is the path prefix of the shim behind it (a \<open>proper_prefix\<close>), to which cookies are forwarded, and
  when no other router's policy has the name of this route's policy (which is so when all route
  names have at most 60 bytes, \<open>short_names_own_policy\<close>), a request to the HTTPRoute of a protected
  router is admitted only if Pangolin was asked about this request (its method, host, path, query
  and session cookies) and allowed it. Envoy is any proxy that keeps the contract of external
  authorization. Without the path the claim fails: \<open>healthz_open_without_path\<close> and
  \<open>path_confused_without_path\<close> above.\<close>

theorem admitted_only_if_pangolin_allows:
  assumes "ext_authz_proxy admits" and "cfg_ext_authz cfg = Some ea"
    and "own_policy_name pf dyn n"
    and "eac_path ea = Some (sc_path_prefix scfg)" and "proper_prefix (sc_path_prefix scfg)"
    and "''cookie'' \<in> set (map to_ascii_lowercase (eac_headers_to_ext_auth ea))"
    and "svc (auth_service_ref ea) = shim_router spf lib scfg"
    and "bt_get (d_http_routes (build_desired pf cfg dyn)) n = Some route"
  shows "\<exists>e \<in> set (hc_routers (tdc_http dyn)). n = route_name_of pf e \<and>
    route = route_of pf cfg (hc_middlewares (tdc_http dyn)) (fst (backend_stage pf cfg dyn)) e \<and>
    (protected (hc_middlewares (tdc_http dyn)) (snd e) \<longrightarrow>
      (\<forall>req. starts_with ''/'' (request_path req) \<and> admits (desired_policies pf cfg dyn) svc n req \<longrightarrow>
         pangolin_allows spf lib scfg req))"
proof -
  have "(n, route) \<in> set (d_http_routes (snd (route_stage pf cfg dyn)))"
    using bt_get_SomeD [OF assms(8)] by (simp add: run_http_fields)
  with stage_runs(2) show ?thesis
  proof (cases rule: build_routes_routes)
    case (new e)
    have "pangolin_allows spf lib scfg req"
      if "protected (hc_middlewares (tdc_http dyn)) (snd e)" "starts_with ''/'' (request_path req)"
        "admits (desired_policies pf cfg dyn) svc n req" for req
      using ext_authz_proxy.admitted_allowed [OF assms(1) that(3) _ _ _ assms(4,5,6) that(2), of pf cfg spf lib]
        desired_policy_there [OF assms(2) assms(3) [unfolded new(2)] new(1) that(1)] desired_policies_built [OF assms(2)] assms(7) new(2)
      by (simp add: auth_service_ref_def)
    with new show ?thesis by (auto simp: emitting_def)
  qed (simp add: backend_stage_frame)
qed

text \<open>A request for the sample's protected route, which is admitted with a Pangolin that accepts it.\<close>

definition visitor :: check_request where
  "visitor = \<lparr>cr_path_and_query = Some ''/x'', cr_method = ''GET'',
     cr_headers = [(''host'', Some ''b''), (''cookie'', Some ''p_s=1''), (''x-user'', Some ''v'')]\<rparr>"

definition sample_services :: auth_services where
  "sample_services _ = shim_router shim_pf (shim_sample_lib (Reply 200 (Some accepting))) shim_cfg"

lemma visitor_check:
  "shim_router shim_pf (shim_sample_lib (Reply 200 (Some accepting))) shim_cfg
     \<lparr>cr_path_and_query = Some ''/verify/x'', cr_method = ''GET'',
      cr_headers = [(''host'', Some ''b''), (''cookie'', Some ''p_s=1'')]\<rparr> =
   Respond \<lparr>re_status = 200, re_headers = []\<rparr>" (is "shim_router _ _ _ ?req = _")
proof -
  have leaves: "host_of ?req = ''b''" "split_path (original_path shim_cfg ?req) = (''/x'', [])" "\<not> health_request ?req"
    by code_simp+
  then have "check shim_pf (shim_sample_lib (Reply 200 (Some accepting))) shim_cfg ?req =
      answer (shim_sample_lib (Reply 200 (Some accepting)))
        (read_reply default_verify_data (Reply 200 (Some accepting)))"
    by (intro shim_sample_check_any) simp_all
  then show ?thesis
    using leaves(3)
    by (simp add: shim_router_def health_request_def read_reply_def answer_def accepting_def default_verify_data_def
        unwrap_or_def)
qed

lemma visitor_admitted: "plain_admits (desired_policies sample_pf authz_cfg sample_dyn) sample_services ''hr-b'' visitor"
proof -
  have "to_ascii_lowercase ''cookie'' = ''cookie''" by code_simp
  then show ?thesis
    using visitor_check
    by (simp add: plain_admits_def desired_policies_def sample_http bt_values_def targets_def build_security_policy_def
        Let_def plain_lets_pass_def sample_services_def plain_check_def kept_headers_def non_empty_def sample_authz_def
        unwrap_or_def request_path_def visitor_def answers_ok_def)
qed

theorem admitted_only_if_pangolin_allows_witness:
  "plain_admits (desired_policies sample_pf authz_cfg sample_dyn) sample_services ''hr-b'' visitor \<and>
   pangolin_allows shim_pf (shim_sample_lib (Reply 200 (Some accepting))) shim_cfg visitor"
proof -
  have cookie: "''cookie'' \<in> set (map to_ascii_lowercase (eac_headers_to_ext_auth sample_authz))" by code_simp
  have "\<exists>e \<in> set (hc_routers (tdc_http sample_dyn)). ''hr-b'' = route_name_of sample_pf e \<and>
      sample_route authz_cfg ''hr-b'' ''b'' = route_of sample_pf authz_cfg (hc_middlewares (tdc_http sample_dyn))
        (fst (backend_stage sample_pf authz_cfg sample_dyn)) e \<and>
      (protected (hc_middlewares (tdc_http sample_dyn)) (snd e) \<longrightarrow>
        (\<forall>req. starts_with ''/'' (request_path req) \<and>
           plain_admits (desired_policies sample_pf authz_cfg sample_dyn) sample_services ''hr-b'' req \<longrightarrow>
           pangolin_allows shim_pf (shim_sample_lib (Reply 200 (Some accepting))) shim_cfg req))"
    by (rule admitted_only_if_pangolin_allows [OF envoy.ext_authz_proxy_axioms _ _ _ _ cookie])
       (simp_all add: sample_cfg_fields sample_routers sample_names sample_http bt_get_def sample_authz_def shim_cfg_def
         proper_prefix_def sample_services_def fun_eq_iff sample_own_policy)
  moreover have "starts_with ''/'' (request_path visitor)" by code_simp
  ultimately show ?thesis
    using visitor_admitted by (auto simp: sample_routers sample_names sample_badger)
qed

end
