(* ===== verification/Envoy_Wire.thy ===== *)
theory Envoy_Wire
  imports Wire Kube_Types
begin

text \<open>
  The JSON of the Envoy Gateway kinds of \<^verbatim>\<open>src/envoy_gateway.rs\<close>: which custom resources they are,
  the names of their fields, and which fields are left out when they are \<^verbatim>\<open>None\<close>. Every type is
  written and read, and interprets \<open>wire_format\<close>: what the API server stores is read back as it was
  sent. The only condition is that integers are those of Rust's \<^verbatim>\<open>i32\<close>.
\<close>

section \<open>The custom resources\<close>

record crd =
  crd_group :: string
  crd_version :: string
  crd_kind :: string
  crd_plural :: string
  crd_namespaced :: bool

definition backend_crd :: crd where
  "backend_crd = \<lparr>crd_group = ''gateway.envoyproxy.io'', crd_version = ''v1alpha1'', crd_kind = ''Backend'',
     crd_plural = ''backends'', crd_namespaced = True\<rparr>"

definition security_policy_crd :: crd where
  "security_policy_crd = \<lparr>crd_group = ''gateway.envoyproxy.io'', crd_version = ''v1alpha1'', crd_kind = ''SecurityPolicy'',
     crd_plural = ''securitypolicies'', crd_namespaced = True\<rparr>"

section \<open>\<^verbatim>\<open>BackendTlsSettings\<close>\<close>

definition enc_tls_settings :: "backend_tls_settings \<Rightarrow> json" where
  "enc_tls_settings x = enc_struct
     [(''wellKnownCACertificates'', map_option JString (bts_well_known_ca_certificates x)),
      (''insecureSkipVerify'', map_option JBool (bts_insecure_skip_verify x)),
      (''sni'', map_option JString (bts_sni x))]"

definition dec_tls_settings :: "json \<Rightarrow> backend_tls_settings option" where
  "dec_tls_settings v = reads (struct_fields [''wellKnownCACertificates'', ''insecureSkipVerify'', ''sni''] v) (\<lambda>f.
     reads (default_field f ''wellKnownCACertificates'' (dec_option json_as_str) None) (\<lambda>well_known_ca_certificates.
     reads (default_field f ''insecureSkipVerify'' (dec_option json_as_bool) None) (\<lambda>insecure_skip_verify.
     reads (default_field f ''sni'' (dec_option json_as_str) None) (\<lambda>sni.
     Some \<lparr>bts_well_known_ca_certificates = well_known_ca_certificates, bts_insecure_skip_verify = insecure_skip_verify, bts_sni = sni\<rparr>))))"

interpretation tls_settings: wire_format enc_tls_settings dec_tls_settings "\<lambda>_. True"
  by unfold_locales
     (simp_all add: enc_tls_settings_def dec_tls_settings_def struct_fields_enc enc_struct_not_null
       boolean.option_field str.option_field option.pred_True)

section \<open>\<^verbatim>\<open>BackendIp\<close>\<close>

definition enc_backend_ip :: "backend_ip \<Rightarrow> json" where
  "enc_backend_ip x = enc_struct
     [(''address'', Some (JString (bip_address x))),
      (''port'', Some (enc_i32 (bip_port x)))]"

definition dec_backend_ip :: "json \<Rightarrow> backend_ip option" where
  "dec_backend_ip v = reads (struct_fields [''address'', ''port''] v) (\<lambda>f.
     reads (required_field f ''address'' json_as_str) (\<lambda>address.
     reads (required_field f ''port'' dec_i32) (\<lambda>port.
     Some \<lparr>bip_address = address, bip_port = port\<rparr>)))"

definition backend_ip_ok :: "backend_ip \<Rightarrow> bool" where
  "backend_ip_ok x \<longleftrightarrow> is_i32 (bip_port x)"

interpretation backend_ip: wire_format enc_backend_ip dec_backend_ip backend_ip_ok
  by unfold_locales
     (simp_all add: enc_backend_ip_def dec_backend_ip_def backend_ip_ok_def struct_fields_enc enc_struct_not_null
       i32.needed_field str.needed_field option.pred_True)

section \<open>\<^verbatim>\<open>BackendFqdn\<close>\<close>

definition enc_backend_fqdn :: "backend_fqdn \<Rightarrow> json" where
  "enc_backend_fqdn x = enc_struct
     [(''hostname'', Some (JString (bfqdn_hostname x))),
      (''port'', Some (enc_i32 (bfqdn_port x)))]"

definition dec_backend_fqdn :: "json \<Rightarrow> backend_fqdn option" where
  "dec_backend_fqdn v = reads (struct_fields [''hostname'', ''port''] v) (\<lambda>f.
     reads (required_field f ''hostname'' json_as_str) (\<lambda>hostname.
     reads (required_field f ''port'' dec_i32) (\<lambda>port.
     Some \<lparr>bfqdn_hostname = hostname, bfqdn_port = port\<rparr>)))"

definition backend_fqdn_ok :: "backend_fqdn \<Rightarrow> bool" where
  "backend_fqdn_ok x \<longleftrightarrow> is_i32 (bfqdn_port x)"

interpretation backend_fqdn: wire_format enc_backend_fqdn dec_backend_fqdn backend_fqdn_ok
  by unfold_locales
     (simp_all add: enc_backend_fqdn_def dec_backend_fqdn_def backend_fqdn_ok_def struct_fields_enc enc_struct_not_null
       i32.needed_field str.needed_field option.pred_True)

section \<open>\<^verbatim>\<open>BackendEndpoint\<close>\<close>

definition enc_backend_endpoint :: "backend_endpoint \<Rightarrow> json" where
  "enc_backend_endpoint x = enc_struct
     [(''ip'', map_option enc_backend_ip (be_ip x)),
      (''fqdn'', map_option enc_backend_fqdn (be_fqdn x))]"

definition dec_backend_endpoint :: "json \<Rightarrow> backend_endpoint option" where
  "dec_backend_endpoint v = reads (struct_fields [''ip'', ''fqdn''] v) (\<lambda>f.
     reads (default_field f ''ip'' (dec_option dec_backend_ip) None) (\<lambda>ip.
     reads (default_field f ''fqdn'' (dec_option dec_backend_fqdn) None) (\<lambda>fqdn.
     Some \<lparr>be_ip = ip, be_fqdn = fqdn\<rparr>)))"

definition backend_endpoint_ok :: "backend_endpoint \<Rightarrow> bool" where
  "backend_endpoint_ok x \<longleftrightarrow> pred_option backend_ip_ok (be_ip x) \<and> pred_option backend_fqdn_ok (be_fqdn x)"

interpretation backend_endpoint: wire_format enc_backend_endpoint dec_backend_endpoint backend_endpoint_ok
  by unfold_locales
     (simp_all add: enc_backend_endpoint_def dec_backend_endpoint_def backend_endpoint_ok_def struct_fields_enc enc_struct_not_null
       backend_fqdn.option_field backend_ip.option_field option.pred_True)

section \<open>\<^verbatim>\<open>BackendSpec\<close>\<close>

definition enc_backend_spec :: "backend_spec \<Rightarrow> json" where
  "enc_backend_spec x = enc_struct
     [(''endpoints'', Some (enc_seq enc_backend_endpoint (bspec_endpoints x))),
      (''tls'', map_option enc_tls_settings (bspec_tls x))]"

definition dec_backend_spec :: "json \<Rightarrow> backend_spec option" where
  "dec_backend_spec v = reads (struct_fields [''endpoints'', ''tls''] v) (\<lambda>f.
     reads (required_field f ''endpoints'' (dec_seq dec_backend_endpoint)) (\<lambda>endpoints.
     reads (default_field f ''tls'' (dec_option dec_tls_settings) None) (\<lambda>tls.
     Some \<lparr>bspec_endpoints = endpoints, bspec_tls = tls\<rparr>)))"

definition backend_spec_ok :: "backend_spec \<Rightarrow> bool" where
  "backend_spec_ok x \<longleftrightarrow> list_all backend_endpoint_ok (bspec_endpoints x)"

interpretation backend_endpoints: wire_format "enc_seq enc_backend_endpoint" "dec_seq dec_backend_endpoint" "list_all backend_endpoint_ok"
  by (rule backend_endpoint.seq_format)

interpretation backend_spec: wire_format enc_backend_spec dec_backend_spec backend_spec_ok
  by unfold_locales
     (simp_all add: enc_backend_spec_def dec_backend_spec_def backend_spec_ok_def struct_fields_enc enc_struct_not_null
       backend_endpoints.needed_field tls_settings.option_field option.pred_True)

section \<open>\<^verbatim>\<open>PolicyTargetRef\<close>\<close>

definition enc_target_ref :: "policy_target_ref \<Rightarrow> json" where
  "enc_target_ref x = enc_struct
     [(''group'', Some (JString (ptr_group x))),
      (''kind'', Some (JString (ptr_kind x))),
      (''name'', Some (JString (ptr_name x)))]"

definition dec_target_ref :: "json \<Rightarrow> policy_target_ref option" where
  "dec_target_ref v = reads (struct_fields [''group'', ''kind'', ''name''] v) (\<lambda>f.
     reads (required_field f ''group'' json_as_str) (\<lambda>group.
     reads (required_field f ''kind'' json_as_str) (\<lambda>kind.
     reads (required_field f ''name'' json_as_str) (\<lambda>nm.
     Some \<lparr>ptr_group = group, ptr_kind = kind, ptr_name = nm\<rparr>))))"

interpretation target_ref: wire_format enc_target_ref dec_target_ref "\<lambda>_. True"
  by unfold_locales
     (simp_all add: enc_target_ref_def dec_target_ref_def struct_fields_enc enc_struct_not_null
       str.needed_field option.pred_True)

section \<open>\<^verbatim>\<open>ExtAuthBackendRef\<close>\<close>

definition enc_auth_ref :: "ext_auth_backend_ref \<Rightarrow> json" where
  "enc_auth_ref x = enc_struct
     [(''name'', Some (JString (eab_name x))),
      (''namespace'', map_option JString (eab_namespace x)),
      (''port'', map_option enc_i32 (eab_port x))]"

definition dec_auth_ref :: "json \<Rightarrow> ext_auth_backend_ref option" where
  "dec_auth_ref v = reads (struct_fields [''name'', ''namespace'', ''port''] v) (\<lambda>f.
     reads (required_field f ''name'' json_as_str) (\<lambda>nm.
     reads (default_field f ''namespace'' (dec_option json_as_str) None) (\<lambda>namespace.
     reads (default_field f ''port'' (dec_option dec_i32) None) (\<lambda>port.
     Some \<lparr>eab_name = nm, eab_namespace = namespace, eab_port = port\<rparr>))))"

definition auth_ref_ok :: "ext_auth_backend_ref \<Rightarrow> bool" where
  "auth_ref_ok x \<longleftrightarrow> pred_option is_i32 (eab_port x)"

interpretation auth_ref: wire_format enc_auth_ref dec_auth_ref auth_ref_ok
  by unfold_locales
     (simp_all add: enc_auth_ref_def dec_auth_ref_def auth_ref_ok_def struct_fields_enc enc_struct_not_null
       i32.option_field str.needed_field str.option_field option.pred_True)

section \<open>\<^verbatim>\<open>HttpExtAuthService\<close>\<close>

definition enc_auth_service :: "http_ext_auth_service \<Rightarrow> json" where
  "enc_auth_service x = enc_struct
     [(''backendRefs'', Some (enc_seq enc_auth_ref (heas_backend_refs x))),
      (''path'', map_option JString (heas_path x)),
      (''headersToBackend'', map_option (enc_seq JString) (heas_headers_to_backend x))]"

definition dec_auth_service :: "json \<Rightarrow> http_ext_auth_service option" where
  "dec_auth_service v = reads (struct_fields [''backendRefs'', ''path'', ''headersToBackend''] v) (\<lambda>f.
     reads (required_field f ''backendRefs'' (dec_seq dec_auth_ref)) (\<lambda>backend_refs.
     reads (default_field f ''path'' (dec_option json_as_str) None) (\<lambda>path.
     reads (default_field f ''headersToBackend'' (dec_option (dec_seq json_as_str)) None) (\<lambda>headers_to_backend.
     Some \<lparr>heas_backend_refs = backend_refs, heas_path = path, heas_headers_to_backend = headers_to_backend\<rparr>))))"

definition auth_service_ok :: "http_ext_auth_service \<Rightarrow> bool" where
  "auth_service_ok x \<longleftrightarrow> list_all auth_ref_ok (heas_backend_refs x)"

interpretation auth_refs: wire_format "enc_seq enc_auth_ref" "dec_seq dec_auth_ref" "list_all auth_ref_ok"
  by (rule auth_ref.seq_format)

interpretation auth_service: wire_format enc_auth_service dec_auth_service auth_service_ok
  by unfold_locales
     (simp_all add: enc_auth_service_def dec_auth_service_def auth_service_ok_def struct_fields_enc enc_struct_not_null
       auth_refs.needed_field str.option_field strs.option_field option.pred_True)

section \<open>\<^verbatim>\<open>ExtAuth\<close>\<close>

definition enc_ext_auth :: "ext_auth \<Rightarrow> json" where
  "enc_ext_auth x = enc_struct
     [(''http'', map_option enc_auth_service (ea_http x)),
      (''headersToExtAuth'', map_option (enc_seq JString) (ea_headers_to_ext_auth x)),
      (''failOpen'', map_option JBool (ea_fail_open x))]"

definition dec_ext_auth :: "json \<Rightarrow> ext_auth option" where
  "dec_ext_auth v = reads (struct_fields [''http'', ''headersToExtAuth'', ''failOpen''] v) (\<lambda>f.
     reads (default_field f ''http'' (dec_option dec_auth_service) None) (\<lambda>http.
     reads (default_field f ''headersToExtAuth'' (dec_option (dec_seq json_as_str)) None) (\<lambda>headers_to_ext_auth.
     reads (default_field f ''failOpen'' (dec_option json_as_bool) None) (\<lambda>fail_open.
     Some \<lparr>ea_http = http, ea_headers_to_ext_auth = headers_to_ext_auth, ea_fail_open = fail_open\<rparr>))))"

definition ext_auth_ok :: "ext_auth \<Rightarrow> bool" where
  "ext_auth_ok x \<longleftrightarrow> pred_option auth_service_ok (ea_http x)"

interpretation ext_auth: wire_format enc_ext_auth dec_ext_auth ext_auth_ok
  by unfold_locales
     (simp_all add: enc_ext_auth_def dec_ext_auth_def ext_auth_ok_def struct_fields_enc enc_struct_not_null
       auth_service.option_field boolean.option_field strs.option_field option.pred_True)

section \<open>\<^verbatim>\<open>SecurityPolicySpec\<close>\<close>

definition enc_policy_spec :: "security_policy_spec \<Rightarrow> json" where
  "enc_policy_spec x = enc_struct
     [(''targetRefs'', Some (enc_seq enc_target_ref (sps_target_refs x))),
      (''extAuth'', map_option enc_ext_auth (sps_ext_auth x))]"

definition dec_policy_spec :: "json \<Rightarrow> security_policy_spec option" where
  "dec_policy_spec v = reads (struct_fields [''targetRefs'', ''extAuth''] v) (\<lambda>f.
     reads (required_field f ''targetRefs'' (dec_seq dec_target_ref)) (\<lambda>target_refs.
     reads (default_field f ''extAuth'' (dec_option dec_ext_auth) None) (\<lambda>ext_auth.
     Some \<lparr>sps_target_refs = target_refs, sps_ext_auth = ext_auth\<rparr>)))"

definition policy_spec_ok :: "security_policy_spec \<Rightarrow> bool" where
  "policy_spec_ok x \<longleftrightarrow> pred_option ext_auth_ok (sps_ext_auth x)"

interpretation target_refs: wire_format "enc_seq enc_target_ref" "dec_seq dec_target_ref" "\<lambda>_. True"
  using target_ref.seq_format by (simp add: list.pred_True)

interpretation policy_spec: wire_format enc_policy_spec dec_policy_spec policy_spec_ok
  by unfold_locales
     (simp_all add: enc_policy_spec_def dec_policy_spec_def policy_spec_ok_def struct_fields_enc enc_struct_not_null
       ext_auth.option_field target_refs.needed_field option.pred_True)

end
