(* ===== verification/Stored_Specs.thy ===== *)
theory Stored_Specs
  imports Transform Envoy_Wire
begin

text \<open>
  The Envoy Gateway objects of the desired state on the wire. A port is an \<^verbatim>\<open>i32\<close> in
  \<^verbatim>\<open>src/envoy_gateway.rs\<close>, and the model's ports are integers: the lemmas follow the ports from
  Pangolin's servers through the classification into the Backends, and from the environment into
  the SecurityPolicies, so that every spec that is sent is one that is read back.
\<close>

section \<open>Ports of the servers\<close>

text \<open>The \<^verbatim>\<open>url\<close> crate's ports are 16 bits wide.\<close>

definition url_ports_ok :: "platform \<Rightarrow> bool" where
  "url_ports_ok pf \<longleftrightarrow>
     (\<forall>s u p. url_parse pf s = Some u \<longrightarrow> url_port_or_known_default u = Some p \<longrightarrow> p < 65536)"

definition port_ok :: "host_port \<Rightarrow> bool" where
  "port_ok hp \<longleftrightarrow> is_i32 (hp_port hp)"

lemma parse_url_server_port: "url_ports_ok pf \<Longrightarrow> parse_url_server pf s = Some hp \<Longrightarrow> port_ok hp"
  by (fastforce simp: parse_url_server_def port_ok_def is_i32_def url_ports_ok_def Let_def
      split: option.splits if_splits)

lemma parse_url_servers_ports: "url_ports_ok pf \<Longrightarrow> list_all port_ok (parse_url_servers pf ss)"
  using parse_url_server_port [of pf]
  by (auto simp: parse_url_servers_def list_all_iff List.map_filter_def)

lemma parse_l4_ports: "list_all port_ok (List.map_filter (\<lambda>s. parse_l4_address (l4s_address s)) ss)"
  using parse_l4_address_sound
  by (fastforce simp: list_all_iff List.map_filter_def port_ok_def is_i32_def)

fun class_port_ok :: "classification \<Rightarrow> bool" where
  "class_port_ok CEmpty = True"
| "class_port_ok (CIps ips port tls) = is_i32 port"
| "class_port_ok (CFqdn hostname port tls) = is_i32 port"
| "class_port_ok (CClusterDns service namespace port tls) = is_i32 port"

lemma find_all: "find P xs = Some x \<Longrightarrow> list_all Q xs \<Longrightarrow> Q x"
  by (auto simp: find_Some_iff list_all_length)

lemma classify_ports: "list_all port_ok entries \<Longrightarrow> class_port_ok (classify_entries entries kind)"
  using find_all [where Q = port_ok and xs = entries]
  by (auto simp: classify_spec_aux spec_classify_def port_ok_def split_beta split: option.split)

section \<open>Backends\<close>

definition specs_ok :: "desired \<Rightarrow> bool" where
  "specs_ok d \<longleftrightarrow> (\<forall>b \<in> snd ` set (d_envoy_backends d). backend_spec_ok (eb_spec b))"

lemma specs_ok_frame: "d_envoy_backends d' = d_envoy_backends d \<Longrightarrow> specs_ok d \<Longrightarrow> specs_ok d'"
  by (simp add: specs_ok_def)

lemma specs_emit_envoy:
  "specs_ok d \<Longrightarrow> list_all backend_endpoint_ok eps \<Longrightarrow> specs_ok (snd (emit_envoy_backend pf cfg pn eps p i t d))"
  by (auto simp: emit_envoy_backend_def Let_def specs_ok_def backend_spec_ok_def dest!: in_bt_insertD)

lemma specs_emit_policy: "specs_ok d \<Longrightarrow> specs_ok (emit_backend_tls_policy pf cfg pn i t h d)"
  by (rule specs_ok_frame) (simp_all add: emit_backend_tls_policy_def Let_def)

lemma specs_emit_service: "specs_ok d \<Longrightarrow> specs_ok (snd (emit_synthesized_service pf cfg pn ips p i pr d))"
  by (rule specs_ok_frame) (simp_all add: emit_synthesized_service_def Let_def)

lemma specs_emit_fqdn: "specs_ok d \<Longrightarrow> is_i32 p \<Longrightarrow> specs_ok (snd (emit_fqdn_backend pf cfg pn h p i t d))"
  unfolding emit_fqdn_backend_def Let_def
  by (rule specs_emit_envoy) (simp_all add: backend_endpoint_ok_def backend_fqdn_ok_def)

lemma specs_emit_ip: "specs_ok d \<Longrightarrow> is_i32 p \<Longrightarrow> specs_ok (snd (emit_ip_backend pf cfg pn ips p i pr t d))"
  by (auto simp: emit_ip_backend_def Let_def split_beta list_all_iff backend_endpoint_ok_def backend_ip_ok_def
      specs_emit_policy specs_emit_service intro!: specs_emit_envoy split: backend_kind.split option.split)

lemma specs_emit_cluster:
  "specs_ok d \<Longrightarrow> is_i32 p \<Longrightarrow> specs_ok (snd (emit_cluster_dns_backend pf cfg pn s ns p i t d))"
  by (auto simp: emit_cluster_dns_backend_def Let_def specs_emit_policy specs_emit_fqdn
      split: backend_kind.split option.split)

lemma specs_emit_backend:
  "specs_ok d \<Longrightarrow> class_port_ok c \<Longrightarrow> specs_ok (snd (emit_backend pf cfg pn c i pr sv d))"
  by (cases c) (simp_all add: emit_backend_def specs_emit_ip specs_emit_fqdn specs_emit_cluster)

lemma specs_build_backends:
  assumes "url_ports_ok pf" and "specs_ok d"
  shows "specs_ok (snd (build_backends pf cfg services ts d))"
  unfolding build_backends_def
  by (rule fold_invariant_in [where P = "\<lambda>st. specs_ok (snd st)"])
     (auto simp: assms backend_step_def Let_def split_beta snd_index_resolved specs_emit_backend classify_ports
       parse_url_servers_ports split: option.split)

lemma specs_build_l4_backends: "specs_ok d \<Longrightarrow> specs_ok (snd (build_l4_backends pf cfg services pr d))"
  unfolding build_l4_backends_def
  by (rule fold_invariant_in [where P = "\<lambda>st. specs_ok (snd st)"])
     (auto simp: l4_backend_step_def Let_def split_beta snd_index_resolved specs_emit_backend classify_ports
       parse_l4_ports split: option.split)

lemma specs_l4_family:
  assumes "specs_ok d"
  shows "specs_ok (snd (build_l4_family pf cfg block proto enabled d))"
proof -
  have "specs_ok (snd (build_l4 pf cfg l4 proto d))" for l4
  proof -
    let ?b = "build_l4_backends pf cfg (l4c_services l4) proto d"
    have "same_but_l4 proto (snd ?b) (snd (build_l4 pf cfg l4 proto d))"
      using same_but_l4_fold [of proto "\<lparr>l4st_listeners = [], l4st_claimed = [], l4st_desired = snd ?b\<rparr>"]
      by (simp add: build_l4_def Let_def split_beta)
    then show ?thesis
      using specs_ok_frame [OF same_but_l4_frame(5)] specs_build_l4_backends [OF assms] by blast
  qed
  then show ?thesis using assms by (simp add: build_l4_family_def split: option.split)
qed

lemma run_specs: "url_ports_ok pf \<Longrightarrow> specs_ok (build_desired pf cfg dyn)"
proof -
  assume ok: "url_ports_ok pf"
  have "specs_ok empty_desired" by (simp add: specs_ok_def empty_desired_def)
  then have "specs_ok (snd (backend_stage pf cfg dyn))"
    by (simp add: backend_stage_def specs_build_backends ok)
  then have "specs_ok (snd (route_stage pf cfg dyn))"
    using specs_ok_frame build_routes_frame(3) [OF stage_runs(2)] by metis
  then have "specs_ok (snd (udp_stage pf cfg dyn))"
    by (simp add: tcp_stage_def udp_stage_def specs_l4_family)
  then show ?thesis by (rule specs_ok_frame [rotated]) (simp add: build_desired_stages listener_set_frame)
qed

text \<open>The references to a Backend name the custom resource that the object is sent to.\<close>

lemma backend_ref_crd:
  "rb_group (fst (emit_envoy_backend pf cfg pn eps p i t d)) = crd_group backend_crd"
  "rb_kind (fst (emit_envoy_backend pf cfg pn eps p i t d)) = crd_kind backend_crd"
  by (simp_all add: emit_envoy_backend_def backend_crd_def Let_def)

section \<open>Policies\<close>

lemma parse_i32_ok: "parse_i32 s = Some i \<Longrightarrow> is_i32 i"
  by (auto simp: parse_i32_def is_i32_def dest!: parse_unsigned_bound split: list.splits if_splits option.splits)

lemma from_env_authz:
  assumes "from_env pf env = Inr cfg" and "cfg_ext_authz cfg = Some ea"
  shows "is_i32 (eac_port ea)"
proof -
  have "ext_authz_env env = Inr (Some ea)"
    using assms by (auto simp: from_env_def try_then_Inr_iff Let_def)
  then show ?thesis
    by (auto simp: ext_authz_env_def i32_env_def try_then_Inr_iff Let_def ok_or_Inr_iff is_i32_def
        split: option.splits dest!: parse_i32_ok)
qed

lemma policy_spec_build:
  "is_i32 (eac_port ea) \<Longrightarrow> policy_spec_ok (sp_spec (build_security_policy pf cfg ea n))"
  by (simp add: build_security_policy_def Let_def policy_spec_ok_def ext_auth_ok_def auth_service_ok_def
      auth_ref_ok_def)

end
