(* ===== verification/Shim_Wire.thy ===== *)
theory Shim_Wire
  imports Wire Shim
begin

text \<open>
  The bodies the shim and Pangolin exchange, as the \<^verbatim>\<open>Serialize\<close> and \<^verbatim>\<open>Deserialize\<close> attributes in
  \<^verbatim>\<open>src/shim.rs\<close> define them. \<open>json_shim\<close> builds the shim's Pangolin from an HTTP client for JSON
  bodies, so that the properties of the check become properties of documents.
\<close>

section \<open>What the shim sends\<close>

definition enc_verify_body :: "verify_body \<Rightarrow> json" where
  "enc_verify_body b = enc_struct
     [(''sessions'', Some (enc_map JString (vb_sessions b))),
      (''headers'', Some (enc_map JString (vb_headers b))),
      (''query'', Some (enc_map JString (vb_query b))),
      (''originalRequestURL'', Some (JString (vb_original_request_url b))),
      (''scheme'', Some (JString (vb_scheme b))),
      (''host'', Some (JString (vb_host b))),
      (''path'', Some (JString (vb_path b))),
      (''method'', Some (JString (vb_method b))),
      (''tls'', Some (JBool (vb_tls b))),
      (''requestIp'', map_option JString (vb_request_ip b))]"

definition enc_exchange_body :: "exchange_body \<Rightarrow> json" where
  "enc_exchange_body b = enc_struct
     [(''requestToken'', Some (JString (xb_request_token b))),
      (''host'', Some (JString (xb_host b))),
      (''requestIp'', map_option JString (xb_request_ip b))]"

section \<open>What Pangolin answers\<close>

record verify_response =
  vr_data :: verify_data

record exchange_response =
  xr_data :: exchange_data

definition dec_user_data :: "json \<Rightarrow> user_data option" where
  "dec_user_data v = reads (struct_fields [''userId'', ''username'', ''email'', ''name'', ''role''] v) (\<lambda>f.
     reads (default_field f ''userId'' (dec_option json_as_str) None) (\<lambda>user_id.
     reads (default_field f ''username'' (dec_option json_as_str) None) (\<lambda>username.
     reads (default_field f ''email'' (dec_option json_as_str) None) (\<lambda>email.
     reads (default_field f ''name'' (dec_option json_as_str) None) (\<lambda>nm.
     reads (default_field f ''role'' (dec_option json_as_str) None) (\<lambda>role.
     Some \<lparr>ud_user_id = user_id, ud_username = username, ud_email = email, ud_name = nm, ud_role = role\<rparr>))))))"

definition dec_verify_data :: "json \<Rightarrow> verify_data option" where
  "dec_verify_data v = reads (struct_fields
       [''valid'', ''redirectUrl'', ''headerAuthChallenged'', ''userData''] v) (\<lambda>f.
     reads (default_field f ''valid'' json_as_bool False) (\<lambda>valid.
     reads (default_field f ''redirectUrl'' (dec_option json_as_str) None) (\<lambda>redirect_url.
     reads (default_field f ''headerAuthChallenged'' (dec_option json_as_bool) None) (\<lambda>challenged.
     reads (default_field f ''userData'' (dec_option dec_user_data) None) (\<lambda>user_data.
     Some \<lparr>vd_valid = valid, vd_redirect_url = redirect_url, vd_header_auth_challenged = challenged,
           vd_user_data = user_data\<rparr>)))))"

definition dec_verify_response :: "json \<Rightarrow> verify_response option" where
  "dec_verify_response v = reads (struct_fields [''data''] v) (\<lambda>f.
     reads (default_field f ''data'' dec_verify_data default_verify_data) (\<lambda>data.
     Some \<lparr>vr_data = data\<rparr>))"

definition dec_exchange_data :: "json \<Rightarrow> exchange_data option" where
  "dec_exchange_data v = reads (struct_fields [''valid'', ''cookie''] v) (\<lambda>f.
     reads (default_field f ''valid'' json_as_bool False) (\<lambda>valid.
     reads (default_field f ''cookie'' (dec_option json_as_str) None) (\<lambda>cookie.
     Some \<lparr>xd_valid = valid, xd_cookie = cookie\<rparr>)))"

definition dec_exchange_response :: "json \<Rightarrow> exchange_response option" where
  "dec_exchange_response v = reads (struct_fields [''data''] v) (\<lambda>f.
     reads (default_field f ''data'' dec_exchange_data default_exchange_data) (\<lambda>data.
     Some \<lparr>xr_data = data\<rparr>))"

text \<open>
  An answer of the HTTP client, \<^term>\<open>None\<close> when the request could not be sent: the status, and the
  bytes of the body when they could be read.
\<close>

type_synonym http_answer = "(nat \<times> string option) option"

definition json_reply :: "(string \<Rightarrow> json option) \<Rightarrow> (json \<Rightarrow> 'a option) \<Rightarrow> http_answer \<Rightarrow> 'a api_reply" where
  "json_reply parse_json dec ans =
     (case ans of
        None \<Rightarrow> SendFailed
      | Some (status, body) \<Rightarrow> Reply status (reads (reads body parse_json) dec))"

definition json_shim :: "shim_codec \<Rightarrow> (string \<Rightarrow> json option) \<Rightarrow> (url \<Rightarrow> json \<Rightarrow> http_answer) \<Rightarrow> shim_lib" where
  "json_shim codec parse_json http =
     \<lparr>form_parse = form_parse codec, form_serialize = form_serialize codec,
      header_value_ok = header_value_ok codec,
      post_verify = (\<lambda>u b. json_reply parse_json (\<lambda>v. map_option vr_data (dec_verify_response v))
        (http u (enc_verify_body b))),
      post_exchange = (\<lambda>u b. json_reply parse_json (\<lambda>v. map_option xr_data (dec_exchange_response v))
        (http u (enc_exchange_body b)))\<rparr>"

declare enc_verify_body_def [exec] enc_exchange_body_def [exec] dec_user_data_def [exec]
  dec_verify_data_def [exec] dec_verify_response_def [exec] dec_exchange_data_def [exec]
  dec_exchange_response_def [exec] json_reply_def [exec] json_shim_def [exec]

section \<open>Verdicts in documents\<close>

text \<open>
  The value of the \<open>i\<close>th field of a struct, called \<open>k\<close>: a struct may stand as an object, or as an
  array of its fields.
\<close>

definition field_value :: "json \<Rightarrow> string \<Rightarrow> nat \<Rightarrow> json option" where
  "field_value v k i =
     (case v of JArray xs \<Rightarrow> (if i < length xs then Some (xs ! i) else None) | _ \<Rightarrow> json_at v [k])"

lemma map_of_zip_prefix:
  assumes "distinct names" and "i < length names" and "length xs \<le> length names"
  shows "map_of (zip names xs) (names ! i) = (if i < length xs then Some (xs ! i) else None)"
  using assms by (induction names xs arbitrary: i rule: list_induct2') (auto simp: nth_Cons split: nat.split)

lemma struct_fields_value:
  assumes "struct_fields names v = Some f" and "distinct names" and "i < length names"
  shows "f (names ! i) = field_value v (names ! i) i"
proof (cases v)
  case (JArray xs)
  then show ?thesis
    using assms map_of_zip_prefix [OF assms(2,3), of xs] by (auto simp: struct_fields_def field_value_def split: if_splits)
next
  case (JObject kvs)
  then show ?thesis
    using assms struct_fields_missing [of names kvs f] by (simp add: field_value_def del: json_at.simps)
qed (use assms in \<open>simp_all add: struct_fields_def\<close>)

text \<open>What a document says when the decoded verdict lets the request pass.\<close>

definition doc_allows :: "json \<Rightarrow> bool" where
  "doc_allows doc \<longleftrightarrow>
     (\<exists>d. field_value doc ''data'' 0 = Some d \<and> field_value d ''valid'' 0 = Some (JBool True) \<and>
        (\<forall>url. field_value d ''redirectUrl'' 1 = Some (JString url) \<longrightarrow> url = []) \<and>
        field_value d ''headerAuthChallenged'' 2 \<noteq> Some (JBool True))"

lemma dec_verify_data_says:
  assumes "dec_verify_data d = Some data"
  shows "vd_valid data \<longleftrightarrow> field_value d ''valid'' 0 = Some (JBool True)"
    and "vd_redirect_url data = Some url \<longleftrightarrow> field_value d ''redirectUrl'' 1 = Some (JString url)"
    and "vd_header_auth_challenged data = Some b \<longleftrightarrow> field_value d ''headerAuthChallenged'' 2 = Some (JBool b)"
proof -
  let ?names = "[''valid'', ''redirectUrl'', ''headerAuthChallenged'', ''userData'']"
  obtain f where f: "struct_fields ?names d = Some f"
    using assms by (auto simp: dec_verify_data_def reads_Some_iff)
  then have at: "f ''valid'' = field_value d ''valid'' 0" "f ''redirectUrl'' = field_value d ''redirectUrl'' 1"
    "f ''headerAuthChallenged'' = field_value d ''headerAuthChallenged'' 2"
    using struct_fields_value [OF f, of 0] struct_fields_value [OF f, of 1] struct_fields_value [OF f, of 2] by simp_all
  show "vd_valid data \<longleftrightarrow> field_value d ''valid'' 0 = Some (JBool True)"
    "vd_redirect_url data = Some url \<longleftrightarrow> field_value d ''redirectUrl'' 1 = Some (JString url)"
    "vd_header_auth_challenged data = Some b \<longleftrightarrow> field_value d ''headerAuthChallenged'' 2 = Some (JBool b)"
    using assms unfolding at [symmetric]
    by (auto simp: dec_verify_data_def reads_Some_iff f default_field_def dec_option_def as_str_Some as_bool_Some
        split: option.splits if_splits)
qed

lemma allowed_says:
  assumes "dec_verify_response doc = Some r" and "allowed (vr_data r)"
  shows "doc_allows doc"
proof -
  obtain f where f: "struct_fields [''data''] doc = Some f"
    and dec: "default_field f ''data'' dec_verify_data default_verify_data = Some (vr_data r)"
    using assms(1) by (auto simp: dec_verify_response_def reads_Some_iff)
  have at: "f ''data'' = field_value doc ''data'' 0" using struct_fields_value [OF f, of 0] by simp
  obtain d where d: "field_value doc ''data'' 0 = Some d" "dec_verify_data d = Some (vr_data r)"
  proof (cases "field_value doc ''data'' 0")
    case None
    then have "vr_data r = default_verify_data" using dec by (simp add: default_field_def at)
    then show ?thesis using assms(2) by (simp add: allowed_def default_verify_data_def)
  next
    case (Some d)
    then show ?thesis using dec by (intro that) (simp_all add: default_field_def at)
  qed
  have "vd_redirect_url (vr_data r) = Some url \<Longrightarrow> url = []" for url
    using assms(2) by (auto simp: allowed_def)
  with d(1) show ?thesis
    using assms(2) dec_verify_data_says [OF d(2)] by (auto simp: doc_allows_def allowed_def)
qed

lemma json_reply_doc:
  assumes "json_reply parse_json dec ans = Reply st (Some x)"
  shows "\<exists>raw doc. ans = Some (st, Some raw) \<and> parse_json raw = Some doc \<and> dec doc = Some x"
  using assms by (auto simp: json_reply_def reads_Some_iff split: option.splits)

lemma post_verify_json: "post_verify (json_shim codec parse_json http) u b =
    json_reply parse_json (\<lambda>v. map_option vr_data (dec_verify_response v)) (http u (enc_verify_body b))"
  by (simp add: json_shim_def)

lemma verify_body_says:
  "json_at (enc_verify_body b) [''originalRequestURL''] = Some (JString (vb_original_request_url b))"
  "json_at (enc_verify_body b) [''host''] = Some (JString (vb_host b))"
  "json_at (enc_verify_body b) [''path''] = Some (JString (vb_path b))"
  "json_at (enc_verify_body b) [''method''] = Some (JString (vb_method b))"
  "json_at (enc_verify_body b) [''sessions''] = Some (enc_map JString (vb_sessions b))"
  "json_at (enc_verify_body b) [''requestIp''] = map_option JString (vb_request_ip b)"
  by (simp_all add: enc_verify_body_def enc_struct_at del: json_at.simps)

section \<open>Properties\<close>

text \<open>C7: A request for another path than \<^verbatim>\<open>/healthz\<close> is answered 200 only if the shim posted a JSON body that
  names this request's URL, host and method, and the field \<^verbatim>\<open>data.valid\<close> of the JSON document that came
  back is true, with no redirect URL and no challenge beside it. Fields are taken by name, or by
  position from a struct that is written as an array.\<close>

theorem allowed_document:
  assumes "shim_router pf (json_shim codec parse_json http) cfg req = Respond r" and "re_status r = 200"
    and "\<not> health_request req"
  shows "\<exists>u body st raw doc.
    endpoint pf (sc_pangolin_api_base_url cfg) ''badger/verify-session'' = Inr u \<and>
    http u body = Some (st, Some raw) \<and> parse_json raw = Some doc \<and> doc_allows doc \<and>
    json_at body [''originalRequestURL''] =
      Some (JString (scheme_of req @ ''://'' @ host_of req @ original_path cfg req)) \<and>
    json_at body [''host''] = Some (JString (host_of req)) \<and> json_at body [''method''] = Some (JString (cr_method req))"
proof -
  let ?lib = "json_shim codec parse_json http" and ?b = "body_of (json_shim codec parse_json http) cfg req"
  obtain u st data where u: "endpoint pf (sc_pangolin_api_base_url cfg) ''badger/verify-session'' = Inr u"
    and post: "post_verify ?lib u ?b = Reply st (Some data)" and ok: "allowed data"
    using check_allows [of pf ?lib cfg req r] assms by (auto simp: shim_router_def health_request_def)
  obtain raw doc resp where ans: "http u (enc_verify_body ?b) = Some (st, Some raw)" "parse_json raw = Some doc"
    and resp: "dec_verify_response doc = Some resp" "vr_data resp = data"
    using json_reply_doc [OF post [unfolded post_verify_json]] by auto
  have "doc_allows doc" using allowed_says [OF resp(1)] ok resp(2) by simp
  then show ?thesis
    using u ans verify_body_says [of ?b]
    by (intro exI [of _ u] exI [of _ "enc_verify_body ?b"] exI [of _ st] exI [of _ raw] exI [of _ doc])
       (simp add: body_of_def verify_body_of_def split_beta)
qed

text \<open>A Pangolin that accepts every session, over JSON.\<close>

definition accepting_doc :: json where
  "accepting_doc = JObject [(''success'', JBool True), (''data'', JObject [(''valid'', JBool True)])]"

definition accepting_http :: "url \<Rightarrow> json \<Rightarrow> http_answer" where
  "accepting_http u body = Some (200, Some [])"

lemma accepting_check:
  assumes "host_of req \<noteq> []" and "split_path (original_path shim_cfg req) = (path, [])"
  shows "check shim_pf (json_shim (shim_codec.truncate strict_lib) (\<lambda>_. Some accepting_doc) accepting_http) shim_cfg req =
    Respond \<lparr>re_status = 200, re_headers = []\<rparr>"
proof -
  have "dec_verify_response accepting_doc = Some \<lparr>vr_data = accepting\<rparr>"
    by (simp add: accepting_doc_def accepting_def default_verify_data_def dec_verify_response_def dec_verify_data_def
        struct_fields_def default_field_def)
  then show ?thesis
    using assms
    by (simp add: check_def host_of_def json_shim_def accepting_http_def json_reply_def read_reply_def
        verify_session_def endpoint_def shim_pf_def ok_or_def answer_def accepting_def default_verify_data_def
        unwrap_or_def parse_query_def bt_get_def Let_def shim_codec.defs strict_lib_def shim_sample_lib_def)
qed

theorem allowed_document_witness:
  "\<exists>u body st raw doc.
    endpoint shim_pf (sc_pangolin_api_base_url shim_cfg) ''badger/verify-session'' = Inr u \<and>
    accepting_http u body = Some (st, Some raw) \<and> (\<lambda>_. Some accepting_doc) raw = Some doc \<and>
    doc_allows doc \<and>
    json_at body [''originalRequestURL''] =
      Some (JString (scheme_of shim_req @ ''://'' @ host_of shim_req @ original_path shim_cfg shim_req)) \<and>
    json_at body [''host''] = Some (JString (host_of shim_req)) \<and>
    json_at body [''method''] = Some (JString (cr_method shim_req))"
proof (rule allowed_document)
  show path: "\<not> health_request shim_req" by code_simp
  show "shim_router shim_pf (json_shim (shim_codec.truncate strict_lib) (\<lambda>_. Some accepting_doc) accepting_http)
      shim_cfg shim_req = Respond \<lparr>re_status = 200, re_headers = []\<rparr>"
    using path accepting_check [of shim_req "''/x''"]
    by (simp add: shim_router_def health_request_def shim_leaves)
qed simp

end
