(* ===== verification/Unit_Tests.thy ===== *)
theory Unit_Tests
  imports Stored_Specs Shim_Wire
begin

text \<open>
  The unit tests that stand in the source files, as definitions with the assertions of the code
  over the model's functions: what the authors expect of the program is what the model computes.
  A test that calls code from outside the repository gets it as a parameter or, where it needs
  answers of it, as a table of those.
\<close>

section \<open>Names\<close>

definition test_dns_label_lowercases_and_strips :: "platform \<Rightarrow> bool" where
  "test_dns_label_lowercases_and_strips pf \<longleftrightarrow> dns_label pf ''My_Service.foo'' = ''my-service-foo''"

definition test_dns_label_trims_dashes :: "platform \<Rightarrow> bool" where
  "test_dns_label_trims_dashes pf \<longleftrightarrow> dns_label pf ''---foo---'' = ''foo''"

definition test_dns_label_truncates_with_hash :: "platform \<Rightarrow> bool" where
  "test_dns_label_truncates_with_hash pf \<longleftrightarrow>
     (let out = dns_label pf (replicate 120 (CHR ''a''))
      in length out \<le> MAX_DNS_LABEL \<and> (out = [] \<or> last out \<noteq> CHR ''-''))"

definition test_empty_input_falls_back :: "platform \<Rightarrow> bool" where
  "test_empty_input_falls_back pf \<longleftrightarrow> dns_label pf [] = ''pangolin'' \<and> dns_label pf ''---'' = ''pangolin''"

lemma naming_tests:
  "test_dns_label_lowercases_and_strips pf" "test_dns_label_trims_dashes pf"
  "test_dns_label_truncates_with_hash pf" "test_empty_input_falls_back pf"
proof -
  show "test_dns_label_truncates_with_hash pf"
    using dns_label_canonical [of pf "replicate 120 (CHR ''a'')"]
    by (auto simp: test_dns_label_truncates_with_hash_def canonical_label_def is_dns_label_def Let_def MAX_DNS_LABEL_def)
  show "test_dns_label_lowercases_and_strips pf" "test_dns_label_trims_dashes pf" "test_empty_input_falls_back pf"
    by code_simp+
qed

section \<open>Rules\<close>

definition test_host_only :: bool where
  "test_host_only \<longleftrightarrow>
     (let r = parse ''Host(`example.com`)''
      in pr_hosts r = [''example.com''] \<and> pr_path r = None \<and> is_usable r)"

definition test_host_and_path_prefix :: bool where
  "test_host_and_path_prefix \<longleftrightarrow>
     (let r = parse ''Host(`example.com`) && PathPrefix(`/api`)''
      in pr_hosts r = [''example.com''] \<and> pr_path r = Some \<lparr>pm_kind = Prefix, pm_value = ''/api''\<rparr> \<and> is_usable r)"

definition test_host_with_multiple :: bool where
  "test_host_with_multiple \<longleftrightarrow> pr_hosts (parse ''Host(`a.com`, `b.com`)'') = [''a.com'', ''b.com'']"

definition test_host_and_exact_path :: bool where
  "test_host_and_exact_path \<longleftrightarrow>
     pr_path (parse ''Host(`example.com`) && Path(`/exact`)'') = Some \<lparr>pm_kind = Exact, pm_value = ''/exact''\<rparr>"

definition test_disjunction_is_unsupported :: bool where
  "test_disjunction_is_unsupported \<longleftrightarrow>
     (let r = parse ''Host(`a.com`) || Host(`b.com`)'' in pr_disjunction r \<and> \<not> is_usable r)"

definition test_host_regexp_marked :: bool where
  "test_host_regexp_marked \<longleftrightarrow>
     (let r = parse ''HostRegexp(`{any:.+}.example.com`)'' in pr_host_regexp r \<and> \<not> is_usable r)"

definition test_unsupported_predicate_recorded :: bool where
  "test_unsupported_predicate_recorded \<longleftrightarrow>
     (let r = parse ''Host(`a.com`) && Method(`GET`)''
      in pr_unsupported r = [OtherPredicate ''Method''] \<and> \<not> is_usable r)"

lemma rule_tests:
  test_host_only test_host_and_path_prefix test_host_with_multiple test_host_and_exact_path
  test_disjunction_is_unsupported test_host_regexp_marked test_unsupported_predicate_recorded
  by code_simp+

section \<open>Listeners and configuration\<close>

definition test_template_substitution :: bool where
  "test_template_substitution \<longleftrightarrow>
     render_secret_name ''{hostname-dashed}-tls'' ''api.example.com'' = ''api-example-com-tls'' \<and>
     render_secret_name ''{hostname}'' ''api.example.com'' = ''api.example.com''"

definition test_parse_kv_handles_empty_and_spaces :: bool where
  "test_parse_kv_handles_empty_and_spaces \<longleftrightarrow>
     (case parse_kv_env [''TEST_KV_ANNOS'' \<mapsto> '' cert-manager.io/cluster-issuer = letsencrypt-prod , foo=bar '']
            ''TEST_KV_ANNOS'' of
        Inl e \<Rightarrow> False
      | Inr parsed \<Rightarrow>
          length parsed = 2 \<and>
          bt_get parsed ''cert-manager.io/cluster-issuer'' = Some ''letsencrypt-prod'' \<and>
          bt_get parsed ''foo'' = Some ''bar'')"

definition test_parse_kv_rejects_missing_equals :: bool where
  "test_parse_kv_rejects_missing_equals \<longleftrightarrow>
     (case parse_kv_env [''TEST_KV_BAD'' \<mapsto> ''this-has-no-equals''] ''TEST_KV_BAD'' of
        Inl (NotKeyValue key entry) \<Rightarrow> True
      | _ \<Rightarrow> False)"

lemma listener_and_config_tests:
  test_template_substitution test_parse_kv_handles_empty_and_spaces test_parse_kv_rejects_missing_equals
  by code_simp+

section \<open>TCP and UDP\<close>

definition default_l4_router :: l4_router where
  "default_l4_router = \<lparr>l4r_rule = None, l4r_service = [], l4r_entry_points = [], l4r_tls = None\<rparr>"

definition test_entrypoint_port_parses_matching_protocol :: bool where
  "test_entrypoint_port_parses_matching_protocol \<longleftrightarrow>
     parse_entrypoint_port ''tcp-234'' Tcp = Some 234 \<and> parse_entrypoint_port ''udp-345'' Udp = Some 345"

definition test_entrypoint_port_rejects_mismatches :: bool where
  "test_entrypoint_port_rejects_mismatches \<longleftrightarrow>
     parse_entrypoint_port ''udp-345'' Tcp = None \<and> parse_entrypoint_port ''web'' Tcp = None \<and>
     parse_entrypoint_port ''tcp-'' Tcp = None \<and> parse_entrypoint_port ''tcp-0'' Tcp = None \<and>
     parse_entrypoint_port ''tcp-70000'' Tcp = None"

definition test_hostsni_wildcard_is_supported_for_tcp :: bool where
  "test_hostsni_wildcard_is_supported_for_tcp \<longleftrightarrow>
     rule_is_supported (default_l4_router\<lparr>l4r_rule := Some ''HostSNI(`*`)''\<rparr>) Tcp"

definition test_concrete_sni_is_rejected :: bool where
  "test_concrete_sni_is_rejected \<longleftrightarrow>
     \<not> rule_is_supported (default_l4_router\<lparr>l4r_rule := Some ''HostSNI(`db.example.com`)''\<rparr>) Tcp"

definition test_tls_options_are_rejected :: bool where
  "test_tls_options_are_rejected \<longleftrightarrow>
     \<not> rule_is_supported (default_l4_router\<lparr>l4r_rule := Some ''HostSNI(`*`)'',
           l4r_tls := Some (json_object [(''passthrough'', JBool True)])\<rparr>) Tcp"

lemmas parse_port_defs = parse_u16_def parse_unsigned_def is_digit_def byte_def

lemma l4_tests:
  test_entrypoint_port_parses_matching_protocol test_entrypoint_port_rejects_mismatches
  test_hostsni_wildcard_is_supported_for_tcp test_concrete_sni_is_rejected test_tls_options_are_rejected
proof -
  show test_entrypoint_port_parses_matching_protocol test_entrypoint_port_rejects_mismatches
    by (simp_all add: test_entrypoint_port_parses_matching_protocol_def test_entrypoint_port_rejects_mismatches_def
        parse_entrypoint_port_def then_some_def parse_port_defs)
  show test_hostsni_wildcard_is_supported_for_tcp test_concrete_sni_is_rejected test_tls_options_are_rejected
    by code_simp+
qed

section \<open>Backends\<close>

text \<open>The URLs of the tests, as the \<^verbatim>\<open>url\<close> crate parses them.\<close>

definition http_url :: "string \<Rightarrow> string \<Rightarrow> string \<Rightarrow> nat \<Rightarrow> string \<times> url" where
  "http_url s scheme host port =
     (s, \<lparr>url_as_str = s, url_scheme = scheme, url_host_str = Some host, url_port_or_known_default = Some port\<rparr>)"

definition url_table :: "(string \<times> url) list \<Rightarrow> platform" where
  "url_table us = \<lparr>default_hasher = (\<lambda>_. 0), url_parse = map_of us, parse_duration = (\<lambda>_. None)\<rparr>"

definition test_classify :: "(string \<times> url) list \<Rightarrow> load_balancer_server list \<Rightarrow> backend_kind \<Rightarrow> classification" where
  "test_classify us servers kind = classify_entries (parse_url_servers (url_table us) servers) kind"

definition test_classifies_ipv4_service_mode :: bool where
  "test_classifies_ipv4_service_mode \<longleftrightarrow>
     (case test_classify [http_url ''http://10.0.0.1:8080'' ''http'' ''10.0.0.1'' 8080]
             [\<lparr>lbs_url = ''http://10.0.0.1:8080''\<rparr>] ServiceKind of
        CIps entries port tls \<Rightarrow> length entries = 1 \<and> port = 8080
      | _ \<Rightarrow> False)"

definition test_classifies_cluster_dns_short :: bool where
  "test_classifies_cluster_dns_short \<longleftrightarrow>
     (case test_classify [http_url ''http://echo.foo.svc:8080'' ''http'' ''echo.foo.svc'' 8080]
             [\<lparr>lbs_url = ''http://echo.foo.svc:8080''\<rparr>] ServiceKind of
        CClusterDns service namespace port tls \<Rightarrow> service = ''echo'' \<and> namespace = ''foo'' \<and> port = 8080
      | _ \<Rightarrow> False)"

definition test_classifies_cluster_dns_full :: bool where
  "test_classifies_cluster_dns_full \<longleftrightarrow>
     (case test_classify [http_url ''http://echo.foo.svc.cluster.local:80'' ''http'' ''echo.foo.svc.cluster.local'' 80]
             [\<lparr>lbs_url = ''http://echo.foo.svc.cluster.local:80''\<rparr>] ServiceKind of
        CClusterDns service namespace port tls \<Rightarrow> service = ''echo'' \<and> namespace = ''foo'' \<and> port = 80
      | _ \<Rightarrow> False)"

definition test_fqdn_drops_in_service_mode :: bool where
  "test_fqdn_drops_in_service_mode \<longleftrightarrow>
     test_classify [http_url ''http://api.example.com:80'' ''http'' ''api.example.com'' 80]
       [\<lparr>lbs_url = ''http://api.example.com:80''\<rparr>] ServiceKind = CEmpty"

definition test_fqdn_kept_in_envoy_backend_mode :: bool where
  "test_fqdn_kept_in_envoy_backend_mode \<longleftrightarrow>
     (case test_classify [http_url ''https://api.example.com'' ''https'' ''api.example.com'' 443]
             [\<lparr>lbs_url = ''https://api.example.com''\<rparr>] EnvoyBackendKind of
        CFqdn hostname port tls \<Rightarrow> hostname = ''api.example.com'' \<and> port = 443
      | _ \<Rightarrow> False)"

text \<open>The server that the model's parser makes of a URL in the table.\<close>

lemma test_entry: "parse_url_servers (url_table [http_url s scheme h p]) [\<lparr>lbs_url = s\<rparr>] =
    [\<lparr>hp_host = trim_end_matches CHR '']'' (trim_start_matches CHR ''['' h), hp_port = int p, hp_tls = (scheme = ''https'')\<rparr>]"
  by (simp add: parse_url_servers_def map_filter_simps parse_url_server_def url_table_def http_url_def Let_def)

lemma test_hosts:
  "parse_ip_addr ''10.0.0.1'' = Some (V4 10 0 0 1)"
  "parse_cluster_dns ''echo.foo.svc'' = Some (''echo'', ''foo'')"
  "parse_cluster_dns ''echo.foo.svc.cluster.local'' = Some (''echo'', ''foo'')"
  "parse_cluster_dns ''api.example.com'' = None"
  "parse_cluster_dns ''show.dummyservices.svc.cluster.local'' = Some (''show'', ''dummyservices'')"
  by code_simp+

lemma test_no_addresses:
  "parse_ip_addr ''echo.foo.svc'' = None" "parse_ip_addr ''echo.foo.svc.cluster.local'' = None"
  "parse_ip_addr ''api.example.com'' = None" "parse_ip_addr ''show.dummyservices.svc.cluster.local'' = None"
  by (rule name_no_address; simp add: ip_char_def to_digit_def is_digit_def is_lower_def is_upper_def byte_def)+

lemma test_unbracketed:
  "trim_end_matches CHR '']'' (trim_start_matches CHR ''['' ''10.0.0.1'') = ''10.0.0.1''"
  "trim_end_matches CHR '']'' (trim_start_matches CHR ''['' ''echo.foo.svc'') = ''echo.foo.svc''"
  "trim_end_matches CHR '']'' (trim_start_matches CHR ''['' ''echo.foo.svc.cluster.local'') = ''echo.foo.svc.cluster.local''"
  "trim_end_matches CHR '']'' (trim_start_matches CHR ''['' ''api.example.com'') = ''api.example.com''"
  by code_simp+

lemmas test_classification = classify_entries_def classify_step_def classify_init_def get_or_def differs_def
  test_hosts test_no_addresses Let_def

lemma backend_tests:
  test_classifies_ipv4_service_mode test_classifies_cluster_dns_short test_classifies_cluster_dns_full
  test_fqdn_drops_in_service_mode test_fqdn_kept_in_envoy_backend_mode
  unfolding test_classifies_ipv4_service_mode_def test_classifies_cluster_dns_short_def
    test_classifies_cluster_dns_full_def test_fqdn_drops_in_service_mode_def
    test_fqdn_kept_in_envoy_backend_mode_def test_classify_def test_entry test_unbracketed
  by (simp_all add: test_classification)

definition test_l4_address_plain_host_port :: bool where
  "test_l4_address_plain_host_port \<longleftrightarrow>
     (case parse_l4_address ''10.0.0.5:8000'' of
        None \<Rightarrow> False | Some hp \<Rightarrow> hp_host hp = ''10.0.0.5'' \<and> hp_port hp = 8000)"

definition test_l4_address_strips_stray_scheme :: bool where
  "test_l4_address_strips_stray_scheme \<longleftrightarrow>
     (case parse_l4_address ''http://echo.foo.svc.cluster.local:9090'' of
        None \<Rightarrow> False | Some hp \<Rightarrow> hp_host hp = ''echo.foo.svc.cluster.local'' \<and> hp_port hp = 9090)"

definition test_l4_address_bracketed_ipv6 :: bool where
  "test_l4_address_bracketed_ipv6 \<longleftrightarrow>
     (case parse_l4_address ''[2001:db8::1]:53'' of
        None \<Rightarrow> False | Some hp \<Rightarrow> hp_host hp = ''2001:db8::1'' \<and> hp_port hp = 53)"

definition test_l4_address_requires_port :: bool where
  "test_l4_address_requires_port \<longleftrightarrow>
     parse_l4_address ''10.0.0.5'' = None \<and> parse_l4_address ''host:notaport'' = None \<and>
     parse_l4_address '':8080'' = None"

definition test_l4_cluster_dns_classifies_directly :: bool where
  "test_l4_cluster_dns_classifies_directly \<longleftrightarrow>
     (case parse_l4_address ''show.dummyservices.svc.cluster.local:8000'' of
        None \<Rightarrow> False
      | Some hp \<Rightarrow>
          (case classify_entries [hp] EnvoyBackendKind of
             CClusterDns service namespace port tls \<Rightarrow>
               service = ''show'' \<and> namespace = ''dummyservices'' \<and> port = 8000
           | _ \<Rightarrow> False))"

lemma test_ports:
  "parse_u16 ''8000'' = Some 8000" "parse_u16 ''9090'' = Some 9090" "parse_u16 ''53'' = Some 53"
  "parse_u16 ''8080'' = Some 8080" "parse_u16 ''notaport'' = None"
  by (simp_all add: parse_port_defs)

lemma test_addresses:
  "trim ''10.0.0.5:8000'' = ''10.0.0.5:8000''" "trim ''10.0.0.5'' = ''10.0.0.5''"
  "trim ''http://echo.foo.svc.cluster.local:9090'' = ''http://echo.foo.svc.cluster.local:9090''"
  "trim ''[2001:db8::1]:53'' = ''[2001:db8::1]:53''" "trim ''host:notaport'' = ''host:notaport''"
  "trim '':8080'' = '':8080''"
  "trim ''show.dummyservices.svc.cluster.local:8000'' = ''show.dummyservices.svc.cluster.local:8000''"
  by code_simp+

lemma l4_address_tests:
  test_l4_address_plain_host_port test_l4_address_strips_stray_scheme test_l4_address_bracketed_ipv6
  test_l4_address_requires_port test_l4_cluster_dns_classifies_directly
proof -
  have "classify_entries [\<lparr>hp_host = ''show.dummyservices.svc.cluster.local'', hp_port = 8000, hp_tls = False\<rparr>]
      EnvoyBackendKind = CClusterDns ''show'' ''dummyservices'' 8000 False" by (simp add: test_classification)
  then show test_l4_address_plain_host_port test_l4_address_strips_stray_scheme test_l4_address_bracketed_ipv6
    test_l4_address_requires_port test_l4_cluster_dns_classifies_directly
    by (simp_all add: test_l4_address_plain_host_port_def test_l4_address_strips_stray_scheme_def
        test_l4_address_bracketed_ipv6_def test_l4_address_requires_port_def
        test_l4_cluster_dns_classifies_directly_def parse_l4_address_def test_addresses test_ports
        rsplit_once_def Let_def)
qed

section \<open>The shim\<close>

definition test_prefix_stripping :: bool where
  "test_prefix_stripping \<longleftrightarrow>
     strip_path_prefix ''/verify'' ''/verify/app?x=1'' = Some ''/app?x=1'' \<and>
     strip_path_prefix ''/verify'' ''/verify'' = Some ''/'' \<and>
     strip_path_prefix ''/verify'' ''/verify?x=1'' = Some ''/?x=1'' \<and>
     strip_path_prefix ''/verify'' ''/verifyx/app'' = None \<and>
     strip_path_prefix [] ''/app'' = Some ''/app''"

definition test_session_cookie_prefix_filter :: bool where
  "test_session_cookie_prefix_filter \<longleftrightarrow>
     (let sessions = collect_sessions ''p_session_token=abc; p_session_token_42=def; other=zzz'' ''p_session_token''
      in length sessions = 2 \<and> bt_get sessions ''p_session_token'' = Some ''abc'' \<and>
         bt_get sessions ''p_session_token_42'' = Some ''def'')"

text \<open>The form codec, with its answers for the queries of the test.\<close>

definition form_table :: shim_codec where
  "form_table =
     \<lparr>form_parse = (\<lambda>q. if q = ''p_session_request=tok&keep=1'' then [(''p_session_request'', ''tok''), (''keep'', ''1'')]
                        else if q = ''p_session_request=tok'' then [(''p_session_request'', ''tok'')] else []),
      form_serialize = (\<lambda>kvs. if kvs = [(''keep'', ''1'')] then ''keep=1'' else []),
      header_value_ok = header_text\<rparr>"

definition test_query_param_stripping :: bool where
  "test_query_param_stripping \<longleftrightarrow>
     strip_query_param form_table ''/app?p_session_request=tok&keep=1'' ''p_session_request'' = ''/app?keep=1'' \<and>
     strip_query_param form_table ''/app?p_session_request=tok'' ''p_session_request'' = ''/app'' \<and>
     strip_query_param form_table ''/app'' ''p_session_request'' = ''/app''"

definition test_canonical_header_casing :: bool where
  "test_canonical_header_casing \<longleftrightarrow>
     canonical_header ''x-forwarded-proto'' = ''X-Forwarded-Proto'' \<and>
     canonical_header ''authorization'' = ''Authorization'' \<and> canonical_header ''HOST'' = ''Host''"

definition test_verify_body_serializes_with_pangolin_field_names :: bool where
  "test_verify_body_serializes_with_pangolin_field_names \<longleftrightarrow>
     (let body = \<lparr>vb_sessions = [(''p_session_token'', ''abc'')], vb_headers = [], vb_query = [],
                  vb_original_request_url = ''https://app.example.com/x'', vb_scheme = ''https'',
                  vb_host = ''app.example.com'', vb_path = ''/x'', vb_method = ''GET'', vb_tls = True,
                  vb_request_ip = None\<rparr>;
          json = enc_verify_body body
      in json_get json ''originalRequestURL'' \<noteq> None \<and> json_get json ''sessions'' \<noteq> None \<and>
         json_get json ''tls'' \<noteq> None \<and> json_get json ''requestIp'' = None)"

lemma shim_tests:
  test_prefix_stripping test_session_cookie_prefix_filter test_query_param_stripping
  test_canonical_header_casing test_verify_body_serializes_with_pangolin_field_names
proof -
  show test_prefix_stripping test_session_cookie_prefix_filter test_query_param_stripping test_canonical_header_casing
    by code_simp+
  show test_verify_body_serializes_with_pangolin_field_names
    by (simp add: test_verify_body_serializes_with_pangolin_field_names_def Let_def enc_verify_body_def
        enc_struct_def json_object_get map_filter_simps)
qed

section \<open>Envoy Gateway\<close>

definition default_tls_settings :: backend_tls_settings where
  "default_tls_settings = \<lparr>bts_well_known_ca_certificates = None, bts_insecure_skip_verify = None, bts_sni = None\<rparr>"

definition test_tls_settings_serialize_with_crd_field_names :: bool where
  "test_tls_settings_serialize_with_crd_field_names \<longleftrightarrow>
     (let verified = default_tls_settings\<lparr>bts_well_known_ca_certificates := Some ''System'', bts_sni := Some ''example.com''\<rparr>;
          json = enc_tls_settings verified;
          skip = default_tls_settings\<lparr>bts_insecure_skip_verify := Some True\<rparr>;
          json' = enc_tls_settings skip
      in json_get json ''wellKnownCACertificates'' \<noteq> None \<and> json_get json ''sni'' \<noteq> None \<and>
         json_get json ''insecureSkipVerify'' = None \<and>
         json_get json' ''insecureSkipVerify'' \<noteq> None \<and> json_get json' ''wellKnownCACertificates'' = None)"

definition test_security_policy_spec_serializes_with_crd_field_names :: bool where
  "test_security_policy_spec_serializes_with_crd_field_names \<longleftrightarrow>
     (let spec =
            \<lparr>sps_target_refs = [\<lparr>ptr_group = ''gateway.networking.k8s.io'', ptr_kind = ''HTTPRoute'', ptr_name = ''r''\<rparr>],
             sps_ext_auth = Some
               \<lparr>ea_http = Some
                  \<lparr>heas_backend_refs = [\<lparr>eab_name = ''shim'', eab_namespace = None, eab_port = Some 9001\<rparr>],
                   heas_path = None, heas_headers_to_backend = None\<rparr>,
                ea_headers_to_ext_auth = Some [''cookie''], ea_fail_open = Some False\<rparr>\<rparr>;
          json = enc_policy_spec spec
      in json_get json ''targetRefs'' \<noteq> None \<and>
         (case json_get json ''extAuth'' of
            None \<Rightarrow> False
          | Some ext \<Rightarrow>
              json_get ext ''headersToExtAuth'' \<noteq> None \<and> json_get ext ''failOpen'' \<noteq> None \<and>
              (case json_get ext ''http'' of None \<Rightarrow> False | Some h \<Rightarrow> json_get h ''backendRefs'' \<noteq> None)))"

lemma envoy_gateway_tests:
  test_tls_settings_serialize_with_crd_field_names test_security_policy_spec_serializes_with_crd_field_names
  by (simp_all add: test_tls_settings_serialize_with_crd_field_names_def default_tls_settings_def
      test_security_policy_spec_serializes_with_crd_field_names_def Let_def enc_tls_settings_def enc_policy_spec_def
      enc_ext_auth_def enc_auth_service_def enc_struct_def json_object_get map_filter_simps)

end
