(* ===== verification/Pangolin_Wire.thy ===== *)
theory Pangolin_Wire
  imports Wire Poll_Loop Samples
begin

text \<open>
  Reading Pangolin's answer: the \<^verbatim>\<open>Deserialize\<close> implementations that the attributes in
  \<^verbatim>\<open>src/pangolin/types.rs\<close> define, from the JSON document to the dynamic configuration. With them
  the decoder of the client is a parser of JSON followed by code of the model (\<open>json_client\<close>).
  The lemmas say what a document must contain to be accepted, and that the protection of a router
  is read exactly as the document states it.
\<close>

section \<open>TCP and UDP\<close>

definition dec_l4_server :: "json \<Rightarrow> l4_server option" where
  "dec_l4_server v = reads (struct_fields [''address''] v) (\<lambda>f.
     reads (default_field f ''address'' json_as_str []) (\<lambda>address.
     Some \<lparr>l4s_address = address\<rparr>))"

definition dec_l4_load_balancer :: "json \<Rightarrow> l4_load_balancer option" where
  "dec_l4_load_balancer v = reads (struct_fields [''servers''] v) (\<lambda>f.
     reads (default_field f ''servers'' (dec_seq dec_l4_server) []) (\<lambda>servers.
     Some \<lparr>l4lb_servers = servers\<rparr>))"

definition dec_l4_service :: "json \<Rightarrow> l4_service option" where
  "dec_l4_service v = reads (struct_fields [''loadBalancer'', ''weighted''] v) (\<lambda>f.
     reads (default_field f ''loadBalancer'' (dec_option dec_l4_load_balancer) None) (\<lambda>load_balancer.
     reads (default_field f ''weighted'' (dec_option dec_value) None) (\<lambda>weighted.
     Some \<lparr>l4svc_load_balancer = load_balancer, l4svc_weighted = weighted\<rparr>)))"

definition dec_l4_router :: "json \<Rightarrow> l4_router option" where
  "dec_l4_router v = reads (struct_fields [''rule'', ''service'', ''entryPoints'', ''tls''] v) (\<lambda>f.
     reads (default_field f ''rule'' (dec_option json_as_str) None) (\<lambda>rule.
     reads (default_field f ''service'' json_as_str []) (\<lambda>service.
     reads (default_field f ''entryPoints'' (dec_seq json_as_str) []) (\<lambda>entry_points.
     reads (default_field f ''tls'' (dec_option dec_value) None) (\<lambda>tls.
     Some \<lparr>l4r_rule = rule, l4r_service = service, l4r_entry_points = entry_points, l4r_tls = tls\<rparr>)))))"

definition dec_l4_config :: "json \<Rightarrow> l4_config option" where
  "dec_l4_config v = reads (struct_fields [''routers'', ''services''] v) (\<lambda>f.
     reads (default_field f ''routers'' (dec_map dec_l4_router) []) (\<lambda>routers.
     reads (default_field f ''services'' (dec_map dec_l4_service) []) (\<lambda>services.
     Some \<lparr>l4c_routers = routers, l4c_services = services\<rparr>)))"

section \<open>HTTP\<close>

definition dec_tls_domain :: "json \<Rightarrow> tls_domain option" where
  "dec_tls_domain v = reads (struct_fields [''main'', ''sans''] v) (\<lambda>f.
     reads (default_field f ''main'' (dec_option json_as_str) None) (\<lambda>main.
     reads (default_field f ''sans'' (dec_seq json_as_str) []) (\<lambda>sans.
     Some \<lparr>tlsd_main = main, tlsd_sans = sans\<rparr>)))"

definition dec_router_tls :: "json \<Rightarrow> router_tls option" where
  "dec_router_tls v = reads (struct_fields [''certResolver'', ''domains''] v) (\<lambda>f.
     reads (default_field f ''certResolver'' (dec_option json_as_str) None) (\<lambda>cert_resolver.
     reads (default_field f ''domains'' (dec_seq dec_tls_domain) []) (\<lambda>domains.
     Some \<lparr>rtls_cert_resolver = cert_resolver, rtls_domains = domains\<rparr>)))"

definition dec_router :: "json \<Rightarrow> router option" where
  "dec_router v = reads (struct_fields
       [''rule'', ''service'', ''middlewares'', ''entryPoints'', ''priority'', ''tls''] v) (\<lambda>f.
     reads (required_field f ''rule'' json_as_str) (\<lambda>rule.
     reads (required_field f ''service'' json_as_str) (\<lambda>service.
     reads (default_field f ''middlewares'' (dec_seq json_as_str) []) (\<lambda>middlewares.
     reads (default_field f ''entryPoints'' (dec_seq json_as_str) []) (\<lambda>entry_points.
     reads (default_field f ''priority'' (dec_option json_as_i64) None) (\<lambda>priority.
     reads (default_field f ''tls'' (dec_option dec_router_tls) None) (\<lambda>tls.
     Some \<lparr>r_rule = rule, r_service = service, r_middlewares = middlewares,
           r_entry_points = entry_points, r_priority = priority, r_tls = tls\<rparr>)))))))"

definition dec_load_balancer_server :: "json \<Rightarrow> load_balancer_server option" where
  "dec_load_balancer_server v = reads (struct_fields [''url''] v) (\<lambda>f.
     reads (required_field f ''url'' json_as_str) (\<lambda>url.
     Some \<lparr>lbs_url = url\<rparr>))"

definition dec_load_balancer :: "json \<Rightarrow> load_balancer option" where
  "dec_load_balancer v = reads (struct_fields
       [''servers'', ''sticky'', ''serversTransport'', ''passHostHeader''] v) (\<lambda>f.
     reads (default_field f ''servers'' (dec_seq dec_load_balancer_server) []) (\<lambda>servers.
     reads (default_field f ''sticky'' (dec_option dec_value) None) (\<lambda>sticky.
     reads (default_field f ''serversTransport'' (dec_option json_as_str) None) (\<lambda>servers_transport.
     reads (default_field f ''passHostHeader'' (dec_option json_as_bool) None) (\<lambda>pass_host_header.
     Some \<lparr>lb_servers = servers, lb_sticky = sticky, lb_servers_transport = servers_transport,
           lb_pass_host_header = pass_host_header\<rparr>)))))"

definition dec_service :: "json \<Rightarrow> pang_service option" where
  "dec_service v = reads (struct_fields [''loadBalancer'', ''weighted'', ''mirroring''] v) (\<lambda>f.
     reads (default_field f ''loadBalancer'' (dec_option dec_load_balancer) None) (\<lambda>load_balancer.
     reads (default_field f ''weighted'' (dec_option dec_value) None) (\<lambda>weighted.
     reads (default_field f ''mirroring'' (dec_option dec_value) None) (\<lambda>mirroring.
     Some \<lparr>psvc_load_balancer = load_balancer, psvc_weighted = weighted, psvc_mirroring = mirroring\<rparr>))))"

definition dec_middleware :: "json \<Rightarrow> middleware option" where
  "dec_middleware v = map_option Middleware (dec_value v)"

definition default_http_config :: http_config where
  "default_http_config = \<lparr>hc_routers = [], hc_services = [], hc_middlewares = [], hc_servers_transports = []\<rparr>"

definition dec_http_config :: "json \<Rightarrow> http_config option" where
  "dec_http_config v = reads (struct_fields
       [''routers'', ''services'', ''middlewares'', ''serversTransports''] v) (\<lambda>f.
     reads (default_field f ''routers'' (dec_map dec_router) []) (\<lambda>routers.
     reads (default_field f ''services'' (dec_map dec_service) []) (\<lambda>services.
     reads (default_field f ''middlewares'' (dec_map dec_middleware) []) (\<lambda>middlewares.
     reads (default_field f ''serversTransports'' (dec_map dec_value) []) (\<lambda>servers_transports.
     Some \<lparr>hc_routers = routers, hc_services = services, hc_middlewares = middlewares,
           hc_servers_transports = servers_transports\<rparr>)))))"

definition dec_traefik_dynamic_config :: "json \<Rightarrow> traefik_dynamic_config option" where
  "dec_traefik_dynamic_config v = reads (struct_fields [''http'', ''tcp'', ''udp''] v) (\<lambda>f.
     reads (default_field f ''http'' dec_http_config default_http_config) (\<lambda>http.
     reads (default_field f ''tcp'' (dec_option dec_l4_config) None) (\<lambda>tcp.
     reads (default_field f ''udp'' (dec_option dec_l4_config) None) (\<lambda>udp.
     Some \<lparr>tdc_http = http, tdc_tcp = tcp, tdc_udp = udp\<rparr>))))"

declare dec_l4_server_def [exec] dec_l4_load_balancer_def [exec] dec_l4_service_def [exec]
  dec_l4_router_def [exec] dec_l4_config_def [exec] dec_tls_domain_def [exec] dec_router_tls_def [exec]
  dec_router_def [exec] dec_load_balancer_server_def [exec] dec_load_balancer_def [exec] dec_service_def [exec]
  dec_middleware_def [exec] default_http_config_def [exec] dec_http_config_def [exec]
  dec_traefik_dynamic_config_def [exec]

text \<open>The client's libraries when the body is parsed by \<open>parse_json\<close> and hashed by \<open>sha\<close>.\<close>

definition json_client :: "(string \<Rightarrow> string) \<Rightarrow> (string \<Rightarrow> json option) \<Rightarrow> client_lib" where
  "json_client sha parse_json =
     \<lparr>lib_sha256_hex = sha, lib_decode = (\<lambda>raw. reads (parse_json raw) dec_traefik_dynamic_config)\<rparr>"

section \<open>What a document must contain\<close>

lemma dec_http_part:
  assumes "dec_traefik_dynamic_config doc = Some dyn" and "json_at doc [''http''] = Some h"
  shows "dec_http_config h = Some (tdc_http dyn)"
proof -
  obtain kvs where doc: "doc = JObject kvs" using json_at_object [OF assms(2)] by blast
  show ?thesis
    using assms unfolding doc
    by (auto simp: dec_traefik_dynamic_config_def reads_Some_iff default_field_object
        simp del: json_at.simps)
qed

lemma dec_http_fields:
  assumes "dec_http_config (JObject kvs) = Some hc"
  shows "(case json_at (JObject kvs) [''routers''] of None \<Rightarrow> Some [] | Some w \<Rightarrow> dec_map dec_router w) =
      Some (hc_routers hc)"
    and "(case json_at (JObject kvs) [''middlewares''] of None \<Rightarrow> Some [] | Some w \<Rightarrow> dec_map dec_middleware w) =
      Some (hc_middlewares hc)"
  using assms
  by (auto simp: dec_http_config_def reads_Some_iff default_field_object simp del: json_at.simps)

lemma dec_router_fields:
  assumes "dec_router (JObject kvs) = Some r"
  shows "reads (json_at (JObject kvs) [''rule'']) json_as_str = Some (r_rule r)"
    and "reads (json_at (JObject kvs) [''service'']) json_as_str = Some (r_service r)"
    and "(case json_at (JObject kvs) [''middlewares''] of None \<Rightarrow> Some [] | Some w \<Rightarrow> dec_seq json_as_str w) =
      Some (r_middlewares r)"
  using assms
  by (auto simp: dec_router_def reads_Some_iff default_field_object required_field_object simp del: json_at.simps)

section \<open>Protection\<close>

text \<open>
  Whether a document asks for the protection of its HTTP router \<open>n\<close>: one of the names in the
  router's list of middlewares belongs to a middleware with the \<^verbatim>\<open>badger\<close> plugin, or is \<^verbatim>\<open>badger\<close>
  and belongs to none.
\<close>

definition doc_middlewares :: "json \<Rightarrow> string \<Rightarrow> string list" where
  "doc_middlewares doc n =
     (case json_at doc [''http'', ''routers'', n, ''middlewares''] of
        Some (JArray ms) \<Rightarrow> List.map_filter json_as_str ms
      | _ \<Rightarrow> [])"

definition doc_protected :: "json \<Rightarrow> string \<Rightarrow> bool" where
  "doc_protected doc n \<longleftrightarrow>
     list_ex (\<lambda>m. case json_at doc [''http'', ''middlewares'', m] of
                    Some mw \<Rightarrow> json_at mw [''plugin'', ''badger''] \<noteq> None
                  | None \<Rightarrow> m = ''badger'') (doc_middlewares doc n)"

declare doc_middlewares_def [exec] doc_protected_def [exec]

lemma in_doc_middlewares:
  "m \<in> set (doc_middlewares doc n) \<longleftrightarrow>
     (\<exists>ms. json_at doc [''http'', ''routers'', n, ''middlewares''] = Some (JArray ms) \<and> JString m \<in> set ms)"
  by (simp add: doc_middlewares_def List.map_filter_def as_str_Some image_iff split: option.split json.split)
     (metis as_str_Some option.sel)

lemma badger_read:
  assumes "dec_middleware v = Some mw"
  shows "is_badger mw \<longleftrightarrow> json_at v [''plugin'', ''badger''] \<noteq> None"
proof -
  have mw: "mw = Middleware (to_value v)" using assms by (simp add: dec_middleware_def dec_value_def)
  have get: "json_as_object w = Some obj \<Longrightarrow> bt_get obj k = json_get w k" for w obj k
    by (simp add: json_get_def)
  show ?thesis
  proof (cases "json_at v [''plugin'']")
    case None
    then show ?thesis
      using json_get_to_value [of v "''plugin''"] json_at_Cons [of v "''plugin''" "[''badger'']"]
      by (auto simp: mw is_badger_def get split: option.split simp del: json_at.simps)
  next
    case (Some p)
    then have "json_at v [''plugin'', ''badger''] = json_at p [''badger'']"
      using json_at_Cons [of v "''plugin''" "[''badger'']"] by simp
    moreover have "json_get (to_value v) ''plugin'' = Some (to_value p)"
      using Some by (simp add: json_get_to_value)
    moreover have "json_as_object (to_value v) \<noteq> None"
      using json_at_object [OF Some] by auto
    moreover have "json_as_object (to_value p) = None \<Longrightarrow> json_at p [''badger''] = None"
      using json_at_object [of p "''badger''" "[]"] by (cases "json_at p [''badger'']") auto
    ultimately show ?thesis
      using json_get_to_value [of p "''badger''"]
      by (auto simp: mw is_badger_def get bt_contains_def split: option.split simp del: json_at.simps)
  qed
qed

lemma decoded_routers_wf: "dec_traefik_dynamic_config doc = Some dyn \<Longrightarrow> bt_wf (hc_routers (tdc_http dyn))"
  by (auto simp: dec_traefik_dynamic_config_def dec_http_config_def default_http_config_def reads_Some_iff
      default_field_def [of _ "''http''"] default_map_wf split: option.splits)

text \<open>Every router that the document protects is one that the program takes to be protected.\<close>

lemma protection_read:
  assumes dec: "dec_traefik_dynamic_config doc = Some dyn"
    and router: "bt_get (hc_routers (tdc_http dyn)) n = Some r" and prot: "doc_protected doc n"
  shows "protected (hc_middlewares (tdc_http dyn)) r"
proof -
  obtain m where m: "m \<in> set (doc_middlewares doc n)"
    and badger: "case json_at doc [''http'', ''middlewares'', m] of
        Some mw \<Rightarrow> json_at mw [''plugin'', ''badger''] \<noteq> None | None \<Rightarrow> m = ''badger''"
    using prot by (auto simp: doc_protected_def list_ex_iff)
  obtain ms where ms: "json_at doc [''http'', ''routers'', n, ''middlewares''] = Some (JArray ms)"
    and str: "JString m \<in> set ms"
    using m by (auto simp: in_doc_middlewares)
  obtain h rs v where h: "json_at doc [''http''] = Some h" and rs: "json_at h [''routers''] = Some rs"
    and v: "json_at rs [n] = Some v" and list: "json_at v [''middlewares''] = Some (JArray ms)"
    using ms json_at_Cons [of doc "''http''" "[''routers'', n, ''middlewares'']"]
      json_at_Cons [of _ "''routers''" "[n, ''middlewares'']"] json_at_Cons [of _ n "[''middlewares'']"]
    by (auto simp: reads_Some_iff simp del: json_at.simps)
  obtain hs where hs: "h = JObject hs" using json_at_object [OF rs] by blast
  obtain vs where vs: "v = JObject vs" using json_at_object [OF list] by blast
  note http = dec_http_fields [OF dec_http_part [OF dec h, unfolded hs]]
  have "dec_router v = Some r"
    using dec_map_read(2) [of dec_router rs "hc_routers (tdc_http dyn)" n] http(1) router rs v
    by (simp add: hs del: json_at.simps)
  then have "dec_seq json_as_str (JArray ms) = Some (r_middlewares r)"
    using dec_router_fields(3) [of vs r] list by (simp add: vs del: json_at.simps)
  then have "json_as_str ` set ms = Some ` set (r_middlewares r)"
    by (auto simp: dec_seq_def those_Some_iff dest!: arg_cong [where f = set])
  then have used: "m \<in> set (r_middlewares r)" using imageI [OF str, of json_as_str] by auto
  have "bt_get (hc_middlewares (tdc_http dyn)) m =
      reads (json_at doc [''http'', ''middlewares'', m]) dec_middleware"
  proof (cases "json_at h [''middlewares'']")
    case None
    then show ?thesis
      using http(2) h json_at_Cons [of doc "''http''" "[''middlewares'', m]"] json_at_Cons [of h "''middlewares''" "[m]"]
      by (simp add: hs bt_get_def del: json_at.simps)
  next
    case (Some mws)
    then show ?thesis
      using http(2) h json_at_Cons [of doc "''http''" "[''middlewares'', m]"] json_at_Cons [of h "''middlewares''" "[m]"]
        dec_map_read(2) [of dec_middleware mws "hc_middlewares (tdc_http dyn)" m]
      by (simp add: hs del: json_at.simps)
  qed
  then have "case bt_get (hc_middlewares (tdc_http dyn)) m of Some mw \<Rightarrow> is_badger mw | None \<Rightarrow> m = ''badger''"
    using badger badger_read by (auto simp: dec_middleware_def dec_value_def split: option.splits)
  with used show ?thesis by (auto simp: protected_def requires_badger_auth_def list_ex_iff)
qed

section \<open>Documents that are refused\<close>

text \<open>A router without its rule or its service as a string makes the whole document unreadable.\<close>

lemma broken_router:
  assumes "json_at (JObject kvs) [k] = None \<or> (\<exists>w. json_at (JObject kvs) [k] = Some w \<and> json_as_str w = None)"
    and "k \<in> {''rule'', ''service''}"
  shows "dec_router (JObject kvs) = None"
proof (cases "dec_router (JObject kvs)")
  case (Some r)
  then show ?thesis using dec_router_fields(1,2) [OF Some] assms by (auto simp del: json_at.simps)
qed

lemma bad_router_undecodable:
  assumes "json_at doc [''http'', ''routers'', n] = Some v" and "dec_router v = None"
  shows "dec_traefik_dynamic_config doc = None"
proof (rule ccontr)
  assume "dec_traefik_dynamic_config doc \<noteq> None"
  then obtain dyn where dyn: "dec_traefik_dynamic_config doc = Some dyn" by blast
  obtain h rs where h: "json_at doc [''http''] = Some h" and rs: "json_at h [''routers''] = Some rs"
    and v: "json_at rs [n] = Some v"
    using assms(1) json_at_Cons [of doc "''http''" "[''routers'', n]"] json_at_Cons [of _ "''routers''" "[n]"]
    by (auto simp: reads_Some_iff simp del: json_at.simps)
  obtain hs where hs: "h = JObject hs" using json_at_object [OF rs] by blast
  have "dec_map dec_router rs = Some (hc_routers (tdc_http dyn))"
    using dec_http_fields(1) [OF dec_http_part [OF dyn h, unfolded hs]] rs by (simp add: hs del: json_at.simps)
  then show False using dec_map_entries [OF _ v] assms(2) by blast
qed

lemma undecodable_backs_off:
  assumes "\<And>resp raw. reply = Some resp \<Longrightarrow> hrep_bytes resp = Some raw \<Longrightarrow> lib_decode lib raw = None"
    and "\<And>resp. reply = Some resp \<Longrightarrow> hrep_status resp \<noteq> 304"
  shows "iteration pf cfg srv (fetch lib cl reply) st = back_off cfg st"
  using assms
  by (auto simp: fetch_def ok_or_def iteration_def Let_def split: option.splits sum.splits)

text \<open>A TCP or UDP router may lack its service, but not have null or a number for it.\<close>

lemma l4_service_missing: "dec_l4_router (JObject []) =
    Some \<lparr>l4r_rule = None, l4r_service = [], l4r_entry_points = [], l4r_tls = None\<rparr>"
  by (simp add: dec_l4_router_def struct_fields_def default_field_def)

lemma l4_service_null: "dec_l4_router (JObject [(''service'', JNull)]) = None"
  by (simp add: dec_l4_router_def struct_fields_def default_field_def)

lemma empty_document: "dec_traefik_dynamic_config (JObject []) =
    Some \<lparr>tdc_http = default_http_config, tdc_tcp = None, tdc_udp = None\<rparr>"
  by (simp add: dec_traefik_dynamic_config_def struct_fields_def default_field_def)

section \<open>The sample as a document\<close>

definition sample_doc :: json where
  "sample_doc = JObject
     [(''http'', JObject
        [(''routers'', JObject
           [(''b'', JObject [(''rule'', JString ''Host(`b`)''), (''service'', JString ''s''),
              (''middlewares'', JArray [JString ''badger'']), (''entryPoints'', JArray [JString ''https''])]),
            (''a'', JObject [(''entryPoints'', JArray [JString ''https'']), (''rule'', JString ''Host(`a`)''),
              (''service'', JString ''s''), (''tls'', JNull)])]),
         (''services'', JObject
           [(''s'', JObject [(''loadBalancer'', JObject
              [(''servers'', JArray [JObject [(''url'', JString ''http://10.0.0.5:80/'')]])])])]),
         (''middlewares'', JObject
           [(''badger'', JObject [(''plugin'', JObject [(''badger'', JObject [])])])])]),
      (''tcp'', JObject
        [(''routers'', JObject
           [(''t'', JObject [(''rule'', JString ''HostSNI(`*`)''), (''service'', JString ''u''),
              (''entryPoints'', JArray [JString ''tcp-22''])])]),
         (''services'', JObject
           [(''u'', JObject [(''loadBalancer'', JObject
              [(''servers'', JArray [JObject [(''address'', JString ''10.0.0.6:22'')]])])])])])]"

lemma sample_doc_read: "dec_traefik_dynamic_config sample_doc = Some sample_dyn"
  by (simp add: sample_doc_def exec)

lemma sample_doc_protected: "doc_protected sample_doc ''b''" "\<not> doc_protected sample_doc ''a''"
  by (simp_all add: sample_doc_def doc_protected_def doc_middlewares_def List.map_filter_def)

text \<open>A document whose only router lacks its service.\<close>

definition broken_doc :: json where
  "broken_doc = JObject [(''http'', JObject [(''routers'', JObject
     [(''a'', JObject [(''rule'', JString ''Host(`a`)'')])])])]"

end
