(* ===== verification/Integration_Tests.thy ===== *)
theory Integration_Tests
  imports Pangolin_Wire Shim_Wire Startup
begin

text \<open>
  Integration tests of \<^verbatim>\<open>tests/\<close> that need no cluster, as definitions with the assertions of the code:
  what the programs answer over HTTP is what the model computes. The sockets between a test and the
  program are left out: a request is handed to the handler, a mock server is a function. A mock that
  records a body for a later assertion answers here only if the assertion holds of the body.
\<close>

section \<open>The shim: \<^verbatim>\<open>tests/badger_shim.rs\<close>\<close>

definition shim_test_url :: "string \<Rightarrow> url" where
  "shim_test_url s = \<lparr>url_as_str = s, url_scheme = ''http'', url_host_str = Some ''127.0.0.1'',
     url_port_or_known_default = Some 4000\<rparr>"

definition shim_test_pf :: platform where
  "shim_test_pf = \<lparr>default_hasher = (\<lambda>_. 0), url_parse = (\<lambda>s. Some (shim_test_url s)), parse_duration = (\<lambda>_. None)\<rparr>"

definition spawn_shim :: "string \<Rightarrow> shim_config" where
  "spawn_shim pangolin_base =
     \<lparr>sc_listen = [], sc_pangolin_api_base_url = shim_test_url pangolin_base, sc_path_prefix = ''/verify'',
      sc_user_session_cookie_name = ''p_session_token'', sc_resource_session_request_param = ''p_session_request'',
      sc_timeout = from_secs 5, sc_ca_file = None, sc_tls_skip_verify = False\<rparr>"

text \<open>The answers of the mock, by route; the text of a body is a name for the document.\<close>

record mock_pangolin =
  verify_response :: json
  verify_asserts :: "json \<Rightarrow> bool"
  exchange_response :: json
  exchange_asserts :: "json \<Rightarrow> bool"

definition default_mock :: mock_pangolin where
  "default_mock = \<lparr>verify_response = JNull, verify_asserts = (\<lambda>_. True), exchange_response = JNull,
     exchange_asserts = (\<lambda>_. True)\<rparr>"

definition spawn_mock :: "mock_pangolin \<Rightarrow> url \<Rightarrow> json \<Rightarrow> http_answer" where
  "spawn_mock mock u body =
     (if url_as_str u = ''http://127.0.0.1:4000/api/v1/badger/verify-session'' \<and> verify_asserts mock body then
        Some (200, Some ''verify'')
      else if url_as_str u = ''http://127.0.0.1:4000/api/v1/badger/exchange-session'' \<and> exchange_asserts mock body then
        Some (200, Some ''exchange'')
      else None)"

definition mock_bodies :: "mock_pangolin \<Rightarrow> string \<Rightarrow> json option" where
  "mock_bodies mock raw = Some (if raw = ''verify'' then verify_response mock else exchange_response mock)"

text \<open>The form codec, with its answers for the queries of the tests.\<close>

definition query_table :: shim_codec where
  "query_table =
     \<lparr>form_parse = (\<lambda>q. if q = ''x=1'' then [(''x'', ''1'')]
        else if q = ''p_session_request=tok42&keep=yes'' then [(''p_session_request'', ''tok42''), (''keep'', ''yes'')]
        else []),
      form_serialize = (\<lambda>kvs. if kvs = [(''keep'', ''yes'')] then ''keep=yes'' else []),
      header_value_ok = header_text\<rparr>"

definition shim_get :: "mock_pangolin \<Rightarrow> string \<Rightarrow> (string \<times> string) list \<Rightarrow> outcome" where
  "shim_get mock path headers =
     shim_router shim_test_pf (json_shim query_table (mock_bodies mock) (spawn_mock mock))
       (spawn_shim ''http://127.0.0.1:4000/api/v1'')
       \<lparr>cr_path_and_query = Some path, cr_method = ''GET'', cr_headers = map (apsnd Some) headers\<rparr>"

text \<open>What the tests read of a response.\<close>

definition answered :: "outcome \<Rightarrow> nat \<Rightarrow> ((string \<Rightarrow> string option) \<Rightarrow> bool) \<Rightarrow> bool" where
  "answered out status headers =
     (case out of Panic \<Rightarrow> False | Respond r \<Rightarrow> re_status r = status \<and> headers (map_of (re_headers r)))"

declare shim_test_url_def [exec] shim_test_pf_def [exec] spawn_shim_def [exec] default_mock_def [exec]
  spawn_mock_def [exec] mock_bodies_def [exec] query_table_def [exec] shim_get_def [exec] answered_def [exec]

definition test_healthz_is_open :: bool where
  "test_healthz_is_open \<longleftrightarrow> answered (shim_get default_mock ''/healthz'' []) 200 (\<lambda>_. True)"

definition test_valid_session_allows_with_identity_headers :: bool where
  "test_valid_session_allows_with_identity_headers \<longleftrightarrow>
     answered
       (shim_get
         (default_mock\<lparr>
            verify_response := json_object [(''data'', json_object
              [(''valid'', JBool True),
               (''userData'', json_object [(''userId'', JString ''u1''), (''username'', JString ''alice''),
                  (''email'', JString ''alice@example.com'')])])],
            verify_asserts := (\<lambda>body.
              json_get body ''originalRequestURL'' = Some (JString ''https://app.example.com/dashboard?x=1'') \<and>
              json_get body ''host'' = Some (JString ''app.example.com'') \<and>
              json_get body ''path'' = Some (JString ''/dashboard'') \<and>
              json_get body ''method'' = Some (JString ''GET'') \<and>
              json_get body ''scheme'' = Some (JString ''https'') \<and>
              json_get body ''tls'' = Some (JBool True) \<and>
              json_get body ''requestIp'' = Some (JString ''203.0.113.7'') \<and>
              json_at body [''sessions'', ''p_session_token''] = Some (JString ''sess123'') \<and>
              json_at body [''sessions'', ''unrelated''] = None \<and>
              json_at body [''query'', ''x''] = Some (JString ''1''))\<rparr>)
         ''/verify/dashboard?x=1''
         [(''host'', ''app.example.com''), (''x-forwarded-proto'', ''https''), (''x-forwarded-for'', ''203.0.113.7''),
          (''cookie'', ''p_session_token=sess123; unrelated=1'')])
       200
       (\<lambda>headers. headers ''remote-user'' = Some ''alice'' \<and> headers ''remote-user-id'' = Some ''u1'')"

definition test_missing_session_redirects_to_portal :: bool where
  "test_missing_session_redirects_to_portal \<longleftrightarrow>
     answered
       (shim_get
         (default_mock\<lparr>verify_response := json_object [(''data'', json_object
            [(''valid'', JBool False),
             (''redirectUrl'', JString ''https://pangolin.example.com/auth/resource/1?redirect=https%3A%2F%2Fapp.example.com%2F'')])]\<rparr>)
         ''/verify/'' [(''host'', ''app.example.com'')])
       302
       (\<lambda>headers. case headers ''location'' of
                    None \<Rightarrow> False | Some l \<Rightarrow> starts_with ''https://pangolin.example.com/auth/'' l)"

definition test_invalid_session_is_401 :: bool where
  "test_invalid_session_is_401 \<longleftrightarrow>
     answered
       (shim_get
         (default_mock\<lparr>verify_response := json_object [(''data'', json_object [(''valid'', JBool False)])]\<rparr>)
         ''/verify/secret'' [(''host'', ''app.example.com'')])
       401 (\<lambda>_. True)"

definition test_header_auth_challenge_sets_www_authenticate :: bool where
  "test_header_auth_challenge_sets_www_authenticate \<longleftrightarrow>
     answered
       (shim_get
         (default_mock\<lparr>verify_response := json_object [(''data'', json_object
            [(''valid'', JBool False), (''headerAuthChallenged'', JBool True)])]\<rparr>)
         ''/verify/api'' [(''host'', ''app.example.com'')])
       401
       (\<lambda>headers. case headers ''www-authenticate'' of None \<Rightarrow> False | Some v \<Rightarrow> starts_with ''Basic'' v)"

definition test_session_request_token_is_exchanged_for_cookie :: bool where
  "test_session_request_token_is_exchanged_for_cookie \<longleftrightarrow>
     answered
       (shim_get
         (default_mock\<lparr>
            exchange_response := json_object [(''data'', json_object
              [(''valid'', JBool True), (''cookie'', JString ''p_session_token=newsess; Path=/; HttpOnly; Secure'')])],
            exchange_asserts := (\<lambda>body.
              json_get body ''requestToken'' = Some (JString ''tok42'') \<and>
              json_get body ''host'' = Some (JString ''app.example.com''))\<rparr>)
         ''/verify/welcome?p_session_request=tok42&keep=yes''
         [(''host'', ''app.example.com''), (''x-forwarded-proto'', ''https'')])
       302
       (\<lambda>headers. headers ''location'' = Some ''https://app.example.com/welcome?keep=yes'' \<and>
          (case headers ''set-cookie'' of None \<Rightarrow> False | Some c \<Rightarrow> starts_with ''p_session_token=newsess'' c))"

definition test_pangolin_outage_fails_closed :: bool where
  "test_pangolin_outage_fails_closed \<longleftrightarrow>
     answered
       (shim_router shim_test_pf (json_shim query_table (\<lambda>_. None) (\<lambda>_ _. None)) (spawn_shim ''http://127.0.0.1:1/api/v1'')
         \<lparr>cr_path_and_query = Some ''/verify/secret'', cr_method = ''GET'',
          cr_headers = [(''host'', Some ''app.example.com'')]\<rparr>)
       503 (\<lambda>_. True)"

text \<open>The request of the second test, piece by piece.\<close>

lemma session_request:
  "collect_sessions ''p_session_token=sess123; unrelated=1'' ''p_session_token'' = [(''p_session_token'', ''sess123'')]"
  "strip_path_prefix ''/verify'' ''/verify/dashboard?x=1'' = Some ''/dashboard?x=1''"
  "split_path ''/dashboard?x=1'' = (''/dashboard'', ''x=1'')"
  "split_path ''/verify/dashboard?x=1'' = (''/verify/dashboard'', ''x=1'')"
  "split_on CHR '','' ''203.0.113.7'' = [''203.0.113.7'']" "trim ''203.0.113.7'' = ''203.0.113.7''"
  by code_simp+

lemma session_verdict:
  "dec_verify_response (json_object [(''data'', json_object
     [(''valid'', JBool True),
      (''userData'', json_object [(''userId'', JString ''u1''), (''username'', JString ''alice''),
         (''email'', JString ''alice@example.com'')])])]) =
   Some \<lparr>vr_data = \<lparr>vd_valid = True, vd_redirect_url = None, vd_header_auth_challenged = None,
     vd_user_data = Some \<lparr>ud_user_id = Some ''u1'', ud_username = Some ''alice'',
       ud_email = Some ''alice@example.com'', ud_name = None, ud_role = None\<rparr>\<rparr>\<rparr>"
  by (simp add: exec)

lemma verify_body_get:
  "json_get (enc_verify_body b) ''originalRequestURL'' = Some (JString (vb_original_request_url b))"
  "json_get (enc_verify_body b) ''host'' = Some (JString (vb_host b))"
  "json_get (enc_verify_body b) ''path'' = Some (JString (vb_path b))"
  "json_get (enc_verify_body b) ''method'' = Some (JString (vb_method b))"
  "json_get (enc_verify_body b) ''scheme'' = Some (JString (vb_scheme b))"
  "json_get (enc_verify_body b) ''tls'' = Some (JBool (vb_tls b))"
  "json_get (enc_verify_body b) ''requestIp'' = map_option JString (vb_request_ip b)"
  "json_at (enc_verify_body b) [''sessions'', k] = map_option JString (map_of (rev (vb_sessions b)) k)"
  "json_at (enc_verify_body b) [''query'', k] = map_option JString (map_of (rev (vb_query b)) k)"
proof -
  show "json_at (enc_verify_body b) [''sessions'', k] = map_option JString (map_of (rev (vb_sessions b)) k)"
    using json_at_Cons [of "enc_verify_body b" "''sessions''" "[k]"] by (simp add: verify_body_says enc_map_at del: json_at.simps)
  have "json_at (enc_verify_body b) [''query''] = Some (enc_map JString (vb_query b))"
    by (simp add: enc_verify_body_def enc_struct_at del: json_at.simps)
  then show "json_at (enc_verify_body b) [''query'', k] = map_option JString (map_of (rev (vb_query b)) k)"
    using json_at_Cons [of "enc_verify_body b" "''query''" "[k]"] by (simp add: enc_map_at del: json_at.simps)
qed (cases "vb_request_ip b"; simp add: enc_verify_body_def enc_struct_def json_object_get map_filter_simps)+

lemma session_test: test_valid_session_allows_with_identity_headers
  by (simp add: test_valid_session_allows_with_identity_headers_def answered_def shim_get_def shim_router_def
      check_def original_path_def spawn_shim_def shim_test_url_def shim_test_pf_def request_ip_of_def verify_body_of_def
      header_str_def unwrap_or_def parse_query_def json_shim_def json_reply_def spawn_mock_def mock_bodies_def query_table_def
      default_mock_def verify_session_def endpoint_def ok_or_def read_reply_def answer_def user_headers_def
      map_filter_simps shim_codec.defs bt_get_def bt_or_insert_def bt_contains_def bt_insert.simps
      session_request session_verdict verify_body_get Let_def trim_end_matches_def header_byte_def byte_def del: json_at.simps)

lemma shim_integration_tests:
  test_healthz_is_open test_missing_session_redirects_to_portal
  test_invalid_session_is_401 test_header_auth_challenge_sets_www_authenticate
  test_session_request_token_is_exchanged_for_cookie test_pangolin_outage_fails_closed
  by (simp_all add: test_healthz_is_open_def test_missing_session_redirects_to_portal_def
      test_invalid_session_is_401_def test_header_auth_challenge_sets_www_authenticate_def
      test_session_request_token_is_exchanged_for_cookie_def test_pangolin_outage_fails_closed_def
      shim_router_def shim_codec.defs Let_def exec)

section \<open>The configuration: \<^verbatim>\<open>tests/config_smoke.rs\<close>\<close>

definition test_backend_kind_parses_known_spellings :: bool where
  "test_backend_kind_parses_known_spellings \<longleftrightarrow>
     backend_kind_parse ''service'' = Inr ServiceKind \<and> backend_kind_parse [] = Inr ServiceKind \<and>
     backend_kind_parse ''service-endpointslice'' = Inr ServiceKind \<and>
     backend_kind_parse ''envoy-backend'' = Inr EnvoyBackendKind \<and>
     backend_kind_parse ''EnvoyBackend'' = Inr EnvoyBackendKind \<and>
     backend_kind_parse ''backend'' = Inr EnvoyBackendKind \<and>
     (case backend_kind_parse ''traefik'' of Inl (InvalidBackendKind s) \<Rightarrow> True | _ \<Rightarrow> False)"

text \<open>What the URL and duration parsers answer to the values in the test.\<close>

definition smoke_pf :: platform where
  "smoke_pf =
     \<lparr>default_hasher = (\<lambda>_. 0),
      url_parse = map_of
        [(''http://pangolin.local/api/v1/traefik-config'',
          \<lparr>url_as_str = ''http://pangolin.local/api/v1/traefik-config'', url_scheme = ''http'',
           url_host_str = Some ''pangolin.local'', url_port_or_known_default = Some 80\<rparr>),
         (''https://pangolin.local/api/v1/traefik-config'',
          \<lparr>url_as_str = ''https://pangolin.local/api/v1/traefik-config'', url_scheme = ''https'',
           url_host_str = Some ''pangolin.local'', url_port_or_known_default = Some 443\<rparr>)],
      parse_duration = map_of [(''15s'', from_secs 15), (''45s'', from_secs 45), (''10m'', from_secs 600)]\<rparr>"

definition test_from_env_rejects :: bool where
  "test_from_env_rejects \<longleftrightarrow>
     from_env smoke_pf Map.empty = Inl (MissingEnv ''CONFIG_ENDPOINT'') \<and>
     from_env smoke_pf (map_of
       [(''CONFIG_ENDPOINT'', ''http://pangolin.local/api/v1/traefik-config''), (''CONFIG_PARENT_GATEWAY'', ''eg'')]) =
       Inl InsecureHttpNotAllowed \<and>
     from_env smoke_pf (map_of
       [(''CONFIG_ENDPOINT'', ''https://pangolin.local/api/v1/traefik-config''), (''CONFIG_PARENT_GATEWAY'', ''eg''),
        (''CONFIG_TLS_SKIP_VERIFY'', ''true'')]) = Inl TlsSkipVerifyNotAcknowledged"

definition test_from_env_defaults :: bool where
  "test_from_env_defaults \<longleftrightarrow>
     (case from_env smoke_pf (map_of
        [(''CONFIG_ENDPOINT'', ''https://pangolin.local/api/v1/traefik-config''), (''CONFIG_PARENT_GATEWAY'', ''eg'')]) of
        Inl e \<Rightarrow> False
      | Inr cfg \<Rightarrow>
          url_as_str (cfg_pangolin_endpoint cfg) = ''https://pangolin.local/api/v1/traefik-config'' \<and>
          cfg_parent_gateway cfg = ''eg'' \<and> cfg_namespace cfg = ''default'' \<and>
          cfg_listener_set_name cfg = ''pangolin'' \<and> cfg_field_manager cfg = ''pangolin-gateway-controller'' \<and>
          cfg_backend_kind cfg = EnvoyBackendKind \<and> cfg_http_port cfg = 80 \<and> cfg_https_port cfg = 443 \<and>
          cfg_enable_https_listeners cfg \<and> \<not> cfg_enable_tcp_routes cfg \<and> \<not> cfg_enable_udp_routes cfg \<and>
          cfg_ext_authz cfg = None \<and> \<not> cfg_allow_unauthenticated_routes cfg \<and>
          cfg_health_listen cfg = Some ''0.0.0.0:8081'' \<and> \<not> cfg_tls_skip_verify cfg \<and> \<not> cfg_read_only cfg \<and>
          cfg_httproute_annotations cfg = [] \<and> cfg_listenerset_annotations cfg = [])"

definition full_env :: env where
  "full_env = map_of
     [(''CONFIG_ENDPOINT'', ''https://pangolin.local/api/v1/traefik-config''), (''CONFIG_PARENT_GATEWAY'', ''eg''),
      (''CONFIG_AUTH_HEADER'', ''Bearer xyz''), (''CONFIG_FETCH_TIMEOUT'', ''15s''), (''CONFIG_POLL_INTERVAL'', ''45s''),
      (''CONFIG_MAX_BACKOFF'', ''10m''), (''CONFIG_MAX_RESPONSE_BODY_BYTES'', ''1048576''),
      (''CONFIG_NAMESPACE'', ''pangolin-system''), (''CONFIG_PARENT_GATEWAY_NAMESPACE'', ''envoy-gateway-system''),
      (''CONFIG_LISTENERSET_NAME'', ''pangolin-set''), (''CONFIG_HTTP_PORT'', ''8080''), (''CONFIG_HTTPS_PORT'', ''8443''),
      (''CONFIG_ENABLE_HTTPS_LISTENERS'', ''false''), (''CONFIG_ENABLE_TCP_ROUTES'', ''true''),
      (''CONFIG_ENABLE_UDP_ROUTES'', ''true''), (''CONFIG_BACKEND_KIND'', ''service''),
      (''CONFIG_EXT_AUTHZ_SERVICE'', ''badger-shim''), (''CONFIG_EXT_AUTHZ_NAMESPACE'', ''auth-system''),
      (''CONFIG_EXT_AUTHZ_PORT'', ''9001''), (''CONFIG_EXT_AUTHZ_PATH'', ''/verify''),
      (''CONFIG_EXT_AUTHZ_HEADERS_TO_BACKEND'', ''x-user-id, x-org-id''), (''CONFIG_HEALTH_LISTEN'', ''off''),
      (''CONFIG_TLS_SECRET_TEMPLATE'', ''{hostname-dashed}-tls''), (''CONFIG_TLS_SECRET_NAMESPACE'', ''certs''),
      (''CONFIG_HTTPROUTE_ANNOTATIONS'', ''cert-manager.io/cluster-issuer=letsencrypt-prod, foo=bar''),
      (''CONFIG_LISTENERSET_ANNOTATIONS'', ''cert-manager.io/cluster-issuer=letsencrypt-prod''),
      (''CONFIG_READ_ONLY'', ''true'')]"

definition test_from_env_overrides :: bool where
  "test_from_env_overrides \<longleftrightarrow>
     (case from_env smoke_pf full_env of
        Inl e \<Rightarrow> False
      | Inr cfg \<Rightarrow>
          cfg_auth_header cfg = Some ''Bearer xyz'' \<and> cfg_fetch_timeout cfg = from_secs 15 \<and>
          cfg_poll_interval cfg = from_secs 45 \<and> cfg_max_backoff cfg = from_secs 600 \<and>
          cfg_max_response_body_bytes cfg = 1048576 \<and> cfg_namespace cfg = ''pangolin-system'' \<and>
          cfg_parent_gateway_namespace cfg = Some ''envoy-gateway-system'' \<and>
          cfg_listener_set_name cfg = ''pangolin-set'' \<and> cfg_http_port cfg = 8080 \<and> cfg_https_port cfg = 8443 \<and>
          \<not> cfg_enable_https_listeners cfg \<and> cfg_enable_tcp_routes cfg \<and> cfg_enable_udp_routes cfg \<and>
          cfg_backend_kind cfg = ServiceKind \<and>
          (case cfg_ext_authz cfg of
             None \<Rightarrow> False
           | Some ea \<Rightarrow>
               eac_service ea = ''badger-shim'' \<and> eac_namespace ea = Some ''auth-system'' \<and> eac_port ea = 9001 \<and>
               eac_path ea = Some ''/verify'' \<and> eac_headers_to_ext_auth ea = [''cookie'', ''authorization''] \<and>
               eac_headers_to_backend ea = [''x-user-id'', ''x-org-id'']) \<and>
          cfg_health_listen cfg = None \<and> cfg_tls_secret_template cfg = Some ''{hostname-dashed}-tls'' \<and>
          cfg_tls_secret_namespace cfg = Some ''certs'' \<and> length (cfg_httproute_annotations cfg) = 2 \<and>
          bt_get (cfg_httproute_annotations cfg) ''cert-manager.io/cluster-issuer'' = Some ''letsencrypt-prod'' \<and>
          length (cfg_listenerset_annotations cfg) = 1 \<and> cfg_read_only cfg \<and>
          managed_selector cfg =
            ''app.kubernetes.io/managed-by=pangolin-gateway-controller,pangolin.envisia.de/instance=default'')"

lemma env_words:
  "to_ascii_lowercase ''true'' = ''true''" "to_ascii_lowercase ''false'' = ''false''"
  "backend_kind_parse ''service'' = Inr ServiceKind"
  by code_simp+

lemma env_numbers:
  "parse_u64 ''1048576'' = Some 1048576" "parse_i32 ''8080'' = Some 8080" "parse_i32 ''8443'' = Some 8443"
  "parse_i32 ''9001'' = Some 9001"
  by (simp_all add: parse_u64_def parse_i32_def parse_unsigned_def is_digit_def byte_def)

lemmas env_defs = from_env_def endpoint_env_def required_env_def bool_env_def duration_env_def u64_env_def
  i32_env_def ext_authz_env_def health_env_def optional_env_def or_default_def
  smoke_pf_def ok_or_def Let_def env_words env_numbers

lemma full_env_values:
  "full_env ''CONFIG_EXT_AUTHZ_SERVICE'' = Some ''badger-shim''"
  "full_env ''CONFIG_EXT_AUTHZ_PORT'' = Some ''9001''"
  "full_env ''CONFIG_EXT_AUTHZ_NAMESPACE'' = Some ''auth-system''"
  "full_env ''CONFIG_EXT_AUTHZ_PATH'' = Some ''/verify''"
  "full_env ''CONFIG_EXT_AUTHZ_HEADERS_TO_EXT_AUTH'' = None" "full_env ''CONFIG_HEALTH_LISTEN'' = Some ''off''"
  "full_env ''CONFIG_ENDPOINT'' = Some ''https://pangolin.local/api/v1/traefik-config''"
  "full_env ''CONFIG_TLS_SKIP_VERIFY'' = None"
  "full_env ''I_UNDERSTAND_CONFIG_TLS_SKIP_VERIFY_IS_INSECURE'' = None"
  "full_env ''CONFIG_ALLOW_INSECURE_HTTP'' = None" "full_env ''CONFIG_FETCH_TIMEOUT'' = Some ''15s''"
  "full_env ''CONFIG_POLL_INTERVAL'' = Some ''45s''" "full_env ''CONFIG_MAX_BACKOFF'' = Some ''10m''"
  "full_env ''CONFIG_MAX_RESPONSE_BODY_BYTES'' = Some ''1048576''"
  "full_env ''CONFIG_PARENT_GATEWAY'' = Some ''eg''" "full_env ''CONFIG_HTTP_PORT'' = Some ''8080''"
  "full_env ''CONFIG_HTTPS_PORT'' = Some ''8443''" "full_env ''CONFIG_ENABLE_HTTPS_LISTENERS'' = Some ''false''"
  "full_env ''CONFIG_ENABLE_TCP_ROUTES'' = Some ''true''"
  "full_env ''CONFIG_ENABLE_UDP_ROUTES'' = Some ''true''" "full_env ''CONFIG_BACKEND_KIND'' = Some ''service''"
  "full_env ''CONFIG_ALLOW_UNAUTHENTICATED_ROUTES'' = None" "full_env ''CONFIG_READ_ONLY'' = Some ''true''"
  "full_env ''CONFIG_LOG_TRAEFIK_CONFIG'' = None" "full_env ''CONFIG_AUTH_HEADER'' = Some ''Bearer xyz''"
  "full_env ''CONFIG_CA_FILE'' = None" "full_env ''CONFIG_NAMESPACE'' = Some ''pangolin-system''"
  "full_env ''CONFIG_PARENT_GATEWAY_NAMESPACE'' = Some ''envoy-gateway-system''"
  "full_env ''CONFIG_LISTENERSET_NAME'' = Some ''pangolin-set''"
  "full_env ''CONFIG_TLS_SECRET_TEMPLATE'' = Some ''{hostname-dashed}-tls''"
  "full_env ''CONFIG_TLS_SECRET_NAMESPACE'' = Some ''certs''" "full_env ''CONFIG_FIELD_MANAGER'' = None"
  "full_env ''CONFIG_MANAGED_LABEL_KEY'' = None" "full_env ''CONFIG_MANAGED_LABEL_VALUE'' = None"
  "full_env ''CONFIG_INSTANCE_LABEL_KEY'' = None" "full_env ''CONFIG_INSTANCE_LABEL_VALUE'' = None"
  "full_env ''CONFIG_MANAGED_ANNOTATION_KEY'' = None" "full_env ''CONFIG_MANAGED_ANNOTATION_VALUE'' = None"
  by (code_simp)+

lemma full_env_lists:
  "parse_kv_env full_env ''CONFIG_HTTPROUTE_ANNOTATIONS'' =
     Inr [(''cert-manager.io/cluster-issuer'', ''letsencrypt-prod''), (''foo'', ''bar'')]"
  "parse_kv_env full_env ''CONFIG_LISTENERSET_ANNOTATIONS'' =
     Inr [(''cert-manager.io/cluster-issuer'', ''letsencrypt-prod'')]"
  "csv_env full_env ''CONFIG_EXT_AUTHZ_HEADERS_TO_EXT_AUTH'' d = d"
  "csv_env full_env ''CONFIG_EXT_AUTHZ_HEADERS_TO_BACKEND'' d = [''x-user-id'', ''x-org-id'']"
  by code_simp+

lemma config_smoke_tests:
  test_backend_kind_parses_known_spellings test_from_env_rejects test_from_env_defaults test_from_env_overrides
proof -
  show test_backend_kind_parses_known_spellings by code_simp
  show test_from_env_rejects by (simp add: test_from_env_rejects_def env_defs)
  show test_from_env_defaults by (simp add: test_from_env_defaults_def env_defs parse_kv_env_def)
  show test_from_env_overrides
    by (simp add: test_from_env_overrides_def full_env_values full_env_lists env_defs managed_selector_def bt_get_def)
qed

section \<open>The binary: \<^verbatim>\<open>tests/bin_smoke.rs\<close>\<close>

definition test_binary_rejects_missing_config_endpoint ::
  "platform \<Rightarrow> client_lib \<Rightarrow> host \<Rightarrow> turn list \<Rightarrow> string \<Rightarrow> bool" where
  "test_binary_rejects_missing_config_endpoint pf lib host ts path \<longleftrightarrow>
     (case controller_main pf lib [''PATH'' \<mapsto> path] host ts of
        Exited code log \<Rightarrow> code = 2 \<and> from_env pf [''PATH'' \<mapsto> path] = Inl (MissingEnv ''CONFIG_ENDPOINT'')
      | Alive listen st \<Rightarrow> False)"

lemma bin_smoke_test: "test_binary_rejects_missing_config_endpoint pf lib host ts path"
  by (simp add: test_binary_rejects_missing_config_endpoint_def controller_main_def from_env_def endpoint_env_def
      required_env_def ok_or_def)

section \<open>The client: \<^verbatim>\<open>tests/pangolin_client_smoke.rs\<close>\<close>

definition config_pointing_at :: "url \<Rightarrow> config" where
  "config_pointing_at server =
     \<lparr>cfg_pangolin_endpoint = server, cfg_auth_header = Some ''Bearer test-token'',
      cfg_fetch_timeout = from_secs 5, cfg_poll_interval = from_secs 30, cfg_max_backoff = from_secs 60,
      cfg_max_response_body_bytes = 2 ^ 16, cfg_tls_skip_verify = False, cfg_ca_file = None,
      cfg_namespace = ''gateway'', cfg_parent_gateway = ''eg'', cfg_parent_gateway_namespace = Some ''gateway'',
      cfg_listener_set_name = ''pangolin'', cfg_http_port = 80, cfg_https_port = 443,
      cfg_enable_https_listeners = False, cfg_enable_tcp_routes = False, cfg_enable_udp_routes = False,
      cfg_backend_kind = ServiceKind, cfg_ext_authz = None, cfg_allow_unauthenticated_routes = False,
      cfg_tls_secret_template = None, cfg_tls_secret_namespace = None,
      cfg_field_manager = ''pangolin-gateway-controller'',
      cfg_managed_label_key = ''app.kubernetes.io/managed-by'', cfg_managed_label_value = ''pangolin-gateway-controller'',
      cfg_instance_label_key = ''pangolin.envisia.de/instance'', cfg_instance_label_value = ''default'',
      cfg_managed_annotation_key = ''pangolin.envisia.de/source'',
      cfg_managed_annotation_value = ''pangolin-gateway-controller'', cfg_httproute_annotations = [],
      cfg_listenerset_annotations = [], cfg_read_only = False, cfg_log_traefik_config = False, cfg_health_listen = None\<rparr>"

definition server_url :: url where
  "server_url = shim_test_url ''http://127.0.0.1:4000/api/v1/traefik-config''"

definition empty_config_json :: string where
  "empty_config_json = ''{\"http\":{\"routers\":{},\"services\":{}}}''"

definition parse_empty_config :: "string \<Rightarrow> json option" where
  "parse_empty_config raw =
     (if raw = empty_config_json then
        Some (json_object [(''http'', json_object [(''routers'', json_object []), (''services'', json_object [])])])
      else None)"

text \<open>A response of the test's server: it announces the length of its body.\<close>

definition canned :: "nat \<Rightarrow> string option \<Rightarrow> string \<Rightarrow> http_reply" where
  "canned status etag body = \<lparr>hrep_status = status, hrep_etag = etag, hrep_content_length = Some (length body),
     hrep_text = Some body, hrep_bytes = Some body\<rparr>"

text \<open>The client is built from the configuration, which must succeed, and used.\<close>

definition with_client :: "config \<Rightarrow> (client \<Rightarrow> bool) \<Rightarrow> bool" where
  "with_client cfg use_client =
     (case client_new shim_test_pf (\<lambda>_. None) (\<lambda>_. False) (\<lambda>_. True) cfg of
        Inl e \<Rightarrow> False | Inr cl \<Rightarrow> use_client cl)"

definition test_fetch_200_returns_changed_with_etag_and_digest :: "(string \<Rightarrow> string) \<Rightarrow> bool" where
  "test_fetch_200_returns_changed_with_etag_and_digest sha \<longleftrightarrow>
     with_client (config_pointing_at server_url) (\<lambda>cl.
       (case fetch (json_client sha parse_empty_config) cl (Some (canned 200 (Some ''\"abc123\"'') empty_config_json)) of
          Inr (Changed c) \<Rightarrow>
            cc_etag c = Some ''\"abc123\"'' \<and> cc_raw_bytes c = length empty_config_json \<and>
            length (cc_digest c) = 64 \<and> list_all (\<lambda>ch. to_digit 16 ch \<noteq> None) (cc_digest c)
        | _ \<Rightarrow> False) \<and>
       (let headers = map_of (fr_headers (fetch_request_of cl None))
        in headers ''authorization'' = Some ''Bearer test-token'' \<and> headers ''accept'' = Some ''application/json'' \<and>
           headers ''if-none-match'' = None))"

definition test_fetch_with_etag_sends_if_none_match_and_handles_304 :: "(string \<Rightarrow> string) \<Rightarrow> bool" where
  "test_fetch_with_etag_sends_if_none_match_and_handles_304 sha \<longleftrightarrow>
     with_client (config_pointing_at server_url) (\<lambda>cl.
       fetch (json_client sha parse_empty_config) cl (Some (canned 304 None [])) = Inr NotModified \<and>
       map_of (fr_headers (fetch_request_of cl (Some ''\"abc123\"''))) ''if-none-match'' = Some ''\"abc123\"'')"

definition test_fetch_5xx_is_an_error_with_truncated_body :: "(string \<Rightarrow> string) \<Rightarrow> bool" where
  "test_fetch_5xx_is_an_error_with_truncated_body sha \<longleftrightarrow>
     with_client (config_pointing_at server_url) (\<lambda>cl.
       case fetch (json_client sha parse_empty_config) cl (Some (canned 503 None (replicate 4096 (CHR ''x'')))) of
         Inl (BadStatus status excerpt) \<Rightarrow> status = 503
       | _ \<Rightarrow> False)"

definition test_fetch_rejects_oversize_body :: "(string \<Rightarrow> string) \<Rightarrow> bool" where
  "test_fetch_rejects_oversize_body sha \<longleftrightarrow>
     with_client ((config_pointing_at server_url)\<lparr>cfg_max_response_body_bytes := 1024\<rparr>) (\<lambda>cl.
       case fetch (json_client sha parse_empty_config) cl (Some (canned 200 None (replicate 10000 (CHR ''{'')))) of
         Inl (AnnouncedTooLarge n) \<Rightarrow> True
       | Inl (BodyTooLarge n) \<Rightarrow> True
       | _ \<Rightarrow> False)"

text \<open>SHA-256 in hexadecimal has 64 digits, of which the first test makes use.\<close>

lemma client_smoke_tests:
  "(\<And>s. length (sha s) = 64 \<and> list_all (\<lambda>ch. to_digit 16 ch \<noteq> None) (sha s)) \<Longrightarrow>
     test_fetch_200_returns_changed_with_etag_and_digest sha"
  "test_fetch_with_etag_sends_if_none_match_and_handles_304 sha"
  "test_fetch_5xx_is_an_error_with_truncated_body sha" "test_fetch_rejects_oversize_body sha"
proof -
  note client = with_client_def client_new_def config_pointing_at_def server_url_def shim_test_pf_def shim_test_url_def
    Let_def ok_or_def fetch_def canned_def is_success_def json_client_def parse_empty_config_def fetch_request_of_def
  have doc: "dec_traefik_dynamic_config (json_object [(''http'', json_object
      [(''routers'', json_object []), (''services'', json_object [])])]) =
      Some \<lparr>tdc_http = default_http_config, tdc_tcp = None, tdc_udp = None\<rparr>" by (simp add: exec)
  show "test_fetch_200_returns_changed_with_etag_and_digest sha"
    if "\<And>s. length (sha s) = 64 \<and> list_all (\<lambda>ch. to_digit 16 ch \<noteq> None) (sha s)"
    using that
    by (simp add: test_fetch_200_returns_changed_with_etag_and_digest_def client doc) (simp add: empty_config_json_def)
  show "test_fetch_with_etag_sends_if_none_match_and_handles_304 sha"
    by (simp add: test_fetch_with_etag_sends_if_none_match_and_handles_304_def client)
  show "test_fetch_5xx_is_an_error_with_truncated_body sha"
    by (simp add: test_fetch_5xx_is_an_error_with_truncated_body_def client)
  show "test_fetch_rejects_oversize_body sha"
    by (simp add: test_fetch_rejects_oversize_body_def client)
qed

end
