(* ===== verification/Transform_Tests.thy ===== *)
theory Transform_Tests
  imports Pangolin_Wire Unit_Tests
begin

text \<open>
  The tests of \<^verbatim>\<open>tests/transform.rs\<close> that state their input in the code: from the JSON document, through
  the decoder, to the desired state.
\<close>

definition test_config :: config where
  "test_config =
     \<lparr>cfg_pangolin_endpoint = snd (http_url ''http://pangolin.local/api/v1/traefik-config'' ''http'' ''pangolin.local'' 80),
      cfg_auth_header = None, cfg_fetch_timeout = from_secs 10, cfg_poll_interval = from_secs 30,
      cfg_max_backoff = from_secs 60, cfg_max_response_body_bytes = 2 ^ 20, cfg_tls_skip_verify = False,
      cfg_ca_file = None, cfg_namespace = ''gateway'', cfg_parent_gateway = ''eg'',
      cfg_parent_gateway_namespace = Some ''gateway'', cfg_listener_set_name = ''pangolin'', cfg_http_port = 80,
      cfg_https_port = 443, cfg_enable_https_listeners = True, cfg_enable_tcp_routes = True,
      cfg_enable_udp_routes = True, cfg_backend_kind = ServiceKind, cfg_ext_authz = None,
      cfg_allow_unauthenticated_routes = True, cfg_tls_secret_template = Some ''{hostname-dashed}-tls'',
      cfg_tls_secret_namespace = None, cfg_field_manager = ''pangolin-gateway-controller'',
      cfg_managed_label_key = ''app.kubernetes.io/managed-by'', cfg_managed_label_value = ''pangolin-gateway-controller'',
      cfg_instance_label_key = ''pangolin.envisia.de/instance'', cfg_instance_label_value = ''default'',
      cfg_managed_annotation_key = ''pangolin.envisia.de/source'',
      cfg_managed_annotation_value = ''pangolin-gateway-controller'', cfg_httproute_annotations = [],
      cfg_listenerset_annotations = [], cfg_read_only = False, cfg_log_traefik_config = False, cfg_health_listen = None\<rparr>"

definition desired_from :: "(string \<times> url) list \<Rightarrow> config \<Rightarrow> json \<Rightarrow> (desired \<Rightarrow> bool) \<Rightarrow> bool" where
  "desired_from urls cfg doc asserts =
     (case dec_traefik_dynamic_config doc of
        None \<Rightarrow> False | Some dyn \<Rightarrow> asserts (build_desired (url_table urls) cfg dyn))"

text \<open>\<^verbatim>\<open>expect\<close> and indexing at 0: the assertion fails when there is nothing.\<close>

definition expect :: "'a option \<Rightarrow> ('a \<Rightarrow> bool) \<Rightarrow> bool" where
  "expect x P = (case x of None \<Rightarrow> False | Some v \<Rightarrow> P v)"

definition first_of :: "'a list \<Rightarrow> ('a \<Rightarrow> bool) \<Rightarrow> bool" where
  "first_of xs P = (case xs of [] \<Rightarrow> False | x # _ \<Rightarrow> P x)"

text \<open>The first backend reference of the first rule.\<close>

definition first_backend_ref :: "http_route \<Rightarrow> (backend_ref \<Rightarrow> bool) \<Rightarrow> bool" where
  "first_backend_ref route P \<longleftrightarrow>
     expect (hroute_rules route) (\<lambda>rules. first_of rules (\<lambda>rule. expect (hr_backend_refs rule) (\<lambda>refs. first_of refs P)))"

text \<open>The HTTP block of the tests: routers, services with one server each, and the rest.\<close>

definition http_doc :: "(string \<times> json) list \<Rightarrow> (string \<times> string) list \<Rightarrow> (string \<times> json) list \<Rightarrow> json" where
  "http_doc routers services rest = json_object [(''http'', json_object
     ([(''routers'', json_object routers),
       (''services'', json_object (map (\<lambda>(n, url). (n, json_object [(''loadBalancer'', json_object
          [(''servers'', JArray [json_object [(''url'', JString url)]])])])) services))] @ rest))]"

definition router_doc :: "string \<Rightarrow> string \<Rightarrow> (string \<times> json) list \<Rightarrow> json" where
  "router_doc rule service rest = json_object ([(''rule'', JString rule), (''service'', JString service)] @ rest)"

definition l4_doc :: "string \<Rightarrow> string \<Rightarrow> (string \<times> json) list \<Rightarrow> string \<Rightarrow> string \<Rightarrow> json" where
  "l4_doc block n router service address = json_object [(block, json_object
     [(''routers'', json_object [(n, json_object (router @ [(''service'', JString service)]))]),
      (''services'', json_object [(service, json_object [(''loadBalancer'', json_object
         [(''servers'', JArray [json_object [(''address'', JString address)]])])])])])]"

declare expect_def [exec] first_of_def [exec] first_backend_ref_def [exec] http_doc_def [exec] router_doc_def [exec]
  l4_doc_def [exec] test_config_def [exec] desired_from_def [exec] http_url_def [exec] url_table_def [exec]

section \<open>Backends of HTTP services\<close>

definition test_envoy_backend_mode_emits_ip_backend :: bool where
  "test_envoy_backend_mode_emits_ip_backend \<longleftrightarrow>
     desired_from [http_url ''http://10.0.0.7:8080'' ''http'' ''10.0.0.7'' 8080]
       (test_config\<lparr>cfg_backend_kind := EnvoyBackendKind\<rparr>)
       (http_doc [(''r1'', router_doc ''Host(`api.example.com`)'' ''s1'' [])] [(''s1'', ''http://10.0.0.7:8080'')] [])
       (\<lambda>desired.
          d_services desired = [] \<and> d_endpoint_slices desired = [] \<and> length (d_envoy_backends desired) = 1 \<and>
          first_of (bt_values (d_envoy_backends desired)) (\<lambda>be. first_of (bspec_endpoints (eb_spec be)) (\<lambda>ep.
            expect (be_ip ep) (\<lambda>ip. bip_address ip = ''10.0.0.7'' \<and> bip_port ip = 8080) \<and> be_fqdn ep = None)) \<and>
          first_of (bt_values (d_http_routes desired)) (\<lambda>route. first_backend_ref route (\<lambda>rb.
            bref_group rb = Some ''gateway.envoyproxy.io'' \<and> bref_kind rb = Some ''Backend'')))"

definition test_envoy_backend_mode_emits_fqdn_endpoint :: bool where
  "test_envoy_backend_mode_emits_fqdn_endpoint \<longleftrightarrow>
     desired_from [http_url ''https://upstream.example.com'' ''https'' ''upstream.example.com'' 443]
       (test_config\<lparr>cfg_backend_kind := EnvoyBackendKind\<rparr>)
       (http_doc [(''r1'', router_doc ''Host(`pangolin.example.com`)'' ''s1'' [])]
          [(''s1'', ''https://upstream.example.com'')] [])
       (\<lambda>desired.
          length (d_envoy_backends desired) = 1 \<and>
          first_of (bt_values (d_envoy_backends desired)) (\<lambda>be. first_of (bspec_endpoints (eb_spec be)) (\<lambda>ep.
            be_ip ep = None \<and>
            expect (be_fqdn ep) (\<lambda>fqdn. bfqdn_hostname fqdn = ''upstream.example.com'' \<and> bfqdn_port fqdn = 443))))"

definition test_service_mode_drops_bare_fqdn :: bool where
  "test_service_mode_drops_bare_fqdn \<longleftrightarrow>
     desired_from [http_url ''https://upstream.example.com'' ''https'' ''upstream.example.com'' 443] test_config
       (http_doc [(''r1'', router_doc ''Host(`pangolin.example.com`)'' ''s1'' [])]
          [(''s1'', ''https://upstream.example.com'')] [])
       (\<lambda>desired. d_http_routes desired = [] \<and> d_services desired = [] \<and> d_envoy_backends desired = [])"

definition test_plain_http_targets_get_no_backend_tls :: bool where
  "test_plain_http_targets_get_no_backend_tls \<longleftrightarrow>
     desired_from [http_url ''http://10.0.0.8:8080'' ''http'' ''10.0.0.8'' 8080]
       (test_config\<lparr>cfg_backend_kind := EnvoyBackendKind\<rparr>)
       (http_doc [(''r1'', router_doc ''Host(`a.example.com`)'' ''s1'' [])] [(''s1'', ''http://10.0.0.8:8080'')] [])
       (\<lambda>desired.
          first_of (bt_values (d_envoy_backends desired)) (\<lambda>be. bspec_tls (eb_spec be) = None) \<and>
          d_backend_tls_policies desired = [])"

definition test_https_cluster_dns_in_envoy_mode_wraps_in_backend :: bool where
  "test_https_cluster_dns_in_envoy_mode_wraps_in_backend \<longleftrightarrow>
     desired_from
       [http_url ''https://echo.other-ns.svc.cluster.local:8443'' ''https'' ''echo.other-ns.svc.cluster.local'' 8443]
       (test_config\<lparr>cfg_backend_kind := EnvoyBackendKind\<rparr>)
       (http_doc [(''r1'', router_doc ''Host(`a.example.com`)'' ''s1'' [])]
          [(''s1'', ''https://echo.other-ns.svc.cluster.local:8443'')] [])
       (\<lambda>desired.
          length (d_envoy_backends desired) = 1 \<and>
          first_of (bt_values (d_envoy_backends desired)) (\<lambda>be.
            first_of (bspec_endpoints (eb_spec be)) (\<lambda>ep.
              expect (be_fqdn ep) (\<lambda>fqdn. bfqdn_hostname fqdn = ''echo.other-ns.svc.cluster.local'')) \<and>
            expect (bspec_tls (eb_spec be)) (\<lambda>tls. bts_sni tls = Some ''echo.other-ns.svc.cluster.local'')) \<and>
          first_of (bt_values (d_http_routes desired)) (\<lambda>route. first_backend_ref route (\<lambda>rb.
            bref_kind rb = Some ''Backend'')))"

text \<open>The strings of these tests.\<close>

lemma backend_names:
  "prefixed_label pf ''hr'' ''r1'' = ''hr-r1''" "prefixed_label pf ''be'' ''s1'' = ''be-s1''"
  "dns_label pf ''pangolin'' = ''pangolin''"
  "dns_label pf ''http-api.example.com'' = ''http-api-example-com''"
  "dns_label pf ''https-api.example.com'' = ''https-api-example-com''"
  "dns_label pf ''http-pangolin.example.com'' = ''http-pangolin-example-com''"
  "dns_label pf ''https-pangolin.example.com'' = ''https-pangolin-example-com''"
  "dns_label pf ''http-a.example.com'' = ''http-a-example-com''"
  "dns_label pf ''https-a.example.com'' = ''https-a-example-com''"
  by (simp_all add: exec)

lemma backend_hosts:
  "parse_ip_addr ''10.0.0.7'' = Some (V4 10 0 0 7)" "show_ip_addr (V4 10 0 0 7) = ''10.0.0.7''"
  "parse_ip_addr ''10.0.0.8'' = Some (V4 10 0 0 8)" "show_ip_addr (V4 10 0 0 8) = ''10.0.0.8''"
  "parse_cluster_dns ''upstream.example.com'' = None"
  "parse_cluster_dns ''echo.other-ns.svc.cluster.local'' = Some (''echo'', ''other-ns'')"
  "trim_end_matches CHR '']'' (trim_start_matches CHR ''['' ''10.0.0.7'') = ''10.0.0.7''"
  "trim_end_matches CHR '']'' (trim_start_matches CHR ''['' ''10.0.0.8'') = ''10.0.0.8''"
  "trim_end_matches CHR '']'' (trim_start_matches CHR ''['' ''upstream.example.com'') = ''upstream.example.com''"
  "trim_end_matches CHR '']'' (trim_start_matches CHR ''['' ''echo.other-ns.svc.cluster.local'') =
     ''echo.other-ns.svc.cluster.local''"
  by code_simp+

lemma backend_no_address:
  "parse_ip_addr ''upstream.example.com'' = None" "parse_ip_addr ''echo.other-ns.svc.cluster.local'' = None"
  by (rule name_no_address; simp add: ip_char_def to_digit_def is_digit_def is_lower_def is_upper_def byte_def)+

lemma backend_rules:
  "parse ''Host(`api.example.com`)'' = default_rule\<lparr>pr_hosts := [''api.example.com'']\<rparr>"
  "parse ''Host(`pangolin.example.com`)'' = default_rule\<lparr>pr_hosts := [''pangolin.example.com'']\<rparr>"
  "parse ''Host(`a.example.com`)'' = default_rule\<lparr>pr_hosts := [''a.example.com'']\<rparr>"
  "render_secret_name ''{hostname-dashed}-tls'' ''api.example.com'' = ''api-example-com-tls''"
  "render_secret_name ''{hostname-dashed}-tls'' ''pangolin.example.com'' = ''pangolin-example-com-tls''"
  "render_secret_name ''{hostname-dashed}-tls'' ''a.example.com'' = ''a-example-com-tls''"
  by code_simp+

lemmas backend_strings = backend_names backend_hosts backend_no_address backend_rules map_filter_simps Let_def

lemma transform_backend_tests:
  test_envoy_backend_mode_emits_ip_backend test_envoy_backend_mode_emits_fqdn_endpoint
  test_service_mode_drops_bare_fqdn test_plain_http_targets_get_no_backend_tls
  test_https_cluster_dns_in_envoy_mode_wraps_in_backend
proof -
  show test_envoy_backend_mode_emits_ip_backend
    by (simp add: test_envoy_backend_mode_emits_ip_backend_def exec backend_strings del: leaf_defs parse_cluster_dns_def)
  show test_envoy_backend_mode_emits_fqdn_endpoint
    by (simp add: test_envoy_backend_mode_emits_fqdn_endpoint_def exec backend_strings del: leaf_defs parse_cluster_dns_def)
  show test_service_mode_drops_bare_fqdn
    by (simp add: test_service_mode_drops_bare_fqdn_def exec backend_strings del: leaf_defs parse_cluster_dns_def)
  show test_plain_http_targets_get_no_backend_tls
    by (simp add: test_plain_http_targets_get_no_backend_tls_def exec backend_strings del: leaf_defs parse_cluster_dns_def)
  show test_https_cluster_dns_in_envoy_mode_wraps_in_backend
    by (simp add: test_https_cluster_dns_in_envoy_mode_wraps_in_backend_def exec backend_strings
        del: leaf_defs parse_cluster_dns_def)
qed

section \<open>TCP and UDP\<close>

definition test_l4_ip_backend_in_envoy_mode_emits_backend_crd :: bool where
  "test_l4_ip_backend_in_envoy_mode_emits_backend_crd \<longleftrightarrow>
     desired_from [] (test_config\<lparr>cfg_backend_kind := EnvoyBackendKind\<rparr>)
       (l4_doc ''tcp'' ''db-router''
          [(''entryPoints'', JArray [JString ''tcp-5432'']), (''rule'', JString ''HostSNI(`*`)'')]
          ''db-service'' ''10.0.0.9:5432'')
       (\<lambda>desired.
          d_services desired = [] \<and> d_endpoint_slices desired = [] \<and> length (d_envoy_backends desired) = 1 \<and>
          first_of (d_envoy_backends desired) (\<lambda>(be_name, be).
            starts_with ''be-tcp-'' be_name \<and>
            first_of (bspec_endpoints (eb_spec be)) (\<lambda>ep.
              expect (be_ip ep) (\<lambda>ip. bip_address ip = ''10.0.0.9'' \<and> bip_port ip = 5432)) \<and>
            first_of (bt_values (d_tcp_routes desired)) (\<lambda>route.
              first_of (l4route_rules route) (\<lambda>rule. first_of rule (\<lambda>rb.
                bref_group rb = Some ''gateway.envoyproxy.io'' \<and> bref_kind rb = Some ''Backend'' \<and>
                bref_name rb = be_name)))))"

definition test_l4_udp_ip_backend_in_service_mode_uses_udp_protocol :: bool where
  "test_l4_udp_ip_backend_in_service_mode_uses_udp_protocol \<longleftrightarrow>
     desired_from [] test_config
       (l4_doc ''udp'' ''dns-router'' [(''entryPoints'', JArray [JString ''udp-53''])] ''dns-service'' ''10.0.0.53:53'')
       (\<lambda>desired.
          length (d_udp_routes desired) = 1 \<and> length (d_services desired) = 1 \<and>
          first_of (bt_values (d_services desired)) (\<lambda>svc. expect (svc_spec svc) (\<lambda>spec.
            expect (sspec_ports spec) (\<lambda>ports. first_of ports (\<lambda>port. sport_protocol port = Some ''UDP'')))) \<and>
          first_of (bt_values (d_endpoint_slices desired)) (\<lambda>eps.
            expect (es_ports eps) (\<lambda>ports. first_of ports (\<lambda>port. eport_protocol port = Some ''UDP''))))"

definition test_l4_concrete_sni_router_is_skipped :: bool where
  "test_l4_concrete_sni_router_is_skipped \<longleftrightarrow>
     desired_from [] test_config
       (l4_doc ''tcp'' ''sni-router''
          [(''entryPoints'', JArray [JString ''tcp-8883'']), (''rule'', JString ''HostSNI(`mqtt.example.com`)'')]
          ''mqtt-service'' ''10.0.0.4:8883'')
       (\<lambda>desired.
          d_tcp_routes desired = [] \<and>
          first_of (bt_values (d_listener_sets desired)) (\<lambda>ls. list_all (\<lambda>l. lis_protocol l \<noteq> ''TCP'') (lset_listeners ls)))"

lemma l4_names:
  "prefixed_label pf ''be-tcp'' ''db-service'' = ''be-tcp-db-service''"
  "prefixed_label pf ''tcp'' ''db-router'' = ''tcp-db-router''" "dns_label pf ''tcp-5432'' = ''tcp-5432''"
  "prefixed_label pf ''svc-udp'' ''dns-service'' = ''svc-udp-dns-service''"
  "prefixed_label pf ''eps-udp'' ''dns-service'' = ''eps-udp-dns-service''"
  "prefixed_label pf ''udp'' ''dns-router'' = ''udp-dns-router''" "dns_label pf ''udp-53'' = ''udp-53''"
  "prefixed_label pf ''svc-tcp'' ''mqtt-service'' = ''svc-tcp-mqtt-service''"
  "prefixed_label pf ''eps-tcp'' ''mqtt-service'' = ''eps-tcp-mqtt-service''"
  by (simp_all add: exec)

lemma l4_hosts:
  "parse_ip_addr ''10.0.0.9'' = Some (V4 10 0 0 9)" "show_ip_addr (V4 10 0 0 9) = ''10.0.0.9''"
  "parse_ip_addr ''10.0.0.53'' = Some (V4 10 0 0 53)" "show_ip_addr (V4 10 0 0 53) = ''10.0.0.53''"
  "parse_ip_addr ''10.0.0.4'' = Some (V4 10 0 0 4)" "show_ip_addr (V4 10 0 0 4) = ''10.0.0.4''"
  "trim_end_matches CHR '']'' (trim_start_matches CHR ''['' ''10.0.0.9'') = ''10.0.0.9''"
  "trim_end_matches CHR '']'' (trim_start_matches CHR ''['' ''10.0.0.53'') = ''10.0.0.53''"
  "trim_end_matches CHR '']'' (trim_start_matches CHR ''['' ''10.0.0.4'') = ''10.0.0.4''"
  "trim ''HostSNI(`*`)'' = ''HostSNI(`*`)''" "trim ''HostSNI(`mqtt.example.com`)'' = ''HostSNI(`mqtt.example.com`)''"
  by code_simp+

lemma l4_numbers:
  "show_nat 5432 = ''5432''" "show_nat 53 = ''53''" "show_nat 8883 = ''8883''"
  "show_int 5432 = ''5432''" "show_int 53 = ''53''"
  by (simp_all add: show_int_def show_nat_def show_radix.simps digit_char_def)

lemma l4_ports:
  "parse_l4_address ''10.0.0.9:5432'' = Some \<lparr>hp_host = ''10.0.0.9'', hp_port = 5432, hp_tls = False\<rparr>"
  "parse_l4_address ''10.0.0.53:53'' = Some \<lparr>hp_host = ''10.0.0.53'', hp_port = 53, hp_tls = False\<rparr>"
  "parse_l4_address ''10.0.0.4:8883'' = Some \<lparr>hp_host = ''10.0.0.4'', hp_port = 8883, hp_tls = False\<rparr>"
  "parse_entrypoint_port ''tcp-5432'' Tcp = Some 5432" "parse_entrypoint_port ''udp-53'' Udp = Some 53"
proof -
  have hosts: "list_all host_char ''10.0.0.9''" "list_all host_char ''10.0.0.53''" "list_all host_char ''10.0.0.4''"
    by code_simp+
  show "parse_l4_address ''10.0.0.9:5432'' = Some \<lparr>hp_host = ''10.0.0.9'', hp_port = 5432, hp_tls = False\<rparr>"
    "parse_l4_address ''10.0.0.53:53'' = Some \<lparr>hp_host = ''10.0.0.53'', hp_port = 53, hp_tls = False\<rparr>"
    "parse_l4_address ''10.0.0.4:8883'' = Some \<lparr>hp_host = ''10.0.0.4'', hp_port = 8883, hp_tls = False\<rparr>"
    using l4_numbers hosts parse_l4_address_plain [of "''10.0.0.9''" 5432] parse_l4_address_plain [of "''10.0.0.53''" 53]
      parse_l4_address_plain [of "''10.0.0.4''" 8883] by simp_all
  show "parse_entrypoint_port ''tcp-5432'' Tcp = Some 5432" "parse_entrypoint_port ''udp-53'' Udp = Some 53"
    using l4_numbers parse_entrypoint_show [of 5432 Tcp] parse_entrypoint_show [of 53 Udp] by simp_all
qed

lemmas l4_strings = l4_names l4_hosts l4_numbers(4,5) l4_ports backend_names(3) map_filter_simps Let_def

lemma transform_l4_tests:
  test_l4_ip_backend_in_envoy_mode_emits_backend_crd test_l4_udp_ip_backend_in_service_mode_uses_udp_protocol
  test_l4_concrete_sni_router_is_skipped
proof -
  show test_l4_ip_backend_in_envoy_mode_emits_backend_crd
    by (simp add: test_l4_ip_backend_in_envoy_mode_emits_backend_crd_def exec l4_strings del: leaf_defs)
  show test_l4_udp_ip_backend_in_service_mode_uses_udp_protocol
    by (simp add: test_l4_udp_ip_backend_in_service_mode_uses_udp_protocol_def exec l4_strings del: leaf_defs)
  show test_l4_concrete_sni_router_is_skipped
    by (simp add: test_l4_concrete_sni_router_is_skipped_def exec l4_strings del: leaf_defs)
qed

section \<open>Protected routers and redirects\<close>

text \<open>\<^verbatim>\<open>str::contains\<close>.\<close>

definition str_contains :: "string \<Rightarrow> string \<Rightarrow> bool" where
  "str_contains s pat \<longleftrightarrow> split_once_str pat s \<noteq> None"

definition badger_fixture :: json where
  "badger_fixture = http_doc
     [(''1-app-router'', router_doc ''Host(`app.example.com`)'' ''app-service''
         [(''entryPoints'', JArray [JString ''websecure'']), (''middlewares'', JArray [JString ''badger''])]),
      (''1-app-router-redirect'', router_doc ''Host(`app.example.com`)'' ''app-service''
         [(''entryPoints'', JArray [JString ''web'']), (''middlewares'', JArray [JString ''redirect-to-https''])])]
     [(''app-service'', ''http://10.0.0.7:8080'')]
     [(''middlewares'', json_object
         [(''redirect-to-https'', json_object [(''redirectScheme'', json_object [(''scheme'', JString ''https'')])]),
          (''badger'', json_object [(''plugin'', json_object [(''badger'', json_object
             [(''apiBaseUrl'', JString ''http://pangolin.pangolin-system.svc.cluster.local:3001/api/v1''),
              (''userSessionCookieName'', JString ''p_session_token'')])])])])]"

definition app_url :: "string \<times> url" where
  "app_url = http_url ''http://10.0.0.7:8080'' ''http'' ''10.0.0.7'' 8080"

declare str_contains_def [exec] badger_fixture_def [exec] app_url_def [exec]

definition test_protected_router_skipped_without_ext_authz :: bool where
  "test_protected_router_skipped_without_ext_authz \<longleftrightarrow>
     desired_from [app_url] (test_config\<lparr>cfg_allow_unauthenticated_routes := False\<rparr>) badger_fixture
       (\<lambda>desired.
          length (d_http_routes desired) = 1 \<and>
          list_all (\<lambda>name. str_contains name ''redirect'') (bt_keys (d_http_routes desired)) \<and>
          d_security_policies desired = [])"

definition test_protected_router_emitted_with_override :: bool where
  "test_protected_router_emitted_with_override \<longleftrightarrow>
     desired_from [app_url] (test_config\<lparr>cfg_allow_unauthenticated_routes := True\<rparr>) badger_fixture
       (\<lambda>desired. length (d_http_routes desired) = 2 \<and> d_security_policies desired = [])"

definition test_ext_authz_emits_security_policy_for_protected_route :: bool where
  "test_ext_authz_emits_security_policy_for_protected_route \<longleftrightarrow>
     desired_from [app_url]
       (test_config\<lparr>cfg_allow_unauthenticated_routes := False,
          cfg_ext_authz := Some \<lparr>eac_service = ''badger-shim'', eac_namespace = None, eac_port = 9001,
            eac_path = Some ''/verify'', eac_headers_to_ext_auth = [''cookie'', ''authorization''],
            eac_headers_to_backend = []\<rparr>\<rparr>)
       badger_fixture
       (\<lambda>desired.
          length (d_http_routes desired) = 2 \<and> length (d_security_policies desired) = 1 \<and>
          first_of (bt_values (d_security_policies desired)) (\<lambda>sp.
            first_of (sps_target_refs (sp_spec sp)) (\<lambda>target.
              ptr_kind target = ''HTTPRoute'' \<and> bt_contains (d_http_routes desired) (ptr_name target) \<and>
              \<not> str_contains (ptr_name target) ''redirect'') \<and>
            expect (sps_ext_auth (sp_spec sp)) (\<lambda>ext.
              ea_fail_open ext = Some False \<and>
              expect (ea_http ext) (\<lambda>http.
                first_of (heas_backend_refs http) (\<lambda>rb. eab_name rb = ''badger-shim'' \<and> eab_port rb = Some 9001) \<and>
                heas_path http = Some ''/verify'') \<and>
              ea_headers_to_ext_auth ext = Some [''cookie'', ''authorization''])))"

definition test_redirect_router_drops_backend_refs :: bool where
  "test_redirect_router_drops_backend_refs \<longleftrightarrow>
     desired_from [app_url] test_config
       (http_doc
          [(''plain-router'', router_doc ''Host(`web.example.com`)'' ''web-service''
              [(''entryPoints'', JArray [JString ''websecure''])]),
           (''redirect-router'', router_doc ''Host(`web.example.com`)'' ''web-service''
              [(''entryPoints'', JArray [JString ''web'']), (''middlewares'', JArray [JString ''to-https''])])]
          [(''web-service'', ''http://10.0.0.7:8080'')]
          [(''middlewares'', json_object
              [(''to-https'', json_object [(''redirectScheme'', json_object [(''scheme'', JString ''https'')])])])])
       (\<lambda>desired.
          let named = (\<lambda>pat r. case om_name (hroute_metadata r) of None \<Rightarrow> False | Some n \<Rightarrow> str_contains n pat) in
          length (d_http_routes desired) = 2 \<and>
          expect (find (named ''plain-router'') (bt_values (d_http_routes desired))) (\<lambda>plain.
            expect (hroute_rules plain) (\<lambda>rules. first_of rules (\<lambda>plain_rule.
              (case hr_backend_refs plain_rule of None \<Rightarrow> False | Some refs \<Rightarrow> refs \<noteq> []) \<and>
              (case hr_filters plain_rule of None \<Rightarrow> True | Some fs \<Rightarrow> fs = [])))) \<and>
          expect (find (named ''redirect-router'') (bt_values (d_http_routes desired))) (\<lambda>redirect.
            expect (hroute_rules redirect) (\<lambda>rules. first_of rules (\<lambda>redirect_rule.
              hr_backend_refs redirect_rule = None \<and>
              expect (hr_filters redirect_rule) (\<lambda>filters.
                length filters = 1 \<and> first_of filters (\<lambda>f. f_request_redirect f \<noteq> None))))))"

lemma badger_names:
  "prefixed_label pf ''hr'' ''1-app-router'' = ''hr-1-app-router''"
  "prefixed_label pf ''hr'' ''1-app-router-redirect'' = ''hr-1-app-router-redirect''"
  "prefixed_label pf ''sp'' ''hr-1-app-router'' = ''sp-hr-1-app-router''"
  "prefixed_label pf ''svc'' ''app-service'' = ''svc-app-service''"
  "prefixed_label pf ''eps'' ''app-service'' = ''eps-app-service''"
  "dns_label pf ''http-app.example.com'' = ''http-app-example-com''"
  "dns_label pf ''https-app.example.com'' = ''https-app-example-com''"
  "prefixed_label pf ''hr'' ''plain-router'' = ''hr-plain-router''"
  "prefixed_label pf ''hr'' ''redirect-router'' = ''hr-redirect-router''"
  "prefixed_label pf ''svc'' ''web-service'' = ''svc-web-service''"
  "prefixed_label pf ''eps'' ''web-service'' = ''eps-web-service''"
  "dns_label pf ''http-web.example.com'' = ''http-web-example-com''"
  "dns_label pf ''https-web.example.com'' = ''https-web-example-com''"
  by (simp_all add: exec)

lemma badger_rules:
  "parse ''Host(`app.example.com`)'' = default_rule\<lparr>pr_hosts := [''app.example.com'']\<rparr>"
  "parse ''Host(`web.example.com`)'' = default_rule\<lparr>pr_hosts := [''web.example.com'']\<rparr>"
  "render_secret_name ''{hostname-dashed}-tls'' ''app.example.com'' = ''app-example-com-tls''"
  "render_secret_name ''{hostname-dashed}-tls'' ''web.example.com'' = ''web-example-com-tls''"
  by code_simp+

lemmas badger_strings = badger_names badger_rules backend_names(3) backend_hosts map_filter_simps Let_def

lemma transform_badger_tests:
  test_protected_router_skipped_without_ext_authz test_protected_router_emitted_with_override
  test_ext_authz_emits_security_policy_for_protected_route test_redirect_router_drops_backend_refs
proof -
  show test_protected_router_skipped_without_ext_authz
    by (simp add: test_protected_router_skipped_without_ext_authz_def exec badger_strings del: leaf_defs parse_cluster_dns_def)
  show test_protected_router_emitted_with_override
    by (simp add: test_protected_router_emitted_with_override_def exec badger_strings del: leaf_defs parse_cluster_dns_def)
  show test_ext_authz_emits_security_policy_for_protected_route
    by (simp add: test_ext_authz_emits_security_policy_for_protected_route_def exec badger_strings
        del: leaf_defs parse_cluster_dns_def)
  show test_redirect_router_drops_backend_refs
    by (simp add: test_redirect_router_drops_backend_refs_def exec badger_strings del: leaf_defs parse_cluster_dns_def)
qed

section \<open>TLS to the backends, rewritten requests\<close>

definition test_https_ip_target_gets_backend_tls_in_envoy_mode :: bool where
  "test_https_ip_target_gets_backend_tls_in_envoy_mode \<longleftrightarrow>
     desired_from
       [http_url ''https://10.0.0.8:8443'' ''https'' ''10.0.0.8'' 8443,
        http_url ''https://10.0.0.9:8443'' ''https'' ''10.0.0.9'' 8443]
       (test_config\<lparr>cfg_backend_kind := EnvoyBackendKind\<rparr>)
       (json_object [(''http'', json_object
          [(''routers'', json_object
              [(''r1'', router_doc ''Host(`a.example.com`)'' ''verified'' []),
               (''r2'', router_doc ''Host(`b.example.com`)'' ''skipped'' [])]),
           (''services'', json_object
              [(''verified'', json_object [(''loadBalancer'', json_object
                  [(''servers'', JArray [json_object [(''url'', JString ''https://10.0.0.8:8443'')]])])]),
               (''skipped'', json_object [(''loadBalancer'', json_object
                  [(''servers'', JArray [json_object [(''url'', JString ''https://10.0.0.9:8443'')]]),
                   (''serversTransport'', JString ''skip-tls'')])])]),
           (''serversTransports'', json_object
              [(''skip-tls'', json_object [(''insecureSkipVerify'', JBool True)])])])])
       (\<lambda>desired.
          let addressed = (\<lambda>a b. first_of (bspec_endpoints (eb_spec b)) (\<lambda>ep.
                             expect (be_ip ep) (\<lambda>ip. bip_address ip = a))) in
          length (d_envoy_backends desired) = 2 \<and>
          expect (find (addressed ''10.0.0.8'') (bt_values (d_envoy_backends desired))) (\<lambda>verified.
            expect (bspec_tls (eb_spec verified)) (\<lambda>tls.
              bts_well_known_ca_certificates tls = Some ''System'' \<and> bts_insecure_skip_verify tls = None)) \<and>
          expect (find (addressed ''10.0.0.9'') (bt_values (d_envoy_backends desired))) (\<lambda>skipped.
            expect (bspec_tls (eb_spec skipped)) (\<lambda>tls.
              bts_insecure_skip_verify tls = Some True \<and> bts_well_known_ca_certificates tls = None)))"

definition test_https_cluster_dns_in_service_mode_emits_backend_tls_policy :: bool where
  "test_https_cluster_dns_in_service_mode_emits_backend_tls_policy \<longleftrightarrow>
     desired_from
       [http_url ''https://echo.gateway.svc.cluster.local:8443'' ''https'' ''echo.gateway.svc.cluster.local'' 8443,
        http_url ''https://echo.elsewhere.svc.cluster.local:8443'' ''https'' ''echo.elsewhere.svc.cluster.local'' 8443]
       test_config
       (http_doc
          [(''same-ns'', router_doc ''Host(`a.example.com`)'' ''same-ns-svc'' []),
           (''cross-ns'', router_doc ''Host(`b.example.com`)'' ''cross-ns-svc'' [])]
          [(''same-ns-svc'', ''https://echo.gateway.svc.cluster.local:8443''),
           (''cross-ns-svc'', ''https://echo.elsewhere.svc.cluster.local:8443'')] [])
       (\<lambda>desired.
          length (d_backend_tls_policies desired) = 1 \<and>
          first_of (bt_values (d_backend_tls_policies desired)) (\<lambda>btp.
            first_of (btp_target_refs btp) (\<lambda>target. btr_kind target = ''Service'' \<and> btr_name target = ''echo'') \<and>
            btv_hostname (btp_validation btp) = ''echo.gateway.svc.cluster.local'' \<and>
            btv_well_known_ca_certificates (btp_validation btp) = Some ''System'') \<and>
          length (d_http_routes desired) = 2)"

definition test_custom_host_header_becomes_url_rewrite :: bool where
  "test_custom_host_header_becomes_url_rewrite \<longleftrightarrow>
     desired_from [http_url ''http://10.0.0.8:8080'' ''http'' ''10.0.0.8'' 8080] test_config
       (http_doc
          [(''r1'', router_doc ''Host(`a.example.com`)'' ''s1''
              [(''middlewares'', JArray [JString ''hostset'', JString ''prefix''])])]
          [(''s1'', ''http://10.0.0.8:8080'')]
          [(''middlewares'', json_object
              [(''hostset'', json_object [(''headers'', json_object
                  [(''customRequestHeaders'', json_object
                      [(''Host'', JString ''internal.example.com''), (''X-Extra'', JString ''1'')]),
                   (''customResponseHeaders'', json_object [(''X-Resp'', JString ''2'')])])]),
               (''prefix'', json_object [(''addPrefix'', json_object [(''prefix'', JString ''/api'')])])])])
       (\<lambda>desired. first_of (bt_values (d_http_routes desired)) (\<lambda>route.
          expect (hroute_rules route) (\<lambda>rules. first_of rules (\<lambda>rule. expect (hr_filters rule) (\<lambda>filters.
            (let rewrites = List.map_filter f_url_rewrite filters
             in length rewrites = 1 \<and>
                first_of rewrites (\<lambda>rw. ur_hostname rw = Some ''internal.example.com'' \<and> ur_path rw \<noteq> None)) \<and>
            first_of (List.map_filter f_request_header_modifier filters) (\<lambda>req_mod. expect (hm_set req_mod) (\<lambda>hs.
              \<not> list_ex (\<lambda>h. eq_ignore_ascii_case (hs_name h) ''host'') hs \<and>
              list_ex (\<lambda>h. hs_name h = ''X-Extra'') hs)) \<and>
            first_of (List.map_filter f_response_header_modifier filters) (\<lambda>resp_mod. expect (hm_set resp_mod) (\<lambda>hs.
              first_of hs (\<lambda>h. hs_name h = ''X-Resp''))))))))"

lemma tls_test_names:
  "prefixed_label pf ''hr'' ''r2'' = ''hr-r2''" "prefixed_label pf ''be'' ''verified'' = ''be-verified''"
  "prefixed_label pf ''be'' ''skipped'' = ''be-skipped''"
  "dns_label pf ''http-b.example.com'' = ''http-b-example-com''"
  "dns_label pf ''https-b.example.com'' = ''https-b-example-com''"
  "prefixed_label pf ''hr'' ''same-ns'' = ''hr-same-ns''" "prefixed_label pf ''hr'' ''cross-ns'' = ''hr-cross-ns''"
  "prefixed_label pf ''svc'' ''s1'' = ''svc-s1''" "prefixed_label pf ''eps'' ''s1'' = ''eps-s1''"
  by (simp_all add: exec)

lemma tls_test_hosts:
  "parse_cluster_dns ''echo.gateway.svc.cluster.local'' = Some (''echo'', ''gateway'')"
  "parse_cluster_dns ''echo.elsewhere.svc.cluster.local'' = Some (''echo'', ''elsewhere'')"
  "trim_end_matches CHR '']'' (trim_start_matches CHR ''['' ''echo.gateway.svc.cluster.local'') =
     ''echo.gateway.svc.cluster.local''"
  "trim_end_matches CHR '']'' (trim_start_matches CHR ''['' ''echo.elsewhere.svc.cluster.local'') =
     ''echo.elsewhere.svc.cluster.local''"
  "parse ''Host(`b.example.com`)'' = default_rule\<lparr>pr_hosts := [''b.example.com'']\<rparr>"
  "render_secret_name ''{hostname-dashed}-tls'' ''b.example.com'' = ''b-example-com-tls''"
  by code_simp+

lemma tls_test_no_address:
  "parse_ip_addr ''echo.gateway.svc.cluster.local'' = None" "parse_ip_addr ''echo.elsewhere.svc.cluster.local'' = None"
  by (rule name_no_address; simp add: ip_char_def to_digit_def is_digit_def is_lower_def is_upper_def byte_def)+

lemmas tls_strings = tls_test_names tls_test_hosts tls_test_no_address l4_hosts backend_strings

lemma transform_tls_tests:
  test_https_ip_target_gets_backend_tls_in_envoy_mode
  test_https_cluster_dns_in_service_mode_emits_backend_tls_policy test_custom_host_header_becomes_url_rewrite
proof -
  show test_https_ip_target_gets_backend_tls_in_envoy_mode
    by (simp add: test_https_ip_target_gets_backend_tls_in_envoy_mode_def exec tls_strings
        del: leaf_defs parse_cluster_dns_def)
  show test_https_cluster_dns_in_service_mode_emits_backend_tls_policy
    by (simp add: test_https_cluster_dns_in_service_mode_emits_backend_tls_policy_def exec tls_strings
        del: leaf_defs parse_cluster_dns_def)
  show test_custom_host_header_becomes_url_rewrite
    by (simp add: test_custom_host_header_becomes_url_rewrite_def exec tls_strings
        del: leaf_defs parse_cluster_dns_def)
qed

end
