(* ===== verification/Spec2Isabelle.thy ===== *)
theory Spec2Isabelle
  imports Sim_Cluster Matching Bootstrap Authorization Unit_Tests Integration_Tests Transform_Tests
begin

text \<open>
  \<^bold>\<open>Pangolin gateway controller.\<close> The program polls Pangolin for its Traefik configuration,
  translates it into Kubernetes objects (Gateway API and Envoy Gateway) and applies them by
  server-side apply, removing the objects it no longer wants. A second binary, the shim, is
  the external authorization service that Envoy asks about every request to a protected
  resource. This development models both, from the strings up, and shows what they promise.

  \<^bold>\<open>Theories and sources\<close> (under \<^verbatim>\<open>src/\<close> of the crate, the examples under \<^verbatim>\<open>examples/\<close>)

  \<^item> \<open>Prelude\<close>, \<open>Rust_Str\<close>, \<open>BTree\<close>, \<open>Platform\<close>: generic lemmas and the rule collections
    (\<open>exec\<close>: definitions to evaluate, \<open>wf_intros\<close>, \<open>label_intros\<close>, \<open>rust_str\<close>); the operations of
    Rust's \<^verbatim>\<open>str\<close> on UTF-8 bytes; \<^verbatim>\<open>BTreeMap\<close> as sorted association lists, with the locale
    \<open>ordered_map\<close> that states its laws; what is taken from outside the repository.
  \<^item> \<open>Naming\<close> is \<^verbatim>\<open>transform/naming.rs\<close>, \<open>Rule\<close> is \<^verbatim>\<open>transform/rule.rs\<close>, \<open>Pangolin_Types\<close> is
    \<^verbatim>\<open>pangolin/types.rs\<close>, \<open>Kube_Types\<close> is \<^verbatim>\<open>envoy_gateway.rs\<close> with the desired state of
    \<^verbatim>\<open>transform/mod.rs\<close>, \<open>Config\<close> is \<^verbatim>\<open>config.rs\<close>, \<open>Ip_Addr\<close> the parser of \<^verbatim>\<open>std::net\<close>.
  \<^item> \<open>Apply\<close> is the metadata of \<^verbatim>\<open>apply.rs\<close>, the well-formedness of the desired state, and the
    locale \<open>desired_builder\<close>: the contract of every loop of the transform, interpreted in
    \<open>Backend\<close> (\<^verbatim>\<open>transform/backend.rs\<close>), \<open>Route\<close> (\<^verbatim>\<open>transform/route.rs\<close>) and \<open>L4\<close> (\<^verbatim>\<open>transform/l4.rs\<close>).
  \<^item> \<open>Middleware\<close> is \<^verbatim>\<open>transform/middleware.rs\<close>, \<open>Ext_Authz\<close> is \<^verbatim>\<open>transform/ext_authz.rs\<close>, \<open>Listener\<close>
    is \<^verbatim>\<open>transform/listener.rs\<close>, and \<open>Transform\<close> composes them like \<^verbatim>\<open>transform/mod.rs\<close>. \<open>Matching\<close>
    models no code: it says which requests a Traefik rule and an HTTPRoute select, and which rules
    of an HTTPRoute the API server admits, and compares the parser and the route builder with it.
    \<open>Authorization\<close> puts the policies of the controller and the shim together, with the locale
    \<open>ext_authz_proxy\<close> for the contract of Envoy between them.
  \<^item> \<open>Wire\<close> is what the \<^verbatim>\<open>serde\<close> attributes mean: reading a struct, a map, an option from a JSON document,
    writing one, and the locale \<open>wire_format\<close> for the types that are written and read back.
    \<open>Pangolin_Wire\<close> decodes Pangolin's answer (\<^verbatim>\<open>pangolin/types.rs\<close>), \<open>Envoy_Wire\<close> writes and reads the
    Envoy Gateway kinds (\<^verbatim>\<open>envoy_gateway.rs\<close>, ten interpretations of \<open>wire_format\<close>), \<open>Shim_Wire\<close> the bodies
    between the shim and Pangolin (\<^verbatim>\<open>shim.rs\<close>). \<open>Stored_Specs\<close> follows the ports of the desired state to
    show that what is sent has the widths of the wire.
  \<^item> \<open>Unit_Tests\<close> is the unit tests that stand in the source files, run on the model;
    \<open>Integration_Tests\<close> is \<^verbatim>\<open>tests/badger_shim.rs\<close>, \<^verbatim>\<open>tests/config_smoke.rs\<close>, \<^verbatim>\<open>tests/bin_smoke.rs\<close> and
    \<^verbatim>\<open>tests/pangolin_client_smoke.rs\<close>, and \<open>Transform_Tests\<close> the tests of \<^verbatim>\<open>tests/transform.rs\<close> that carry
    their input with them.
  \<^item> \<open>Client\<close> is \<^verbatim>\<open>pangolin/client.rs\<close>. \<open>Reconcile\<close> is \<^verbatim>\<open>reconcile_once\<close> of \<^verbatim>\<open>reconcile.rs\<close>, \<^verbatim>\<open>gc.rs\<close> and
    the patching of \<^verbatim>\<open>apply.rs\<close>; \<open>Cluster\<close> states the interface of the API server as the locales
    \<open>kubernetes_api\<close>, \<open>recovered_api\<close> and \<open>reliable_api\<close> and shows what a reconcile does to the cluster;
    \<open>Poll_Loop\<close> is \<^verbatim>\<open>run_loop\<close>. \<open>Health\<close> is \<^verbatim>\<open>health.rs\<close>, \<open>Shim\<close> is \<^verbatim>\<open>shim.rs\<close>, and \<open>Startup\<close> is
    \<^verbatim>\<open>main.rs\<close> and the shim's \<^verbatim>\<open>main\<close>.
  \<^item> \<open>Mock_Pangolin\<close> is \<^verbatim>\<open>examples/mock_pangolin.rs\<close>, down to the bytes of requests and answers, with
    the locale \<open>http_transport\<close> for the HTTP stack between it and the controller; \<open>Bootstrap\<close> is
    \<^verbatim>\<open>examples/pangolin_bootstrap.rs\<close>, steps over the session and the calls made so far, with
    Pangolin's REST API as a function of these calls.
  \<^item> \<open>Samples\<close> and \<open>Sim_Cluster\<close> hold concrete inputs, and the API servers and Pangolins to run
    against, at which the properties with hypotheses are applied; the server that works and the one
    that works again after an outage are interpretations of the locales.

  \<^bold>\<open>How state and effects are modelled.\<close> The desired state is the record \<open>desired\<close> of maps
  from names to objects, threaded through the stages exactly in the code's order. The
  Kubernetes API is a function from the requests made so far to a response, so a property that
  says nothing about it holds for any server, failing ones included. \<open>kubernetes_api\<close> is a server
  whose requests take effect or fail, \<open>recovered_api\<close> one that serves them all from some point on,
  \<open>reliable_api\<close> one that always does. Errors are values
  of a sum type. Loops over collections are folds or structural recursion. The poll loop runs
  over a finite list of turns, one per iteration; a turn is what the environment does (signals,
  and Pangolin as a function of the request, so that the entity tags that are sent matter), not
  fuel of the program, and every finite part of a run has its list. A process is a start-up
  followed by such a run; its value is an exit status or the state in which it is alive. No
  other bound is chosen.

  \<^bold>\<open>What the lemmas show.\<close> Each component has its own: canonical labels (\<open>Naming\<close>), parsing of
  printed rules (\<open>Rule\<close>), the specification of the classification loop and the relation
  \<open>emitted\<close> of what a backend stage may add (\<open>Backend\<close>), the normal form of merged filters
  (\<open>Middleware\<close>), the route loop as a comprehension (\<open>Route\<close>), the invariant of claimed ports
  (\<open>L4\<close>), the shape of a reconcile run (\<open>Reconcile\<close>), its effect on a cluster (\<open>Cluster\<close>), the
  invariants of the loop (\<open>Poll_Loop\<close>), the case analysis of a check (\<open>Shim\<close>), the
  requests that arrive in pieces (\<open>Mock_Pangolin\<close>), the calls that a step makes (\<open>Bootstrap\<close>), what a
  document must contain to be read as it is (\<open>Wire\<close>, \<open>Pangolin_Wire\<close>). Some
  lemmas are counterexamples to what a comment or the README promises: \<open>second_path_widens\<close> and
  \<open>exact_path_with_prefix_refused\<close> (\<open>Matching\<close>), \<open>stale_tag_kept\<close> and
  \<open>revert_after_failure_not_applied\<close> (\<open>Poll_Loop\<close>), \<open>health_route_bypasses_pangolin\<close> (\<open>Shim\<close>),
  \<open>healthz_open_without_path\<close> and \<open>path_confused_without_path\<close> (\<open>Authorization\<close>),
  \<open>equal_keys_select_nothing\<close> (\<open>Apply\<close>); where a property needs a hypothesis for such a reason, its text says so. The
  properties (numbered C1, C2, ...) stand at the end of the component they are about, and in this
  theory when they span components.

  \<^bold>\<open>Parameters.\<close> The hash of \<^verbatim>\<open>DefaultHasher\<close>, the \<^verbatim>\<open>url\<close> parser and the duration parser (record
  \<open>platform\<close>), SHA-256 and the parser of JSON text (\<open>client_lib\<close>, \<open>json_client\<close>), the form codec, the test for header
  values and Pangolin's answers (\<open>shim_lib\<close>), the JSON parser and the REST API (\<open>boot_lib\<close>). No
  property needs the hash of names to be injective; where the names of policies must not collide
  (\<open>own_policy_name\<close>) or the digests of responses must tell them
  apart, the property says so of the configuration or the responses of the run.

  \<^bold>\<open>Not modelled.\<close> The TLS and HTTP plumbing of tokio, axum, reqwest and kube. Log output, the texts
  of error messages and the conditions that \<^verbatim>\<open>report_status\<close> logs: they do not feed back into the
  program. Time itself: an iteration yields the duration to wait, and the waits for a signal or the
  end of the wait are inputs of a turn. The syntax of JSON: documents are values of \<open>json\<close>, numbers
  their digits. The JSON of the kinds that other crates define (Gateway API, core). The tests that
  need a cluster (\<^verbatim>\<open>tests/cluster_integration.rs\<close>, \<^verbatim>\<open>tests/e2e_pangolin.rs\<close>) and those of
  \<^verbatim>\<open>tests/transform.rs\<close> that load a file.
\<close>

section \<open>Protected routes\<close>

lemma desired_route_unprotected:
  assumes "cfg_ext_authz cfg = None" and "\<not> cfg_allow_unauthenticated_routes cfg"
    and "bt_get (d_http_routes (build_desired pf cfg dyn)) n = Some route"
  shows "\<exists>e \<in> set (hc_routers (tdc_http dyn)).
    \<not> protected (hc_middlewares (tdc_http dyn)) (snd e) \<and> n = route_name_of pf e \<and>
    route = route_of pf cfg (hc_middlewares (tdc_http dyn)) (fst (backend_stage pf cfg dyn)) e"
proof -
  have "(n, route) \<in> set (d_http_routes (snd (route_stage pf cfg dyn)))"
    using bt_get_SomeD [OF assms(3)] by (simp add: run_http_fields)
  with stage_runs(2) show ?thesis
  proof (cases rule: build_routes_routes)
    case (new e)
    then show ?thesis using assms(1,2) by (auto simp: emitting_def emits_def may_emit_def)
  qed (simp add: backend_stage_frame)
qed

text \<open>C3: Without an authorization service, and unless unauthenticated routes are allowed on purpose, every
  HTTPRoute of the desired state is the translation of a router that asks for no protection: a
  protected resource is never published open.\<close>

theorem fail_closed:
  assumes "cfg_ext_authz cfg = None" and "\<not> cfg_allow_unauthenticated_routes cfg"
    and "bt_get (d_http_routes (build_desired pf cfg dyn)) n = Some route"
  shows "\<exists>e \<in> set (hc_routers (tdc_http dyn)).
    \<not> protected (hc_middlewares (tdc_http dyn)) (snd e) \<and> n = route_name_of pf e \<and>
    route = route_of pf cfg (hc_middlewares (tdc_http dyn)) (fst (backend_stage pf cfg dyn)) e"
  using assms by (rule desired_route_unprotected)

theorem fail_closed_witness:
  "\<exists>e \<in> set (hc_routers (tdc_http sample_dyn)).
    \<not> protected (hc_middlewares (tdc_http sample_dyn)) (snd e) \<and> ''hr-a'' = route_name_of sample_pf e \<and>
    sample_route sample_cfg ''hr-a'' ''a'' =
      route_of sample_pf sample_cfg (hc_middlewares (tdc_http sample_dyn))
        (fst (backend_stage sample_pf sample_cfg sample_dyn)) e"
  by (rule fail_closed) (simp_all add: sample_cfg_fields sample_http bt_get_def)

text \<open>C5: With an authorization service, every HTTPRoute of a protected router whose policy name is shared with
  no other router's policy comes with a SecurityPolicy under this name that targets the route, asks
  the configured service and denies when the service is down. The names are not shared when all
  route names have at most 60 bytes (\<open>short_names_own_policy\<close>); longer ones are hashed, and on a
  collision of hashes one policy takes the place of the other.\<close>

theorem protected_guarded:
  assumes "cfg_ext_authz cfg = Some ea"
    and "own_policy_name pf dyn n"
    and "bt_get (d_http_routes (build_desired pf cfg dyn)) n = Some route"
  shows "\<exists>e \<in> set (hc_routers (tdc_http dyn)). n = route_name_of pf e \<and>
    route = route_of pf cfg (hc_middlewares (tdc_http dyn)) (fst (backend_stage pf cfg dyn)) e \<and>
    (protected (hc_middlewares (tdc_http dyn)) (snd e) \<longrightarrow>
      (\<exists>sp. bt_get (d_security_policies (build_desired pf cfg dyn)) (prefixed_label pf ''sp'' n) = Some sp \<and>
        guards ea n sp))"
proof -
  have "(n, route) \<in> set (d_http_routes (snd (route_stage pf cfg dyn)))"
    using bt_get_SomeD [OF assms(3)] by (simp add: run_http_fields)
  with stage_runs(2) show ?thesis
  proof (cases rule: build_routes_routes)
    case (new e)
    have e: "e \<in> set (hc_routers (tdc_http dyn))" using new(1) by (simp add: emitting_def)
    have "\<exists>sp. bt_get (d_security_policies (build_desired pf cfg dyn)) (prefixed_label pf ''sp'' n) = Some sp \<and>
        guards ea n sp" if "protected (hc_middlewares (tdc_http dyn)) (snd e)"
      using policy_found [OF stage_runs(2) _ new(1) that assms(1) assms(2) [unfolded new(2)]] new(2)
      by (simp add: run_http_fields backend_stage_frame guards_build)
    with e new show ?thesis by blast
  qed (simp add: backend_stage_frame)
qed

theorem protected_guarded_witness:
  "\<exists>e \<in> set (hc_routers (tdc_http sample_dyn)). ''hr-b'' = route_name_of sample_pf e \<and>
    sample_route authz_cfg ''hr-b'' ''b'' =
      route_of sample_pf authz_cfg (hc_middlewares (tdc_http sample_dyn))
        (fst (backend_stage sample_pf authz_cfg sample_dyn)) e \<and>
    (protected (hc_middlewares (tdc_http sample_dyn)) (snd e) \<longrightarrow>
      (\<exists>sp. bt_get (d_security_policies (build_desired sample_pf authz_cfg sample_dyn))
          (prefixed_label sample_pf ''sp'' ''hr-b'') = Some sp \<and> guards sample_authz ''hr-b'' sp))"
  by (rule protected_guarded) (simp_all add: sample_cfg_fields sample_http bt_get_def sample_own_policy)

lemma no_policies:
  assumes "cfg_ext_authz cfg = None" shows "d_security_policies (build_desired pf cfg dyn) = []"
proof -
  have none: "concat (map (policies_of pf cfg mws) es) = []" for mws es using assms by (simp add: policies_of_def)
  show ?thesis
    by (simp add: none run_http_fields route_stage_def build_routes_spec Let_def backend_stage_frame)
qed

section \<open>From the document\<close>

text \<open>C4: The protection of a router cannot get lost in decoding: with no authorization service, and unless
  unauthenticated routes are allowed on purpose, every HTTPRoute made from an answer of Pangolin belongs to a router for which the JSON
  document itself, read by its paths, asks for no protection.\<close>

theorem document_fail_closed:
  assumes "cfg_ext_authz cfg = None" and "\<not> cfg_allow_unauthenticated_routes cfg"
    and "fetch (json_client sha parse_json) cl (Some resp) = Inr (Changed c)"
    and "bt_get (d_http_routes (build_desired pf cfg (cc_config c))) n = Some route"
  shows "\<exists>raw doc. \<exists>e \<in> set (hc_routers (tdc_http (cc_config c))).
    hrep_bytes resp = Some raw \<and> parse_json raw = Some doc \<and> \<not> doc_protected doc (fst e) \<and>
    n = route_name_of pf e \<and>
    route = route_of pf cfg (hc_middlewares (tdc_http (cc_config c))) (fst (backend_stage pf cfg (cc_config c))) e"
proof -
  obtain raw doc where raw: "hrep_bytes resp = Some raw" "parse_json raw = Some doc"
    and dec: "dec_traefik_dynamic_config doc = Some (cc_config c)"
    using assms(3) by (auto simp: fetch_Changed_iff json_client_def reads_Some_iff)
  from desired_route_unprotected [OF assms(1,2,4)] obtain k r where e: "(k, r) \<in> set (hc_routers (tdc_http (cc_config c)))"
    and unprotected: "\<not> protected (hc_middlewares (tdc_http (cc_config c))) r"
    and route: "n = route_name_of pf (k, r)"
      "route = route_of pf cfg (hc_middlewares (tdc_http (cc_config c))) (fst (backend_stage pf cfg (cc_config c))) (k, r)"
    by auto
  have "bt_get (hc_routers (tdc_http (cc_config c))) k = Some r"
    using e bt_get_iff [OF decoded_routers_wf [OF dec]] by simp
  with protection_read [OF dec] unprotected have "\<not> doc_protected doc k" by blast
  with e raw route show ?thesis by (intro exI [of _ raw] exI [of _ doc] bexI [of _ "(k, r)"]) simp_all
qed

theorem document_fail_closed_witness:
  "\<exists>raw doc. \<exists>e \<in> set (hc_routers (tdc_http (cc_config sample_changed))).
    hrep_bytes sample_reply = Some raw \<and> (\<lambda>_. Some sample_doc) raw = Some doc \<and> \<not> doc_protected doc (fst e) \<and>
    ''hr-a'' = route_name_of sample_pf e \<and>
    sample_route sample_cfg ''hr-a'' ''a'' =
      route_of sample_pf sample_cfg (hc_middlewares (tdc_http (cc_config sample_changed)))
        (fst (backend_stage sample_pf sample_cfg (cc_config sample_changed))) e"
proof (rule document_fail_closed)
  show "fetch (json_client (\<lambda>s. s) (\<lambda>_. Some sample_doc)) sample_client (Some sample_reply) = Inr (Changed sample_changed)"
    by (simp add: fetch_def sample_changed_def json_client_def sample_client_def sample_reply_def ok_or_def
        is_success_def sample_doc_read)
qed (simp_all add: sample_cfg_fields sample_http bt_get_def sample_changed_def)

text \<open>C14: One HTTP router that has no rule or no service as a string makes Pangolin's whole answer unreadable:
  whatever the API server, the iteration sends nothing, keeps tag and digest and only backs off, so
  no other router is updated either.\<close>

theorem malformed_router_blocks:
  assumes "turn_pangolin t (fetch_request_of cl (lp_last_etag st)) = Some resp" and "hrep_status resp \<noteq> 304"
    and "hrep_bytes resp = Some raw" and "parse_json raw = Some doc"
    and "json_at doc [''http'', ''routers'', n] = Some (JObject kvs)" and "k \<in> {''rule'', ''service''}"
    and "reads (json_at (JObject kvs) [k]) json_as_str = None"
  shows "iteration pf cfg srv (poll (json_client sha parse_json) cl t (lp_last_etag st)) st =
    (lp_backoff st, st\<lparr>lp_backoff := min (lp_backoff st * 2) (cfg_max_backoff cfg)\<rparr>)"
proof -
  have "dec_router (JObject kvs) = None"
    by (rule broken_router [OF _ assms(6)])
       (use assms(7) in \<open>auto simp: reads_def simp del: json_at.simps split: option.splits\<close>)
  then have "dec_traefik_dynamic_config doc = None" by (rule bad_router_undecodable [OF assms(5)])
  then have "iteration pf cfg srv (poll (json_client sha parse_json) cl t (lp_last_etag st)) st = back_off cfg st"
    unfolding poll_def by (intro undecodable_backs_off) (use assms in \<open>auto simp: json_client_def\<close>)
  then show ?thesis by (simp add: back_off_def)
qed

theorem malformed_router_blocks_witness:
  "iteration sample_pf sample_cfg (sim_server sample_cfg)
     (poll (json_client (\<lambda>s. s) (\<lambda>_. Some broken_doc)) sample_client (sample_turn False) (lp_last_etag loop_init)) loop_init =
   (lp_backoff loop_init, loop_init\<lparr>lp_backoff := min (lp_backoff loop_init * 2) (cfg_max_backoff sample_cfg)\<rparr>)"
  by (rule malformed_router_blocks [of _ _ _ sample_reply "''{}''" _ broken_doc "''a''" "[(''rule'', JString ''Host(`a`)'')]" "''service''"])
     (simp_all add: sample_turn_def sample_pangolin_def loop_init_def if_none_match broken_doc_def sample_reply_def)

section \<open>The desired state\<close>

text \<open>C19: What the API server stores is what was sent: the spec of every Backend and SecurityPolicy of the
  desired state is read back from its JSON unchanged, its ports being those of \<^verbatim>\<open>i32\<close>. The URL
  crate's ports have 16 bits, and the configuration is one that \<^verbatim>\<open>from_env\<close> returns.\<close>

theorem specs_survive_wire:
  assumes "from_env pf env = Inr cfg" and "url_ports_ok pf"
  shows "(\<forall>b \<in> snd ` set (d_envoy_backends (build_desired pf cfg dyn)).
      dec_backend_spec (enc_backend_spec (eb_spec b)) = Some (eb_spec b)) \<and>
    (\<forall>sp \<in> snd ` set (d_security_policies (build_desired pf cfg dyn)).
      dec_policy_spec (enc_policy_spec (sp_spec sp)) = Some (sp_spec sp))"
proof (intro conjI ballI)
  fix b assume "b \<in> snd ` set (d_envoy_backends (build_desired pf cfg dyn))"
  with run_specs [OF assms(2), of cfg dyn] have "backend_spec_ok (eb_spec b)" by (auto simp: specs_ok_def)
  then show "dec_backend_spec (enc_backend_spec (eb_spec b)) = Some (eb_spec b)" by (rule backend_spec.read_back)
next
  fix sp assume "sp \<in> snd ` set (d_security_policies (build_desired pf cfg dyn))"
  then obtain k where sp: "(k, sp) \<in> set (d_security_policies (snd (route_stage pf cfg dyn)))"
    by (auto simp: run_http_fields)
  have "policy_spec_ok (sp_spec sp)"
  proof (cases "cfg_ext_authz cfg")
    case None
    then show ?thesis using no_policies [OF None] sp by (simp add: run_http_fields)
  next
    case (Some ea)
    from policies_built [OF stage_runs(2) sp _ Some] obtain n where "sp = build_security_policy pf cfg ea n"
      by (auto simp: backend_stage_frame)
    then show ?thesis using policy_spec_build [OF from_env_authz [OF assms(1) Some]] by simp
  qed
  then show "dec_policy_spec (enc_policy_spec (sp_spec sp)) = Some (sp_spec sp)" by (rule policy_spec.read_back)
qed

theorem specs_survive_wire_witness:
  "\<exists>b. bt_get (d_envoy_backends (build_desired sample_pf sample_cfg sample_dyn)) ''be-s'' = Some b \<and>
    dec_backend_spec (enc_backend_spec (eb_spec b)) = Some (eb_spec b)"
proof -
  obtain b where b: "bt_get (d_envoy_backends (build_desired sample_pf sample_cfg sample_dyn)) ''be-s'' = Some b"
    using desired_keeps_backends [of "''be-s''" sample_pf sample_cfg sample_dyn KBackend]
    by (auto simp: bt_get_map_values sample_backend_stage bt_keys_def)
  then have "b \<in> snd ` set (d_envoy_backends (build_desired sample_pf sample_cfg sample_dyn))"
    by (auto dest!: bt_get_SomeD intro: rev_image_eqI)
  moreover have "url_ports_ok sample_pf"
    by (simp add: url_ports_ok_def sample_pf_def sample_url_def sample_tls_url_def)
  ultimately show ?thesis using specs_survive_wire [OF main_from_env] b by blast
qed


text \<open>C17: For every configuration and every input, each object of the desired state is stored under its own
  name, which is a legal label, lies in the controller's namespace and carries the owner labels;
  the maps are sorted and without duplicates.\<close>

theorem desired_well_formed: "wf_desired cfg (build_desired pf cfg dyn)"
  by (rule run_wf)

text \<open>C30: When the managed and the instance label have different keys, and neither is the key of the
  \<^verbatim>\<open>kubernetes.io/service-name\<close> label, every object of the desired state is of the kind it is stored
  under, and the controller's label selector finds it again, so that garbage collection can see it.
  The configuration does not enforce this: with equal keys the selector finds no object
  (\<open>equal_keys_select_nothing\<close> of \<open>Apply\<close>).\<close>

theorem desired_owned:
  assumes "cfg_managed_label_key cfg \<noteq> cfg_instance_label_key cfg"
    and "service_name_label \<notin> {cfg_managed_label_key cfg, cfg_instance_label_key cfg}"
    and "bt_get (d_entries (build_desired pf cfg dyn) k) n = Some obj"
  shows "kind_of obj = k \<and> om_namespace (meta_of obj) = Some (cfg_namespace cfg) \<and> labelled cfg (Some obj)"
proof -
  have "kind_of obj = k \<and> meta_ok cfg n (meta_of obj)"
    using entries_wf(2) [OF run_wf] bt_get_SomeD [OF assms(3)] by blast
  then show ?thesis using owned_selected [OF _ assms(1,2)] by (auto simp: meta_ok_def labelled_def)
qed

theorem desired_owned_witness:
  "kind_of (OHTTPRoute (sample_route sample_cfg ''hr-a'' ''a'')) = KHTTPRoute \<and>
   om_namespace (meta_of (OHTTPRoute (sample_route sample_cfg ''hr-a'' ''a''))) = Some (cfg_namespace sample_cfg) \<and>
   labelled sample_cfg (Some (OHTTPRoute (sample_route sample_cfg ''hr-a'' ''a'')))"
  by (rule desired_owned [of sample_cfg sample_pf sample_dyn KHTTPRoute "''hr-a''"])
     (simp_all add: sample_http bt_get_def sample_cfg_labels service_name_label_def)



text \<open>C26: The ListenerSet exists and has an HTTP listener for every host name of every HTTPRoute.\<close>

theorem routes_have_http_listeners:
  assumes "bt_get (d_http_routes (build_desired pf cfg dyn)) n = Some route"
    and "hroute_hostnames route = Some hosts" and "host \<in> set hosts"
  shows "\<exists>ls. the_listener_set pf cfg (build_desired pf cfg dyn) = Some ls \<and>
    http_listener pf cfg host \<in> set (lset_listeners ls)"
proof -
  have "(n, route) \<in> set (d_http_routes (snd (route_stage pf cfg dyn)))"
    using bt_get_SomeD [OF assms(1)] by (simp add: run_http_fields)
  with stage_runs(2) have "host \<in> set (bt_keys (ri_hostnames (fst (route_stage pf cfg dyn))))"
  proof (cases rule: build_routes_routes)
    case (new e)
    then have "host \<in> set (pr_hosts (parse (r_rule (snd e))))"
      using assms(2,3) by (simp add: route_of_def build_route_def Let_def)
    with new(1) show ?thesis by (auto simp: route_stage_index keys_index_entries)
  qed (simp add: backend_stage_frame)
  then show ?thesis using listener_set_run [of pf cfg dyn] by (auto simp: listeners_of_def)
qed

theorem routes_have_http_listeners_witness:
  "\<exists>ls. the_listener_set sample_pf sample_cfg (build_desired sample_pf sample_cfg sample_dyn) = Some ls \<and>
    http_listener sample_pf sample_cfg ''a'' \<in> set (lset_listeners ls)"
  by (rule routes_have_http_listeners [of sample_pf sample_cfg sample_dyn "''hr-a''"
        "sample_route sample_cfg ''hr-a'' ''a''" "[''a'']"])
     (simp_all add: sample_http bt_get_def sample_route_def build_route_def Let_def)

text \<open>C16: When the rule of a router is the printed form of a conjunction with one \<open>Host\<close> predicate and at most
  one path predicate, of a single path (\<open>unambiguous\<close>), its HTTPRoute selects exactly the requests that
  the rule selects, whatever the comparison of hosts and paths, taken to be the same on both sides.
  For other conjunctions this is not so: \<open>second_path_widens\<close> of \<open>Matching\<close>.\<close>

theorem routes_mean_rules:
  assumes "bt_get (d_http_routes (build_desired pf cfg dyn)) n = Some route"
  shows "\<exists>e \<in> set (hc_routers (tdc_http dyn)). n = route_name_of pf e \<and>
    (\<forall>ps ev. r_rule (snd e) = show_rule ps \<and> unambiguous ps \<longrightarrow> route_accepts ev route = rule_holds ev ps)"
proof -
  have "(n, route) \<in> set (d_http_routes (snd (route_stage pf cfg dyn)))"
    using bt_get_SomeD [OF assms] by (simp add: run_http_fields)
  with stage_runs(2) show ?thesis
  proof (cases rule: build_routes_routes)
    case (new e)
    then have e: "e \<in> set (hc_routers (tdc_http dyn))" and usable: "is_usable (parse (r_rule (snd e)))"
      by (auto simp: emitting_def emits_def may_emit_def)
    have "route_accepts ev route = rule_holds ev ps" if "r_rule (snd e) = show_rule ps" "unambiguous ps" for ps ev
      using route_means_rule [OF that(2)] usable that(1) by (simp add: new(3) route_of_def)
    with e new(2) show ?thesis by blast
  qed (simp add: backend_stage_frame)
qed

theorem routes_mean_rules_witness:
  "(\<exists>e \<in> set (hc_routers (tdc_http sample_dyn)). ''hr-a'' = route_name_of sample_pf e \<and>
     (\<forall>ps ev. r_rule (snd e) = show_rule ps \<and> unambiguous ps \<longrightarrow>
        route_accepts ev (sample_route sample_cfg ''hr-a'' ''a'') = rule_holds ev ps)) \<and>
   r_rule (sample_router [] ''Host(`a`)'') = show_rule [(''Host'', [''a''])] \<and> unambiguous [(''Host'', [''a''])]"
proof (intro conjI)
  show "\<exists>e \<in> set (hc_routers (tdc_http sample_dyn)). ''hr-a'' = route_name_of sample_pf e \<and>
     (\<forall>ps ev. r_rule (snd e) = show_rule ps \<and> unambiguous ps \<longrightarrow>
        route_accepts ev (sample_route sample_cfg ''hr-a'' ''a'') = rule_holds ev ps)"
    by (rule routes_mean_rules [of sample_pf sample_cfg]) (simp add: sample_http bt_get_def)
  show "r_rule (sample_router [] ''Host(`a`)'') = show_rule [(''Host'', [''a''])]"
    by (simp add: sample_router_def show_rule_def show_pred_def show_arg_def)
  show "unambiguous [(''Host'', [''a''])]" by code_simp
qed

text \<open>C27: A host name has a TLS listener exactly if a certificate template is configured and some emitted
  router with that host wants HTTPS.\<close>

theorem https_listeners_exact:
  assumes "the_listener_set pf cfg (build_desired pf cfg dyn) = Some ls"
  shows "(\<exists>l \<in> set (lset_listeners ls). lis_tls l \<noteq> None \<and> lis_hostname l = Some host) \<longleftrightarrow>
    cfg_tls_secret_template cfg \<noteq> None \<and>
    (\<exists>e \<in> set (emitting cfg dyn (fst (backend_stage pf cfg dyn))).
       wants_https cfg (snd e) \<and> host \<in> set (pr_hosts (parse (r_rule (snd e)))))"
proof -
  have ls: "lset_listeners ls = listeners_of pf cfg (fst (route_stage pf cfg dyn))
      (fst (tcp_stage pf cfg dyn) @ fst (udp_stage pf cfg dyn))"
    using listener_set_run [of pf cfg dyn] assms by simp
  have no_https: "set (bt_keys (ri_https_hosts default_route_index)) = {}"
    by (simp add: default_route_index_def bt_keys_def)
  have hosts: "host \<in> set (bt_keys (ri_https_hosts (fst (route_stage pf cfg dyn)))) \<longleftrightarrow>
    (\<exists>e \<in> set (emitting cfg dyn (fst (backend_stage pf cfg dyn))).
       wants_https cfg (snd e) \<and> host \<in> set (pr_hosts (parse (r_rule (snd e)))))"
    unfolding route_stage_index https_index_entries set_filter no_https by blast
  have "cfg_enable_https_listeners cfg" if "wants_https cfg r" for r
    using that by (simp add: wants_https_def)
  with hosts tls_hosts [OF l4_listener_fields [of _ pf cfg dyn]] show ?thesis
    unfolding ls by blast
qed

theorem https_listeners_exact_witness:
  "\<exists>ls. the_listener_set sample_pf sample_cfg (build_desired sample_pf sample_cfg sample_dyn) = Some ls \<and>
    ((\<exists>l \<in> set (lset_listeners ls). lis_tls l \<noteq> None \<and> lis_hostname l = Some ''a'') \<longleftrightarrow>
     cfg_tls_secret_template sample_cfg \<noteq> None \<and>
     (\<exists>e \<in> set (emitting sample_cfg sample_dyn (fst (backend_stage sample_pf sample_cfg sample_dyn))).
        wants_https sample_cfg (snd e) \<and> ''a'' \<in> set (pr_hosts (parse (r_rule (snd e))))))"
proof -
  obtain ls where "the_listener_set sample_pf sample_cfg (build_desired sample_pf sample_cfg sample_dyn) = Some ls"
    using listener_set_run [of sample_pf sample_cfg sample_dyn] by auto
  with https_listeners_exact [OF this, of "''a''"] show ?thesis by blast
qed

text \<open>C28: The listeners of a protocol claim distinct ports, all valid, and TCP listeners never take the ports
  of HTTP and HTTPS.\<close>

theorem l4_ports_claimed_once:
  assumes "the_listener_set pf cfg (build_desired pf cfg dyn) = Some ls"
  shows "distinct (map lis_port (l4_listeners proto ls)) \<and>
    list_all (\<lambda>l. port_allowed cfg proto (lis_port l)) (l4_listeners proto ls)"
proof -
  obtain ct bt cu bu where c: "claims_ok pf cfg Tcp (fst (tcp_stage pf cfg dyn)) ct"
    "claims_ok pf cfg Udp (fst (udp_stage pf cfg dyn)) cu"
    by (rule l4_stage_listeners)
  then show ?thesis
    using l4_listeners_run [OF assms] by (cases proto) (auto simp: claims_ok_def list_all_iff)
qed

theorem l4_ports_claimed_once_witness:
  "\<exists>ls. the_listener_set sample_pf sample_cfg (build_desired sample_pf sample_cfg sample_dyn) = Some ls \<and>
    l4_listeners Tcp ls = [sample_l4_listener] \<and>
    distinct (map lis_port (l4_listeners Tcp ls)) \<and>
    list_all (\<lambda>l. port_allowed sample_cfg Tcp (lis_port l)) (l4_listeners Tcp ls)"
proof -
  obtain ls where "the_listener_set sample_pf sample_cfg (build_desired sample_pf sample_cfg sample_dyn) = Some ls"
    using listener_set_run [of sample_pf sample_cfg sample_dyn] by auto
  with l4_ports_claimed_once [OF this, of Tcp] l4_listeners_run(1) [OF this] show ?thesis
    by (simp add: sample_tcp_stage)
qed





text \<open>Kinds whose feature is switched off are never desired.\<close>

lemma disabled_kinds_absent:
  "(case cfg_backend_kind cfg of
      ServiceKind \<Rightarrow> d_envoy_backends (build_desired pf cfg dyn) = []
    | EnvoyBackendKind \<Rightarrow>
        d_services (build_desired pf cfg dyn) = [] \<and> d_endpoint_slices (build_desired pf cfg dyn) = [] \<and>
        d_backend_tls_policies (build_desired pf cfg dyn) = []) \<and>
   (cfg_enable_tcp_routes cfg \<or> d_tcp_routes (build_desired pf cfg dyn) = []) \<and>
   (cfg_enable_udp_routes cfg \<or> d_udp_routes (build_desired pf cfg dyn) = []) \<and>
   (cfg_ext_authz cfg \<noteq> None \<or> d_security_policies (build_desired pf cfg dyn) = [])"
proof -
  have tcp: "d_tcp_routes (build_desired pf cfg dyn) = []" if "\<not> cfg_enable_tcp_routes cfg"
    using that run_l4_fields(1,3) [of pf cfg dyn] by (simp add: tcp_stage_def build_l4_family_def split: option.splits)
  have udp: "d_udp_routes (build_desired pf cfg dyn) = []" if "\<not> cfg_enable_udp_routes cfg"
    using that run_l4_fields(2,4) [of pf cfg dyn] by (simp add: udp_stage_def build_l4_family_def split: option.splits)
  show ?thesis
    using run_service_mode [of cfg pf dyn] run_envoy_mode [of cfg pf dyn] tcp udp no_policies [of cfg pf dyn]
    by (auto split: backend_kind.split)
qed

text \<open>Every EndpointSlice is labelled with the name of a Service of the same desired state and has
  endpoints.\<close>

lemma slices_point_to_services:
  assumes "bt_get (d_endpoint_slices (build_desired pf cfg dyn)) m = Some e"
  shows "\<exists>n svc. bt_get (d_services (build_desired pf cfg dyn)) n = Some svc \<and> slice_of n e"
proof -
  have "e \<in> snd ` set (d_endpoint_slices (build_desired pf cfg dyn))"
    using bt_get_SomeD [OF assms] by force
  then obtain n where "n \<in> set (bt_keys (d_services (build_desired pf cfg dyn)))" "slice_of n e"
    using run_slices [of pf cfg dyn] by (auto simp: slices_ok_def)
  then show ?thesis by (auto simp: bt_contains_iff [symmetric] bt_contains_def)
qed

lemma slices_point_to_services_example:
  "\<exists>e n svc. bt_get (d_endpoint_slices (build_desired sample_pf service_cfg sample_dyn)) ''eps-s'' = Some e \<and>
    bt_get (d_services (build_desired sample_pf service_cfg sample_dyn)) n = Some svc \<and> slice_of n e"
proof -
  obtain e where "bt_get (d_endpoint_slices (build_desired sample_pf service_cfg sample_dyn)) ''eps-s'' = Some e"
    using desired_keeps_backends [of "''eps-s''" sample_pf service_cfg sample_dyn KEndpointSlice]
      sample_service_stage by (auto simp: bt_get_map_values)
  with slices_point_to_services [OF this] show ?thesis by blast
qed

text \<open>C20: The certificate of a TLS backend is verified against the system's CAs unless the service's own
  transport asks to skip that; and every Backend has endpoints.\<close>

theorem upstream_tls_verified:
  assumes "bt_get (d_envoy_backends (build_desired pf cfg dyn)) n = Some b"
    and "\<not> skip_names pf (hc_servers_transports (tdc_http dyn)) (hc_services (tdc_http dyn)) n"
  shows "bspec_endpoints (eb_spec b) \<noteq> [] \<and>
    (case bspec_tls (eb_spec b) of None \<Rightarrow> True | Some t \<Rightarrow> tls_verified t)"
proof -
  have "backend_ok False b"
    using run_backends [of pf dyn cfg] bt_get_SomeD [OF assms(1)] assms(2)
    by (fastforce simp: backends_ok_def)
  then show ?thesis by (auto simp: backend_ok_def split: option.splits)
qed

theorem upstream_tls_verified_witness:
  "\<exists>b. bt_get (d_envoy_backends (build_desired sample_pf sample_cfg sample_dyn)) ''be-s'' = Some b \<and>
    bspec_endpoints (eb_spec b) \<noteq> [] \<and>
    (case bspec_tls (eb_spec b) of None \<Rightarrow> True | Some t \<Rightarrow> tls_verified t)"
proof -
  obtain b where "bt_get (d_envoy_backends (build_desired sample_pf sample_cfg sample_dyn)) ''be-s'' = Some b"
    using desired_keeps_backends [of "''be-s''" sample_pf sample_cfg sample_dyn KBackend]
    by (auto simp: bt_get_map_values sample_backend_stage bt_keys_def)
  moreover have "\<not> skip_names sample_pf (hc_servers_transports (tdc_http sample_dyn))
      (hc_services (tdc_http sample_dyn)) ''be-s''"
    by (simp add: skip_names_def requests_skip_def transport_skips_verify_def sample_dyn_def)
  ultimately show ?thesis using upstream_tls_verified by blast
qed

section \<open>Reconciling\<close>

text \<open>C10: Against an API server that serves every request (\<open>reliable_api\<close>), and when the controller is not in
  read-only mode, one reconcile brings the cluster to the desired state: every desired object as built, every other object with the controller's labels gone (in
  the swept kinds), everything else untouched. A second one changes nothing.\<close>

theorem reconcile_converges:
  assumes "reliable_api cfg srv cl" and "\<not> cfg_read_only cfg"
  shows "\<exists>log' log''. reconcile_once srv cfg (build_desired pf cfg dyn) log = (Inr (), log') \<and>
    cl log' = converged cfg (build_desired pf cfg dyn) (cl log) \<and>
    reconcile_once srv cfg (build_desired pf cfg dyn) log' = (Inr (), log'') \<and> cl log'' = cl log'"
proof -
  note run = reliable_api.reconcile_cluster [OF assms run_wf]
  obtain log' where log': "reconcile_once srv cfg (build_desired pf cfg dyn) log = (Inr (), log')"
    "cl log' = converged cfg (build_desired pf cfg dyn) (cl log)" by (rule run)
  moreover obtain log'' where "reconcile_once srv cfg (build_desired pf cfg dyn) log' = (Inr (), log'')"
    "cl log'' = converged cfg (build_desired pf cfg dyn) (cl log')" by (rule run)
  ultimately show ?thesis by (auto simp: converged_idem)
qed

theorem reconcile_converges_witness:
  "\<exists>log' log''.
    reconcile_once (sim_server sample_cfg) sample_cfg (build_desired sample_pf sample_cfg sample_dyn) [] = (Inr (), log') \<and>
    sim_cluster log' =
      converged sample_cfg (build_desired sample_pf sample_cfg sample_dyn) (sim_cluster []) \<and>
    reconcile_once (sim_server sample_cfg) sample_cfg (build_desired sample_pf sample_cfg sample_dyn) log' = (Inr (), log'') \<and>
    sim_cluster log'' = sim_cluster log'"
  by (rule reconcile_converges [OF sim.reliable_api_axioms]) (simp add: sample_cfg_fields)

text \<open>C12: Whatever the API server answers, a reconcile only patches desired objects under their names with
  the configured field manager, only lists with the controller's selector, and never deletes a
  desired object; in read-only mode it only lists.\<close>

theorem reconcile_requests_sane:
  "\<exists>new. snd (reconcile_once srv cfg (build_desired pf cfg dyn) log) = log @ new \<and>
    list_all (sane_request cfg (build_desired pf cfg dyn)) new"
  using reconcile_sane [OF run_wf] by metis

text \<open>C13: Patches go out in the order of dependencies of the kinds. The first failure ends the run with the
  name of the object; nothing is deleted unless every patch succeeded.\<close>

theorem reconcile_fail_stop:
  assumes "\<not> cfg_read_only cfg"
  shows "\<exists>pre rest. d_objects (build_desired pf cfg dyn) = pre @ rest \<and>
    sorted (map (kind_of \<circ> snd) (d_objects (build_desired pf cfg dyn))) \<and>
    (case reconcile_once srv cfg (build_desired pf cfg dyn) log of
       (Inl err, log') \<Rightarrow>
         pre \<noteq> [] \<and> err = ApplyFailed (kind_of (snd (last pre))) (fst (last pre)) \<and>
         log' = log @ map (patch_of cfg) pre
     | (Inr _, log') \<Rightarrow>
         rest = [] \<and> (\<exists>swp rep. log' = log @ map (patch_of cfg) pre @ swp @ rep \<and>
           list_all (gc_request cfg (build_desired pf cfg dyn)) swp \<and>
           list_all (\<lambda>req. \<exists>k. req = ReqList k (managed_selector cfg)) rep))"
  using run_wf assms
proof (cases rule: reconcile_run [of cfg "build_desired pf cfg dyn" srv log])
  case (ok swp rep)
  then show ?thesis
    using kinds_sorted [OF run_wf] by (intro exI [of _ "d_objects (build_desired pf cfg dyn)"] exI [of _ "[]"]) auto
next
  case (failed pre e rest)
  then show ?thesis
    using kinds_sorted [OF run_wf, of pf cfg dyn] by (intro exI [of _ "pre @ [e]"] exI [of _ rest]) auto
qed

theorem reconcile_fail_stop_witness:
  "\<exists>pre rest. d_objects (build_desired sample_pf authz_cfg sample_dyn) = pre @ rest \<and>
    sorted (map (kind_of \<circ> snd) (d_objects (build_desired sample_pf authz_cfg sample_dyn))) \<and>
    (case reconcile_once (refusing_server KSecurityPolicy) authz_cfg
            (build_desired sample_pf authz_cfg sample_dyn) [] of
       (Inl err, log') \<Rightarrow>
         pre \<noteq> [] \<and> err = ApplyFailed (kind_of (snd (last pre))) (fst (last pre)) \<and>
         log' = [] @ map (patch_of authz_cfg) pre
     | (Inr _, log') \<Rightarrow>
         rest = [] \<and> (\<exists>swp rep. log' = [] @ map (patch_of authz_cfg) pre @ swp @ rep \<and>
           list_all (gc_request authz_cfg (build_desired sample_pf authz_cfg sample_dyn)) swp \<and>
           list_all (\<lambda>req. \<exists>k. req = ReqList k (managed_selector authz_cfg)) rep))"
  by (rule reconcile_fail_stop) (simp add: sample_cfg_fields)

text \<open>C33: HTTPRoutes are applied before SecurityPolicies: when a policy is refused, every HTTPRoute of the
  desired state, the protected ones included, has already been applied and is not taken back.\<close>

theorem failed_policy_leaves_routes:
  assumes "\<not> cfg_read_only cfg"
    and "reconcile_once srv cfg (build_desired pf cfg dyn) log = (Inl (ApplyFailed KSecurityPolicy n), log')"
    and "bt_get (d_http_routes (build_desired pf cfg dyn)) m = Some route"
  shows "\<exists>new. log' = log @ new \<and> patch_of cfg (m, OHTTPRoute route) \<in> set new \<and>
    list_all (\<lambda>req. \<forall>k x. req \<noteq> ReqDelete k x) new"
  using run_wf assms(1)
proof (cases rule: reconcile_run [of cfg "build_desired pf cfg dyn" srv log])
  case (ok swp rep)
  then show ?thesis using assms(2) by simp
next
  case (failed pre e rest)
  have e: "kind_of (snd e) = KSecurityPolicy" using failed(2) assms(2) by simp
  have "(m, OHTTPRoute route) \<in> set (d_objects (build_desired pf cfg dyn))"
    using in_objects_iff [OF run_wf, of m "OHTTPRoute route" pf cfg dyn] assms(3) by (simp add: bt_get_map_values)
  moreover have "(m, OHTTPRoute route) \<notin> set (e # rest)"
  proof
    assume "(m, OHTTPRoute route) \<in> set (e # rest)"
    then have "kind_of (snd e) \<le> KHTTPRoute"
      using kinds_sorted [OF run_wf, of pf cfg dyn] by (auto simp: failed(1) sorted_append)
    then show False by (simp add: e less_eq_obj_kind_def)
  qed
  ultimately have "(m, OHTTPRoute route) \<in> set (pre @ [e])" by (auto simp: failed(1))
  then have "patch_of cfg (m, OHTTPRoute route) \<in> set (map (patch_of cfg) (pre @ [e]))"
    unfolding set_map by (rule imageI)
  moreover have "list_all (\<lambda>req. \<forall>k x. req \<noteq> ReqDelete k x) (map (patch_of cfg) (pre @ [e]))"
    by (simp add: list_all_iff patch_of_def)
  moreover have "log' = log @ map (patch_of cfg) (pre @ [e])" using failed(2) assms(2) by simp
  ultimately show ?thesis by blast
qed

theorem failed_policy_leaves_routes_witness:
  "\<exists>log'. reconcile_once (refusing_server KSecurityPolicy) authz_cfg
       (build_desired sample_pf authz_cfg sample_dyn) [] = (Inl (ApplyFailed KSecurityPolicy ''sp-hr-b''), log') \<and>
     (\<exists>new. log' = [] @ new \<and>
        patch_of authz_cfg (''hr-b'', OHTTPRoute (sample_route authz_cfg ''hr-b'' ''b'')) \<in> set new \<and>
        list_all (\<lambda>req. \<forall>k x. req \<noteq> ReqDelete k x) new)"
proof -
  obtain log' where run: "reconcile_once (refusing_server KSecurityPolicy) authz_cfg
      (build_desired sample_pf authz_cfg sample_dyn) [] = (Inl (ApplyFailed KSecurityPolicy ''sp-hr-b''), log')"
    using sample_refused by blast
  have "bt_get (d_http_routes (build_desired sample_pf authz_cfg sample_dyn)) ''hr-b'' =
      Some (sample_route authz_cfg ''hr-b'' ''b'')" by (simp add: sample_http bt_get_def)
  from failed_policy_leaves_routes [OF _ run this] run show ?thesis by (simp add: sample_cfg_fields)
qed

section \<open>The poll loop\<close>

text \<open>C11: After any run of the loop against an API server that serves every request (\<open>reliable_api\<close>), not in
  read-only mode, the digest that is kept belongs to a configuration that Pangolin sent during the
  run, and the cluster is in the state that this configuration describes. After a reconcile that
  failed this need not be so: \<open>revert_after_failure_not_applied\<close> of \<open>Poll_Loop\<close>.\<close>

theorem digest_describes_cluster:
  assumes "run_loop pf lib client cfg srv ts loop_init \<in> {Running st, Returned st}"
    and "reliable_api cfg srv cl" and "\<not> cfg_read_only cfg"
    and "lp_last_digest st = Some digest"
  shows "\<exists>t \<in> set ts. \<exists>etag c. poll lib client t etag = Inr (Changed c) \<and> cc_digest c = digest \<and>
    cl (lp_log st) = converged cfg (build_desired pf cfg (cc_config c)) (cl (lp_log st))"
proof -
  obtain tr where tr: "reachable pf cfg srv tr st" "set tr \<subseteq> (\<Union>t\<in>set ts. range (poll lib client t))"
    using run_loop_reachable [OF reach_init assms(1)] by auto
  have "tracks pf cfg cl tr st" using cluster_tracks_aux [OF tr(1) assms(2,3)] assms(4) by simp
  then obtain c where c: "Inr (Changed c) \<in> set tr" "cc_digest c = digest"
    "cl (lp_log st) = converged cfg (build_desired pf cfg (cc_config c)) (cl (lp_log st))"
    using assms(4) unfolding tracks_def by auto
  then obtain t etag where "t \<in> set ts" "poll lib client t etag = Inr (Changed c)"
    using tr(2) by (fastforce simp: image_iff)
  with c show ?thesis by blast
qed

theorem digest_describes_cluster_witness:
  "\<exists>st. run_loop sample_pf sample_lib sample_client sample_cfg (sim_server sample_cfg) [sample_turn True] loop_init
      = Returned st \<and> lp_last_digest st = Some ''{}'' \<and>
    (\<exists>t \<in> set [sample_turn True]. \<exists>etag c. poll sample_lib sample_client t etag = Inr (Changed c) \<and>
      cc_digest c = ''{}'' \<and>
      sim_cluster (lp_log st) =
        converged sample_cfg (build_desired sample_pf sample_cfg (cc_config c)) (sim_cluster (lp_log st)))"
proof -
  obtain st where "run_loop sample_pf sample_lib sample_client sample_cfg (sim_server sample_cfg)
      [sample_turn True] loop_init = Returned st" "lp_last_digest st = Some ''{}''"
    by (rule sample_run [of True]) simp
  moreover have "\<not> cfg_read_only sample_cfg" by (simp add: sample_cfg_fields)
  ultimately show ?thesis
    using digest_describes_cluster [OF _ sim.reliable_api_axioms, of sample_pf sample_lib sample_client sample_cfg
        "[sample_turn True]" st "''{}''"] by blast
qed

text \<open>C8: Against an API server that serves every request (\<open>reliable_api\<close>), not in read-only mode, and while
  Pangolin follows the rules of conditional requests with entity tags and digests that tell its
  configurations apart: every successful poll, also one that is answered 304 or finds a known digest,
  leaves the cluster in the state that Pangolin's configuration at that time describes. With a server
  that fails this is not so: \<open>revert_after_failure_not_applied\<close> of \<open>Poll_Loop\<close>.\<close>

theorem successful_poll_is_current:
  assumes "run_loop pf lib client cfg srv ts loop_init = Running st"
    and "list_all2 (serves tag) (bodies @ [body]) (ts @ [t])"
    and "inj_on tag (set (bodies @ [body]))" and "inj_on (lib_sha256_hex lib) (set (bodies @ [body]))"
    and "reliable_api cfg srv cl" and "\<not> cfg_read_only cfg"
    and "poll lib client t (lp_last_etag st) = Inr outcome"
  shows "\<exists>dyn st'. lib_decode lib body = Some dyn \<and>
    iteration pf cfg srv (Inr outcome) st = (cfg_poll_interval cfg, st') \<and> lp_ready st' \<and>
    cl (lp_log st') = converged cfg (build_desired pf cfg dyn) (cl (lp_log st'))"
proof -
  have "list_all2 (serves tag) bodies ts" "serves tag body t"
    using assms(2) list_all2_lengthD [OF assms(2)] by (simp_all add: list_all2_append)
  from poll_current [OF assms(1) this _ _ assms(5-7)] assms(3,4) show ?thesis by simp
qed

theorem successful_poll_is_current_witness:
  "\<exists>st. run_loop sample_pf sample_lib sample_client sample_cfg (sim_server sample_cfg) [sample_turn False] loop_init
      = Running st \<and>
    poll sample_lib sample_client (sample_turn True) (lp_last_etag st) = Inr NotModified \<and>
    (\<exists>dyn st'. lib_decode sample_lib ''{}'' = Some dyn \<and>
      iteration sample_pf sample_cfg (sim_server sample_cfg) (Inr NotModified) st = (cfg_poll_interval sample_cfg, st') \<and>
      lp_ready st' \<and>
      sim_cluster (lp_log st') = converged sample_cfg (build_desired sample_pf sample_cfg dyn) (sim_cluster (lp_log st')))"
proof -
  obtain st where st: "run_loop sample_pf sample_lib sample_client sample_cfg (sim_server sample_cfg)
      [sample_turn False] loop_init = Running st" "lp_last_etag st = Some ''e1''"
    by (rule sample_run [of False]) simp
  have again: "poll sample_lib sample_client (sample_turn True) (lp_last_etag st) = Inr NotModified"
    by (simp add: st(2) sample_poll_again)
  have "list_all2 (serves (\<lambda>_. ''e1'')) ([''{}''] @ [''{}'']) ([sample_turn False] @ [sample_turn True])"
    by (simp add: sample_serves)
  from successful_poll_is_current [OF st(1) this _ _ sim.reliable_api_axioms _ again] st(1) again
  show ?thesis by (simp add: sample_cfg_fields)
qed

text \<open>C9: Against an API server that serves every request (\<open>reliable_api\<close>) and not in read-only mode, a controller
  that polls the mock, over any HTTP transport that delivers requests in whatever pieces, keeps up
  with it: every successful poll leaves the cluster in the state that the mock's fixture describes.\<close>

theorem controller_follows_mock:
  assumes "http_transport send receive" and "mock_main (lib_sha256_hex lib) env read_file can_bind = Inr mock"
    and "list_all visible (lib_sha256_hex lib (mk_body mock))"
    and "\<And>w. concat (pieces w) = w" and "\<And>w. [] \<notin> set (pieces w)"
    and "\<And>t req. t \<in> set (ts @ [t0]) \<Longrightarrow> turn_pangolin t req =
      (if sendable req then receive (mock_connection mock (map Some (pieces (send req)))) else None)"
    and "run_loop pf lib client cfg srv ts loop_init = Running st"
    and "reliable_api cfg srv cl" and "\<not> cfg_read_only cfg"
    and "poll lib client t0 (lp_last_etag st) = Inr outcome"
  shows "\<exists>dyn st'. lib_decode lib (mk_body mock) = Some dyn \<and>
    iteration pf cfg srv (Inr outcome) st = (cfg_poll_interval cfg, st') \<and> lp_ready st' \<and>
    cl (lp_log st') = converged cfg (build_desired pf cfg dyn) (cl (lp_log st'))"
proof -
  let ?tag = "\<lambda>_ :: string. mk_etag mock" and ?bodies = "replicate (length ts) (mk_body mock)"
  have etag: "list_all visible (mk_etag mock)"
    using assms(2,3) by (rule mock_etag_visible)
  have "serves ?tag (mk_body mock) t" if "t \<in> set (ts @ [t0])" for t
    by (rule http_transport.mock_serves_aux [OF assms(1) etag assms(4,5) assms(6) [OF that]]) simp
  then have "list_all2 (serves ?tag) ?bodies ts" "serves ?tag (mk_body mock) t0"
    by (simp_all add: list_all2_conv_all_nth)
  from poll_current [OF assms(7) this _ _ assms(8-10)] show ?thesis by (auto simp: inj_on_def)
qed

theorem controller_follows_mock_witness:
  "\<exists>st dyn st'. run_loop sample_pf sample_lib sample_client sample_cfg (sim_server sample_cfg) [mock_turn] loop_init =
      Running st \<and>
    lib_decode sample_lib ''{}'' = Some dyn \<and>
    iteration sample_pf sample_cfg (sim_server sample_cfg) (Inr NotModified) st = (cfg_poll_interval sample_cfg, st') \<and>
    lp_ready st' \<and>
    sim_cluster (lp_log st') = converged sample_cfg (build_desired sample_pf sample_cfg dyn) (sim_cluster (lp_log st'))"
proof -
  obtain st where st: "run_loop sample_pf sample_lib sample_client sample_cfg (sim_server sample_cfg) [mock_turn]
      loop_init = Running st" "lp_last_etag st = Some (mk_etag sample_mock)" by (rule mock_run)
  have again: "poll sample_lib sample_client mock_turn (lp_last_etag st) = Inr NotModified"
    by (simp add: st(2) mock_poll(2))
  have turns: "turn_pangolin t req = (if sendable req
      then plain_receive (mock_connection sample_mock (map Some (byte_pieces (plain_send req)))) else None)"
    if "t \<in> set ([mock_turn] @ [mock_turn])" for t req
    using that by (simp add: mock_turn_def)
  have "mk_body sample_mock = ''{}''" "\<not> cfg_read_only sample_cfg" by (simp_all add: sample_mock_def sample_cfg_fields)
  with controller_follows_mock [OF plain.http_transport_axioms sample_mock_main sample_mock_visible byte_pieces turns st(1)
      sim.reliable_api_axioms _ again] st(1)
  show ?thesis by auto
qed

text \<open>C15: When reconciling a new configuration fails, the controller waits a second and tries again at the
  next poll, and if the API server serves its requests from then on, whatever failed before, that
  poll brings the cluster to the configuration and marks the controller ready.\<close>

theorem failure_is_retried:
  assumes "poll lib client t (lp_last_etag st) = Inr (Changed c)" and "lp_last_digest st \<noteq> Some (cc_digest c)"
    and "reconcile_once srv cfg (build_desired pf cfg (cc_config c)) (lp_log st) = (Inl err, log)"
    and "recovered_api cfg srv cl log" and "\<not> cfg_read_only cfg"
  shows "\<exists>st1 st2. iteration pf cfg srv (poll lib client t (lp_last_etag st)) st = (from_secs 1, st1) \<and>
    iteration pf cfg srv (poll lib client t (lp_last_etag st1)) st1 = (cfg_poll_interval cfg, st2) \<and>
    cl (lp_log st2) = converged cfg (build_desired pf cfg (cc_config c)) (cl log) \<and>
    lp_last_digest st2 = Some (cc_digest c) \<and> lp_ready st2 \<and> lp_backoff st2 = from_secs 1"
proof -
  let ?st1 = "st\<lparr>lp_log := log, lp_backoff := min (from_secs 1 * 2) (cfg_max_backoff cfg)\<rparr>"
  have "iteration pf cfg srv (poll lib client t (lp_last_etag st)) st = (from_secs 1, ?st1)"
    using assms(1-3) by (simp add: iteration_def back_off_def Let_def)
  moreover obtain log' where "reconcile_once srv cfg (build_desired pf cfg (cc_config c)) log = (Inr (), log')"
    "cl log' = converged cfg (build_desired pf cfg (cc_config c)) (cl log)"
    by (rule recovered_api.reconcile_cluster [OF assms(4,5) run_wf prefix_order.refl])
  then have "\<exists>st2. iteration pf cfg srv (poll lib client t (lp_last_etag ?st1)) ?st1 = (cfg_poll_interval cfg, st2) \<and>
    cl (lp_log st2) = converged cfg (build_desired pf cfg (cc_config c)) (cl log) \<and>
    lp_last_digest st2 = Some (cc_digest c) \<and> lp_ready st2 \<and> lp_backoff st2 = from_secs 1"
    using assms(1,2) by (simp add: iteration_def Let_def)
  ultimately show ?thesis by blast
qed

theorem failure_is_retried_witness:
  "\<exists>st1 st2. iteration sample_pf sample_cfg (outage_server sample_cfg)
      (poll sample_lib sample_client (sample_turn True) (lp_last_etag loop_init)) loop_init = (from_secs 1, st1) \<and>
    iteration sample_pf sample_cfg (outage_server sample_cfg)
      (poll sample_lib sample_client (sample_turn True) (lp_last_etag st1)) st1 = (cfg_poll_interval sample_cfg, st2) \<and>
    lp_last_digest st2 = Some ''{}'' \<and> lp_ready st2"
proof -
  have new: "poll sample_lib sample_client (sample_turn True) (lp_last_etag loop_init) = Inr (Changed sample_changed)"
    "lp_last_digest loop_init \<noteq> Some (cc_digest sample_changed)"
    by (simp_all add: loop_init_def sample_poll)
  obtain err log where run: "reconcile_once (outage_server sample_cfg) sample_cfg
      (build_desired sample_pf sample_cfg (cc_config sample_changed)) (lp_log loop_init) = (Inl err, log)" and "log \<noteq> []"
    by (rule sample_outage) (simp_all add: loop_init_def sample_changed_def)
  have "recovered_api sample_cfg (outage_server sample_cfg) outage_cluster log"
    by (rule outage_recovers [OF \<open>log \<noteq> []\<close>])
  from failure_is_retried [OF new run this] show ?thesis by (auto simp: sample_cfg_fields sample_changed_def)
qed

text \<open>Every wait is bounded by a second, the configured maximum or the poll interval.\<close>

lemma backoff_bounded:
  assumes "reachable pf cfg srv tr st"
  shows "fst (iteration pf cfg srv r st) \<le> max (from_secs 1) (max (cfg_max_backoff cfg) (cfg_poll_interval cfg))"
  using backoff_bound [OF assms]
  by (cases rule: iteration_cases [of r pf cfg srv st]) (auto simp: max_def split: if_splits)

text \<open>C39: The readiness probe succeeds only after a configuration was applied (or Pangolin said that nothing
  changed), and then stays successful.\<close>

theorem readiness_earned:
  assumes "reachable pf cfg srv tr st" and "probe ''/readyz'' (lp_ready st) = Some (200, body)"
  shows "((\<exists>digest. lp_last_digest st = Some digest \<and> was_applied pf cfg srv tr digest) \<or> Inr NotModified \<in> set tr) \<and>
    probe ''/readyz'' (lp_ready (snd (iteration pf cfg srv r st))) = Some (200, ''ready'')"
proof -
  have ready: "lp_ready st" using assms(2) by (simp add: probe_def is_ready_def split: if_splits)
  then show ?thesis
    using ready_applied [OF assms(1)] digest_applied [OF assms(1)] ready_sticky [of st pf cfg srv r]
    by (auto simp: probe_def is_ready_def)
qed

theorem readiness_earned_witness:
  "\<exists>st. ((\<exists>digest. lp_last_digest st = Some digest \<and>
        was_applied sample_pf sample_cfg (sim_server sample_cfg) [Inr (Changed sample_changed)] digest) \<or>
      Inr NotModified \<in> set [Inr (Changed sample_changed) :: fetch_error + fetch_outcome]) \<and>
    probe ''/readyz'' (lp_ready (snd (iteration sample_pf sample_cfg (sim_server sample_cfg) (Inl CallFailed) st)))
      = Some (200, ''ready'')"
proof -
  let ?st = "snd (iteration sample_pf sample_cfg (sim_server sample_cfg) (Inr (Changed sample_changed)) loop_init)"
  have "probe ''/readyz'' (lp_ready ?st) = Some (200, ''ready'')"
    by (rule sample_iteration) (simp add: probe_def is_ready_def)
  from readiness_earned [OF sample_reachable this] show ?thesis by blast
qed

section \<open>The processes\<close>

text \<open>C1: Started without an authorization service and without the override, the controller never puts an
  HTTPRoute into the cluster that is not the translation of an unprotected router of a
  configuration it fetched: at no moment, whatever requests fail, in the middle of a reconcile as
  after one.\<close>

theorem never_published_open:
  assumes "env ''CONFIG_EXT_AUTHZ_SERVICE'' = None" and "env ''CONFIG_ALLOW_UNAUTHENTICATED_ROUTES'' = None"
    and "from_env pf env = Inr cfg" and "host_kube host = Some srv" and "kubernetes_api cfg srv cl"
    and "prefix log (controller_log (controller_main pf lib env host ts))"
    and "cl log (KHTTPRoute, n) = Some obj"
  shows "cl [] (KHTTPRoute, n) = Some obj \<or>
    (\<exists>client. pangolin_client pf host cfg = Inr client \<and>
     (\<exists>t \<in> set ts. \<exists>etag c. poll lib client t etag = Inr (Changed c) \<and>
      (\<exists>e \<in> set (hc_routers (tdc_http (cc_config c))).
         \<not> protected (hc_middlewares (tdc_http (cc_config c))) (snd e) \<and> n = route_name_of pf e \<and>
         obj = OHTTPRoute (route_of pf cfg (hc_middlewares (tdc_http (cc_config c)))
           (fst (backend_stage pf cfg (cc_config c))) e))))"
proof (cases "cl [] (KHTTPRoute, n) = Some obj")
  case False
  then obtain fm where "ReqPatch fm KHTTPRoute n obj \<in> set log"
    using kubernetes_api.origin [OF assms(5,7)] by blast
  then have "ReqPatch fm KHTTPRoute n obj \<in> set (controller_log (controller_main pf lib env host ts))"
    using assms(6) set_mono_prefix by blast
  then obtain client t etag c where c: "pangolin_client pf host cfg = Inr client" "t \<in> set ts"
    "poll lib client t etag = Inr (Changed c)"
    "sane_request cfg (build_desired pf cfg (cc_config c)) (ReqPatch fm KHTTPRoute n obj)"
    by (rule main_requests [OF assms(3)])
  from c(4) obtain route where "bt_get (d_http_routes (build_desired pf cfg (cc_config c))) n = Some route"
    "obj = OHTTPRoute route"
    by (auto simp: sane_request_def bt_get_map_values)
  with desired_route_unprotected [OF unprotected_by_default [OF assms(3)], OF assms(1,2)] c(1-3)
  show ?thesis by blast
qed simp

theorem never_published_open_witness:
  "\<exists>t \<in> set [sample_turn True]. \<exists>etag c. poll sample_lib sample_client t etag = Inr (Changed c) \<and>
    (\<exists>e \<in> set (hc_routers (tdc_http (cc_config c))).
       \<not> protected (hc_middlewares (tdc_http (cc_config c))) (snd e) \<and> ''hr-a'' = route_name_of sample_pf e \<and>
       OHTTPRoute (sample_route sample_cfg ''hr-a'' ''a'') =
         OHTTPRoute (route_of sample_pf sample_cfg (hc_middlewares (tdc_http (cc_config c)))
           (fst (backend_stage sample_pf sample_cfg (cc_config c))) e))"
proof -
  have env: "main_env ''CONFIG_EXT_AUTHZ_SERVICE'' = None" "main_env ''CONFIG_ALLOW_UNAUTHENTICATED_ROUTES'' = None"
    by (simp_all add: main_env_def)
  have kube: "host_kube sample_host = Some (sim_server sample_cfg)" by (simp add: sample_host_def)
  have "sim_cluster [] (KHTTPRoute, ''hr-a'') = None" by (simp add: sim_cluster_def)
  with never_published_open [OF env main_from_env kube sim.kubernetes_api_axioms prefix_order.refl
      sample_main [of True]]
  show ?thesis by (simp add: sample_pangolin_client)
qed

text \<open>C38: The exit status: 2 exactly when the environment is not a valid configuration, 1 exactly when there
  is no Kubernetes client or no HTTP client to be had (both without a single request), 0 exactly
  when the running controller was told to stop. Failing polls and reconciles never end it.\<close>

theorem exit_status_exact:
  "(\<exists>log. controller_main pf lib env host ts = Exited status log) \<longleftrightarrow>
     status = 2 \<and> (\<exists>e. from_env pf env = Inl e) \<or>
     (\<exists>cfg. from_env pf env = Inr cfg \<and>
        (if host_kube host = None \<or> (\<exists>e. pangolin_client pf host cfg = Inl e) then status = 1
         else status = 0 \<and> (\<exists>t \<in> set ts. turn_cancelled t \<or> turn_cancelled_waiting t)))"
proof (cases "from_env pf env")
  case (Inl e)
  then show ?thesis by (auto simp: controller_main_def)
next
  case (Inr cfg)
  show ?thesis
  proof (cases "run pf lib host cfg ts")
    case (Inl e)
    then have "host_kube host = None \<or> (\<exists>e. pangolin_client pf host cfg = Inl e)"
      by (auto simp: run_def ok_or_def split: option.splits sum.splits)
    then show ?thesis using \<open>from_env pf env = Inr cfg\<close> Inl by (auto simp: controller_main_def)
  next
    case result: (Inr result)
    then obtain srv client where run: "host_kube host = Some srv" "pangolin_client pf host cfg = Inr client"
      "run_loop pf lib client cfg srv ts loop_init = result"
      by (auto simp: run_Inr_iff)
    have "(\<exists>st. result = Returned st) \<longleftrightarrow> (\<exists>t \<in> set ts. turn_cancelled t \<or> turn_cancelled_waiting t)"
      using run_loop_returns [of pf lib client cfg srv ts loop_init] run(3) by simp
    then show ?thesis
      using \<open>from_env pf env = Inr cfg\<close> result run(1,2) by (cases result) (auto simp: controller_main_def)
  qed
qed

end
